(* ===== verification/Prelude.thy ===== *)
theory Prelude
  imports Main "HOL-Library.Word" "HOL-Library.Multiset"
begin

text \<open>
  What every theory of the development shares: the C integer types, byte-addressed
  memory with the accesses C performs on it (\<open>memset\<close>, \<open>memcpy\<close>, stores and loads of
  byte strings and of 64-bit words), the collections of rewrite rules the component
  proofs use, runs of a step function, and the facts about 64-bit words and alignment
  that the address computations of the driver need.
\<close>

unbundle bit_operations_syntax

section \<open>C integers\<close>

type_synonym byte = "8 word"

type_synonym uint64 = "64 word"

text \<open>
  A signed \<open>int64_t\<close> is the same 64 bits, read by \<open>sint\<close>. Comparisons of signed
  values are written on \<open>sint\<close>, comparisons of unsigned values on the words.
\<close>

type_synonym int64 = "64 word"

type_synonym uint32 = "32 word"

type_synonym int32 = "32 word"

named_theorems op_defs \<open>definitions of the operations, unfolded by symbolic execution\<close>

named_theorems frame_simps \<open>fields that an operation leaves unchanged\<close>

section \<open>Memory\<close>

type_synonym memory = "uint64 \<Rightarrow> byte"

definition mem_set :: "uint64 \<Rightarrow> byte \<Rightarrow> uint64 \<Rightarrow> memory \<Rightarrow> memory" where
  "mem_set p v n m = (\<lambda>x. if x - p < n then v else m x)"

definition mem_copy :: "uint64 \<Rightarrow> uint64 \<Rightarrow> uint64 \<Rightarrow> memory \<Rightarrow> memory" where
  "mem_copy dst src n m = (\<lambda>x. if x - dst < n then m (src + (x - dst)) else m x)"

definition load_bytes :: "uint64 \<Rightarrow> nat \<Rightarrow> memory \<Rightarrow> byte list" where
  "load_bytes a n m = map (\<lambda>i. m (a + of_nat i)) [0..<n]"

definition store_bytes :: "uint64 \<Rightarrow> byte list \<Rightarrow> memory \<Rightarrow> memory" where
  "store_bytes a bs m =
     (\<lambda>x. if unat (x - a) < length bs then bs ! unat (x - a) else m x)"

text \<open>A 64-bit word in memory, little endian as on x86-64.\<close>

definition bytes_of_u64 :: "uint64 \<Rightarrow> byte list" where
  "bytes_of_u64 v = map (\<lambda>i. ucast (drop_bit (8 * i) v)) [0..<8]"

definition u64_of_bytes :: "byte list \<Rightarrow> uint64" where
  "u64_of_bytes bs = word_of_int (horner_sum uint (2 ^ 8) bs)"

definition store_u64 :: "uint64 \<Rightarrow> uint64 \<Rightarrow> memory \<Rightarrow> memory" where
  "store_u64 a v m = store_bytes a (bytes_of_u64 v) m"

definition load_u64 :: "uint64 \<Rightarrow> memory \<Rightarrow> uint64" where
  "load_u64 a m = u64_of_bytes (load_bytes a 8 m)"

lemma length_load_bytes [simp]: "length (load_bytes a n m) = n"
  by (simp add: load_bytes_def)

lemma length_bytes_of_u64 [simp]: "length (bytes_of_u64 v) = 8"
  by (simp add: bytes_of_u64_def)

lemma u64_of_bytes_of_u64 [simp]: "u64_of_bytes (bytes_of_u64 v) = v"
proof (rule bit_word_eqI)
  fix n
  assume "n < LENGTH(64)"
  then have n: "n < 64" by simp
  have div: "n div 8 < 8" using n by simp
  have "bit (u64_of_bytes (bytes_of_u64 v)) n \<longleftrightarrow> bit (bytes_of_u64 v ! (n div 8)) (n mod 8)"
    using n div bit_horner_sum_uint_exp_iff [of "bytes_of_u64 v" n]
    by (simp add: u64_of_bytes_def bit_word_of_int_iff)
  also have "\<dots> \<longleftrightarrow> bit v n"
    using n div by (simp add: bytes_of_u64_def bit_simps)
  finally show "bit (u64_of_bytes (bytes_of_u64 v)) n = bit v n" .
qed

lemma unat_of_nat_u64: "i < 2 ^ 64 \<Longrightarrow> unat (of_nat i :: uint64) = i"
  by (simp add: unat_of_nat)

lemma load_store_bytes [simp]:
  "length bs \<le> 2 ^ 64 \<Longrightarrow> load_bytes a (length bs) (store_bytes a bs m) = bs"
  by (rule nth_equalityI) (auto simp: load_bytes_def store_bytes_def unat_of_nat_u64)

text \<open>
  Two blocks \<open>[a, a + n)\<close> and \<open>[b, b + k)\<close> of the address space, sizes in bytes.
\<close>

definition disjoint_blocks :: "uint64 \<Rightarrow> nat \<Rightarrow> uint64 \<Rightarrow> nat \<Rightarrow> bool" where
  "disjoint_blocks a n b k \<longleftrightarrow> (\<forall>i<n. \<forall>j<k. a + of_nat i \<noteq> b + of_nat j)"

lemma disjoint_blocksI:
  assumes "n \<le> unat (b - a)" and "k \<le> unat (a - b)"
  shows "disjoint_blocks a n b k"
  unfolding disjoint_blocks_def
proof (intro allI impI notI)
  fix i j
  assume ij: "i < n" "j < k" and eq: "a + of_nat i = b + of_nat j"
  have small: "unat (of_nat x :: uint64) \<le> x" for x
    by (simp add: unsigned_of_nat take_bit_nat_eq_self_iff take_bit_nat_less_eq_self)
  show False
  proof (cases "j \<le> i")
    case True
    then have "b - a = of_nat (i - j)" using eq by (simp add: of_nat_diff algebra_simps)
    then show False using small [of "i - j"] assms(1) ij by simp
  next
    case False
    then have "a - b = of_nat (j - i)" using eq by (simp add: of_nat_diff algebra_simps)
    then show False using small [of "j - i"] assms(2) ij by simp
  qed
qed

lemma load_store_bytes_disjoint:
  assumes "disjoint_blocks a n b (length bs)"
  shows "load_bytes a n (store_bytes b bs m) = load_bytes a n m"
proof (rule nth_equalityI)
  fix i
  assume "i < length (load_bytes a n (store_bytes b bs m))"
  then have i: "i < n" by simp
  have "\<not> unat (a + of_nat i - b) < length bs"
  proof
    assume "unat (a + of_nat i - b) < length bs"
    moreover have "a + of_nat i = b + of_nat (unat (a + of_nat i - b))"
      by simp
    ultimately show False
      using assms i unfolding disjoint_blocks_def by metis
  qed
  then show "load_bytes a n (store_bytes b bs m) ! i = load_bytes a n m ! i"
    using i by (simp add: load_bytes_def store_bytes_def)
qed simp

lemma load_store_u64 [simp]: "load_u64 a (store_u64 a v m) = v"
proof -
  have "load_bytes a (length (bytes_of_u64 v)) (store_bytes a (bytes_of_u64 v) m) = bytes_of_u64 v"
    by (rule load_store_bytes) simp
  then show ?thesis by (simp add: load_u64_def store_u64_def)
qed

lemma load_store_u64_disjoint:
  "disjoint_blocks a 8 b 8 \<Longrightarrow> load_u64 a (store_u64 b v m) = load_u64 a m"
  by (simp add: load_u64_def store_u64_def load_store_bytes_disjoint)

lemma store_u64_outside: "store_u64 a v m x \<noteq> m x \<Longrightarrow> x - a < 8"
  by (simp add: store_u64_def store_bytes_def word_less_nat_alt split: if_splits)

section \<open>Words\<close>

text \<open>Rounding an address down to a multiple of a power of two, as C writes it.\<close>

definition align_down :: "uint64 \<Rightarrow> uint64 \<Rightarrow> uint64" where
  "align_down a p = a AND NOT (p - 1)"

definition is_pow2 :: "uint64 \<Rightarrow> bool" where
  "is_pow2 p \<longleftrightarrow> (\<exists>k<64. p = 2 ^ k)"

lemma is_pow2I: "k < 64 \<Longrightarrow> p = 2 ^ k \<Longrightarrow> is_pow2 p"
  by (auto simp: is_pow2_def)

lemma unat_pow2_len: "k < LENGTH('a) \<Longrightarrow> unat (2 ^ k :: 'a::len word) = 2 ^ k"
  by transfer simp

lemma unat_pow2: "k < 64 \<Longrightarrow> unat (2 ^ k :: uint64) = 2 ^ k"
  by (rule unat_pow2_len) simp

lemma is_pow2_pos: "is_pow2 p \<Longrightarrow> 0 < unat p"
  by (auto simp: is_pow2_def unat_pow2)

lemma unat_align_down:
  assumes "is_pow2 p"
  shows "unat (align_down a p) = unat a - unat a mod unat p"
proof -
  obtain k where k: "k < 64" "p = 2 ^ k"
    using assms by (auto simp: is_pow2_def)
  have up: "unat p = 2 ^ k"
    using k by (simp add: unat_pow2)
  have "align_down a p = a AND NOT (take_bit k a)"
    using k by (intro bit_word_eqI) (auto simp: align_down_def bit_simps simp flip: mask_eq_decr_exp)
  also have "\<dots> = a - take_bit k a"
    by (rule disjunctive_diff_eq_and_not [symmetric])
      (auto intro!: bit_word_eqI simp: bit_simps)
  finally have "align_down a p = a - take_bit k a" .
  moreover have t: "unat (take_bit k a) = unat a mod unat p"
  proof -
    have "unat (take_bit k a) = take_bit k (unat a)"
      by (rule unsigned_take_bit_eq)
    then show ?thesis
      by (simp only: up take_bit_eq_mod [of k "unat a"])
  qed
  moreover have "take_bit k a \<le> a"
    by (simp add: word_le_nat_alt t)
  ultimately show ?thesis
    by (simp add: unat_sub)
qed

lemma align_down_le: "is_pow2 p \<Longrightarrow> unat (align_down a p) \<le> unat a"
  by (simp add: unat_align_down)

lemma align_down_gt: "is_pow2 p \<Longrightarrow> unat a < unat (align_down a p) + unat p"
proof -
  assume p: "is_pow2 p"
  then have "unat a mod unat p < unat p"
    by (simp add: is_pow2_pos)
  moreover have "unat a mod unat p \<le> unat a" by simp
  ultimately show ?thesis
    using p by (simp add: unat_align_down)
qed

lemma align_down_dvd: "is_pow2 p \<Longrightarrow> unat p dvd unat (align_down a p)"
  by (simp add: unat_align_down minus_mod_eq_mult_div)

lemma pow2_dvd:
  assumes "is_pow2 p"
  shows "unat p dvd 2 ^ 64"
proof -
  obtain k where k: "k < 64" "p = 2 ^ k"
    using assms by (auto simp: is_pow2_def)
  have "(2 :: nat) ^ k dvd 2 ^ 64"
    using k by (intro le_imp_power_dvd) simp
  then show ?thesis
    by (simp only: k unat_pow2)
qed

text \<open>Multiples of a power of two: the next one is a multiple even if it wraps.\<close>

lemma dvd_unat_add:
  assumes "is_pow2 p" and "unat p dvd unat a"
  shows "unat p dvd unat (a + p)"
proof -
  have "unat p dvd (unat a + unat p) mod 2 ^ 64"
    using assms by (intro dvd_mod pow2_dvd) auto
  then show ?thesis
    by (simp add: unat_word_ariths)
qed

lemma unat_minus_pow2:
  assumes "is_pow2 p"
  shows "unat (- p) = 2 ^ 64 - unat p"
proof -
  have "p \<noteq> 0" using is_pow2_pos [OF assms] by auto
  then have "unat (1 + (- 1 - p)) = Suc (unat (- 1 - p))"
    by (intro unatSuc) (simp add: algebra_simps)
  moreover have "unat (- 1 - p) = unat (- 1 :: uint64) - unat p"
    by (intro unat_sub) simp
  moreover have "unat p < 2 ^ 64"
    using unsigned_less [of p] by simp
  moreover have "unat (- 1 :: uint64) = 2 ^ 64 - 1"
    by (simp add: unsigned_minus_1_eq_mask mask_eq_exp_minus_1)
  ultimately show ?thesis by (simp add: Suc_diff_le)
qed

lemma aligned_le_last:
  assumes "is_pow2 p" and "unat p dvd unat a"
  shows "a \<le> - p"
proof -
  obtain k where k: "2 ^ 64 = unat p * k" using pow2_dvd [OF assms(1)] by (elim dvdE)
  obtain i where i: "unat a = unat p * i" using assms(2) by (elim dvdE)
  have "unat a < 2 ^ 64" using unsigned_less [of a] by simp
  then have "unat p * i < unat p * k" by (simp only: i k)
  then have "i < k" by simp
  then have "unat p * Suc i \<le> unat p * k" by (intro mult_le_mono2) simp
  then have "unat a + unat p \<le> 2 ^ 64" by (simp only: i k) simp
  then show ?thesis by (simp add: word_le_nat_alt unat_minus_pow2 [OF assms(1)])
qed

text \<open>Counting up to a signed bound does not overflow.\<close>

lemma sint_less_max: "sint (x :: int64) < 2 ^ 63"
  using sint_lt [of x] by simp

lemma sint_incr:
  fixes x y :: int64
  assumes "sint x < sint y"
  shows "sint (x + 1) = sint x + 1"
proof -
  have "sint x + 1 < 2 ^ 63" using assms sint_less_max [of y] by linarith
  moreover have "- (2 ^ 63) \<le> sint x + 1"
    using sint_ge [of x] by simp
  ultimately show ?thesis
    by (simp add: sint_word_add signed_take_bit_int_eq_self)
qed

lemma sint_decr:
  fixes x :: int64
  assumes "0 \<le> sint x"
  shows "sint (x - 1) = sint x - 1"
proof -
  have "sint x - 1 < 2 ^ 63" using sint_less_max [of x] by linarith
  moreover have "- (2 ^ 63) \<le> sint x - 1" using assms by simp
  ultimately show ?thesis
    by (simp add: sint_word_diff signed_take_bit_int_eq_self)
qed

lemma sint_of_nat_less: "n < 2 ^ 63 \<Longrightarrow> sint (of_nat n :: int64) = int n"
  by (simp add: signed_of_nat signed_take_bit_int_eq_self)

section \<open>Runs of a step function\<close>

text \<open>
  The operations of a component performed one after the other; \<open>None\<close> means that one
  of them does not return.
\<close>

fun run :: "('op \<Rightarrow> 's \<Rightarrow> 's option) \<Rightarrow> 'op list \<Rightarrow> 's \<Rightarrow> 's option" where
  "run step [] s = Some s"
| "run step (x # xs) s = (case step x s of None \<Rightarrow> None | Some s' \<Rightarrow> run step xs s')"

lemma run_append:
  "run step (xs @ ys) s = (case run step xs s of None \<Rightarrow> None | Some t \<Rightarrow> run step ys t)"
  by (induction xs arbitrary: s) (auto split: option.splits)

lemma run_invariant:
  assumes "\<And>x s s'. I s \<Longrightarrow> step x s = Some s' \<Longrightarrow> I s'"
  shows "I s \<Longrightarrow> run step xs s = Some t \<Longrightarrow> I t"
  by (induction xs arbitrary: s) (auto split: option.splits dest: assms)

end
