(* ===== verification/Bfsdk.thy ===== *)
theory Bfsdk
  imports Prelude
begin

text \<open>
  The interface of the code that the driver is compiled against and that is not part of
  the repository: the headers \<open>bftypes.h\<close>, \<open>bferrorcodes.h\<close>, \<open>bfconstants.h\<close>,
  \<open>bfplatform.h\<close>, \<open>bfelf_loader.h\<close>, \<open>bfthreadcontext.h\<close>, \<open>bfmemory.h\<close>,
  \<open>bfdriverinterface.h\<close> and \<open>bfvmcallinterface.h\<close>, the ELF loader and the VMM.
  The names of their constants are datatypes or record fields; their values, the
  functions of the ELF loader, the VMM's entry point and the \<open>vmcall\<close> instruction are
  fields of an environment record that every operation takes as its argument. The
  platform layer (\<open>platform_*\<close>) is a record too: the theories of the four ports
  build it from the repository's \<open>platform.c\<close> files.
\<close>

section \<open>Constants of the headers\<close>

datatype vmm_status = VMM_UNLOADED | VMM_LOADED | VMM_RUNNING | VMM_CORRUPT

datatype retcode =
    BF_SUCCESS
  | BF_ERROR_INVALID_ARG
  | BF_ERROR_OUT_OF_MEMORY
  | BF_ERROR_UNKNOWN
  | BF_ERROR_NO_MODULES_ADDED
  | BF_ERROR_MAX_MODULES_REACHED
  | BF_ERROR_VMM_INVALID_STATE
  | BF_ERROR_VMM_CORRUPTED
  | ENTRY_ERROR_VMM_START_FAILED
  | ENTRY_ERROR_VMM_STOP_FAILED
  | MEMORY_MANAGER_SUCCESS
  | BFELF_SUCCESS

datatype bf_request =
    BF_REQUEST_INIT
  | BF_REQUEST_ADD_MDL
  | BF_REQUEST_VMM_INIT
  | BF_REQUEST_VMM_FINI
  | BF_REQUEST_GET_DRR
  | BF_REQUEST_FINI

text \<open>
  The switches of \<open>common.c\<close> use the four \<open>VMM_*\<close> constants as labels of the same
  \<open>switch\<close>, so a program that compiles has four different values. The numeric values
  of the return codes and requests are fields of the environment.
\<close>

section \<open>Structures shared with the ELF loader and the VMM\<close>

text \<open>
  The fields of \<open>struct bfelf_binary_t\<close> that the driver reads or writes; \<open>ef\<close> is the
  parsed ELF file, which only the ELF loader looks into: its bytes. Pointers are
  addresses, with 0 as the null pointer.
\<close>

record bfelf_binary =
  bin_file :: uint64
  bin_file_size :: uint64
  bin_exec :: uint64
  bin_exec_size :: uint64
  bin_ef :: "byte list"

record load_instr =
  instr_mem_offset :: uint64
  instr_memsz :: uint64
  instr_perm :: uint64

text \<open>\<open>struct vmcall_registers_t\<close>: thirteen 64-bit slots at offsets 0x00 to 0x60.\<close>

record vmcall_registers =
  r00 :: uint64
  r01 :: uint64
  r02 :: uint64
  r03 :: uint64
  r04 :: uint64
  r05 :: uint64
  r06 :: uint64
  r07 :: uint64
  r08 :: uint64
  r09 :: uint64
  r10 :: uint64
  r11 :: uint64
  r12 :: uint64

text \<open>
  What lies outside the driver's own globals: the memory of the machine, and the state of
  the host kernel or firmware, of the processors and of the VMM, of any type \<open>'h\<close>.
\<close>

record 'h machine =
  mem :: memory
  host :: 'h

section \<open>The environment\<close>

record bf_consts =
  rc :: "retcode \<Rightarrow> int64"
  rq :: "bf_request \<Rightarrow> uint64"
  MAX_NUM_MODULES :: nat
  STACK_SIZE :: uint64
  THREAD_LOCAL_STORAGE_SIZE :: uint64
  MAX_PAGE_SIZE :: uint64
  MEMORY_TYPE_R :: uint64
  MEMORY_TYPE_W :: uint64
  MEMORY_TYPE_E :: uint64
  bfpf_x :: uint64
  VMCALL_START :: uint64
  VMCALL_STOP :: uint64
  VMCALL_MAGIC_NUMBER :: uint64
  sizeof_thread_context :: uint64
  tc_cpuid_offset :: uint64
  tc_tlsptr_offset :: uint64
  md_virt_offset :: uint64
  md_phys_offset :: uint64
  md_type_offset :: uint64
  sizeof_crt_info :: nat
  sizeof_bfelf_loader :: nat
  sizeof_bfelf_file :: nat
  addr_of_md :: uint64
  uninit_regs :: vmcall_registers

text \<open>
  \<open>addr_of_md\<close> is the address of the automatic variable \<open>md\<close> of
  \<open>add_raw_md_to_memory_manager\<close>, and \<open>uninit_regs\<close> the indeterminate initial contents
  of the automatic variable \<open>regs\<close> of \<open>common_start_vmm\<close> and \<open>common_stop_vmm\<close>.
\<close>

record 'h platform = bf_consts +
  platform_alloc_rw :: "uint64 \<Rightarrow> 'h machine \<Rightarrow> uint64 \<times> 'h machine"
  platform_alloc_rwe :: "uint64 \<Rightarrow> 'h machine \<Rightarrow> uint64 \<times> 'h machine"
  platform_free_rw :: "uint64 \<Rightarrow> uint64 \<Rightarrow> 'h machine \<Rightarrow> 'h machine"
  platform_free_rwe :: "uint64 \<Rightarrow> uint64 \<Rightarrow> 'h machine \<Rightarrow> 'h machine"
  platform_virt_to_phys :: "uint64 \<Rightarrow> 'h machine \<Rightarrow> uint64"
  platform_memset :: "uint64 \<Rightarrow> byte \<Rightarrow> uint64 \<Rightarrow> 'h machine \<Rightarrow> 'h machine"
  platform_memcpy :: "uint64 \<Rightarrow> uint64 \<Rightarrow> uint64 \<Rightarrow> 'h machine \<Rightarrow> 'h machine"
  platform_start :: "'h machine \<Rightarrow> 'h machine"
  platform_stop :: "'h machine \<Rightarrow> 'h machine"
  platform_num_cpus :: "'h machine \<Rightarrow> int64 \<times> 'h machine"
  platform_set_affinity :: "int64 \<Rightarrow> 'h machine \<Rightarrow> int64 \<times> 'h machine"
  platform_restore_affinity :: "int64 \<Rightarrow> 'h machine \<Rightarrow> 'h machine"
  platform_get_current_cpu_num :: "'h machine \<Rightarrow> int64 \<times> 'h machine"
  platform_restore_preemption :: "'h machine \<Rightarrow> 'h machine"

text \<open>
  The ELF loader and the VMM. \<open>bfelf_load\<close> gets the module table, the number of modules
  and the bytes of \<open>g_loader\<close>, and returns its code, the table, the entry point for
  \<open>_start\<close>, the bytes of \<open>g_info\<close> and \<open>g_loader\<close>. \<open>vmm_entry\<close> is the code at an
  entry point, called with a stack pointer and the C run-time information. \<open>vmcall\<close>
  is the routine of the port's \<open>vmcall.asm\<close>.
\<close>

record 'h env = "'h platform" +
  bfelf_load :: "bfelf_binary list \<Rightarrow> int64 \<Rightarrow> uint64 \<Rightarrow> byte list \<Rightarrow> byte list \<Rightarrow> 'h machine
    \<Rightarrow> int64 \<times> bfelf_binary list \<times> uint64 \<times> byte list \<times> byte list \<times> 'h machine"
  bfelf_set_integer_args :: "byte list \<Rightarrow> uint64 \<Rightarrow> uint64 \<Rightarrow> uint64 \<Rightarrow> uint64
    \<Rightarrow> int64 \<times> byte list"
  bfelf_file_get_num_load_instrs :: "byte list \<Rightarrow> uint64"
  bfelf_file_get_load_instr :: "byte list \<Rightarrow> uint64 \<Rightarrow> int64 \<times> load_instr"
  vmm_entry :: "uint64 \<Rightarrow> uint64 \<Rightarrow> byte list \<Rightarrow> 'h machine \<Rightarrow> int64 \<times> byte list \<times> 'h machine"
  vmcall :: "vmcall_registers \<Rightarrow> 'h machine \<Rightarrow> vmcall_registers \<times> 'h machine"

text \<open>
  The documented convention of the return codes (\<open>common.h\<close>: \<open>BF_SUCCESS\<close> on success, a
  negative error code on failure; \<open>entry.c\<close> tests \<open>common_init() != 0\<close>): the success
  codes of the three libraries are 0 and every error code is negative.
\<close>

definition error_codes :: "retcode list" where
  "error_codes =
    [BF_ERROR_INVALID_ARG, BF_ERROR_OUT_OF_MEMORY, BF_ERROR_UNKNOWN, BF_ERROR_NO_MODULES_ADDED,
     BF_ERROR_MAX_MODULES_REACHED, BF_ERROR_VMM_INVALID_STATE, BF_ERROR_VMM_CORRUPTED,
     ENTRY_ERROR_VMM_START_FAILED, ENTRY_ERROR_VMM_STOP_FAILED]"

definition codes_ok :: "('h, 'z) env_scheme \<Rightarrow> bool" where
  "codes_ok E \<longleftrightarrow>
     rc E BF_SUCCESS = 0 \<and> rc E MEMORY_MANAGER_SUCCESS = 0 \<and> rc E BFELF_SUCCESS = 0 \<and>
     list_all (\<lambda>e. sint (rc E e) < 0) error_codes"

lemma codes_ok_success:
  assumes "codes_ok E"
  shows "rc E BF_SUCCESS = 0" and "rc E MEMORY_MANAGER_SUCCESS = 0" and "rc E BFELF_SUCCESS = 0"
  using assms unfolding codes_ok_def by blast+

lemma codes_ok_error:
  assumes "codes_ok E" and "e \<in> set error_codes"
  shows "sint (rc E e) < 0" and "rc E e \<noteq> 0"
proof -
  show "sint (rc E e) < 0"
    using assms by (simp add: codes_ok_def list_all_iff)
  then show "rc E e \<noteq> 0" by auto
qed

lemma codes_ok_errors:
  assumes "codes_ok E"
  shows "rc E BF_ERROR_INVALID_ARG \<noteq> 0" and "rc E BF_ERROR_OUT_OF_MEMORY \<noteq> 0"
    and "rc E BF_ERROR_UNKNOWN \<noteq> 0" and "rc E BF_ERROR_NO_MODULES_ADDED \<noteq> 0"
    and "rc E BF_ERROR_MAX_MODULES_REACHED \<noteq> 0" and "rc E BF_ERROR_VMM_INVALID_STATE \<noteq> 0"
    and "rc E BF_ERROR_VMM_CORRUPTED \<noteq> 0" and "rc E ENTRY_ERROR_VMM_START_FAILED \<noteq> 0"
    and "rc E ENTRY_ERROR_VMM_STOP_FAILED \<noteq> 0"
  by (rule codes_ok_error(2) [OF assms], simp add: error_codes_def)+

lemmas codes = codes_ok_success codes_ok_errors

end
