(* ===== verification/Common_State.thy ===== *)
theory Common_State
  imports Bfsdk
begin

text \<open>
  The globals of \<open>src/src/common.c\<close> and the calls that leave it. Every call of a
  platform function, of the ELF loader, of the VMM and of \<open>vmcall\<close> is appended to a
  trace, a ghost field that no operation reads: it is what an observer at the boundary
  of \<open>common.c\<close> sees, and the properties about ordering, pairing and leaks are stated
  on it. Debug output is not modelled.
\<close>

section \<open>What an observer at the boundary sees\<close>

datatype event =
    AllocRw uint64 uint64
      \<comment> \<open>\<open>platform_alloc_rw\<close>: the length asked for, the address returned\<close>
  | FreeRw uint64 uint64
      \<comment> \<open>\<open>platform_free_rw\<close>: address, length\<close>
  | FreeRwe uint64 uint64
  | ElfLoad int64 "(uint64 \<times> uint64) list"
      \<comment> \<open>\<open>bfelf_load\<close>: what it returned, and the executable blocks it has put into the table\<close>
  | GetCpu int64
      \<comment> \<open>\<open>platform_get_current_cpu_num\<close>, which also pins the thread to its CPU\<close>
  | RestorePreemption
  | VmmCall bf_request uint64 uint64 uint64 int64
      \<comment> \<open>the VMM entered through \<open>_start\<close>: request, arguments, what it returned\<close>
  | SendMd uint64 uint64 uint64
      \<comment> \<open>a memory descriptor filled in for the VMM: virtual, physical address, type\<close>
  | Vmcall uint64 uint64
      \<comment> \<open>\<open>vmcall\<close>: \<open>r00\<close> passed in, \<open>r01\<close> passed back\<close>
  | SetAffinity int64 int64
      \<comment> \<open>\<open>platform_set_affinity\<close>: the CPU asked for, what it returned\<close>
  | RestoreAffinity int64
  | PlatformStart
  | PlatformStop

section \<open>The globals\<close>

record 'h common_state =
  g_num_modules :: int64
  g_modules :: "bfelf_binary list"
  g_start :: uint64
  g_info :: "byte list"
  g_loader :: "byte list"
  g_num_cpus_started :: int64
  g_vmm_status :: vmm_status
  g_tls :: uint64
  g_stack :: uint64
  g_tls_size :: uint64
  g_stack_size :: uint64
  g_stack_top :: uint64
  machine :: "'h machine"
  trace :: "event list"

text \<open>The bytes of a zeroed structure.\<close>

definition zero_binary :: "('h, 'z) env_scheme \<Rightarrow> bfelf_binary" where
  "zero_binary E =
     \<lparr>bin_file = 0, bin_file_size = 0, bin_exec = 0, bin_exec_size = 0,
      bin_ef = replicate (sizeof_bfelf_file E) 0\<rparr>"

definition zero_modules :: "('h, 'z) env_scheme \<Rightarrow> bfelf_binary list" where
  "zero_modules E = replicate (MAX_NUM_MODULES E) (zero_binary E)"

text \<open>The globals as the C program starts with them, on a machine in state \<open>m\<close>.\<close>

definition initial_state :: "('h, 'z) env_scheme \<Rightarrow> 'h machine \<Rightarrow> 'h common_state" where
  "initial_state E m =
     \<lparr>g_num_modules = 0, g_modules = zero_modules E, g_start = 0,
      g_info = replicate (sizeof_crt_info E) 0, g_loader = replicate (sizeof_bfelf_loader E) 0,
      g_num_cpus_started = 0, g_vmm_status = VMM_UNLOADED,
      g_tls = 0, g_stack = 0, g_tls_size = 0, g_stack_size = 0, g_stack_top = 0,
      machine = m, trace = []\<rparr>"

section \<open>Calls that leave the driver\<close>

definition log :: "event \<Rightarrow> 'h common_state \<Rightarrow> 'h common_state" where
  "log e s = s\<lparr>trace := trace s @ [e]\<rparr>"

definition on_machine :: "('h machine \<Rightarrow> 'h machine) \<Rightarrow> 'h common_state \<Rightarrow> 'h common_state" where
  "on_machine f s = s\<lparr>machine := f (machine s)\<rparr>"

definition on_memory :: "(memory \<Rightarrow> memory) \<Rightarrow> 'h common_state \<Rightarrow> 'h common_state" where
  "on_memory f = on_machine (\<lambda>m. m\<lparr>mem := f (mem m)\<rparr>)"

definition call_alloc_rw ::
  "('h, 'z) env_scheme \<Rightarrow> uint64 \<Rightarrow> 'h common_state \<Rightarrow> uint64 \<times> 'h common_state" where
  "call_alloc_rw E len s =
     (case platform_alloc_rw E len (machine s) of
        (a, m) \<Rightarrow> (a, log (AllocRw len a) (s\<lparr>machine := m\<rparr>)))"

definition call_free_rw ::
  "('h, 'z) env_scheme \<Rightarrow> uint64 \<Rightarrow> uint64 \<Rightarrow> 'h common_state \<Rightarrow> 'h common_state" where
  "call_free_rw E a len s = log (FreeRw a len) (on_machine (platform_free_rw E a len) s)"

definition call_free_rwe ::
  "('h, 'z) env_scheme \<Rightarrow> uint64 \<Rightarrow> uint64 \<Rightarrow> 'h common_state \<Rightarrow> 'h common_state" where
  "call_free_rwe E a len s = log (FreeRwe a len) (on_machine (platform_free_rwe E a len) s)"

definition call_num_cpus ::
  "('h, 'z) env_scheme \<Rightarrow> 'h common_state \<Rightarrow> int64 \<times> 'h common_state" where
  "call_num_cpus E s =
     (case platform_num_cpus E (machine s) of (n, m) \<Rightarrow> (n, s\<lparr>machine := m\<rparr>))"

definition call_get_current_cpu_num ::
  "('h, 'z) env_scheme \<Rightarrow> 'h common_state \<Rightarrow> int64 \<times> 'h common_state" where
  "call_get_current_cpu_num E s =
     (case platform_get_current_cpu_num E (machine s) of
        (n, m) \<Rightarrow> (n, log (GetCpu n) (s\<lparr>machine := m\<rparr>)))"

definition call_restore_preemption ::
  "('h, 'z) env_scheme \<Rightarrow> 'h common_state \<Rightarrow> 'h common_state" where
  "call_restore_preemption E s =
     log RestorePreemption (on_machine (platform_restore_preemption E) s)"

definition call_set_affinity ::
  "('h, 'z) env_scheme \<Rightarrow> int64 \<Rightarrow> 'h common_state \<Rightarrow> int64 \<times> 'h common_state" where
  "call_set_affinity E cpu s =
     (case platform_set_affinity E cpu (machine s) of
        (r, m) \<Rightarrow> (r, log (SetAffinity cpu r) (s\<lparr>machine := m\<rparr>)))"

definition call_restore_affinity ::
  "('h, 'z) env_scheme \<Rightarrow> int64 \<Rightarrow> 'h common_state \<Rightarrow> 'h common_state" where
  "call_restore_affinity E a s =
     log (RestoreAffinity a) (on_machine (platform_restore_affinity E a) s)"

definition call_platform_start :: "('h, 'z) env_scheme \<Rightarrow> 'h common_state \<Rightarrow> 'h common_state" where
  "call_platform_start E s = log PlatformStart (on_machine (platform_start E) s)"

definition call_platform_stop :: "('h, 'z) env_scheme \<Rightarrow> 'h common_state \<Rightarrow> 'h common_state" where
  "call_platform_stop E s = log PlatformStop (on_machine (platform_stop E) s)"

definition call_vmcall ::
  "('h, 'z) env_scheme \<Rightarrow> vmcall_registers \<Rightarrow> 'h common_state
    \<Rightarrow> vmcall_registers \<times> 'h common_state" where
  "call_vmcall E regs s =
     (case vmcall E regs (machine s) of
        (regs', m) \<Rightarrow> (regs', log (Vmcall (r00 regs) (r01 regs')) (s\<lparr>machine := m\<rparr>)))"

lemmas call_defs =
  log_def on_machine_def on_memory_def call_alloc_rw_def call_free_rw_def call_free_rwe_def
  call_num_cpus_def call_get_current_cpu_num_def call_restore_preemption_def
  call_set_affinity_def call_restore_affinity_def call_platform_start_def
  call_platform_stop_def call_vmcall_def

section \<open>Monitors of the trace\<close>

text \<open>
  Preemption: a thread is pinned by \<open>platform_get_current_cpu_num\<close> and released by
  \<open>platform_restore_preemption\<close>; the VMM is entered by a pinned thread, and a thread
  that allocates, frees or changes its CPU is not pinned. The monitor stops with
  \<open>None\<close> at the first event that breaks this.
\<close>

fun preempt_step :: "event \<Rightarrow> bool \<Rightarrow> bool option" where
  "preempt_step (GetCpu _) pinned = (if pinned then None else Some True)"
| "preempt_step RestorePreemption pinned = (if pinned then Some False else None)"
| "preempt_step (VmmCall _ _ _ _ _) pinned = (if pinned then Some True else None)"
| "preempt_step _ pinned = (if pinned then None else Some False)"

text \<open>
  The blocks obtained by \<open>platform_alloc_rw\<close> and not yet freed, with their lengths. A
  \<open>platform_free_rw\<close> of anything else stops the monitor.
\<close>

type_synonym blocks = "(uint64 \<times> uint64) multiset"

fun heap_step :: "event \<Rightarrow> blocks \<Rightarrow> blocks option" where
  "heap_step (AllocRw len a) live = Some (if a = 0 then live else add_mset (a, len) live)"
| "heap_step (FreeRw a len) live =
     (if (a, len) \<in># live then Some (live - {#(a, len)#}) else None)"
| "heap_step _ live = Some live"

text \<open>
  The executable blocks: the ELF loader allocates them and leaves them in the table of the modules,
  and \<open>common.c\<close> frees them. A \<open>platform_free_rwe\<close> of anything else stops the monitor.
\<close>

fun exec_step :: "event \<Rightarrow> blocks \<Rightarrow> blocks option" where
  "exec_step (ElfLoad r bs) live = Some (live + mset bs)"
| "exec_step (FreeRwe a len) live =
     (if (a, len) \<in># live then Some (live - {#(a, len)#}) else None)"
| "exec_step _ live = Some live"

definition exec_blocks :: "'h common_state \<Rightarrow> blocks option" where
  "exec_blocks s = run exec_step (trace s) {#}"

definition pinned :: "'h common_state \<Rightarrow> bool option" where
  "pinned s = run preempt_step (trace s) False"

definition live_blocks :: "'h common_state \<Rightarrow> blocks option" where
  "live_blocks s = run heap_step (trace s) {#}"

definition block :: "uint64 \<Rightarrow> uint64 \<Rightarrow> blocks" where
  "block a len = (if a = 0 then {#} else {#(a, len)#})"

text \<open>What \<open>common.c\<close> itself holds: the VMM's stack and its thread local storage.\<close>

definition held :: "'h common_state \<Rightarrow> blocks" where
  "held s = block (g_stack s) (g_stack_size s) + block (g_tls s) (g_tls_size s)"

text \<open>
  \<open>heap_ok others s\<close>: everything freed so far was live, and what is live now is what
  \<open>common.c\<close> holds and the blocks \<open>others\<close> that its callers hold.
\<close>

definition heap_ok :: "blocks \<Rightarrow> 'h common_state \<Rightarrow> bool" where
  "heap_ok others s \<longleftrightarrow> live_blocks s = Some (held s + others)"

section \<open>Rewriting states\<close>

text \<open>Monitors depend on the trace alone, and \<open>log\<close> performs one step of them.\<close>

lemma pinned_cong: "trace s = trace t \<Longrightarrow> pinned s = pinned t"
  by (simp add: pinned_def)

lemma live_cong: "trace s = trace t \<Longrightarrow> live_blocks s = live_blocks t"
  by (simp add: live_blocks_def)

lemma exec_cong: "trace s = trace t \<Longrightarrow> exec_blocks s = exec_blocks t"
  by (simp add: exec_blocks_def)

lemma exec_log [simp]:
  "exec_blocks (log e s) = (case exec_blocks s of None \<Rightarrow> None | Some l \<Rightarrow> exec_step e l)"
  by (simp add: exec_blocks_def log_def run_append split: option.splits)

lemma pinned_log [simp]:
  "pinned (log e s) = (case pinned s of None \<Rightarrow> None | Some p \<Rightarrow> preempt_step e p)"
  by (simp add: pinned_def log_def run_append split: option.splits)

lemma live_log [simp]:
  "live_blocks (log e s) = (case live_blocks s of None \<Rightarrow> None | Some l \<Rightarrow> heap_step e l)"
  by (simp add: live_blocks_def log_def run_append split: option.splits)

lemma pinned_update [simp]:
  "pinned (s\<lparr>g_num_modules := n\<rparr>) = pinned s" "pinned (s\<lparr>g_modules := ms\<rparr>) = pinned s"
  "pinned (s\<lparr>g_start := a\<rparr>) = pinned s" "pinned (s\<lparr>g_info := bs\<rparr>) = pinned s"
  "pinned (s\<lparr>g_loader := bs\<rparr>) = pinned s" "pinned (s\<lparr>g_num_cpus_started := n\<rparr>) = pinned s"
  "pinned (s\<lparr>g_vmm_status := v\<rparr>) = pinned s" "pinned (s\<lparr>g_tls := a\<rparr>) = pinned s"
  "pinned (s\<lparr>g_stack := a\<rparr>) = pinned s" "pinned (s\<lparr>g_tls_size := a\<rparr>) = pinned s"
  "pinned (s\<lparr>g_stack_size := a\<rparr>) = pinned s" "pinned (s\<lparr>g_stack_top := a\<rparr>) = pinned s"
  "pinned (s\<lparr>machine := m\<rparr>) = pinned s"
  by (auto intro: pinned_cong)

lemma live_update [simp]:
  "live_blocks (s\<lparr>g_num_modules := n\<rparr>) = live_blocks s"
  "live_blocks (s\<lparr>g_modules := ms\<rparr>) = live_blocks s"
  "live_blocks (s\<lparr>g_start := a\<rparr>) = live_blocks s"
  "live_blocks (s\<lparr>g_info := bs\<rparr>) = live_blocks s"
  "live_blocks (s\<lparr>g_loader := bs\<rparr>) = live_blocks s"
  "live_blocks (s\<lparr>g_num_cpus_started := n\<rparr>) = live_blocks s"
  "live_blocks (s\<lparr>g_vmm_status := v\<rparr>) = live_blocks s"
  "live_blocks (s\<lparr>g_tls := a\<rparr>) = live_blocks s"
  "live_blocks (s\<lparr>g_stack := a\<rparr>) = live_blocks s"
  "live_blocks (s\<lparr>g_tls_size := a\<rparr>) = live_blocks s"
  "live_blocks (s\<lparr>g_stack_size := a\<rparr>) = live_blocks s"
  "live_blocks (s\<lparr>g_stack_top := a\<rparr>) = live_blocks s"
  "live_blocks (s\<lparr>machine := m\<rparr>) = live_blocks s"
  by (auto intro: live_cong)

lemma exec_update [simp]:
  "exec_blocks (s\<lparr>g_num_modules := n\<rparr>) = exec_blocks s"
  "exec_blocks (s\<lparr>g_modules := ms\<rparr>) = exec_blocks s"
  "exec_blocks (s\<lparr>g_start := a\<rparr>) = exec_blocks s"
  "exec_blocks (s\<lparr>g_info := bs\<rparr>) = exec_blocks s"
  "exec_blocks (s\<lparr>g_loader := bs\<rparr>) = exec_blocks s"
  "exec_blocks (s\<lparr>g_num_cpus_started := n\<rparr>) = exec_blocks s"
  "exec_blocks (s\<lparr>g_vmm_status := v\<rparr>) = exec_blocks s"
  "exec_blocks (s\<lparr>g_tls := a\<rparr>) = exec_blocks s"
  "exec_blocks (s\<lparr>g_stack := a\<rparr>) = exec_blocks s"
  "exec_blocks (s\<lparr>g_tls_size := a\<rparr>) = exec_blocks s"
  "exec_blocks (s\<lparr>g_stack_size := a\<rparr>) = exec_blocks s"
  "exec_blocks (s\<lparr>g_stack_top := a\<rparr>) = exec_blocks s"
  "exec_blocks (s\<lparr>machine := m\<rparr>) = exec_blocks s"
  by (auto intro: exec_cong)

text \<open>
  A part of the program that changes nothing but \<open>g_info\<close>, the machine and the trace:
  \<open>call_vmm\<close> and everything built from it.
\<close>

definition vmm_only :: "'h common_state \<Rightarrow> 'h common_state \<Rightarrow> bool" where
  "vmm_only s t \<longleftrightarrow> t = s\<lparr>g_info := g_info t, machine := machine t, trace := trace t\<rparr>"

lemma vmm_only_refl [simp, intro]: "vmm_only s s"
  by (simp add: vmm_only_def)

lemma vmm_only_trans [trans]: "vmm_only s t \<Longrightarrow> vmm_only t u \<Longrightarrow> vmm_only s u"
  by (cases s; cases t; cases u) (simp add: vmm_only_def)

lemma vmm_onlyD:
  assumes "vmm_only s t"
  shows "g_num_modules t = g_num_modules s" and "g_modules t = g_modules s"
    and "g_start t = g_start s" and "g_loader t = g_loader s"
    and "g_num_cpus_started t = g_num_cpus_started s" and "g_vmm_status t = g_vmm_status s"
    and "g_tls t = g_tls s" and "g_stack t = g_stack s" and "g_tls_size t = g_tls_size s"
    and "g_stack_size t = g_stack_size s" and "g_stack_top t = g_stack_top s"
  using assms by (cases s; cases t; simp add: vmm_only_def)+

lemma vmm_only_held: "vmm_only s t \<Longrightarrow> held t = held s"
  by (simp add: held_def vmm_onlyD)

end
