(* ===== verification/Common_Helpers.thy ===== *)
theory Common_Helpers
  imports Common_State
begin

text \<open>
  The helpers of \<open>src/src/common.c\<close> (\<open>setup_stack\<close>, \<open>setup_tls\<close>, \<open>call_vmm\<close>,
  \<open>add_raw_md_to_memory_manager\<close>, \<open>add_md_to_memory_manager\<close>) and what they guarantee:
  the layout of the VMM's stack and of the thread local storage, the shape of an entry
  into the VMM, and the exact list of page descriptors sent for a range of addresses.
\<close>

section \<open>Stack and thread local storage\<close>

definition setup_stack ::
  "('h, 'z) env_scheme \<Rightarrow> 'h common_state \<Rightarrow> int64 \<times> 'h common_state" where
  "setup_stack E s =
     (let s = s\<lparr>g_stack_size := STACK_SIZE E * 2\<rparr>;
          (a, s) = call_alloc_rw E (g_stack_size s) s;
          s = s\<lparr>g_stack := a\<rparr>
      in if g_stack s = 0 then (rc E BF_ERROR_OUT_OF_MEMORY, s)
         else
           let s = s\<lparr>g_stack_top := g_stack s + g_stack_size s\<rparr>;
               s = s\<lparr>g_stack_top := align_down (g_stack_top s) (STACK_SIZE E) - 1\<rparr>;
               s = on_machine (platform_memset E (g_stack s) 0 (g_stack_size s)) s
           in (rc E BF_SUCCESS, s))"

definition setup_tls ::
  "('h, 'z) env_scheme \<Rightarrow> 'h common_state \<Rightarrow> int64 \<times> 'h common_state" where
  "setup_tls E s =
     (let (n, s) = call_num_cpus E s;
          s = s\<lparr>g_tls_size := THREAD_LOCAL_STORAGE_SIZE E * n\<rparr>;
          (a, s) = call_alloc_rw E (g_tls_size s) s;
          s = s\<lparr>g_tls := a\<rparr>
      in if g_tls s = 0 then (rc E BF_ERROR_OUT_OF_MEMORY, s)
         else
           let s = on_machine (platform_memset E (g_tls s) 0 (g_tls_size s)) s
           in (rc E BF_SUCCESS, s))"

section \<open>Entering the VMM\<close>

text \<open>The address of the thread context at the top of the stack.\<close>

definition thread_context :: "('h, 'z) env_scheme \<Rightarrow> 'h common_state \<Rightarrow> uint64" where
  "thread_context E s = g_stack_top s - sizeof_thread_context E"

text \<open>
  The call through \<open>_start\<close>: the entry point runs on the stack below the thread
  context and may write to \<open>g_info\<close>, which it gets by reference.
\<close>

definition enter_vmm ::
  "('h, 'z) env_scheme \<Rightarrow> bf_request \<Rightarrow> uint64 \<Rightarrow> uint64 \<Rightarrow> uint64 \<Rightarrow> 'h common_state
    \<Rightarrow> int64 \<times> 'h common_state" where
  "enter_vmm E req arg1 arg2 arg3 s =
     (case vmm_entry E (g_start s) (g_stack_top s - sizeof_thread_context E - 1)
             (g_info s) (machine s) of
        (ret, info, m) \<Rightarrow>
          (ret, log (VmmCall req arg1 arg2 arg3 ret) (s\<lparr>g_info := info, machine := m\<rparr>)))"

text \<open>The thread context that the VMM finds above its stack: its CPU, and that CPU's storage.\<close>

definition write_thread_context ::
  "('h, 'z) env_scheme \<Rightarrow> int64 \<Rightarrow> 'h common_state \<Rightarrow> 'h common_state" where
  "write_thread_context E cpuid s =
     (let tc = thread_context E s;
          s = on_memory (store_u64 (tc + tc_cpuid_offset E) cpuid) s
      in on_memory (store_u64 (tc + tc_tlsptr_offset E)
           (g_tls s + THREAD_LOCAL_STORAGE_SIZE E * cpuid)) s)"

definition call_vmm ::
  "('h, 'z) env_scheme \<Rightarrow> bf_request \<Rightarrow> uint64 \<Rightarrow> uint64 \<Rightarrow> uint64 \<Rightarrow> 'h common_state
    \<Rightarrow> int64 \<times> 'h common_state" where
  "call_vmm E request arg1 arg2 arg3 s =
     (let (ret, info) = bfelf_set_integer_args E (g_info s) (rq E request) arg1 arg2 arg3;
          s = s\<lparr>g_info := info\<rparr>
      in if ret \<noteq> rc E BF_SUCCESS then (ret, s)
         else
           let (cpuid, s) = call_get_current_cpu_num E s;
               s = write_thread_context E cpuid s;
               (ret, s) = (if g_start s \<noteq> 0 then enter_vmm E request arg1 arg2 arg3 s
                           else (rc E BF_ERROR_UNKNOWN, s));
               s = call_restore_preemption E s
           in (ret, s))"

section \<open>Memory descriptors\<close>

text \<open>
  \<open>struct memory_descriptor md\<close> is an automatic variable at \<open>addr_of_md\<close>; the VMM
  gets its address.
\<close>

definition store_md ::
  "('h, 'z) env_scheme \<Rightarrow> uint64 \<Rightarrow> uint64 \<Rightarrow> uint64 \<Rightarrow> 'h common_state \<Rightarrow> 'h common_state" where
  "store_md E virt phys type s =
     log (SendMd virt phys type)
       (on_memory (\<lambda>m. store_u64 (addr_of_md E + md_type_offset E) type
          (store_u64 (addr_of_md E + md_phys_offset E) phys
            (store_u64 (addr_of_md E + md_virt_offset E) virt m))) s)"

definition add_raw_md_to_memory_manager ::
  "('h, 'z) env_scheme \<Rightarrow> uint64 \<Rightarrow> uint64 \<Rightarrow> 'h common_state \<Rightarrow> int64 \<times> 'h common_state" where
  "add_raw_md_to_memory_manager E virt type s =
     (let phys = platform_virt_to_phys E virt (machine s);
          s = store_md E virt phys type s;
          (ret, s) = call_vmm E BF_REQUEST_ADD_MDL (addr_of_md E) 0 0 s
      in if ret \<noteq> rc E MEMORY_MANAGER_SUCCESS then (ret, s) else (rc E BF_SUCCESS, s))"

text \<open>
  The loop \<open>for (; cur <= limit; cur += MAX_PAGE_SIZE)\<close> that sends one descriptor per
  page; it occurs in \<open>add_md_to_memory_manager\<close> and in \<open>common_load_vmm\<close>, which compare
  the result of each call with a different success code. The unsigned addition wraps, so
  the loop may run for ever: the outer \<open>option\<close> is \<open>None\<close> when it does. The inner one
  is the early return of the error code.
\<close>

partial_function (option) md_loop ::
  "('h, 'z) env_scheme \<Rightarrow> int64 \<Rightarrow> uint64 \<Rightarrow> uint64 \<Rightarrow> uint64 \<Rightarrow> 'h common_state
    \<Rightarrow> (int64 option \<times> 'h common_state) option" where
  "md_loop E ok type cur limit s =
     (if cur \<le> limit then
        (case add_raw_md_to_memory_manager E cur type s of
           (ret, s') \<Rightarrow>
             if ret \<noteq> ok then Some (Some ret, s')
             else md_loop E ok type (cur + MAX_PAGE_SIZE E) limit s')
      else Some (None, s))"

definition segment_first :: "('h, 'z) env_scheme \<Rightarrow> bfelf_binary \<Rightarrow> load_instr \<Rightarrow> uint64" where
  "segment_first E module instr =
     align_down (bin_exec module + instr_mem_offset instr) (MAX_PAGE_SIZE E)"

definition segment_last :: "('h, 'z) env_scheme \<Rightarrow> bfelf_binary \<Rightarrow> load_instr \<Rightarrow> uint64" where
  "segment_last E module instr =
     align_down (bin_exec module + instr_mem_offset instr + instr_memsz instr) (MAX_PAGE_SIZE E)"

definition segment_type :: "('h, 'z) env_scheme \<Rightarrow> load_instr \<Rightarrow> uint64" where
  "segment_type E instr =
     (if (instr_perm instr AND bfpf_x E) \<noteq> 0 then MEMORY_TYPE_R E OR MEMORY_TYPE_E E
      else MEMORY_TYPE_R E OR MEMORY_TYPE_W E)"

text \<open>
  The loop over the load instructions of a module, from instruction \<open>i\<close>, with \<open>n\<close>
  instructions left.
\<close>

fun add_md_segments ::
  "('h, 'z) env_scheme \<Rightarrow> bfelf_binary \<Rightarrow> nat \<Rightarrow> uint64 \<Rightarrow> 'h common_state
    \<Rightarrow> (int64 \<times> 'h common_state) option" where
  "add_md_segments E module 0 i s = Some (rc E BF_SUCCESS, s)"
| "add_md_segments E module (Suc n) i s =
     (case bfelf_file_get_load_instr E (bin_ef module) i of
        (ret, instr) \<Rightarrow>
          if ret \<noteq> rc E BFELF_SUCCESS then Some (ret, s)
          else
            (case md_loop E (rc E MEMORY_MANAGER_SUCCESS) (segment_type E instr)
                    (segment_first E module instr) (segment_last E module instr) s of
               None \<Rightarrow> None
             | Some (Some ret, s') \<Rightarrow> Some (ret, s')
             | Some (None, s') \<Rightarrow> add_md_segments E module n (i + 1) s'))"

text \<open>The module is a pointer in the code, null as \<open>None\<close>.\<close>

definition add_md_to_memory_manager ::
  "('h, 'z) env_scheme \<Rightarrow> bfelf_binary option \<Rightarrow> 'h common_state
    \<Rightarrow> (int64 \<times> 'h common_state) option" where
  "add_md_to_memory_manager E module s =
     (case module of
        None \<Rightarrow> Some (rc E BF_ERROR_INVALID_ARG, s)
      | Some module \<Rightarrow>
          add_md_segments E module
            (unat (bfelf_file_get_num_load_instrs E (bin_ef module))) 0 s)"

end
