(* ===== verification/Common_Driver.thy ===== *)
theory Common_Driver
  imports Common_Helpers
begin

text \<open>
  The operations of \<open>src/src/common.c\<close> that the ports call: reset, init, fini, add
  module, load, unload, start, stop, dump, status. Each takes the environment and the
  globals and returns the code it returns and the new globals. Loading contains a loop
  that may not end, so it returns an \<open>option\<close>.
\<close>

section \<open>Status, reset, unload\<close>

definition common_vmm_status :: "'h common_state \<Rightarrow> vmm_status" where
  "common_vmm_status s = g_vmm_status s"

text \<open>
  The loop of \<open>common_reset\<close> over the first \<open>g_num_modules\<close> entries of the table.
\<close>

fun free_modules ::
  "('h, 'z) env_scheme \<Rightarrow> bfelf_binary list \<Rightarrow> 'h common_state \<Rightarrow> 'h common_state" where
  "free_modules E [] s = s"
| "free_modules E (b # bs) s =
     free_modules E bs
       (if bin_exec b \<noteq> 0 then call_free_rwe E (bin_exec b) (bin_exec_size b) s else s)"

definition common_reset ::
  "('h, 'z) env_scheme \<Rightarrow> 'h common_state \<Rightarrow> int64 \<times> 'h common_state" where
  "common_reset E s =
     (let s = free_modules E (take (nat (sint (g_num_modules s))) (g_modules s)) s;
          s = s\<lparr>g_modules := zero_modules E,
                g_loader := replicate (sizeof_bfelf_loader E) 0,
                g_info := replicate (sizeof_crt_info E) 0\<rparr>;
          s = s\<lparr>g_start := 0\<rparr>;
          s = s\<lparr>g_num_modules := 0, g_num_cpus_started := 0, g_vmm_status := VMM_UNLOADED\<rparr>;
          s = (if g_tls s \<noteq> 0 then call_free_rw E (g_tls s) (g_tls_size s) s else s);
          s = (if g_stack s \<noteq> 0 then call_free_rw E (g_stack s) (g_stack_size s) s else s)
      in (rc E BF_SUCCESS, s\<lparr>g_tls := 0, g_stack := 0, g_stack_top := 0\<rparr>))"

definition common_init ::
  "('h, 'z) env_scheme \<Rightarrow> 'h common_state \<Rightarrow> int64 \<times> 'h common_state" where
  "common_init E s = common_reset E s"

text \<open>The label \<open>unloaded\<close> of \<open>common_unload_vmm\<close>, and its label \<open>corrupted\<close>.\<close>

definition unload_unloaded ::
  "('h, 'z) env_scheme \<Rightarrow> 'h common_state \<Rightarrow> int64 \<times> 'h common_state" where
  "unload_unloaded E s =
     (let (_, s) = common_reset E s in (rc E BF_SUCCESS, s\<lparr>g_vmm_status := VMM_UNLOADED\<rparr>))"

definition unload_corrupted ::
  "('h, 'z) env_scheme \<Rightarrow> 'h common_state \<Rightarrow> int64 \<times> 'h common_state" where
  "unload_corrupted E s = (rc E BF_ERROR_VMM_CORRUPTED, s\<lparr>g_vmm_status := VMM_CORRUPT\<rparr>)"

definition common_unload_vmm ::
  "('h, 'z) env_scheme \<Rightarrow> 'h common_state \<Rightarrow> int64 \<times> 'h common_state" where
  "common_unload_vmm E s =
     (case common_vmm_status s of
        VMM_CORRUPT \<Rightarrow> unload_corrupted E s
      | VMM_RUNNING \<Rightarrow> (rc E BF_ERROR_VMM_INVALID_STATE, s)
      | VMM_UNLOADED \<Rightarrow> unload_unloaded E s
      | VMM_LOADED \<Rightarrow>
          (case call_vmm E BF_REQUEST_FINI 0 0 0 s of
             (ret, s) \<Rightarrow>
               if ret \<noteq> rc E BF_SUCCESS then unload_corrupted E s else unload_unloaded E s))"

section \<open>Adding modules\<close>

definition common_add_module ::
  "('h, 'z) env_scheme \<Rightarrow> uint64 \<Rightarrow> uint64 \<Rightarrow> 'h common_state \<Rightarrow> int64 \<times> 'h common_state" where
  "common_add_module E addr fsize s =
     (if addr = 0 \<or> fsize = 0 then (rc E BF_ERROR_INVALID_ARG, s)
      else
        (case common_vmm_status s of
           VMM_CORRUPT \<Rightarrow> (rc E BF_ERROR_VMM_CORRUPTED, s)
         | VMM_LOADED \<Rightarrow> (rc E BF_ERROR_VMM_INVALID_STATE, s)
         | VMM_RUNNING \<Rightarrow> (rc E BF_ERROR_VMM_INVALID_STATE, s)
         | VMM_UNLOADED \<Rightarrow>
             if int (MAX_NUM_MODULES E) \<le> sint (g_num_modules s)
             then (rc E BF_ERROR_MAX_MODULES_REACHED, s)
             else
               let i = nat (sint (g_num_modules s)) in
               (rc E BF_SUCCESS,
                s\<lparr>g_modules := (g_modules s)
                     [i := (g_modules s ! i)\<lparr>bin_file := addr, bin_file_size := fsize\<rparr>],
                  g_num_modules := g_num_modules s + 1\<rparr>)))"

section \<open>Loading\<close>

text \<open>
  The part of \<open>common_load_vmm\<close> before the first memory descriptor: the stack, the
  thread local storage, the ELF loader and the first entry into the VMM. Anything but
  \<open>BF_SUCCESS\<close> goes to the label \<open>failure\<close>.
\<close>

text \<open>
  What the log records of the table that the loader leaves: the executable blocks of the entries it
  has changed.
\<close>

definition placed :: "bfelf_binary list \<Rightarrow> bfelf_binary list \<Rightarrow> (uint64 \<times> uint64) list" where
  "placed old new =
     map (\<lambda>(b, c). (bin_exec c, bin_exec_size c))
       (filter (\<lambda>(b, c). bin_exec c \<noteq> 0 \<and> (bin_exec c, bin_exec_size c) \<noteq> (bin_exec b, bin_exec_size b))
         (zip old new))"

definition call_bfelf_load ::
  "('h, 'z) env_scheme \<Rightarrow> 'h common_state \<Rightarrow> int64 \<times> 'h common_state" where
  "call_bfelf_load E s =
     (case bfelf_load E (g_modules s) (g_num_modules s) (g_start s) (g_info s) (g_loader s)
             (machine s) of
        (ret, mods, start, info, loader, m) \<Rightarrow>
          (ret, log (ElfLoad ret (placed (g_modules s) mods))
             (s\<lparr>g_modules := mods, g_start := start, g_info := info, g_loader := loader,
                machine := m\<rparr>)))"

definition load_setup ::
  "('h, 'z) env_scheme \<Rightarrow> 'h common_state \<Rightarrow> int64 \<times> 'h common_state" where
  "load_setup E s =
     (case setup_stack E s of (ret, s) \<Rightarrow>
        if ret \<noteq> rc E BF_SUCCESS then (ret, s) else
      (case setup_tls E s of (ret, s) \<Rightarrow>
        if ret \<noteq> rc E BF_SUCCESS then (ret, s) else
      (case call_bfelf_load E s of (ret, s) \<Rightarrow>
        if ret \<noteq> rc E BF_SUCCESS then (ret, s) else
      call_vmm E BF_REQUEST_INIT 0 0 0 s)))"

text \<open>The loop over the modules; \<open>n\<close> modules are left, from index \<open>i\<close>.\<close>

fun add_md_modules ::
  "('h, 'z) env_scheme \<Rightarrow> nat \<Rightarrow> nat \<Rightarrow> 'h common_state \<Rightarrow> (int64 \<times> 'h common_state) option" where
  "add_md_modules E 0 i s = Some (rc E BF_SUCCESS, s)"
| "add_md_modules E (Suc n) i s =
     (case add_md_to_memory_manager E (Some (g_modules s ! i)) s of
        None \<Rightarrow> None
      | Some (ret, s) \<Rightarrow>
          if ret \<noteq> rc E BF_SUCCESS then Some (ret, s) else add_md_modules E n (Suc i) s)"

text \<open>The block that sends the pages of the thread local storage.\<close>

definition add_md_tls ::
  "('h, 'z) env_scheme \<Rightarrow> 'h common_state \<Rightarrow> (int64 option \<times> 'h common_state) option" where
  "add_md_tls E s =
     (let tlss = g_tls s; tlse = tlss + g_tls_size s
      in md_loop E (rc E BF_SUCCESS) (MEMORY_TYPE_R E OR MEMORY_TYPE_W E) tlss tlse s)"

definition load_failure ::
  "('h, 'z) env_scheme \<Rightarrow> int64 \<Rightarrow> 'h common_state \<Rightarrow> int64 \<times> 'h common_state" where
  "load_failure E ret s = (case common_unload_vmm E s of (_, s) \<Rightarrow> (ret, s))"

text \<open>The part after the setup, up to the end of the function.\<close>

definition load_descriptors ::
  "('h, 'z) env_scheme \<Rightarrow> 'h common_state \<Rightarrow> (int64 \<times> 'h common_state) option" where
  "load_descriptors E s =
     (case add_md_modules E (nat (sint (g_num_modules s))) 0 s of
        None \<Rightarrow> None
      | Some (ret, s) \<Rightarrow>
          if ret \<noteq> rc E BF_SUCCESS then Some (load_failure E ret s)
          else
            (case add_md_tls E s of
               None \<Rightarrow> None
             | Some (Some ret, s) \<Rightarrow> Some (ret, s)
             | Some (None, s) \<Rightarrow> Some (rc E BF_SUCCESS, s\<lparr>g_vmm_status := VMM_LOADED\<rparr>)))"

definition common_load_vmm ::
  "('h, 'z) env_scheme \<Rightarrow> 'h common_state \<Rightarrow> (int64 \<times> 'h common_state) option" where
  "common_load_vmm E s =
     (case common_vmm_status s of
        VMM_CORRUPT \<Rightarrow> Some (rc E BF_ERROR_VMM_CORRUPTED, s)
      | VMM_LOADED \<Rightarrow> Some (rc E BF_SUCCESS, s)
      | VMM_RUNNING \<Rightarrow> Some (rc E BF_ERROR_VMM_INVALID_STATE, s)
      | VMM_UNLOADED \<Rightarrow>
          if g_num_modules s = 0 then Some (rc E BF_ERROR_NO_MODULES_ADDED, s)
          else
            (case load_setup E s of (ret, s) \<Rightarrow>
               if ret \<noteq> rc E BF_SUCCESS then Some (load_failure E ret s)
               else load_descriptors E s))"

section \<open>Stopping\<close>

definition stop_corrupted :: "int64 \<Rightarrow> 'h common_state \<Rightarrow> int64 \<times> 'h common_state" where
  "stop_corrupted ret s = (ret, s\<lparr>g_vmm_status := VMM_CORRUPT\<rparr>)"

text \<open>
  The loop of \<open>common_stop_vmm\<close>, downwards from \<open>g_num_cpus_started - 1\<close>: with \<open>n\<close>
  CPUs left, the loop variable \<open>cpuid\<close> is \<open>n - 1\<close>. The registers live across the
  iterations; only \<open>r00\<close> and \<open>r01\<close> are set again.
\<close>

fun stop_loop ::
  "('h, 'z) env_scheme \<Rightarrow> nat \<Rightarrow> vmcall_registers \<Rightarrow> 'h common_state
    \<Rightarrow> int64 \<times> 'h common_state" where
  "stop_loop E 0 regs s = (rc E BF_SUCCESS, s\<lparr>g_vmm_status := VMM_LOADED\<rparr>)"
| "stop_loop E (Suc n) regs s =
     (let cpuid = of_nat n;
          regs = regs\<lparr>r00 := VMCALL_STOP E, r01 := VMCALL_MAGIC_NUMBER E\<rparr>;
          (caller_affinity, s) = call_set_affinity E cpuid s
      in if sint caller_affinity < 0 then stop_corrupted caller_affinity s
         else
           let (regs, s) = call_vmcall E regs s
           in if r01 regs \<noteq> 0 then (rc E ENTRY_ERROR_VMM_STOP_FAILED, s)
              else
                let (ret, s) = call_vmm E BF_REQUEST_VMM_FINI cpuid 0 0 s
                in if ret \<noteq> rc E BFELF_SUCCESS then stop_corrupted ret s
                   else
                     let s = s\<lparr>g_num_cpus_started := g_num_cpus_started s - 1\<rparr>;
                         s = call_platform_stop E s;
                         s = call_restore_affinity E caller_affinity s
                     in stop_loop E n regs s)"

definition common_stop_vmm ::
  "('h, 'z) env_scheme \<Rightarrow> 'h common_state \<Rightarrow> int64 \<times> 'h common_state" where
  "common_stop_vmm E s =
     (case common_vmm_status s of
        VMM_CORRUPT \<Rightarrow> (rc E BF_ERROR_VMM_CORRUPTED, s)
      | VMM_LOADED \<Rightarrow> (rc E BF_SUCCESS, s)
      | VMM_UNLOADED \<Rightarrow> (rc E BF_ERROR_VMM_INVALID_STATE, s)
      | VMM_RUNNING \<Rightarrow> stop_loop E (nat (sint (g_num_cpus_started s))) (uninit_regs E) s)"

section \<open>Starting\<close>

definition start_failure ::
  "('h, 'z) env_scheme \<Rightarrow> int64 \<Rightarrow> 'h common_state \<Rightarrow> int64 \<times> 'h common_state" where
  "start_failure E ret s = (case common_stop_vmm E s of (_, s) \<Rightarrow> (ret, s))"

text \<open>
  The loop of \<open>common_start_vmm\<close>, at \<open>cpuid\<close>. The platform is asked for the number of
  CPUs before every iteration. The loop ends because \<open>cpuid\<close> stays below a signed
  64-bit number, whatever the answers are.
\<close>

function start_loop ::
  "('h, 'z) env_scheme \<Rightarrow> int64 \<Rightarrow> vmcall_registers \<Rightarrow> 'h common_state
    \<Rightarrow> int64 \<times> 'h common_state" where
  "start_loop E cpuid regs s =
     (let (n, s) = call_num_cpus E s
      in if \<not> sint cpuid < sint n then (rc E BF_SUCCESS, s)
         else
           let regs = regs\<lparr>r00 := VMCALL_START E, r01 := VMCALL_MAGIC_NUMBER E\<rparr>;
               (caller_affinity, s) = call_set_affinity E cpuid s
           in if sint caller_affinity < 0 then start_failure E caller_affinity s
              else
                let (ret, s) = call_vmm E BF_REQUEST_VMM_INIT cpuid 0 0 s
                in if ret \<noteq> rc E BF_SUCCESS then start_failure E ret s
                   else
                     let s = s\<lparr>g_num_cpus_started := g_num_cpus_started s + 1\<rparr>;
                         (regs, s) = call_vmcall E regs s
                     in if r01 regs \<noteq> 0 then (rc E ENTRY_ERROR_VMM_START_FAILED, s)
                        else
                          let s = call_platform_start E s;
                              s = call_restore_affinity E caller_affinity s;
                              s = s\<lparr>g_vmm_status := VMM_RUNNING\<rparr>
                          in start_loop E (cpuid + 1) regs s)"
  by pat_completeness auto
termination
  by (relation "measure (\<lambda>(E, cpuid, regs, s). nat (2 ^ 63 - sint cpuid))")
    (auto simp: sint_incr intro: order.strict_trans2 [OF _ order.refl] dest: order.strict_trans [OF _ sint_less_max])

declare start_loop.simps [simp del]

definition common_start_vmm ::
  "('h, 'z) env_scheme \<Rightarrow> 'h common_state \<Rightarrow> int64 \<times> 'h common_state" where
  "common_start_vmm E s =
     (case common_vmm_status s of
        VMM_CORRUPT \<Rightarrow> (rc E BF_ERROR_VMM_CORRUPTED, s)
      | VMM_RUNNING \<Rightarrow> (rc E BF_SUCCESS, s)
      | VMM_UNLOADED \<Rightarrow> (rc E BF_ERROR_VMM_INVALID_STATE, s)
      | VMM_LOADED \<Rightarrow> start_loop E 0 (uninit_regs E) (s\<lparr>g_num_cpus_started := 0\<rparr>))"

section \<open>Dump and fini\<close>

text \<open>\<open>drr\<close> is the address of the pointer that the VMM sets.\<close>

definition common_dump_vmm ::
  "('h, 'z) env_scheme \<Rightarrow> uint64 \<Rightarrow> uint64 \<Rightarrow> 'h common_state \<Rightarrow> int64 \<times> 'h common_state" where
  "common_dump_vmm E drr vcpuid s =
     (if drr = 0 then (rc E BF_ERROR_INVALID_ARG, s)
      else if common_vmm_status s = VMM_UNLOADED then (rc E BF_ERROR_VMM_INVALID_STATE, s)
      else
        (case call_vmm E BF_REQUEST_GET_DRR vcpuid drr 0 s of
           (ret, s) \<Rightarrow> if ret \<noteq> rc E BFELF_SUCCESS then (ret, s) else (rc E BF_SUCCESS, s)))"

text \<open>
  \<open>common_fini\<close> only reports the codes of the operations it calls, then goes on from
  the status they leave.
\<close>

definition common_fini ::
  "('h, 'z) env_scheme \<Rightarrow> 'h common_state \<Rightarrow> int64 \<times> 'h common_state" where
  "common_fini E s =
     (let s = (if common_vmm_status s = VMM_RUNNING then snd (common_stop_vmm E s) else s);
          s = (if common_vmm_status s = VMM_LOADED then snd (common_unload_vmm E s) else s)
      in if common_vmm_status s = VMM_CORRUPT then (rc E BF_ERROR_VMM_CORRUPTED, s)
         else
           let s = (if common_vmm_status s = VMM_UNLOADED \<and> 0 < sint (g_num_modules s)
                    then snd (common_reset E s) else s)
           in (rc E BF_SUCCESS, s))"

end
