(* ===== verification/Vmm_Calls.thy ===== *)
theory Vmm_Calls
  imports Common_Helpers
begin

text \<open>
  Facts about the entries into the VMM of \<open>Common_Helpers\<close>: what \<open>call_vmm\<close> and
  \<open>add_raw_md_to_memory_manager\<close> change, the events they produce, and the loops that
  send the memory descriptors: that they end, and which pages they send.
\<close>

section \<open>One call\<close>

lemma call_vmm_cases:
  assumes "call_vmm E req a b c s = (ret, s')"
  obtains (bad_args) info where "ret \<noteq> rc E BF_SUCCESS" and "s' = s\<lparr>g_info := info\<rparr>"
  | (no_entry) cpu where "g_start s = 0" and "ret = rc E BF_ERROR_UNKNOWN"
      and "vmm_only s s'" and "trace s' = trace s @ [GetCpu cpu, RestorePreemption]"
  | (entered) cpu where "g_start s \<noteq> 0" and "vmm_only s s'"
      and "trace s' = trace s @ [GetCpu cpu, VmmCall req a b c ret, RestorePreemption]"
proof -
  obtain r info where args: "bfelf_set_integer_args E (g_info s) (rq E req) a b c = (r, info)"
    by force
  obtain cpu m where cpu: "platform_get_current_cpu_num E (machine s) = (cpu, m)"
    by force
  note defs = call_vmm_def call_defs write_thread_context_def enter_vmm_def vmm_only_def Let_def
  show thesis
  proof (cases "r = rc E BF_SUCCESS")
    case False
    then show thesis
      using assms args by (intro bad_args [of info]) (auto simp: call_vmm_def)
  next
    case True
    show thesis
    proof (cases "g_start s = 0")
      case nostart: True
      then show thesis
        using assms args cpu True by (intro no_entry [of cpu]) (auto simp: defs)
    next
      case False
      then show thesis
        using assms args cpu True
        by (intro entered [of cpu]) (auto simp: defs split: prod.splits)
    qed
  qed
qed

lemma call_vmm_only: "call_vmm E req a b c s = (ret, s') \<Longrightarrow> vmm_only s s'"
  by (erule call_vmm_cases) (auto simp: vmm_only_def)

lemma call_vmm_pinned:
  assumes "call_vmm E req a b c s = (ret, s')" and "pinned s = Some False"
  shows "pinned s' = Some False"
  using assms(1)
  by (cases rule: call_vmm_cases)
    (use assms(2) in \<open>auto simp: pinned_def run_append\<close>)

lemma call_vmm_live:
  assumes "call_vmm E req a b c s = (ret, s')"
  shows "live_blocks s' = live_blocks s" and "exec_blocks s' = exec_blocks s"
  using assms
  by (cases rule: call_vmm_cases; auto simp: live_blocks_def exec_blocks_def run_append split: option.splits)+

text \<open>A successful call has entered the VMM.\<close>

lemma call_vmm_success:
  assumes "call_vmm E req a b c s = (rc E BF_SUCCESS, s')" and "codes_ok E"
  obtains cpu where "g_start s \<noteq> 0"
    and "trace s' = trace s @ [GetCpu cpu, VmmCall req a b c (rc E BF_SUCCESS), RestorePreemption]"
  using assms(1)
proof (cases rule: call_vmm_cases)
  case (no_entry cpu)
  then show thesis
    using codes_ok_success(1) [OF assms(2)] codes_ok_errors(3) [OF assms(2)] by simp
qed (auto intro: that)

section \<open>One descriptor\<close>

lemma store_md_only: "vmm_only s (store_md E v p ty s)"
  by (simp add: store_md_def call_defs vmm_only_def)

lemma add_raw_md_cases:
  assumes "add_raw_md_to_memory_manager E virt ty s = (ret, s')"
  obtains r where
    "call_vmm E BF_REQUEST_ADD_MDL (addr_of_md E) 0 0
       (store_md E virt (platform_virt_to_phys E virt (machine s)) ty s) = (r, s')"
    and "ret = (if r = rc E MEMORY_MANAGER_SUCCESS then rc E BF_SUCCESS else r)"
  using assms
  by (cases "call_vmm E BF_REQUEST_ADD_MDL (addr_of_md E) 0 0
       (store_md E virt (platform_virt_to_phys E virt (machine s)) ty s)")
    (auto simp: add_raw_md_to_memory_manager_def Let_def split: if_splits)

lemma add_raw_md_only:
  assumes "add_raw_md_to_memory_manager E virt ty s = (ret, s')"
  shows "vmm_only s s'"
  using assms
proof (cases rule: add_raw_md_cases)
  case (1 r)
  show ?thesis
    by (rule vmm_only_trans [OF store_md_only call_vmm_only [OF 1(1)]])
qed

lemma add_raw_md_pinned:
  assumes "add_raw_md_to_memory_manager E virt ty s = (ret, s')" and "pinned s = Some False"
  shows "pinned s' = Some False"
  using assms(1)
proof (cases rule: add_raw_md_cases)
  case (1 r)
  show ?thesis
    by (rule call_vmm_pinned [OF 1(1)])
      (simp add: store_md_def on_memory_def on_machine_def assms(2))
qed

lemma add_raw_md_live:
  assumes "add_raw_md_to_memory_manager E virt ty s = (ret, s')"
  shows "live_blocks s' = live_blocks s" and "exec_blocks s' = exec_blocks s"
proof -
  have "live_blocks s' = live_blocks s \<and> exec_blocks s' = exec_blocks s"
    using assms
  proof (cases rule: add_raw_md_cases)
    case (1 r)
    show ?thesis
      using call_vmm_live [OF 1(1)]
      by (simp add: store_md_def on_memory_def on_machine_def split: option.splits)
  qed
  then show "live_blocks s' = live_blocks s" and "exec_blocks s' = exec_blocks s" by simp_all
qed

section \<open>The page loop\<close>

text \<open>Facts about a finished loop, by induction over its run.\<close>

lemma md_loop_induct [consumes 1, case_names finished failed again]:
  assumes run: "md_loop E ok ty cur limit s = Some (r, s')"
    and finished: "\<And>cur s. \<not> cur \<le> limit \<Longrightarrow> P cur s None s"
    and failed: "\<And>cur s ret s'. cur \<le> limit \<Longrightarrow>
      add_raw_md_to_memory_manager E cur ty s = (ret, s') \<Longrightarrow> ret \<noteq> ok \<Longrightarrow> P cur s (Some ret) s'"
    and again: "\<And>cur s s' r t. cur \<le> limit \<Longrightarrow>
      add_raw_md_to_memory_manager E cur ty s = (ok, s') \<Longrightarrow>
      P (cur + MAX_PAGE_SIZE E) s' r t \<Longrightarrow> P cur s r t"
  shows "P cur s r s'"
proof -
  have "E' = E \<longrightarrow> ok' = ok \<longrightarrow> ty' = ty \<longrightarrow> limit' = limit \<longrightarrow> P cur' u (fst q) (snd q)"
    if "md_loop E' ok' ty' cur' limit' u = Some q" for E' ok' ty' cur' limit' u q
  proof (rule md_loop.raw_induct [where P = "\<lambda>E' ok' ty' cur' limit' u q.
      E' = E \<longrightarrow> ok' = ok \<longrightarrow> ty' = ty \<longrightarrow> limit' = limit \<longrightarrow> P cur' u (fst q) (snd q)", OF _ that])
    fix loop E' ok' ty' cur' limit' u q
    assume IH: "\<And>E' ok' ty' cur' limit' u q. loop E' ok' ty' cur' limit' u = Some q \<Longrightarrow>
        E' = E \<longrightarrow> ok' = ok \<longrightarrow> ty' = ty \<longrightarrow> limit' = limit \<longrightarrow> P cur' u (fst q) (snd q)"
      and eq: "(if cur' \<le> limit' then
          case add_raw_md_to_memory_manager E' cur' ty' u of
            (ret, v) \<Rightarrow> if ret \<noteq> ok' then Some (Some ret, v)
              else loop E' ok' ty' (cur' + MAX_PAGE_SIZE E') limit' v
          else Some (None, u)) = Some q"
    show "E' = E \<longrightarrow> ok' = ok \<longrightarrow> ty' = ty \<longrightarrow> limit' = limit \<longrightarrow> P cur' u (fst q) (snd q)"
    proof (intro impI)
      assume [simp]: "E' = E" "ok' = ok" "ty' = ty" "limit' = limit"
      obtain ret v where step: "add_raw_md_to_memory_manager E cur' ty u = (ret, v)"
        by force
      consider "\<not> cur' \<le> limit" | "cur' \<le> limit" "ret \<noteq> ok" | "cur' \<le> limit" "ret = ok"
        by blast
      then show "P cur' u (fst q) (snd q)"
      proof cases
        case 1
        then have "q = (None, u)" using eq by simp
        then show ?thesis using finished [OF 1] by simp
      next
        case 2
        then have "q = (Some ret, v)" using eq step by simp
        then show ?thesis using failed [OF 2(1) step 2(2)] by simp
      next
        case 3
        then have "loop E ok ty (cur' + MAX_PAGE_SIZE E) limit v = Some q"
          using eq step by simp
        from IH [OF this] have "P (cur' + MAX_PAGE_SIZE E) v (fst q) (snd q)" by simp
        then show ?thesis
          using again [OF 3(1) step [unfolded 3(2)]] by simp
      qed
    qed
  qed
  from this [OF run] show ?thesis by simp
qed

lemma md_loop_only:
  "md_loop E ok ty cur limit s = Some (r, s') \<Longrightarrow> vmm_only s s'"
  by (induction rule: md_loop_induct) (auto dest: add_raw_md_only intro: vmm_only_trans)

lemma md_loop_pinned:
  "md_loop E ok ty cur limit s = Some (r, s') \<Longrightarrow> pinned s = Some False \<Longrightarrow> pinned s' = Some False"
  by (induction rule: md_loop_induct) (auto dest: add_raw_md_pinned)

lemma md_loop_live:
  "md_loop E ok ty cur limit s = Some (r, s') \<Longrightarrow> live_blocks s' = live_blocks s"
  "md_loop E ok ty cur limit s = Some (r, s') \<Longrightarrow> exec_blocks s' = exec_blocks s"
  by (induction rule: md_loop_induct; auto dest: add_raw_md_live)+

lemma md_loop_error:
  "md_loop E ok ty cur limit s = Some (Some ret, s') \<Longrightarrow> ret \<noteq> ok"
proof -
  have "md_loop E ok ty cur limit s = Some (r, s') \<Longrightarrow> (case r of None \<Rightarrow> True | Some ret \<Rightarrow> ret \<noteq> ok)" for r
    by (induction rule: md_loop_induct) auto
  then show "md_loop E ok ty cur limit s = Some (Some ret, s') \<Longrightarrow> ret \<noteq> ok" by force
qed

end
