(* ===== verification/Start_Stop.thy ===== *)
theory Start_Stop
  imports Common_Driver Vmm_Calls
begin

text \<open>
  The loops of \<open>common_start_vmm\<close> and \<open>common_stop_vmm\<close>: one round per CPU. Each loop
  gets a rule that gives, for every way a round can end, the state it leaves and the
  events it produces; the properties of starting and stopping are inductions over them.
\<close>

section \<open>Rounds\<close>

definition start_round ::
  "('h, 'z) env_scheme \<Rightarrow> int64 \<Rightarrow> int64 \<Rightarrow> int64 \<Rightarrow> event list" where
  "start_round E cpu aff cur =
     [SetAffinity cpu aff, GetCpu cur, VmmCall BF_REQUEST_VMM_INIT cpu 0 0 (rc E BF_SUCCESS),
      RestorePreemption, Vmcall (VMCALL_START E) 0, PlatformStart, RestoreAffinity aff]"

definition stop_round ::
  "('h, 'z) env_scheme \<Rightarrow> int64 \<Rightarrow> int64 \<Rightarrow> int64 \<Rightarrow> event list" where
  "stop_round E cpu aff cur =
     [SetAffinity cpu aff, Vmcall (VMCALL_STOP E) 0, GetCpu cur,
      VmmCall BF_REQUEST_VMM_FINI cpu 0 0 (rc E BFELF_SUCCESS), RestorePreemption,
      PlatformStop, RestoreAffinity aff]"

text \<open>The events of a call of \<open>call_vmm\<close> that returned \<open>ret\<close>.\<close>

definition vmm_call_events ::
  "('h, 'z) env_scheme \<Rightarrow> bf_request \<Rightarrow> uint64 \<Rightarrow> int64 \<Rightarrow> event list \<Rightarrow> bool" where
  "vmm_call_events E req arg1 ret evs \<longleftrightarrow>
     evs = [] \<or>
     (\<exists>cur. evs = [GetCpu cur, RestorePreemption] \<or>
        evs = [GetCpu cur, VmmCall req arg1 0 0 ret, RestorePreemption])"

lemma call_vmm_events:
  assumes "call_vmm E req arg1 0 0 s = (ret, s')"
  obtains evs where "vmm_call_events E req arg1 ret evs" and "trace s' = trace s @ evs"
  using assms by (cases rule: call_vmm_cases) (auto simp: vmm_call_events_def intro: that)

section \<open>Stopping\<close>

text \<open>One round of the stop loop, on the CPU numbered \<open>n\<close>.\<close>

lemma stop_loop_Suc_cases:
  assumes run: "stop_loop E (Suc n) regs s = (ret, s')" and ok: "codes_ok E"
  obtains
    (affinity) t where "sint ret < 0" and "vmm_only s t"
      and "trace t = trace s @ [SetAffinity (of_nat n) ret]"
      and "s' = t\<lparr>g_vmm_status := VMM_CORRUPT\<rparr>"
  | (vmcall) aff x where "ret = rc E ENTRY_ERROR_VMM_STOP_FAILED" and "vmm_only s s'"
      and "x \<noteq> 0" and "0 \<le> sint aff"
      and "trace s' = trace s @ [SetAffinity (of_nat n) aff, Vmcall (VMCALL_STOP E) x]"
  | (fini) aff evs t where "ret \<noteq> rc E BFELF_SUCCESS" and "vmm_only s t"
      and "0 \<le> sint aff"
      and "vmm_call_events E BF_REQUEST_VMM_FINI (of_nat n) ret evs"
      and "trace t = trace s @ [SetAffinity (of_nat n) aff, Vmcall (VMCALL_STOP E) 0] @ evs"
      and "s' = t\<lparr>g_vmm_status := VMM_CORRUPT\<rparr>"
  | (again) aff cur regs' t where "0 \<le> sint aff"
      and "vmm_only (s\<lparr>g_num_cpus_started := g_num_cpus_started s - 1\<rparr>) t"
      and "trace t = trace s @ stop_round E (of_nat n) aff cur"
      and "stop_loop E n regs' t = (ret, s')"
proof -
  obtain aff m1 where a: "platform_set_affinity E (of_nat n) (machine s) = (aff, m1)"
    by force
  define regs0 where "regs0 = regs\<lparr>r00 := VMCALL_STOP E, r01 := VMCALL_MAGIC_NUMBER E\<rparr>"
  have r0: "r00 regs0 = VMCALL_STOP E" by (simp add: regs0_def)
  obtain regs1 m2 where v: "vmcall E regs0 m1 = (regs1, m2)"
    by force
  define s1 where "s1 = log (SetAffinity (of_nat n) aff) (s\<lparr>machine := m1\<rparr>)"
  define s2 where "s2 = log (Vmcall (VMCALL_STOP E) (r01 regs1)) (s1\<lparr>machine := m2\<rparr>)"
  obtain r s3 where f: "call_vmm E BF_REQUEST_VMM_FINI (of_nat n) 0 0 s2 = (r, s3)"
    by force
  have only2: "vmm_only s s1" "vmm_only s s2"
    by (simp_all add: s1_def s2_def log_def vmm_only_def)
  have only3: "vmm_only s s3"
    by (rule vmm_only_trans [OF only2(2) call_vmm_only [OF f]])
  have steps: "call_set_affinity E (of_nat n) s = (aff, s1)"
    "call_vmcall E regs0 s1 = (regs1, s2)"
    using a v by (simp_all add: call_set_affinity_def call_vmcall_def s1_def s2_def r0 log_def)
  note run' = run [unfolded stop_loop.simps Let_def regs0_def [symmetric] steps prod.case f]
  consider "sint aff < 0" | "0 \<le> sint aff" "r01 regs1 \<noteq> 0"
    | "0 \<le> sint aff" "r01 regs1 = 0" "r \<noteq> rc E BFELF_SUCCESS"
    | "0 \<le> sint aff" "r01 regs1 = 0" "r = rc E BFELF_SUCCESS" by linarith
  then show thesis
  proof cases
    case 1
    then show thesis
      using run' only2 by (intro affinity [of s1]) (auto simp: stop_corrupted_def s1_def log_def)
  next
    case 2
    then show thesis
      using run' only2 by (intro vmcall [of "r01 regs1" aff]) (auto simp: s2_def s1_def log_def)
  next
    case 3
    obtain evs where "vmm_call_events E BF_REQUEST_VMM_FINI (of_nat n) r evs"
      "trace s3 = trace s2 @ evs"
      by (rule call_vmm_events [OF f])
    then show thesis
      using 3 run' only3 by (intro fini [of s3 aff evs]) (auto simp: stop_corrupted_def s2_def s1_def log_def)
  next
    case 4
    have "r = rc E BF_SUCCESS" using 4(3) codes_ok_success [OF ok] by simp
    then obtain cur where tr3: "trace s3 = trace s2 @ [GetCpu cur,
        VmmCall BF_REQUEST_VMM_FINI (of_nat n) 0 0 (rc E BF_SUCCESS), RestorePreemption]"
      using call_vmm_success [of E BF_REQUEST_VMM_FINI "of_nat n" 0 0 s2 s3] f ok by auto
    define t where "t = call_restore_affinity E aff (call_platform_stop E
        (s3\<lparr>g_num_cpus_started := g_num_cpus_started s3 - 1\<rparr>))"
    have "stop_loop E n regs1 t = (ret, s')"
      using run' 4 by (simp add: t_def)
    moreover have "vmm_only (s\<lparr>g_num_cpus_started := g_num_cpus_started s - 1\<rparr>) t"
      using only3 vmm_onlyD(5) [OF only3]
      by (simp add: t_def call_defs vmm_only_def) (cases s; cases s3; simp)
    moreover have "trace t = trace s @ stop_round E (of_nat n) aff cur"
      using codes_ok_success [OF ok] 4(2)
      by (simp add: t_def call_defs tr3 s2_def s1_def stop_round_def)
    ultimately show thesis
      using 4(1) by (intro again [of aff t cur regs1]) auto
  qed
qed

section \<open>Starting\<close>

text \<open>
  One round of the start loop. Every round is taken with \<open>cpuid\<close> below a signed number,
  so the increment does not overflow.
\<close>

lemma start_loop_cases:
  assumes run: "start_loop E cpuid regs s = (ret, s')" and ok: "codes_ok E"
  obtains
    (finished) m n where "ret = rc E BF_SUCCESS" and "s' = s\<lparr>machine := m\<rparr>"
      and "platform_num_cpus E (machine s) = (n, m)" and "\<not> sint cpuid < sint n"
  | (affinity) aff t where "sint aff < 0" and "vmm_only s t"
      and "trace t = trace s @ [SetAffinity cpuid aff]"
      and "start_failure E aff t = (ret, s')"
  | (init) aff evs r t where "r \<noteq> rc E BF_SUCCESS" and "vmm_only s t" and "0 \<le> sint aff"
      and "vmm_call_events E BF_REQUEST_VMM_INIT cpuid r evs"
      and "trace t = trace s @ [SetAffinity cpuid aff] @ evs"
      and "start_failure E r t = (ret, s')"
  | (vmcall) aff cur x where "ret = rc E ENTRY_ERROR_VMM_START_FAILED" and "x \<noteq> 0"
      and "sint (cpuid + 1) = sint cpuid + 1"
      and "vmm_only (s\<lparr>g_num_cpus_started := g_num_cpus_started s + 1\<rparr>) s'" and "0 \<le> sint aff"
      and "trace s' = trace s @ [SetAffinity cpuid aff, GetCpu cur,
             VmmCall BF_REQUEST_VMM_INIT cpuid 0 0 (rc E BF_SUCCESS), RestorePreemption,
             Vmcall (VMCALL_START E) x]"
  | (again) aff cur regs' t where "0 \<le> sint aff" and "sint (cpuid + 1) = sint cpuid + 1"
      and "sint cpuid < sint (fst (platform_num_cpus E (machine s)))"
      and "vmm_only (s\<lparr>g_num_cpus_started := g_num_cpus_started s + 1,
                      g_vmm_status := VMM_RUNNING\<rparr>) t"
      and "trace t = trace s @ start_round E cpuid aff cur"
      and "start_loop E (cpuid + 1) regs' t = (ret, s')"
proof -
  obtain n m0 where c: "platform_num_cpus E (machine s) = (n, m0)" by force
  define s0 where "s0 = s\<lparr>machine := m0\<rparr>"
  obtain aff m1 where a: "platform_set_affinity E cpuid m0 = (aff, m1)" by force
  define regs0 where "regs0 = regs\<lparr>r00 := VMCALL_START E, r01 := VMCALL_MAGIC_NUMBER E\<rparr>"
  have r0: "r00 regs0 = VMCALL_START E" by (simp add: regs0_def)
  define s1 where "s1 = log (SetAffinity cpuid aff) (s0\<lparr>machine := m1\<rparr>)"
  obtain r s2 where i: "call_vmm E BF_REQUEST_VMM_INIT cpuid 0 0 s1 = (r, s2)" by force
  define s3 where "s3 = s2\<lparr>g_num_cpus_started := g_num_cpus_started s2 + 1\<rparr>"
  obtain regs1 m4 where v: "vmcall E regs0 (machine s3) = (regs1, m4)" by force
  define s4 where "s4 = log (Vmcall (VMCALL_START E) (r01 regs1)) (s3\<lparr>machine := m4\<rparr>)"
  have steps: "call_num_cpus E s = (n, s0)" "call_set_affinity E cpuid s0 = (aff, s1)"
    "call_vmcall E regs0 s3 = (regs1, s4)"
    using c a v by (simp_all add: call_num_cpus_def call_set_affinity_def call_vmcall_def
        s0_def s1_def s4_def r0)
  note run' = run [unfolded start_loop.simps [of E cpuid regs s] Let_def steps prod.case
      regs0_def [symmetric] i s3_def [symmetric]]
  have only1: "vmm_only s s1"
    by (simp add: s1_def s0_def log_def vmm_only_def)
  have only2: "vmm_only s s2"
    by (rule vmm_only_trans [OF only1 call_vmm_only [OF i]])
  have only4: "vmm_only (s\<lparr>g_num_cpus_started := g_num_cpus_started s + 1\<rparr>) s4"
    using only2 vmm_onlyD(5) [OF only2]
    by (simp add: s4_def s3_def log_def vmm_only_def) (cases s; cases s2; simp)
  have tr1: "trace s1 = trace s @ [SetAffinity cpuid aff]"
    by (simp add: s1_def s0_def log_def)
  consider "\<not> sint cpuid < sint n" | "sint cpuid < sint n" "sint aff < 0"
    | "sint cpuid < sint n" "0 \<le> sint aff" "r \<noteq> rc E BF_SUCCESS"
    | "sint cpuid < sint n" "0 \<le> sint aff" "r = rc E BF_SUCCESS" by linarith
  then show thesis
  proof cases
    case 1
    then show thesis
      using run' c by (intro finished [of m0 n]) (auto simp: s0_def)
  next
    case 2
    then show thesis
      using run' only1 tr1 by (intro affinity [of aff s1]) auto
  next
    case 3
    obtain evs where "vmm_call_events E BF_REQUEST_VMM_INIT cpuid r evs"
      "trace s2 = trace s1 @ evs"
      by (rule call_vmm_events [OF i])
    then show thesis
      using 3 run' only2 tr1 by (intro init [of r s2 aff evs]) auto
  next
    case 4
    obtain cur where tr2: "trace s2 = trace s1 @ [GetCpu cur,
        VmmCall BF_REQUEST_VMM_INIT cpuid 0 0 (rc E BF_SUCCESS), RestorePreemption]"
      using call_vmm_success [of E BF_REQUEST_VMM_INIT cpuid 0 0 s1 s2] i 4 ok by auto
    show thesis
    proof (cases "r01 regs1 = 0")
      case False
      then show thesis
        using run' 4 only4 tr2 tr1
        by (intro vmcall [of "r01 regs1" aff cur]) (auto simp: s4_def s3_def log_def sint_incr)
    next
      case True
      define t where "t = (call_restore_affinity E aff (call_platform_start E s4))
          \<lparr>g_vmm_status := VMM_RUNNING\<rparr>"
      have "start_loop E (cpuid + 1) regs1 t = (ret, s')"
        using run' 4 True by (simp add: t_def)
      moreover have "vmm_only (s\<lparr>g_num_cpus_started := g_num_cpus_started s + 1,
          g_vmm_status := VMM_RUNNING\<rparr>) t"
        using only4 by (simp add: t_def call_defs vmm_only_def) (cases s; cases s4; simp)
      moreover have "trace t = trace s @ start_round E cpuid aff cur"
        using True by (simp add: t_def call_defs s4_def s3_def tr2 tr1 start_round_def)
      ultimately show thesis
        using 4 c by (intro again [of aff t cur regs1]) (auto simp: sint_incr)
    qed
  qed
qed

text \<open>The induction over the rounds of a finished run.\<close>

lemma start_loop_rounds [consumes 2, case_names finished affinity init vmcall again]:
  assumes "start_loop E cpuid regs s = (ret, s')" and "codes_ok E"
    and finished: "\<And>cpuid s m n. platform_num_cpus E (machine s) = (n, m) \<Longrightarrow>
      \<not> sint cpuid < sint n \<Longrightarrow> P cpuid s (rc E BF_SUCCESS) (s\<lparr>machine := m\<rparr>)"
    and affinity: "\<And>cpuid s aff t ret s'. sint aff < 0 \<Longrightarrow> vmm_only s t \<Longrightarrow>
      trace t = trace s @ [SetAffinity cpuid aff] \<Longrightarrow>
      start_failure E aff t = (ret, s') \<Longrightarrow> P cpuid s ret s'"
    and init: "\<And>cpuid s aff evs r t ret s'. r \<noteq> rc E BF_SUCCESS \<Longrightarrow> vmm_only s t \<Longrightarrow>
      0 \<le> sint aff \<Longrightarrow> vmm_call_events E BF_REQUEST_VMM_INIT cpuid r evs \<Longrightarrow>
      trace t = trace s @ [SetAffinity cpuid aff] @ evs \<Longrightarrow>
      start_failure E r t = (ret, s') \<Longrightarrow> P cpuid s ret s'"
    and vmcall: "\<And>cpuid s aff cur x s'. x \<noteq> 0 \<Longrightarrow> 0 \<le> sint aff \<Longrightarrow>
      sint (cpuid + 1) = sint cpuid + 1 \<Longrightarrow>
      vmm_only (s\<lparr>g_num_cpus_started := g_num_cpus_started s + 1\<rparr>) s' \<Longrightarrow>
      trace s' = trace s @ [SetAffinity cpuid aff, GetCpu cur,
             VmmCall BF_REQUEST_VMM_INIT cpuid 0 0 (rc E BF_SUCCESS), RestorePreemption,
             Vmcall (VMCALL_START E) x] \<Longrightarrow>
      P cpuid s (rc E ENTRY_ERROR_VMM_START_FAILED) s'"
    and again: "\<And>cpuid s aff cur t ret s'. 0 \<le> sint aff \<Longrightarrow>
      sint (cpuid + 1) = sint cpuid + 1 \<Longrightarrow>
      sint cpuid < sint (fst (platform_num_cpus E (machine s))) \<Longrightarrow>
      vmm_only (s\<lparr>g_num_cpus_started := g_num_cpus_started s + 1,
                      g_vmm_status := VMM_RUNNING\<rparr>) t \<Longrightarrow>
      trace t = trace s @ start_round E cpuid aff cur \<Longrightarrow>
      P (cpuid + 1) t ret s' \<Longrightarrow> P cpuid s ret s'"
  shows "P cpuid s ret s'"
  using assms(1)
proof (induction "nat (2 ^ 63 - sint cpuid)" arbitrary: cpuid regs s rule: less_induct)
  case less
  show ?case
    using less.prems assms(2)
  proof (cases rule: start_loop_cases)
    case (again aff cur regs' t)
    have "sint cpuid < 2 ^ 63" by (rule sint_less_max)
    then have "nat (2 ^ 63 - sint (cpuid + 1)) < nat (2 ^ 63 - sint cpuid)"
      using again(2) by simp
    from less.hyps [OF this again(6)] show ?thesis
      by (rule assms(7) [OF again(1-5)])
  qed (auto intro: finished affinity init vmcall)
qed

end
