(* ===== verification/Md_Pages.thy ===== *)
theory Md_Pages
  imports Vmm_Calls
begin

text \<open>
  Which memory descriptors the driver sends. The specification is the list of page
  addresses of a range; the loops of \<open>common.c\<close> are shown to send exactly that list, in
  order, each acknowledged by the VMM, and to return whenever the range does not reach
  the last page of the address space.
\<close>

section \<open>The pages of a range\<close>

definition page_range :: "uint64 \<Rightarrow> uint64 \<Rightarrow> uint64 \<Rightarrow> uint64 list" where
  "page_range p cur limit =
     (if cur \<le> limit
      then map (\<lambda>i. cur + of_nat i * p) [0..<Suc ((unat limit - unat cur) div unat p)]
      else [])"

text \<open>The loop variable does not wrap around: the next page after \<open>limit\<close> exists.\<close>

definition no_wrap :: "uint64 \<Rightarrow> uint64 \<Rightarrow> bool" where
  "no_wrap p limit \<longleftrightarrow> 0 < unat p \<and> unat limit + unat p < 2 ^ 64"

lemma unat_next:
  assumes "no_wrap p limit" and "cur \<le> limit"
  shows "unat (cur + p) = unat cur + unat p"
proof -
  have "unat cur + unat p < 2 ^ 64"
    using assms by (auto simp: no_wrap_def word_le_nat_alt)
  then show ?thesis
    by (simp add: unat_word_ariths)
qed

lemma page_range_unfold:
  assumes "no_wrap p limit" and "cur \<le> limit"
  shows "page_range p cur limit = cur # page_range p (cur + p) limit"
proof -
  have p: "0 < unat p" using assms by (simp add: no_wrap_def)
  have next_eq: "unat (cur + p) = unat cur + unat p"
    by (rule unat_next [OF assms])
  let ?n = "(unat limit - unat cur) div unat p"
  have split: "map f [0..<Suc n] = f 0 # map (\<lambda>i. f (Suc i)) [0..<n]" for f :: "nat \<Rightarrow> uint64" and n
    by (simp add: map_upt_Suc del: upt_Suc)
  show ?thesis
  proof (cases "cur + p \<le> limit")
    case True
    then have le: "unat cur + unat p \<le> unat limit"
      by (simp add: word_le_nat_alt next_eq)
    then have "?n = Suc ((unat limit - unat (cur + p)) div unat p)"
      using p by (simp add: next_eq le_div_geq)
    then show ?thesis
      using assms(2) True
      by (simp only: page_range_def if_True split) (simp add: algebra_simps)
  next
    case False
    then have "unat limit - unat cur < unat p"
      using assms(2) by (simp add: word_le_nat_alt next_eq)
    then have "?n = 0" by simp
    then show ?thesis
      using assms(2) False by (simp add: page_range_def)
  qed
qed

lemma page_range_empty: "\<not> cur \<le> limit \<Longrightarrow> page_range p cur limit = []"
  by (simp add: page_range_def)

section \<open>Acknowledged descriptors\<close>

text \<open>
  The events of a list of descriptors (virtual address, type), each sent to the VMM and
  answered with the success code 0.
\<close>

fun md_acks :: "uint64 \<Rightarrow> (uint64 \<times> uint64) list \<Rightarrow> event list \<Rightarrow> bool" where
  "md_acks a [] evs \<longleftrightarrow> evs = []"
| "md_acks a ((v, t) # ds) evs \<longleftrightarrow>
     (\<exists>phys cpu rest.
        evs = SendMd v phys t # GetCpu cpu # VmmCall BF_REQUEST_ADD_MDL a 0 0 0 #
              RestorePreemption # rest \<and>
        md_acks a ds rest)"

lemma md_acks_append:
  "md_acks a ds evs \<Longrightarrow> md_acks a ds' evs' \<Longrightarrow> md_acks a (ds @ ds') (evs @ evs')"
  by (induction a ds evs rule: md_acks.induct) auto

lemma add_raw_md_success:
  assumes "add_raw_md_to_memory_manager E virt ty s = (0, s')" and "codes_ok E"
  obtains evs where "trace s' = trace s @ evs" and "md_acks (addr_of_md E) [(virt, ty)] evs"
  using assms(1)
proof (cases rule: add_raw_md_cases)
  case (1 r)
  then have r: "r = 0"
    using codes_ok_success [OF assms(2)] by (auto split: if_splits)
  from 1(1) [unfolded r] have
    "call_vmm E BF_REQUEST_ADD_MDL (addr_of_md E) 0 0
       (store_md E virt (platform_virt_to_phys E virt (machine s)) ty s) = (rc E BF_SUCCESS, s')"
    using codes_ok_success [OF assms(2)] by simp
  then obtain cpu where
    "trace s' = trace (store_md E virt (platform_virt_to_phys E virt (machine s)) ty s) @
       [GetCpu cpu, VmmCall BF_REQUEST_ADD_MDL (addr_of_md E) 0 0 (rc E BF_SUCCESS), RestorePreemption]"
    using call_vmm_success [OF _ assms(2)] by metis
  then show thesis
    using codes_ok_success(1) [OF assms(2)]
    by (intro that) (auto simp: store_md_def call_defs)
qed

section \<open>The loop sends the pages\<close>

lemma md_loop_sends:
  assumes "md_loop E ok ty cur limit s = Some (None, s')" and "codes_ok E" and "ok = 0"
    and wrap: "no_wrap (MAX_PAGE_SIZE E) limit"
  shows "\<exists>evs. trace s' = trace s @ evs \<and>
    md_acks (addr_of_md E) (map (\<lambda>v. (v, ty)) (page_range (MAX_PAGE_SIZE E) cur limit)) evs"
proof -
  have "r = None \<Longrightarrow> \<exists>evs. trace t = trace s @ evs \<and>
    md_acks (addr_of_md E) (map (\<lambda>v. (v, ty)) (page_range (MAX_PAGE_SIZE E) cur limit)) evs"
    if "md_loop E ok ty cur limit s = Some (r, t)" for r t
    using that
  proof (induction rule: md_loop_induct)
    case (finished cur s)
    then show ?case by (simp add: page_range_empty)
  next
    case (failed cur s ret s')
    then show ?case by simp
  next
    case (again cur s s' r t)
    obtain evs where evs: "trace s' = trace s @ evs" "md_acks (addr_of_md E) [(cur, ty)] evs"
      using add_raw_md_success [of E cur ty s s'] again(2) assms(2,3) by auto
    obtain evs' where "trace t = trace s' @ evs'"
      "md_acks (addr_of_md E) (map (\<lambda>v. (v, ty)) (page_range (MAX_PAGE_SIZE E) (cur + MAX_PAGE_SIZE E) limit)) evs'"
      using again by auto
    with evs show ?case
      using md_acks_append [OF evs(2)]
      by (auto simp: page_range_unfold [OF wrap again(1)])
  qed
  with assms(1) show ?thesis by simp
qed

lemma md_loop_returns:
  assumes wrap: "no_wrap (MAX_PAGE_SIZE E) limit"
  shows "\<exists>r s'. md_loop E ok ty cur limit s = Some (r, s')"
proof (induction "unat limit + 1 - unat cur" arbitrary: cur s rule: less_induct)
  case less
  show ?case
  proof (cases "cur \<le> limit")
    case False
    then show ?thesis by (simp add: md_loop.simps)
  next
    case True
    obtain ret t where step: "add_raw_md_to_memory_manager E cur ty s = (ret, t)" by force
    have "unat limit + 1 - unat (cur + MAX_PAGE_SIZE E) < unat limit + 1 - unat cur"
      using wrap True unfolding unat_next [OF wrap True] no_wrap_def word_le_nat_alt by arith
    from less [OF this] have "\<exists>r s'. md_loop E ok ty (cur + MAX_PAGE_SIZE E) limit t = Some (r, s')" .
    with True step show ?thesis by (simp add: md_loop.simps [of _ _ _ cur])
  qed
qed

text \<open>
  Without the restriction the loop need not return: when the last page is the last page
  of the address space, the unsigned addition wraps to page 0.
\<close>

lemma md_loop_diverges:
  assumes "\<And>v t r t'. Q t \<Longrightarrow> add_raw_md_to_memory_manager E v ty t = (r, t') \<Longrightarrow> r = ok \<and> Q t'"
    and "is_pow2 (MAX_PAGE_SIZE E)" and "limit = - MAX_PAGE_SIZE E"
    and "unat (MAX_PAGE_SIZE E) dvd unat cur" and "Q s"
  shows "md_loop E ok ty cur limit s = None"
proof (rule ccontr)
  assume "md_loop E ok ty cur limit s \<noteq> None"
  then obtain r s' where "md_loop E ok ty cur limit s = Some (r, s')" by force
  then have "Q s \<longrightarrow> \<not> unat (MAX_PAGE_SIZE E) dvd unat cur"
  proof (induction rule: md_loop_induct)
    case (finished cur s)
    then show ?case
      using aligned_le_last [OF assms(2), of cur] unfolding assms(3) by blast
  next
    case (failed cur s ret s')
    then show ?case using assms(1) by blast
  next
    case (again cur s s' r t)
    then show ?case
      using dvd_unat_add [OF assms(2), of cur] assms(1) by blast
  qed
  with assms(4,5) show False by simp
qed

section \<open>Coverage\<close>

text \<open>
  Every byte of a range lies on one of the pages, no page is listed twice, and every
  page listed holds a byte of the range or ends right behind it.
\<close>

lemma page_range_covers:
  assumes p: "is_pow2 p" and a: "unat a \<le> unat x" and z: "unat x \<le> unat z"
  shows "align_down x p \<in> set (page_range p (align_down a p) (align_down z p))"
proof -
  have pos: "0 < unat p" by (rule is_pow2_pos [OF p])
  have mono: "unat (align_down u p) \<le> unat (align_down w p)" if "unat u \<le> unat w" for u w
    using div_le_mono [OF that, of "unat p"]
    by (simp add: unat_align_down [OF p] minus_mod_eq_mult_div)
  define q where "q = (unat (align_down x p) - unat (align_down a p)) div unat p"
  have ax: "unat (align_down a p) \<le> unat (align_down x p)" by (rule mono [OF a])
  have xz: "unat (align_down x p) \<le> unat (align_down z p)" by (rule mono [OF z])
  have "unat p dvd unat (align_down x p) - unat (align_down a p)"
    by (intro dvd_diff_nat align_down_dvd p)
  then have "unat (align_down x p) = unat (align_down a p) + q * unat p"
    using ax by (simp add: q_def)
  then have "of_nat (unat (align_down x p)) = (of_nat (unat (align_down a p) + q * unat p) :: uint64)"
    by (rule arg_cong)
  then have "align_down x p = align_down a p + of_nat q * p"
    by simp
  moreover have "q < Suc ((unat (align_down z p) - unat (align_down a p)) div unat p)"
    unfolding q_def using xz by (intro le_imp_less_Suc div_le_mono diff_le_mono)
  moreover have "align_down a p \<le> align_down z p"
    using ax xz by (simp add: word_le_nat_alt)
  ultimately show ?thesis
    by (simp add: page_range_def del: upt_Suc)
qed

lemma page_range_less:
  assumes "no_wrap p limit" and "cur \<le> limit" and "v \<in> set (page_range p (cur + p) limit)"
  shows "unat cur < unat v"
  using assms(2,3)
proof (induction "unat limit - unat cur" arbitrary: cur rule: less_induct)
  case less
  have p: "0 < unat p" using assms(1) by (simp add: no_wrap_def)
  have nxt: "unat (cur + p) = unat cur + unat p"
    by (rule unat_next [OF assms(1) less.prems(1)])
  show ?case
  proof (cases "cur + p \<le> limit")
    case False
    then show ?thesis using less.prems(2) by (simp add: page_range_empty)
  next
    case True
    then have v: "v = cur + p \<or> v \<in> set (page_range p (cur + p + p) limit)"
      using less.prems(2) by (simp add: page_range_unfold [OF assms(1)])
    have "unat limit - unat (cur + p) < unat limit - unat cur"
      using True less.prems(1) p nxt unfolding word_le_nat_alt by arith
    from less.hyps [OF this True] v show ?thesis
      using nxt p by auto
  qed
qed

lemma page_range_distinct:
  assumes "no_wrap p limit"
  shows "distinct (page_range p cur limit)"
proof (induction "Suc (unat limit) - unat cur" arbitrary: cur rule: less_induct)
  case less
  show ?case
  proof (cases "cur \<le> limit")
    case False
    then show ?thesis by (simp add: page_range_empty)
  next
    case True
    have "Suc (unat limit) - unat (cur + p) < Suc (unat limit) - unat cur"
      using True assms unfolding unat_next [OF assms True] no_wrap_def word_le_nat_alt by arith
    from less [OF this] page_range_less [OF assms True] show ?thesis
      by (auto simp: page_range_unfold [OF assms True])
  qed
qed

section \<open>The descriptors of a module\<close>

definition load_instr_at :: "('h, 'z) env_scheme \<Rightarrow> bfelf_binary \<Rightarrow> uint64 \<Rightarrow> load_instr" where
  "load_instr_at E b i = snd (bfelf_file_get_load_instr E (bin_ef b) i)"

definition segment_mds ::
  "('h, 'z) env_scheme \<Rightarrow> bfelf_binary \<Rightarrow> load_instr \<Rightarrow> (uint64 \<times> uint64) list" where
  "segment_mds E b instr =
     map (\<lambda>v. (v, segment_type E instr))
       (page_range (MAX_PAGE_SIZE E) (segment_first E b instr) (segment_last E b instr))"

definition module_mds :: "('h, 'z) env_scheme \<Rightarrow> bfelf_binary \<Rightarrow> (uint64 \<times> uint64) list" where
  "module_mds E b =
     concat (map (\<lambda>i. segment_mds E b (load_instr_at E b (of_nat i)))
       [0..<unat (bfelf_file_get_num_load_instrs E (bin_ef b))])"

text \<open>No segment reaches the last page of the address space.\<close>

definition segment_fits :: "('h, 'z) env_scheme \<Rightarrow> bfelf_binary \<Rightarrow> uint64 \<Rightarrow> bool" where
  "segment_fits E b i \<longleftrightarrow> no_wrap (MAX_PAGE_SIZE E) (segment_last E b (load_instr_at E b i))"

definition module_fits :: "('h, 'z) env_scheme \<Rightarrow> bfelf_binary \<Rightarrow> bool" where
  "module_fits E b \<longleftrightarrow>
     (\<forall>i < unat (bfelf_file_get_num_load_instrs E (bin_ef b)). segment_fits E b (of_nat i))"

lemma add_md_segments_only:
  "add_md_segments E b n i s = Some (ret, s') \<Longrightarrow> vmm_only s s'"
  by (induction n arbitrary: i s)
    (auto split: prod.splits option.splits if_splits dest!: md_loop_only intro: vmm_only_trans)

lemma add_md_segments_pinned:
  "add_md_segments E b n i s = Some (ret, s') \<Longrightarrow> pinned s = Some False \<Longrightarrow> pinned s' = Some False"
  by (induction n arbitrary: i s)
    (auto split: prod.splits option.splits if_splits dest!: md_loop_pinned)

lemma add_md_segments_live:
  "add_md_segments E b n i s = Some (ret, s') \<Longrightarrow>
   live_blocks s' = live_blocks s \<and> exec_blocks s' = exec_blocks s"
proof (induction n arbitrary: i s)
  case (Suc n)
  then show ?case
    by (auto split: prod.splits option.splits if_splits dest: md_loop_live)
qed simp

lemma segments_fit_Suc:
  "(\<forall>j<Suc n. segment_fits E b (i + of_nat j)) \<longleftrightarrow>
     segment_fits E b i \<and> (\<forall>j<n. segment_fits E b (i + 1 + of_nat j))"
  by (simp add: All_less_Suc2 add.assoc)

lemma add_md_segments_returns:
  assumes "\<forall>j<n. segment_fits E b (i + of_nat j)"
  shows "\<exists>ret s'. add_md_segments E b n i s = Some (ret, s')"
  using assms
proof (induction n arbitrary: i s)
  case 0
  then show ?case by simp
next
  case (Suc n)
  have rest: "\<forall>j<n. segment_fits E b (i + 1 + of_nat j)"
    using Suc.prems segments_fit_Suc by blast
  obtain ret instr where ld: "bfelf_file_get_load_instr E (bin_ef b) i = (ret, instr)"
    by force
  have "no_wrap (MAX_PAGE_SIZE E) (segment_last E b instr)"
    using iffD1 [OF segments_fit_Suc Suc.prems] ld
    by (simp add: segment_fits_def load_instr_at_def)
  from md_loop_returns [OF this] obtain r t where
    "md_loop E (rc E MEMORY_MANAGER_SUCCESS) (segment_type E instr) (segment_first E b instr)
       (segment_last E b instr) s = Some (r, t)" by blast
  then show ?case
    using ld Suc.IH [OF rest, of t] by (cases r) auto
qed

lemma add_md_segments_sends:
  assumes "add_md_segments E b n i s = Some (0, s')" and ok: "codes_ok E"
    and "\<forall>j<n. segment_fits E b (i + of_nat j)"
  shows "\<exists>evs. trace s' = trace s @ evs \<and>
    md_acks (addr_of_md E)
      (concat (map (\<lambda>j. segment_mds E b (load_instr_at E b (i + of_nat j))) [0..<n])) evs"
  using assms(1,3)
proof (induction n arbitrary: i s)
  case 0
  then show ?case by simp
next
  case (Suc n)
  have rest: "\<forall>j<n. segment_fits E b (i + 1 + of_nat j)"
    using Suc.prems segments_fit_Suc by blast
  obtain ret instr where ld: "bfelf_file_get_load_instr E (bin_ef b) i = (ret, instr)"
    by force
  have instr: "load_instr_at E b i = instr" using ld by (simp add: load_instr_at_def)
  have fits: "no_wrap (MAX_PAGE_SIZE E) (segment_last E b instr)"
    using iffD1 [OF segments_fit_Suc Suc.prems(2)] instr by (simp add: segment_fits_def)
  from Suc.prems(1) ld codes_ok_success [OF ok] obtain t where
    loop: "md_loop E 0 (segment_type E instr) (segment_first E b instr) (segment_last E b instr) s
       = Some (None, t)"
    and more: "add_md_segments E b n (i + 1) t = Some (0, s')"
    by (auto split: option.splits if_splits dest: md_loop_error)
  obtain evs where evs: "trace t = trace s @ evs"
      "md_acks (addr_of_md E) (segment_mds E b instr) evs"
    using md_loop_sends [OF loop ok refl fits] by (auto simp: segment_mds_def)
  obtain evs' where evs': "trace s' = trace t @ evs'"
      "md_acks (addr_of_md E)
        (concat (map (\<lambda>j. segment_mds E b (load_instr_at E b (i + 1 + of_nat j))) [0..<n])) evs'"
    using Suc.IH [OF more rest] by blast
  have "concat (map (\<lambda>j. segment_mds E b (load_instr_at E b (i + of_nat j))) [0..<Suc n]) =
      segment_mds E b instr @
      concat (map (\<lambda>j. segment_mds E b (load_instr_at E b (i + 1 + of_nat j))) [0..<n])"
    by (simp add: map_upt_Suc instr add.assoc del: upt_Suc)
  with md_acks_append [OF evs(2) evs'(2)] evs(1) evs'(1) show ?case
    by (intro exI [of _ "evs @ evs'"]) simp
qed

end
