(* ===== verification/Memory_Layout.thy ===== *)
theory Memory_Layout
  imports Vmm_Calls
begin

text \<open>
  Where the VMM's stack, its thread context and its thread local storage lie: inside the
  blocks that the platform handed out, aligned, and disjoint for different CPUs.
\<close>

section \<open>The stack\<close>

text \<open>A block that ends inside the address space.\<close>

definition fits :: "uint64 \<Rightarrow> uint64 \<Rightarrow> bool" where
  "fits a len \<longleftrightarrow> unat a + unat len < 2 ^ 64"

text \<open>
  The stack size is a power of two, twice of it is a 64-bit number, and the thread
  context is smaller than one stack.
\<close>

definition stack_consts_ok :: "('h, 'z) env_scheme \<Rightarrow> bool" where
  "stack_consts_ok E \<longleftrightarrow>
     is_pow2 (STACK_SIZE E) \<and> 2 * unat (STACK_SIZE E) < 2 ^ 64 \<and>
     unat (sizeof_thread_context E) < unat (STACK_SIZE E)"

definition stack_top_of :: "('h, 'z) env_scheme \<Rightarrow> uint64 \<Rightarrow> uint64" where
  "stack_top_of E a = align_down (a + STACK_SIZE E * 2) (STACK_SIZE E) - 1"

lemma setup_stack_cases:
  assumes "setup_stack E s = (ret, s')"
  obtains (failed) "ret = rc E BF_ERROR_OUT_OF_MEMORY" and "g_stack s' = 0"
      and "g_stack_top s' = g_stack_top s"
      and "trace s' = trace s @ [AllocRw (STACK_SIZE E * 2) 0]"
  | (success) "ret = rc E BF_SUCCESS" and "g_stack s' \<noteq> 0"
      and "g_stack_top s' = stack_top_of E (g_stack s')"
      and "trace s' = trace s @ [AllocRw (STACK_SIZE E * 2) (g_stack s')]"
  using assms
  by (auto simp: setup_stack_def call_defs Let_def stack_top_of_def split: prod.splits if_splits)

lemma setup_stack_frame:
  assumes "setup_stack E s = (ret, s')"
  shows "g_num_modules s' = g_num_modules s" and "g_modules s' = g_modules s"
    and "g_start s' = g_start s" and "g_num_cpus_started s' = g_num_cpus_started s"
    and "g_vmm_status s' = g_vmm_status s" and "g_tls s' = g_tls s"
    and "g_tls_size s' = g_tls_size s" and "g_stack_size s' = STACK_SIZE E * 2"
  using assms by (auto simp: setup_stack_def call_defs Let_def split: prod.splits if_splits)

lemma setup_stack_pinned:
  "setup_stack E s = (ret, s') \<Longrightarrow> pinned s = Some False \<Longrightarrow> pinned s' = Some False"
  by (erule setup_stack_cases) (simp_all add: pinned_def run_append)

lemma setup_stack_live:
  "setup_stack E s = (ret, s') \<Longrightarrow> live_blocks s = Some b \<Longrightarrow>
   live_blocks s' = Some (block (g_stack s') (g_stack_size s') + b)"
  by (frule setup_stack_frame(8), erule setup_stack_cases)
    (simp_all add: live_blocks_def run_append block_def)

lemma stack_top_bounds:
  assumes sizes: "stack_consts_ok E" and fit: "fits a (STACK_SIZE E * 2)"
  shows "unat (stack_top_of E a + 1) mod unat (STACK_SIZE E) = 0"
    and "unat a + unat (STACK_SIZE E) < unat (stack_top_of E a + 1)"
    and "unat (stack_top_of E a + 1) \<le> unat a + 2 * unat (STACK_SIZE E)"
proof -
  have p: "is_pow2 (STACK_SIZE E)" using sizes by (simp add: stack_consts_ok_def)
  have size: "unat (STACK_SIZE E * 2) = 2 * unat (STACK_SIZE E)"
    using sizes by (simp add: stack_consts_ok_def unat_word_ariths)
  have "unat a + 2 * unat (STACK_SIZE E) < 2 ^ 64"
    using fit by (simp add: fits_def size)
  then have top: "unat (a + STACK_SIZE E * 2) = unat a + 2 * unat (STACK_SIZE E)"
    by (simp add: unat_word_ariths size)
  let ?t = "align_down (a + STACK_SIZE E * 2) (STACK_SIZE E)"
  have "stack_top_of E a + 1 = ?t" by (simp add: stack_top_of_def)
  then show "unat (stack_top_of E a + 1) mod unat (STACK_SIZE E) = 0"
    and "unat a + unat (STACK_SIZE E) < unat (stack_top_of E a + 1)"
    and "unat (stack_top_of E a + 1) \<le> unat a + 2 * unat (STACK_SIZE E)"
    using align_down_dvd [OF p, of "a + STACK_SIZE E * 2"]
      align_down_gt [OF p, of "a + STACK_SIZE E * 2"]
      align_down_le [OF p, of "a + STACK_SIZE E * 2"] top
    by (simp_all add: dvd_eq_mod_eq_0)
qed

text \<open>The thread context lies inside the block of the stack, right below its top.\<close>

lemma thread_context_bounds:
  assumes sizes: "stack_consts_ok E" and fit: "fits (g_stack s) (STACK_SIZE E * 2)"
    and top: "g_stack_top s = stack_top_of E (g_stack s)"
  shows "unat (thread_context E s) + unat (sizeof_thread_context E) = unat (g_stack_top s)"
    and "unat (g_stack s) \<le> unat (thread_context E s)"
    and "unat (g_stack_top s) < unat (g_stack s) + 2 * unat (STACK_SIZE E)"
proof -
  note b = stack_top_bounds [OF sizes fit]
  have "stack_top_of E (g_stack s) + 1 \<noteq> 0" using b(2) by auto
  then have t: "unat (stack_top_of E (g_stack s) + 1) = Suc (unat (g_stack_top s))"
    using unatSuc [of "stack_top_of E (g_stack s)"] by (simp add: top add.commute)
  have sz: "unat (sizeof_thread_context E) < unat (STACK_SIZE E)"
    using sizes by (simp add: stack_consts_ok_def)
  have le: "sizeof_thread_context E \<le> g_stack_top s"
    using b(2) t sz by (simp add: word_le_nat_alt)
  then have tc: "unat (thread_context E s) = unat (g_stack_top s) - unat (sizeof_thread_context E)"
    by (simp add: thread_context_def unat_sub)
  show "unat (thread_context E s) + unat (sizeof_thread_context E) = unat (g_stack_top s)"
    using le by (simp add: tc word_le_nat_alt)
  show "unat (g_stack s) \<le> unat (thread_context E s)"
    using b(2) t sz by (simp add: tc)
  show "unat (g_stack_top s) < unat (g_stack s) + 2 * unat (STACK_SIZE E)"
    using b(3) t by simp
qed

section \<open>Thread local storage\<close>

lemma setup_tls_cases:
  assumes "setup_tls E s = (ret, s')"
  obtains (failed) "ret = rc E BF_ERROR_OUT_OF_MEMORY" and "g_tls s' = 0"
      and "trace s' = trace s @ [AllocRw (g_tls_size s') 0]"
  | (success) "ret = rc E BF_SUCCESS" and "g_tls s' \<noteq> 0"
      and "trace s' = trace s @ [AllocRw (g_tls_size s') (g_tls s')]"
  using assms
  by (auto simp: setup_tls_def call_defs Let_def split: prod.splits if_splits)

lemma setup_tls_frame:
  assumes "setup_tls E s = (ret, s')"
  shows "g_num_modules s' = g_num_modules s" and "g_modules s' = g_modules s"
    and "g_start s' = g_start s" and "g_num_cpus_started s' = g_num_cpus_started s"
    and "g_vmm_status s' = g_vmm_status s" and "g_stack s' = g_stack s"
    and "g_stack_size s' = g_stack_size s" and "g_stack_top s' = g_stack_top s"
    and "g_tls_size s' = THREAD_LOCAL_STORAGE_SIZE E * fst (platform_num_cpus E (machine s))"
  using assms by (auto simp: setup_tls_def call_defs Let_def split: prod.splits if_splits)

lemma setup_tls_pinned:
  "setup_tls E s = (ret, s') \<Longrightarrow> pinned s = Some False \<Longrightarrow> pinned s' = Some False"
  by (erule setup_tls_cases) (simp_all add: pinned_def run_append)

lemma setup_tls_live:
  "setup_tls E s = (ret, s') \<Longrightarrow> live_blocks s = Some b \<Longrightarrow>
   live_blocks s' = Some (block (g_tls s') (g_tls_size s') + b)"
  by (erule setup_tls_cases) (simp_all add: live_blocks_def run_append block_def)

text \<open>The storage of one CPU, as \<open>call_vmm\<close> computes its address.\<close>

definition tls_slot :: "('h, 'z) env_scheme \<Rightarrow> 'h common_state \<Rightarrow> int64 \<Rightarrow> uint64" where
  "tls_slot E s cpu = g_tls s + THREAD_LOCAL_STORAGE_SIZE E * cpu"

definition tls_ok :: "('h, 'z) env_scheme \<Rightarrow> int64 \<Rightarrow> 'h common_state \<Rightarrow> bool" where
  "tls_ok E n s \<longleftrightarrow>
     g_tls_size s = THREAD_LOCAL_STORAGE_SIZE E * n \<and>
     unat (THREAD_LOCAL_STORAGE_SIZE E) * unat n < 2 ^ 64 \<and>
     fits (g_tls s) (g_tls_size s)"

lemma tls_slot_bounds:
  assumes "tls_ok E n s" and "unat cpu < unat n"
  shows "unat (tls_slot E s cpu) = unat (g_tls s) + unat (THREAD_LOCAL_STORAGE_SIZE E) * unat cpu"
    and "unat (tls_slot E s cpu) + unat (THREAD_LOCAL_STORAGE_SIZE E) \<le>
         unat (g_tls s) + unat (g_tls_size s)"
proof -
  let ?T = "unat (THREAD_LOCAL_STORAGE_SIZE E)"
  have size: "unat (g_tls_size s) = ?T * unat n"
    using assms(1) by (simp add: tls_ok_def unat_word_ariths)
  have "?T * Suc (unat cpu) \<le> ?T * unat n"
    using assms(2) by (intro mult_le_mono2) simp
  then have le: "?T * unat cpu + ?T \<le> ?T * unat n"
    by (simp add: algebra_simps)
  have fit: "unat (g_tls s) + ?T * unat n < 2 ^ 64"
    using assms(1) unfolding tls_ok_def fits_def size by blast
  have mul: "unat (THREAD_LOCAL_STORAGE_SIZE E * cpu) = ?T * unat cpu"
    using le fit by (simp add: unat_word_ariths)
  show slot: "unat (tls_slot E s cpu) = unat (g_tls s) + ?T * unat cpu"
    unfolding tls_slot_def using le fit mul by (simp add: unat_word_ariths(1))
  show "unat (tls_slot E s cpu) + ?T \<le> unat (g_tls s) + unat (g_tls_size s)"
    using le by (simp add: slot size)
qed

lemma tls_slots_disjoint:
  assumes ok: "tls_ok E n s" and "unat i < unat n" "unat j < unat n" and "i \<noteq> j"
    and "x < unat (THREAD_LOCAL_STORAGE_SIZE E)" and "y < unat (THREAD_LOCAL_STORAGE_SIZE E)"
  shows "unat (tls_slot E s i) + x \<noteq> unat (tls_slot E s j) + y"
proof -
  let ?T = "unat (THREAD_LOCAL_STORAGE_SIZE E)"
  have neq: "unat i \<noteq> unat j" using assms(4) by (simp add: word_unat_eq_iff)
  have slots: "unat (tls_slot E s i) = unat (g_tls s) + ?T * unat i"
    "unat (tls_slot E s j) = unat (g_tls s) + ?T * unat j"
    by (rule tls_slot_bounds(1) [OF ok]; fact)+
  have "(?T * unat i + x) div ?T = unat i" "(?T * unat j + y) div ?T = unat j"
    using assms(5,6) by simp_all
  then have "?T * unat i + x \<noteq> ?T * unat j + y"
    using neq by metis
  then show ?thesis by (simp add: slots)
qed

section \<open>What the VMM finds in its thread context\<close>

definition tc_consts_ok :: "('h, 'z) env_scheme \<Rightarrow> bool" where
  "tc_consts_ok E \<longleftrightarrow>
     unat (tc_cpuid_offset E) + 8 \<le> unat (sizeof_thread_context E) \<and>
     unat (tc_tlsptr_offset E) + 8 \<le> unat (sizeof_thread_context E) \<and>
     (unat (tc_cpuid_offset E) + 8 \<le> unat (tc_tlsptr_offset E) \<or>
      unat (tc_tlsptr_offset E) + 8 \<le> unat (tc_cpuid_offset E))"

lemma write_thread_context_only: "vmm_only s (write_thread_context E cpu s)"
  by (simp add: write_thread_context_def call_defs vmm_only_def Let_def)

lemma offsets_disjoint:
  assumes "unat x + 8 \<le> unat y \<or> unat y + 8 \<le> unat x"
    and "unat x + 8 < 2 ^ 64" and "unat y + 8 < 2 ^ 64"
  shows "disjoint_blocks (a + x) 8 (a + y) 8"
  unfolding disjoint_blocks_def
proof (intro allI impI notI)
  fix i j :: nat
  assume i: "i < 8" and j: "j < 8" and "a + x + of_nat i = a + y + of_nat j"
  then have "x + of_nat i = y + of_nat j" by (simp add: add.assoc)
  then have eq: "unat (x + of_nat i) = unat (y + of_nat j)" by simp
  have "unat (x + of_nat i) = unat x + i"
    using i assms(2) by (simp add: unat_word_ariths unat_of_nat)
  moreover have "unat (y + of_nat j) = unat y + j"
    using j assms(3) by (simp add: unat_word_ariths unat_of_nat)
  ultimately show False using assms(1) eq i j by linarith
qed

lemma write_thread_context_contents:
  assumes "tc_consts_ok E" and t: "t = write_thread_context E cpu s"
  shows "load_u64 (thread_context E t + tc_cpuid_offset E) (mem (machine t)) = cpu"
    and "load_u64 (thread_context E t + tc_tlsptr_offset E) (mem (machine t)) = tls_slot E s cpu"
proof -
  have sz: "unat (sizeof_thread_context E) < 2 ^ 64"
    using unsigned_less [of "sizeof_thread_context E"] by simp
  have "disjoint_blocks (thread_context E s + tc_cpuid_offset E) 8
          (thread_context E s + tc_tlsptr_offset E) 8"
    using assms(1) sz unfolding tc_consts_ok_def by (intro offsets_disjoint) linarith+
  then show "load_u64 (thread_context E t + tc_cpuid_offset E) (mem (machine t)) = cpu"
    by (simp add: t write_thread_context_def thread_context_def call_defs Let_def
        load_store_u64_disjoint)
  show "load_u64 (thread_context E t + tc_tlsptr_offset E) (mem (machine t)) = tls_slot E s cpu"
    by (simp add: t write_thread_context_def thread_context_def call_defs Let_def tls_slot_def)
qed

end
