(* ===== verification/Driver_Invariant.thy ===== *)
theory Driver_Invariant
  imports Start_Stop Md_Pages Memory_Layout
begin

text \<open>
  The invariant of the globals of \<open>common.c\<close> and the ownership of the blocks they hold.
  For every operation: what it does to the invariant, to the preemption monitor and to
  the heap monitor. The documented behaviour of the ELF loader that the driver relies on
  is \<open>loader_ok\<close>.
\<close>

section \<open>The invariant\<close>

text \<open>\<open>bfelf_load\<close> fills in the entries of the module table in place.\<close>

definition loader_ok :: "('h, 'z) env_scheme \<Rightarrow> bool" where
  "loader_ok E \<longleftrightarrow>
     (\<forall>ms n start info loader m.
        length (fst (snd (bfelf_load E ms n start info loader m))) = length ms)"

definition env_ok :: "('h, 'z) env_scheme \<Rightarrow> bool" where
  "env_ok E \<longleftrightarrow> codes_ok E \<and> loader_ok E \<and> MAX_NUM_MODULES E < 2 ^ 63"

definition table_ok :: "('h, 'z) env_scheme \<Rightarrow> 'h common_state \<Rightarrow> bool" where
  "table_ok E s \<longleftrightarrow>
     length (g_modules s) = MAX_NUM_MODULES E \<and>
     0 \<le> sint (g_num_modules s) \<and> sint (g_num_modules s) \<le> int (MAX_NUM_MODULES E)"

definition stack_ok :: "('h, 'z) env_scheme \<Rightarrow> 'h common_state \<Rightarrow> bool" where
  "stack_ok E s \<longleftrightarrow>
     (g_stack s \<noteq> 0 \<longrightarrow>
        g_stack_size s = STACK_SIZE E * 2 \<and> g_stack_top s = stack_top_of E (g_stack s))"

definition vmm_inv :: "('h, 'z) env_scheme \<Rightarrow> 'h common_state \<Rightarrow> bool" where
  "vmm_inv E s \<longleftrightarrow>
     table_ok E s \<and> stack_ok E s \<and> pinned s = Some False \<and>
     (g_vmm_status s = VMM_LOADED \<or> g_vmm_status s = VMM_RUNNING \<longrightarrow>
        g_stack s \<noteq> 0 \<and> g_tls s \<noteq> 0 \<and> 0 < sint (g_num_modules s)) \<and>
     (g_vmm_status s = VMM_RUNNING \<longrightarrow> 0 < sint (g_num_cpus_started s))"

text \<open>An unloaded driver that holds no block.\<close>

definition clean :: "'h common_state \<Rightarrow> bool" where
  "clean s \<longleftrightarrow> (g_vmm_status s = VMM_UNLOADED \<longrightarrow> g_stack s = 0 \<and> g_tls s = 0)"

lemma env_okD: "env_ok E \<Longrightarrow> codes_ok E" "env_ok E \<Longrightarrow> loader_ok E" "env_ok E \<Longrightarrow> MAX_NUM_MODULES E < 2 ^ 63"
  by (simp_all add: env_ok_def)

text \<open>What only enters the VMM keeps everything but the preemption monitor.\<close>

lemma vmm_only_table: "vmm_only s t \<Longrightarrow> table_ok E t = table_ok E s"
  by (simp add: table_ok_def vmm_onlyD)

lemma vmm_only_stack: "vmm_only s t \<Longrightarrow> stack_ok E t = stack_ok E s"
  by (simp add: stack_ok_def vmm_onlyD)

lemma vmm_only_clean: "vmm_only s t \<Longrightarrow> clean t = clean s"
  by (simp add: clean_def vmm_onlyD)

lemma vmm_only_inv:
  "vmm_only s t \<Longrightarrow> pinned t = Some False \<Longrightarrow> vmm_inv E s \<Longrightarrow> vmm_inv E t"
  by (simp add: vmm_inv_def vmm_only_table vmm_only_stack vmm_onlyD)

lemma vmm_only_heap:
  "vmm_only s t \<Longrightarrow> live_blocks t = live_blocks s \<Longrightarrow> heap_ok R t = heap_ok R s"
  by (simp add: heap_ok_def vmm_only_held)

section \<open>Reset\<close>

definition free_events :: "bfelf_binary list \<Rightarrow> event list" where
  "free_events bs =
     map (\<lambda>b. FreeRwe (bin_exec b) (bin_exec_size b)) (filter (\<lambda>b. bin_exec b \<noteq> 0) bs)"

definition reset_events :: "'h common_state \<Rightarrow> event list" where
  "reset_events s =
     free_events (take (nat (sint (g_num_modules s))) (g_modules s)) @
     (if g_tls s \<noteq> 0 then [FreeRw (g_tls s) (g_tls_size s)] else []) @
     (if g_stack s \<noteq> 0 then [FreeRw (g_stack s) (g_stack_size s)] else [])"

lemma free_modules_only: "vmm_only s (free_modules E bs s)"
proof (induction bs arbitrary: s)
  case Nil
  then show ?case by simp
next
  case (Cons b bs)
  have "vmm_only s (if bin_exec b \<noteq> 0 then call_free_rwe E (bin_exec b) (bin_exec_size b) s else s)"
    by (simp add: call_defs vmm_only_def)
  then show ?case
    using Cons.IH by (auto intro: vmm_only_trans)
qed

lemma free_modules_trace: "trace (free_modules E bs s) = trace s @ free_events bs"
  by (induction bs arbitrary: s) (auto simp: free_events_def call_defs)

text \<open>
  After a reset the globals are those the program starts with, but for the two size
  fields, which are only meaningful next to a block.
\<close>

lemma common_reset_state:
  assumes "common_reset E s = (ret, s')"
  shows "ret = rc E BF_SUCCESS"
    and "s' = (initial_state E (machine s'))
      \<lparr>g_tls_size := g_tls_size s, g_stack_size := g_stack_size s,
       trace := trace s @ reset_events s\<rparr>"
proof -
  define f where "f = free_modules E (take (nat (sint (g_num_modules s))) (g_modules s)) s"
  note only = vmm_onlyD [OF free_modules_only [of s E "take (nat (sint (g_num_modules s))) (g_modules s)",
      folded f_def]]
  have tr: "trace f = trace s @ free_events (take (nat (sint (g_num_modules s))) (g_modules s))"
    by (simp add: f_def free_modules_trace)
  from assms show "ret = rc E BF_SUCCESS"
    by (simp add: common_reset_def Let_def)
  from assms show "s' = (initial_state E (machine s'))
      \<lparr>g_tls_size := g_tls_size s, g_stack_size := g_stack_size s,
       trace := trace s @ reset_events s\<rparr>"
    by (auto simp: common_reset_def Let_def f_def [symmetric] call_defs initial_state_def
        reset_events_def only tr)
qed

lemma common_reset_obtain:
  assumes "common_reset E s = (ret, s')"
  obtains m where "s' = (initial_state E m)
      \<lparr>g_tls_size := g_tls_size s, g_stack_size := g_stack_size s,
       trace := trace s @ reset_events s\<rparr>"
  using common_reset_state(2) [OF assms] by blast

lemma run_free_events_heap: "run heap_step (free_events bs) q = Some q"
  by (induction bs) (auto simp: free_events_def)

lemma run_free_events_preempt: "run preempt_step (free_events bs) False = Some False"
  by (induction bs) (auto simp: free_events_def)

lemma common_reset_inv:
  assumes "common_reset E s = (ret, s')" and "pinned s = Some False"
  shows "vmm_inv E s'" and "clean s'"
proof -
  obtain m where st: "s' = (initial_state E m)
      \<lparr>g_tls_size := g_tls_size s, g_stack_size := g_stack_size s,
       trace := trace s @ reset_events s\<rparr>"
    by (rule common_reset_obtain [OF assms(1)])
  have "pinned s' = Some False"
    using assms(2)
    by (simp add: pinned_def st run_append reset_events_def run_free_events_preempt)
  then show "vmm_inv E s'"
    by (simp add: vmm_inv_def table_ok_def stack_ok_def st initial_state_def zero_modules_def)
  show "clean s'"
    by (simp add: clean_def st initial_state_def)
qed

lemma common_reset_heap:
  assumes "common_reset E s = (ret, s')" and "heap_ok R s"
  shows "heap_ok R s'" and "held s' = {#}"
proof -
  obtain m where st: "s' = (initial_state E m)
      \<lparr>g_tls_size := g_tls_size s, g_stack_size := g_stack_size s,
       trace := trace s @ reset_events s\<rparr>"
    by (rule common_reset_obtain [OF assms(1)])
  show none: "held s' = {#}"
    by (simp add: held_def st initial_state_def block_def)
  have "live_blocks s = Some (held s + R)"
    using assms(2) by (simp add: heap_ok_def)
  then have "live_blocks s' = Some R"
    by (auto simp: live_blocks_def st run_append reset_events_def run_free_events_heap held_def
        block_def)
  then show "heap_ok R s'" by (simp add: heap_ok_def none)
qed

lemma initial_inv: "vmm_inv E (initial_state E m)"
  by (simp add: vmm_inv_def table_ok_def stack_ok_def initial_state_def zero_modules_def pinned_def)

lemma initial_heap: "heap_ok {#} (initial_state E m)" "clean (initial_state E m)"
  by (simp_all add: heap_ok_def live_blocks_def held_def block_def clean_def initial_state_def)

end
