(* ===== verification/Driver_Operations.thy ===== *)
theory Driver_Operations
  imports Driver_Invariant
begin

text \<open>
  Every operation of \<open>common.c\<close> keeps the invariant of \<open>Driver_Invariant\<close> and, where it
  starts from an unloaded driver that holds nothing, the ownership of its blocks. The
  case rules list the ways an operation can end; the later theories reason with them
  and not with the definitions.
\<close>

section \<open>Sequences of calls into the VMM\<close>

definition vmm_calls :: "'h common_state \<Rightarrow> 'h common_state \<Rightarrow> bool" where
  "vmm_calls s t \<longleftrightarrow>
     vmm_only s t \<and> live_blocks t = live_blocks s \<and> exec_blocks t = exec_blocks s \<and>
     (pinned s = Some False \<longrightarrow> pinned t = Some False)"

lemma vmm_calls_refl [simp, intro]: "vmm_calls s s"
  by (simp add: vmm_calls_def)

lemma vmm_calls_trans [trans]: "vmm_calls s t \<Longrightarrow> vmm_calls t u \<Longrightarrow> vmm_calls s u"
  by (auto simp: vmm_calls_def intro: vmm_only_trans)

lemma vmm_inv_pinned: "vmm_inv E s \<Longrightarrow> pinned s = Some False"
  by (simp add: vmm_inv_def)

lemma vmm_calls_inv: "vmm_calls s t \<Longrightarrow> vmm_inv E s \<Longrightarrow> vmm_inv E t"
  by (meson vmm_calls_def vmm_inv_pinned vmm_only_inv)

lemma vmm_calls_heap: "vmm_calls s t \<Longrightarrow> heap_ok R t = heap_ok R s"
  by (simp add: vmm_calls_def vmm_only_heap)

lemma vmm_calls_pinned: "vmm_calls s t \<Longrightarrow> pinned s = Some False \<Longrightarrow> pinned t = Some False"
  by (simp add: vmm_calls_def)

lemma vmm_calls_exec: "vmm_calls s t \<Longrightarrow> exec_blocks t = exec_blocks s"
  by (simp add: vmm_calls_def)

lemmas vmm_callsD = vmm_onlyD [OF vmm_calls_def [THEN iffD1, THEN conjunct1]]

lemma call_vmm_calls: "call_vmm E req a b c s = (ret, s') \<Longrightarrow> vmm_calls s s'"
  by (auto simp: vmm_calls_def intro: call_vmm_only call_vmm_live call_vmm_pinned)

lemma md_loop_calls: "md_loop E ok ty cur limit s = Some (r, s') \<Longrightarrow> vmm_calls s s'"
  by (auto simp: vmm_calls_def intro: md_loop_only md_loop_live md_loop_pinned)

lemma add_md_to_memory_manager_calls:
  "add_md_to_memory_manager E b s = Some (ret, s') \<Longrightarrow> vmm_calls s s'"
  by (auto simp: vmm_calls_def add_md_to_memory_manager_def split: option.splits
      intro: add_md_segments_only add_md_segments_pinned dest: add_md_segments_live)

lemma add_md_modules_calls:
  "add_md_modules E n i s = Some (ret, s') \<Longrightarrow> vmm_calls s s'"
  by (induction n arbitrary: i s)
    (auto split: option.splits if_splits dest!: add_md_to_memory_manager_calls intro: vmm_calls_trans)

lemma add_md_tls_calls: "add_md_tls E s = Some (r, s') \<Longrightarrow> vmm_calls s s'"
  by (auto simp: add_md_tls_def Let_def intro: md_loop_calls)

section \<open>Unload\<close>

lemma reset_status: "common_reset E s = (ret, s') \<Longrightarrow> s'\<lparr>g_vmm_status := VMM_UNLOADED\<rparr> = s'"
  by (auto elim!: common_reset_obtain simp: initial_state_def)

lemma reset_fields:
  assumes "common_reset E s = (ret, s')"
  shows "g_vmm_status s' = VMM_UNLOADED" and "g_stack s' = 0" and "g_tls s' = 0"
    and "g_num_modules s' = 0" and "g_num_cpus_started s' = 0" and "g_start s' = 0"
    and "g_modules s' = zero_modules E" and "trace s' = trace s @ reset_events s"
  using assms by (auto elim!: common_reset_obtain simp: initial_state_def)

lemma common_unload_cases:
  assumes "common_unload_vmm E s = (ret, s')"
  obtains
    (refused) "g_vmm_status s = VMM_RUNNING" and "ret = rc E BF_ERROR_VMM_INVALID_STATE" and "s' = s"
  | (corrupt) "g_vmm_status s = VMM_CORRUPT" and "ret = rc E BF_ERROR_VMM_CORRUPTED" and "s' = s"
  | (fini_failed) r t where "g_vmm_status s = VMM_LOADED"
      and "call_vmm E BF_REQUEST_FINI 0 0 0 s = (r, t)" and "r \<noteq> rc E BF_SUCCESS"
      and "ret = rc E BF_ERROR_VMM_CORRUPTED" and "s' = t\<lparr>g_vmm_status := VMM_CORRUPT\<rparr>"
  | (unloaded) "g_vmm_status s = VMM_UNLOADED" and "ret = rc E BF_SUCCESS"
      and "common_reset E s = (rc E BF_SUCCESS, s')"
  | (fini) t where "g_vmm_status s = VMM_LOADED"
      and "call_vmm E BF_REQUEST_FINI 0 0 0 s = (rc E BF_SUCCESS, t)"
      and "ret = rc E BF_SUCCESS" and "common_reset E t = (rc E BF_SUCCESS, s')"
proof -
  have reset: "ret = rc E BF_SUCCESS \<and> common_reset E t = (rc E BF_SUCCESS, s')"
    if "unload_unloaded E t = (ret, s')" for t
  proof -
    obtain r u where u: "common_reset E t = (r, u)" by force
    then show ?thesis
      using that common_reset_state(1) [OF u] reset_status [OF u]
      by (simp add: unload_unloaded_def)
  qed
  obtain r t where t: "call_vmm E BF_REQUEST_FINI 0 0 0 s = (r, t)" by force
  show thesis
  proof (cases "g_vmm_status s")
    case VMM_LOADED
    show thesis
    proof (cases "r = rc E BF_SUCCESS")
      case True
      then have "unload_unloaded E t = (ret, s')"
        using assms VMM_LOADED t by (simp add: common_unload_vmm_def common_vmm_status_def)
      from reset [OF this] show thesis
        using fini [of t] VMM_LOADED t True by simp
    next
      case False
      then show thesis
        using assms VMM_LOADED t fini_failed [of r t]
        by (simp add: common_unload_vmm_def common_vmm_status_def unload_corrupted_def)
    qed
  next
    case VMM_CORRUPT
    then have same: "s\<lparr>g_vmm_status := VMM_CORRUPT\<rparr> = s" by (cases s) simp
    have "(ret, s') = (rc E BF_ERROR_VMM_CORRUPTED, s)"
      using assms VMM_CORRUPT
      by (simp only: common_unload_vmm_def common_vmm_status_def unload_corrupted_def
          vmm_status.case same)
    then show thesis using corrupt VMM_CORRUPT by simp
  next
    case VMM_UNLOADED
    then have "unload_unloaded E s = (ret, s')"
      using assms by (simp add: common_unload_vmm_def common_vmm_status_def)
    from reset [OF this] show thesis
      using unloaded VMM_UNLOADED by simp
  next
    case VMM_RUNNING
    then show thesis
      using assms by (intro refused) (simp_all add: common_unload_vmm_def common_vmm_status_def)
  qed
qed

lemma set_corrupt_inv: "vmm_inv E t \<Longrightarrow> vmm_inv E (t\<lparr>g_vmm_status := VMM_CORRUPT\<rparr>)"
  by (simp add: vmm_inv_def table_ok_def stack_ok_def)

lemma set_status_heap: "heap_ok R (t\<lparr>g_vmm_status := v\<rparr>) = heap_ok R t"
  by (simp add: heap_ok_def held_def)

lemma common_unload_inv:
  assumes "common_unload_vmm E s = (ret, s')" and inv: "vmm_inv E s"
  shows "vmm_inv E s'"
  using assms(1)
proof (cases rule: common_unload_cases)
  case (fini_failed r t)
  then show ?thesis
    using inv by (auto intro: set_corrupt_inv vmm_calls_inv dest!: call_vmm_calls)
next
  case unloaded
  then show ?thesis using common_reset_inv(1) [OF unloaded(3) vmm_inv_pinned [OF inv]] by simp
next
  case (fini t)
  then have "pinned t = Some False"
    using inv by (auto simp: vmm_inv_def dest!: call_vmm_calls intro: vmm_calls_pinned)
  then show ?thesis by (rule common_reset_inv(1) [OF fini(4)])
qed (use inv in simp_all)

lemma common_unload_heap:
  assumes "common_unload_vmm E s = (ret, s')" and heap: "heap_ok R s"
  shows "heap_ok R s'"
  using assms(1)
proof (cases rule: common_unload_cases)
  case (fini_failed r t)
  then show ?thesis
    using heap vmm_calls_heap [OF call_vmm_calls [OF fini_failed(2)]] by (simp add: set_status_heap)
next
  case unloaded
  then show ?thesis using heap by (auto intro: common_reset_heap)
next
  case (fini t)
  then have "heap_ok R t"
    using heap vmm_calls_heap [OF call_vmm_calls [OF fini(2)]] by simp
  then show ?thesis by (rule common_reset_heap(1) [OF fini(4)])
qed (use heap in simp_all)

section \<open>Add module\<close>

lemma common_add_module_cases:
  assumes "common_add_module E addr fsize s = (ret, s')"
  obtains (refused) e where "e \<in> set error_codes" and "ret = rc E e" and "s' = s"
  | (added) i where "addr \<noteq> 0" and "fsize \<noteq> 0" and "g_vmm_status s = VMM_UNLOADED"
      and "sint (g_num_modules s) < int (MAX_NUM_MODULES E)"
      and "ret = rc E BF_SUCCESS" and "i = nat (sint (g_num_modules s))"
      and "s' = s\<lparr>g_modules := (g_modules s)
             [i := (g_modules s ! i)\<lparr>bin_file := addr, bin_file_size := fsize\<rparr>],
           g_num_modules := g_num_modules s + 1\<rparr>"
proof (cases "addr \<noteq> 0 \<and> fsize \<noteq> 0 \<and> g_vmm_status s = VMM_UNLOADED \<and>
    sint (g_num_modules s) < int (MAX_NUM_MODULES E)")
  case True
  then show thesis
    using assms
    by (intro added [of "nat (sint (g_num_modules s))"])
      (simp_all add: common_add_module_def common_vmm_status_def Let_def)
next
  case False
  then have "s' = s \<and> (\<exists>e \<in> set error_codes. ret = rc E e)"
    using assms
    by (auto simp: common_add_module_def common_vmm_status_def error_codes_def
        split: if_splits vmm_status.splits)
  then show thesis using refused by blast
qed

lemma num_modules_incr:
  assumes "env_ok E" and "sint (g_num_modules s) < int (MAX_NUM_MODULES E)"
  shows "sint (g_num_modules s + 1) = sint (g_num_modules s) + 1"
proof -
  have "sint (g_num_modules s) < sint (of_nat (MAX_NUM_MODULES E) :: int64)"
    using assms by (simp add: env_ok_def sint_of_nat_less)
  then show ?thesis by (rule sint_incr)
qed

lemma common_add_module_inv:
  assumes "common_add_module E addr fsize s = (ret, s')" and inv: "vmm_inv E s" and env: "env_ok E"
  shows "vmm_inv E s'"
  using assms(1)
proof (cases rule: common_add_module_cases)
  case (refused e)
  then show ?thesis using inv by simp
next
  case (added i)
  then show ?thesis
    using inv num_modules_incr [OF env added(4)]
    by (simp add: vmm_inv_def table_ok_def stack_ok_def)
qed

lemma common_add_module_heap:
  assumes "common_add_module E addr fsize s = (ret, s')"
  shows "heap_ok R s' = heap_ok R s" and "clean s' = clean s"
  using assms by (auto elim!: common_add_module_cases simp: heap_ok_def held_def clean_def)

end
