(* ===== verification/Driver_Load.thy ===== *)
theory Driver_Load
  imports Driver_Operations
begin

text \<open>
  \<open>common_load_vmm\<close>: the ways it can end, the invariant and the ownership of the blocks it
  allocates, the exact sequence of calls of a load that succeeds, and the cases in which
  it is known to return.
\<close>

section \<open>The part before the memory descriptors\<close>

lemma call_bfelf_load_frame:
  assumes "call_bfelf_load E s = (ret, s')"
  shows "g_num_modules s' = g_num_modules s" and "g_num_cpus_started s' = g_num_cpus_started s"
    and "g_vmm_status s' = g_vmm_status s" and "g_tls s' = g_tls s" and "g_stack s' = g_stack s"
    and "g_tls_size s' = g_tls_size s" and "g_stack_size s' = g_stack_size s"
    and "g_stack_top s' = g_stack_top s" and "trace s' = trace s @ [ElfLoad ret (placed (g_modules s) (g_modules s'))]"
  using assms by (auto simp: call_bfelf_load_def log_def split: prod.splits)

lemma call_bfelf_load_length:
  assumes "call_bfelf_load E s = (ret, s')" and "loader_ok E"
  shows "length (g_modules s') = length (g_modules s)"
proof -
  obtain ms st info loader m where
    b: "bfelf_load E (g_modules s) (g_num_modules s) (g_start s) (g_info s) (g_loader s) (machine s)
      = (ret, ms, st, info, loader, m)"
    using assms(1) by (auto simp: call_bfelf_load_def split: prod.splits)
  have "length ms = length (g_modules s)"
    using assms(2) [unfolded loader_ok_def, rule_format, of "g_modules s" "g_num_modules s"
        "g_start s" "g_info s" "g_loader s" "machine s"] b by simp
  then show ?thesis
    using assms(1) b by (auto simp: call_bfelf_load_def log_def)
qed

text \<open>
  The four steps, and where each of them can leave the sequence. In the last two cases
  both blocks are allocated.
\<close>

lemma load_setup_cases:
  assumes run: "load_setup E s = (ret, s')" and ok: "codes_ok E"
  obtains (no_stack) "ret = rc E BF_ERROR_OUT_OF_MEMORY" and "setup_stack E s = (ret, s')"
      and "g_stack s' = 0"
  | (no_tls) t where "ret = rc E BF_ERROR_OUT_OF_MEMORY" and "setup_stack E s = (rc E BF_SUCCESS, t)"
      and "setup_tls E t = (ret, s')" and "g_stack s' \<noteq> 0" and "g_tls s' = 0"
  | (not_loaded) t u where "ret \<noteq> rc E BF_SUCCESS" and "setup_stack E s = (rc E BF_SUCCESS, t)"
      and "setup_tls E t = (rc E BF_SUCCESS, u)" and "call_bfelf_load E u = (ret, s')"
      and "g_stack s' \<noteq> 0" and "g_tls s' \<noteq> 0"
  | (entered) t u v where "setup_stack E s = (rc E BF_SUCCESS, t)"
      and "setup_tls E t = (rc E BF_SUCCESS, u)" and "call_bfelf_load E u = (rc E BF_SUCCESS, v)"
      and "call_vmm E BF_REQUEST_INIT 0 0 0 v = (ret, s')"
      and "g_stack s' \<noteq> 0" and "g_tls s' \<noteq> 0"
proof -
  note nz = codes_ok_success(1) [OF ok] codes_ok_errors(2) [OF ok]
  obtain r1 t where t: "setup_stack E s = (r1, t)" by force
  obtain r2 u where u: "setup_tls E t = (r2, u)" by force
  obtain r3 v where v: "call_bfelf_load E u = (r3, v)" by force
  obtain r4 w where w: "call_vmm E BF_REQUEST_INIT 0 0 0 v = (r4, w)" by force
  note run' = run [unfolded load_setup_def t prod.case u v w]
  note keep = setup_tls_frame(6) [OF u] call_bfelf_load_frame(4,5) [OF v]
    vmm_onlyD(7,8) [OF call_vmm_only [OF w]]
  from t show thesis
  proof (cases rule: setup_stack_cases)
    case failed
    then show thesis using run' nz t no_stack by simp
  next
    case stack: success
    from u show thesis
    proof (cases rule: setup_tls_cases)
      case failed
      then show thesis using run' nz t u stack keep no_tls [of t] by simp
    next
      case tls: success
      show thesis
      proof (cases "r3 = rc E BF_SUCCESS")
        case True
        then show thesis
          using run' t u v w stack tls keep entered [of t u v] by simp
      next
        case False
        then show thesis
          using run' t u v stack tls keep not_loaded [of t u] by simp
      qed
    qed
  qed
qed

lemma load_setup_frame:
  assumes "load_setup E s = (ret, s')" and "codes_ok E"
  shows "g_num_modules s' = g_num_modules s" and "g_vmm_status s' = g_vmm_status s"
    and "g_num_cpus_started s' = g_num_cpus_started s" and "g_stack_size s' = STACK_SIZE E * 2"
  using assms
  by (cases rule: load_setup_cases; simp add: setup_stack_frame setup_tls_frame
      call_bfelf_load_frame vmm_onlyD [OF call_vmm_only])+

lemma load_setup_length:
  assumes "load_setup E s = (ret, s')" and "env_ok E"
  shows "length (g_modules s') = length (g_modules s)"
  using assms(1) env_okD(1) [OF assms(2)]
  by (cases rule: load_setup_cases)
    (simp_all add: setup_stack_frame setup_tls_frame call_bfelf_load_length [OF _ env_okD(2) [OF assms(2)]]
      vmm_onlyD [OF call_vmm_only])

lemma setup_stack_ok:
  assumes "setup_stack E s = (ret, t)"
  shows "stack_ok E t"
  using assms
  by (cases rule: setup_stack_cases) (simp_all add: stack_ok_def setup_stack_frame(8) [OF assms])

lemma setup_tls_stack_ok: "setup_tls E t = (ret, u) \<Longrightarrow> stack_ok E u = stack_ok E t"
  by (simp add: stack_ok_def setup_tls_frame)

lemma call_bfelf_load_stack_ok: "call_bfelf_load E t = (ret, u) \<Longrightarrow> stack_ok E u = stack_ok E t"
  by (simp add: stack_ok_def call_bfelf_load_frame)

lemma call_bfelf_load_pinned:
  "call_bfelf_load E t = (ret, u) \<Longrightarrow> pinned t = Some False \<Longrightarrow> pinned u = Some False"
  by (simp add: pinned_def call_bfelf_load_frame(9) run_append)

lemma call_bfelf_load_live: "call_bfelf_load E t = (ret, u) \<Longrightarrow> live_blocks u = live_blocks t"
  by (simp add: live_blocks_def call_bfelf_load_frame(9) run_append split: option.splits)

lemma load_setup_stack_ok:
  assumes "load_setup E s = (ret, s')" and "codes_ok E"
  shows "stack_ok E s'"
  using assms
  by (cases rule: load_setup_cases)
    (simp_all add: setup_stack_ok setup_tls_stack_ok call_bfelf_load_stack_ok
      vmm_only_stack [OF call_vmm_only])

lemma load_setup_pinned:
  assumes "load_setup E s = (ret, s')" and "codes_ok E" and "pinned s = Some False"
  shows "pinned s' = Some False"
  using assms
  by (cases rule: load_setup_cases)
    (simp_all add: setup_stack_pinned setup_tls_pinned call_bfelf_load_pinned call_vmm_pinned)

text \<open>From a driver that holds nothing, what is allocated is held, on every path.\<close>

lemma load_setup_heap:
  assumes run: "load_setup E s = (ret, s')" and "codes_ok E"
    and live: "live_blocks s = Some R" and none: "g_tls s = 0"
  shows "heap_ok R s'"
  using assms(1,2)
proof (cases rule: load_setup_cases)
  case no_stack
  then show ?thesis
    using setup_stack_live [OF no_stack(2) live] none
    by (simp add: heap_ok_def held_def setup_stack_frame block_def)
next
  case (no_tls t)
  then show ?thesis
    using setup_tls_live [OF no_tls(3) setup_stack_live [OF no_tls(2) live]]
    by (simp add: heap_ok_def held_def setup_tls_frame ac_simps)
next
  case (not_loaded t u)
  have "live_blocks s' = live_blocks u" by (rule call_bfelf_load_live) fact
  then show ?thesis
    using setup_tls_live [OF not_loaded(3) setup_stack_live [OF not_loaded(2) live]]
      call_bfelf_load_frame [OF not_loaded(4)]
    by (simp add: heap_ok_def held_def setup_tls_frame [OF not_loaded(3)] ac_simps)
next
  case (entered t u v)
  have "live_blocks s' = live_blocks v" by (rule call_vmm_live) fact
  then have "live_blocks s' = live_blocks u" using call_bfelf_load_live [OF entered(3)] by simp
  then show ?thesis
    using setup_tls_live [OF entered(2) setup_stack_live [OF entered(1) live]]
      call_bfelf_load_frame [OF entered(3)] vmm_only_held [OF call_vmm_only [OF entered(4)]]
    by (simp add: heap_ok_def held_def setup_tls_frame [OF entered(2)] ac_simps)
qed

text \<open>The calls of a setup that succeeds.\<close>

lemma load_setup_success:
  assumes run: "load_setup E s = (rc E BF_SUCCESS, s')" and ok: "codes_ok E"
  obtains cur where "g_stack s' \<noteq> 0" and "g_tls s' \<noteq> 0"
    and "g_tls_size s' = THREAD_LOCAL_STORAGE_SIZE E *
           fst (platform_num_cpus E (machine (snd (setup_stack E s))))"
    and "trace s' = trace s @
      [AllocRw (STACK_SIZE E * 2) (g_stack s'), AllocRw (g_tls_size s') (g_tls s'),
       ElfLoad (rc E BF_SUCCESS) (placed (g_modules s) (g_modules s')), GetCpu cur,
       VmmCall BF_REQUEST_INIT 0 0 0 (rc E BF_SUCCESS), RestorePreemption]"
  using assms
proof (cases rule: load_setup_cases)
  case (entered t u v)
  have st: "g_stack t \<noteq> 0" "trace t = trace s @ [AllocRw (STACK_SIZE E * 2) (g_stack t)]"
    using setup_stack_cases [OF entered(1)] codes_ok_success(1) [OF ok] codes_ok_errors(2) [OF ok]
    by metis+
  have tl: "g_tls u \<noteq> 0" "trace u = trace t @ [AllocRw (g_tls_size u) (g_tls u)]"
    using setup_tls_cases [OF entered(2)] codes_ok_success(1) [OF ok] codes_ok_errors(2) [OF ok]
    by metis+
  obtain cur where "trace s' = trace v @ [GetCpu cur,
      VmmCall BF_REQUEST_INIT 0 0 0 (rc E BF_SUCCESS), RestorePreemption]"
    using call_vmm_success [of E BF_REQUEST_INIT 0 0 0 v s'] entered(4) ok by auto
  then show thesis
    using st tl entered(5,6) entered(1) setup_stack_frame(2) [OF entered(1)]
      setup_tls_frame [OF entered(2)] call_bfelf_load_frame [OF entered(3)]
      vmm_onlyD [OF call_vmm_only [OF entered(4)]]
    by (intro that [of cur]) simp_all
qed (use codes_ok_success(1) [OF ok] codes_ok_errors(2) [OF ok] in simp_all)

section \<open>Loading\<close>

lemma unload_unloaded_driver:
  assumes "g_vmm_status t = VMM_UNLOADED" and "common_unload_vmm E t = (r, s')"
  shows "common_reset E t = (rc E BF_SUCCESS, s')"
  using assms(2,1) by (cases rule: common_unload_cases) simp_all

lemma load_failure_reset:
  assumes "load_failure E r t = (ret, s')" and "g_vmm_status t = VMM_UNLOADED"
  shows "ret = r" and "common_reset E t = (rc E BF_SUCCESS, s')"
proof -
  obtain q u where u: "common_unload_vmm E t = (q, u)" by force
  show "ret = r" and "common_reset E t = (rc E BF_SUCCESS, s')"
    using assms(1) unload_unloaded_driver [OF assms(2) u] u by (simp_all add: load_failure_def)
qed

lemma load_descriptors_cases:
  assumes run: "load_descriptors E t = Some (ret, s')" and st: "g_vmm_status t = VMM_UNLOADED"
  obtains
    (modules_failed) u where
      "add_md_modules E (nat (sint (g_num_modules t))) 0 t = Some (ret, u)"
      and "ret \<noteq> rc E BF_SUCCESS" and "common_reset E u = (rc E BF_SUCCESS, s')"
  | (tls_failed) u where
      "add_md_modules E (nat (sint (g_num_modules t))) 0 t = Some (rc E BF_SUCCESS, u)"
      and "add_md_tls E u = Some (Some ret, s')"
  | (loaded) u v where
      "add_md_modules E (nat (sint (g_num_modules t))) 0 t = Some (rc E BF_SUCCESS, u)"
      and "add_md_tls E u = Some (None, v)"
      and "ret = rc E BF_SUCCESS" and "s' = v\<lparr>g_vmm_status := VMM_LOADED\<rparr>"
proof -
  obtain r2 u where u: "add_md_modules E (nat (sint (g_num_modules t))) 0 t = Some (r2, u)"
    using run by (auto simp: load_descriptors_def split: option.splits)
  have stu: "g_vmm_status u = VMM_UNLOADED"
    using vmm_callsD(6) [OF add_md_modules_calls [OF u]] st by simp
  show thesis
  proof (cases "r2 = rc E BF_SUCCESS")
    case False
    then have "load_failure E r2 u = (ret, s')"
      using run u by (simp add: load_descriptors_def)
    from load_failure_reset [OF this stu] show thesis
      using modules_failed [of u] u False by simp
  next
    case r2: True
    then obtain r v where v: "add_md_tls E u = Some (r, v)"
      using run u by (auto simp: load_descriptors_def split: option.splits)
    show thesis
    proof (cases r)
      case None
      then show thesis
        using run u r2 v by (intro loaded [of u v]) (simp_all add: load_descriptors_def)
    next
      case (Some e)
      then show thesis
        using run u r2 v by (intro tls_failed [of u]) (simp_all add: load_descriptors_def)
    qed
  qed
qed

lemma common_load_cases:
  assumes run: "common_load_vmm E s = Some (ret, s')" and ok: "codes_ok E"
  obtains
    (answered) "s' = s" and "g_vmm_status s \<noteq> VMM_UNLOADED \<or> g_num_modules s = 0"
      and "ret = rc E BF_SUCCESS \<and> g_vmm_status s = VMM_LOADED \<or> sint ret < 0"
  | (setup_failed) t where "g_vmm_status s = VMM_UNLOADED" and "load_setup E s = (ret, t)"
      and "ret \<noteq> rc E BF_SUCCESS" and "common_reset E t = (rc E BF_SUCCESS, s')"
  | (descriptors) t where "g_vmm_status s = VMM_UNLOADED" and "g_num_modules s \<noteq> 0"
      and "load_setup E s = (rc E BF_SUCCESS, t)" and "g_vmm_status t = VMM_UNLOADED"
      and "load_descriptors E t = Some (ret, s')"
proof (cases "g_vmm_status s = VMM_UNLOADED \<and> g_num_modules s \<noteq> 0")
  case False
  note neg = codes_ok_error(1) [OF ok]
  have "s' = s" and "ret = rc E BF_SUCCESS \<and> g_vmm_status s = VMM_LOADED \<or> sint ret < 0"
    using run False neg
    by (auto simp: common_load_vmm_def common_vmm_status_def error_codes_def
        split: vmm_status.splits if_splits)
  with False show thesis by (intro answered) auto
next
  case True
  obtain r1 t where t: "load_setup E s = (r1, t)" by force
  have st: "g_vmm_status t = VMM_UNLOADED"
    using load_setup_frame [OF t ok] True by simp
  show thesis
  proof (cases "r1 = rc E BF_SUCCESS")
    case False
    then have "load_failure E r1 t = (ret, s')"
      using run True t by (simp add: common_load_vmm_def common_vmm_status_def)
    from load_failure_reset [OF this st] show thesis
      using setup_failed [of t] True t False by simp
  next
    case r1: True
    then have "load_descriptors E t = Some (ret, s')"
      using run True t by (simp add: common_load_vmm_def common_vmm_status_def)
    then show thesis
      using descriptors [of t] True t r1 st by simp
  qed
qed

section \<open>Invariant and ownership\<close>

lemma load_setup_inv:
  assumes run: "load_setup E s = (ret, t)" and env: "env_ok E" and inv: "vmm_inv E s"
    and st: "g_vmm_status s = VMM_UNLOADED"
  shows "vmm_inv E t"
  using load_setup_frame [OF run env_okD(1) [OF env]] load_setup_length [OF run env] inv st
    load_setup_stack_ok [OF run env_okD(1) [OF env]] load_setup_pinned [OF run env_okD(1) [OF env]]
  by (simp add: vmm_inv_def table_ok_def)

lemma common_load_inv:
  assumes run: "common_load_vmm E s = Some (ret, s')" and env: "env_ok E" and inv: "vmm_inv E s"
  shows "vmm_inv E s'"
  using run env_okD(1) [OF env]
proof (cases rule: common_load_cases)
  case answered
  then show ?thesis using inv by simp
next
  case (setup_failed t)
  have "vmm_inv E t" by (rule load_setup_inv [OF setup_failed(2) env inv setup_failed(1)])
  then show ?thesis using common_reset_inv(1) [OF setup_failed(4) vmm_inv_pinned] by blast
next
  case (descriptors t)
  have t: "vmm_inv E t" by (rule load_setup_inv [OF descriptors(3) env inv descriptors(1)])
  have n: "g_num_modules t = g_num_modules s"
    using load_setup_frame(1) [OF descriptors(3) env_okD(1) [OF env]] .
  have blocks: "g_stack t \<noteq> 0" "g_tls t \<noteq> 0"
    by (rule load_setup_success [OF descriptors(3) env_okD(1) [OF env]], assumption)+
  from descriptors(5,4) show ?thesis
  proof (cases rule: load_descriptors_cases)
    case (modules_failed u)
    then have "vmm_inv E u" using t by (blast intro: vmm_calls_inv add_md_modules_calls)
    then show ?thesis using common_reset_inv(1) [OF modules_failed(3) vmm_inv_pinned] by blast
  next
    case (tls_failed u)
    then show ?thesis using t by (blast intro: vmm_calls_inv add_md_modules_calls add_md_tls_calls)
  next
    case (loaded u v)
    have c: "vmm_calls t v"
      using loaded(1,2) by (blast intro: vmm_calls_trans add_md_modules_calls add_md_tls_calls)
    have "0 \<le> sint (g_num_modules s)"
      using inv by (simp add: vmm_inv_def table_ok_def)
    moreover have "sint (g_num_modules s) \<noteq> 0"
      using descriptors(2) by (metis signed_0 signed_word_eqI)
    ultimately have "0 < sint (g_num_modules s)" by simp
    then show ?thesis
      using vmm_calls_inv [OF c t] vmm_callsD [OF c] blocks n loaded(4)
      by (simp add: vmm_inv_def table_ok_def stack_ok_def)
  qed
qed

lemma clean_unloaded:
  assumes "clean s" and "g_vmm_status s = VMM_UNLOADED" and "heap_ok R s"
  shows "live_blocks s = Some R" and "g_stack s = 0" and "g_tls s = 0"
  using assms by (simp_all add: clean_def heap_ok_def held_def block_def)

text \<open>
  From a clean driver a load keeps the ownership of its blocks, whatever it returns, and
  leaves a clean driver unless the VMM refuses a descriptor of the thread local storage.
\<close>

lemma common_load_heap:
  assumes run: "common_load_vmm E s = Some (ret, s')" and env: "env_ok E"
    and heap: "heap_ok R s" and start: "clean s"
  shows "heap_ok R s'"
  using run env_okD(1) [OF env]
proof (cases rule: common_load_cases)
  case answered
  then show ?thesis using heap by simp
next
  case (setup_failed t)
  note s = clean_unloaded [OF start setup_failed(1) heap]
  have "heap_ok R t"
    by (rule load_setup_heap [OF setup_failed(2) env_okD(1) [OF env] s(1,3)])
  then show ?thesis using common_reset_heap(1) [OF setup_failed(4)] by blast
next
  case (descriptors t)
  note s = clean_unloaded [OF start descriptors(1) heap]
  have t: "heap_ok R t"
    by (rule load_setup_heap [OF descriptors(3) env_okD(1) [OF env] s(1,3)])
  from descriptors(5,4) show ?thesis
  proof (cases rule: load_descriptors_cases)
    case (modules_failed u)
    have "heap_ok R u" using vmm_calls_heap [OF add_md_modules_calls [OF modules_failed(1)]] t by simp
    then show ?thesis using common_reset_heap(1) [OF modules_failed(3)] by blast
  next
    case (tls_failed u)
    then show ?thesis
      using vmm_calls_heap [OF add_md_modules_calls [OF tls_failed(1)]]
        vmm_calls_heap [OF add_md_tls_calls [OF tls_failed(2)]] t by simp
  next
    case (loaded u v)
    then show ?thesis
      using vmm_calls_heap [OF add_md_modules_calls [OF loaded(1)]]
        vmm_calls_heap [OF add_md_tls_calls [OF loaded(2)]] t by (simp add: set_status_heap)
  qed
qed

section \<open>A load that succeeds\<close>

text \<open>The descriptors of the thread local storage, and of the first \<open>n\<close> modules.\<close>

definition tls_mds :: "('h, 'z) env_scheme \<Rightarrow> 'h common_state \<Rightarrow> (uint64 \<times> uint64) list" where
  "tls_mds E s =
     map (\<lambda>v. (v, MEMORY_TYPE_R E OR MEMORY_TYPE_W E))
       (page_range (MAX_PAGE_SIZE E) (g_tls s) (g_tls s + g_tls_size s))"

definition modules_mds :: "('h, 'z) env_scheme \<Rightarrow> 'h common_state \<Rightarrow> (uint64 \<times> uint64) list" where
  "modules_mds E s =
     concat (map (module_mds E) (take (nat (sint (g_num_modules s))) (g_modules s)))"

text \<open>No range of pages reaches the end of the address space.\<close>

definition load_fits :: "('h, 'z) env_scheme \<Rightarrow> 'h common_state \<Rightarrow> bool" where
  "load_fits E s \<longleftrightarrow>
     list_all (module_fits E) (take (nat (sint (g_num_modules s))) (g_modules s)) \<and>
     no_wrap (MAX_PAGE_SIZE E) (g_tls s + g_tls_size s)"

lemma add_md_modules_returns:
  assumes "\<forall>j<n. module_fits E (g_modules s ! (i + j))"
  shows "\<exists>ret s'. add_md_modules E n i s = Some (ret, s')"
  using assms
proof (induction n arbitrary: i s)
  case 0
  then show ?case by simp
next
  case (Suc n)
  have "module_fits E (g_modules s ! i)" using Suc.prems by force
  then obtain r t where t: "add_md_to_memory_manager E (Some (g_modules s ! i)) s = Some (r, t)"
    using add_md_segments_returns [of "unat (bfelf_file_get_num_load_instrs E (bin_ef (g_modules s ! i)))"
        E "g_modules s ! i" 0 s]
    by (auto simp: add_md_to_memory_manager_def module_fits_def)
  have "g_modules t = g_modules s"
    by (rule vmm_callsD(2) [OF add_md_to_memory_manager_calls [OF t]])
  then have "\<exists>ret s'. add_md_modules E n (Suc i) t = Some (ret, s')"
    using Suc.prems by (intro Suc.IH) (simp flip: add_Suc_right)
  then show ?case by (simp add: t)
qed

lemma add_md_modules_sends:
  assumes "add_md_modules E n i s = Some (0, s')" and ok: "codes_ok E"
    and "\<forall>j<n. module_fits E (g_modules s ! (i + j))"
  shows "\<exists>evs. trace s' = trace s @ evs \<and>
    md_acks (addr_of_md E) (concat (map (\<lambda>j. module_mds E (g_modules s ! (i + j))) [0..<n])) evs"
  using assms(1,3)
proof (induction n arbitrary: i s)
  case 0
  then show ?case by auto
next
  case (Suc n)
  let ?m = "g_modules s ! i"
  have fit: "module_fits E ?m" using Suc.prems(2) by force
  obtain t where t: "add_md_to_memory_manager E (Some ?m) s = Some (0, t)"
    and rest: "add_md_modules E n (Suc i) t = Some (0, s')"
    using Suc.prems(1) codes_ok_success(1) [OF ok] by (auto split: option.splits if_splits)
  have same: "g_modules t = g_modules s"
    by (rule vmm_callsD(2) [OF add_md_to_memory_manager_calls [OF t]])
  obtain e1 where e1: "trace t = trace s @ e1" "md_acks (addr_of_md E) (module_mds E ?m) e1"
    using add_md_segments_sends [of E ?m _ 0 s t] t fit ok
    by (auto simp: add_md_to_memory_manager_def module_fits_def module_mds_def)
  obtain e2 where e2: "trace s' = trace t @ e2"
    "md_acks (addr_of_md E) (concat (map (\<lambda>j. module_mds E (g_modules s ! (Suc i + j))) [0..<n])) e2"
    using Suc.IH [OF rest] Suc.prems(2) unfolding same by (fastforce simp flip: add_Suc_right)
  have "concat (map (\<lambda>j. module_mds E (g_modules s ! (i + j))) [0..<Suc n])
    = module_mds E ?m @ concat (map (\<lambda>j. module_mds E (g_modules s ! (Suc i + j))) [0..<n])"
    by (simp add: upt_conv_Cons map_Suc_upt [symmetric] comp_def del: upt_Suc)
  then show ?case
    using e1 e2 md_acks_append [OF e1(2) e2(2)] by auto
qed

lemma modules_list:
  assumes "n \<le> length xs"
  shows "map (\<lambda>j. f (xs ! (0 + j))) [0..<n] = map f (take n xs)"
  using assms by (intro nth_equalityI) simp_all

lemma table_length:
  "table_ok E s \<Longrightarrow> nat (sint (g_num_modules s)) \<le> length (g_modules s)"
  by (simp add: table_ok_def nat_le_iff)

lemma load_descriptors_returns:
  assumes table: "table_ok E t" and fit: "load_fits E t"
  shows "\<exists>ret s'. load_descriptors E t = Some (ret, s')"
proof -
  let ?n = "nat (sint (g_num_modules t))"
  have "\<forall>j<?n. module_fits E (g_modules t ! (0 + j))"
    using fit table_length [OF table] by (simp add: load_fits_def list_all_length)
  then obtain r u where u: "add_md_modules E ?n 0 t = Some (r, u)"
    using add_md_modules_returns [of ?n E t 0] by blast
  have "g_tls u = g_tls t" "g_tls_size u = g_tls_size t"
    by (rule vmm_callsD [OF add_md_modules_calls [OF u]])+
  then have "no_wrap (MAX_PAGE_SIZE E) (g_tls u + g_tls_size u)"
    using fit by (simp add: load_fits_def)
  then obtain q v where "add_md_tls E u = Some (q, v)"
    unfolding add_md_tls_def Let_def using md_loop_returns by metis
  with u show ?thesis
    by (cases q; cases "r = rc E BF_SUCCESS") (simp_all add: load_descriptors_def)
qed

lemma load_descriptors_success:
  assumes run: "load_descriptors E t = Some (rc E BF_SUCCESS, s')" and ok: "codes_ok E"
    and st: "g_vmm_status t = VMM_UNLOADED" and table: "table_ok E t" and fit: "load_fits E t"
  shows "\<exists>evs v. s' = v\<lparr>g_vmm_status := VMM_LOADED\<rparr> \<and> vmm_only t v \<and> trace v = trace t @ evs \<and>
    md_acks (addr_of_md E) (modules_mds E t @ tls_mds E t) evs"
  using run st
proof (cases rule: load_descriptors_cases)
  case (tls_failed u)
  then show ?thesis
    unfolding add_md_tls_def Let_def by (blast dest: md_loop_error)
next
  case (loaded u v)
  let ?n = "nat (sint (g_num_modules t))"
  note zero = codes_ok_success(1) [OF ok]
  have len: "?n \<le> length (g_modules t)" by (rule table_length [OF table])
  have "\<forall>j<?n. module_fits E (g_modules t ! (0 + j))"
    using fit len by (simp add: load_fits_def list_all_length)
  from add_md_modules_sends [OF loaded(1) [unfolded zero] ok this]
  obtain e1 where e1: "trace u = trace t @ e1" "md_acks (addr_of_md E) (modules_mds E t) e1"
    unfolding modules_list [OF len] modules_mds_def by blast
  have keep: "g_tls u = g_tls t" "g_tls_size u = g_tls_size t"
    by (rule vmm_callsD [OF add_md_modules_calls [OF loaded(1)]])+
  have "no_wrap (MAX_PAGE_SIZE E) (g_tls u + g_tls_size u)"
    using fit by (simp add: load_fits_def keep)
  from md_loop_sends [OF loaded(2) [unfolded add_md_tls_def Let_def] ok zero this]
  obtain e2 where e2: "trace v = trace u @ e2" "md_acks (addr_of_md E) (tls_mds E t) e2"
    unfolding tls_mds_def keep by blast
  have "vmm_calls t v"
    using loaded(1,2) by (blast intro: vmm_calls_trans add_md_modules_calls add_md_tls_calls)
  then show ?thesis
    using loaded(4) e1 e2 md_acks_append [OF e1(2) e2(2)] by (auto simp: vmm_calls_def)
next
  case modules_failed
  then show ?thesis by simp
qed

lemma load_answers_loaded:
  assumes "load_descriptors E t = Some (rc E BF_SUCCESS, s')" and "g_vmm_status t = VMM_UNLOADED"
  shows "g_vmm_status s' = VMM_LOADED"
  using assms
proof (cases rule: load_descriptors_cases)
  case (tls_failed u)
  then show ?thesis unfolding add_md_tls_def Let_def by (blast dest: md_loop_error)
qed simp_all

text \<open>The status a load leaves is loaded exactly if it returns success.\<close>

lemma common_load_success_status:
  assumes run: "common_load_vmm E s = Some (ret, s')" and ok: "codes_ok E"
  shows "ret = rc E BF_SUCCESS \<Longrightarrow> g_vmm_status s' = VMM_LOADED"
    and "ret \<noteq> rc E BF_SUCCESS \<Longrightarrow> g_vmm_status s' = g_vmm_status s \<and> g_vmm_status s \<noteq> VMM_LOADED"
proof -
  show "g_vmm_status s' = VMM_LOADED" if "ret = rc E BF_SUCCESS"
    using run ok
  proof (cases rule: common_load_cases)
    case answered
    then show ?thesis using that codes_ok_success(1) [OF ok] by simp
  next
    case (descriptors t)
    then show ?thesis using that load_answers_loaded by blast
  qed (use that in simp)
  show "g_vmm_status s' = g_vmm_status s \<and> g_vmm_status s \<noteq> VMM_LOADED"
    if ne: "ret \<noteq> rc E BF_SUCCESS"
    using run ok
  proof (cases rule: common_load_cases)
    case answered
    have "g_vmm_status s \<noteq> VMM_LOADED"
      using run ne by (auto simp: common_load_vmm_def common_vmm_status_def)
    then show ?thesis using answered by simp
  next
    case (setup_failed t)
    then show ?thesis using reset_fields(1) [OF setup_failed(4)] by simp
  next
    case (descriptors t)
    from descriptors(5,4) show ?thesis
    proof (cases rule: load_descriptors_cases)
      case (modules_failed u)
      then show ?thesis using reset_fields(1) [OF modules_failed(3)] descriptors(1) by simp
    next
      case (tls_failed u)
      then show ?thesis
        using vmm_callsD(6) [OF add_md_modules_calls [OF tls_failed(1)]]
          vmm_callsD(6) [OF add_md_tls_calls [OF tls_failed(2)]] descriptors(1,4) by simp
    qed (use ne in simp)
  qed
qed

end
