(* ===== verification/Driver_Start.thy ===== *)
theory Driver_Start
  imports Driver_Operations
begin

text \<open>
  \<open>common_start_vmm\<close> and \<open>common_stop_vmm\<close> as a whole. Both are summarised by one rule
  each: a number of complete rounds, then one of a few ways to end. The invariant, the
  ownership of the blocks and the exact sequences of calls all follow from the two
  summaries.
\<close>

section \<open>Neutral events and rounds\<close>

text \<open>Events that keep the thread unpinned and the heap as it is.\<close>

definition neutral :: "event list \<Rightarrow> bool" where
  "neutral evs \<longleftrightarrow>
     run preempt_step evs False = Some False \<and> (\<forall>q. run heap_step evs q = Some q) \<and>
     (\<forall>q. run exec_step evs q = Some q)"

lemma neutral_Nil [simp]: "neutral []"
  by (simp add: neutral_def)

lemma neutral_append: "neutral xs \<Longrightarrow> neutral ys \<Longrightarrow> neutral (xs @ ys)"
  by (simp add: neutral_def run_append)

lemma neutral_affinity [simp]: "neutral [SetAffinity c a]"
  by (simp add: neutral_def)

lemma neutral_stop_round [simp]: "neutral (stop_round E c a cur)"
  by (simp add: neutral_def stop_round_def)

lemma neutral_start_round [simp]: "neutral (start_round E c a cur)"
  by (simp add: neutral_def start_round_def)

lemma neutral_vmm_call: "vmm_call_events E req a r evs \<Longrightarrow> neutral evs"
  by (auto simp: neutral_def vmm_call_events_def)

lemma neutral_calls:
  assumes "vmm_only s t" and "trace t = trace s @ evs" and "neutral evs"
  shows "vmm_calls s t"
  using assms
  by (auto simp: vmm_calls_def neutral_def pinned_def live_blocks_def exec_blocks_def run_append split: option.splits)

text \<open>The rounds on a list of CPUs, in order, each with an affinity that was granted.\<close>

fun rounds ::
  "(int64 \<Rightarrow> int64 \<Rightarrow> int64 \<Rightarrow> event list) \<Rightarrow> int64 list \<Rightarrow> event list \<Rightarrow> bool" where
  "rounds r [] evs \<longleftrightarrow> evs = []"
| "rounds r (c # cs) evs \<longleftrightarrow>
     (\<exists>aff cur rest. 0 \<le> sint aff \<and> evs = r c aff cur @ rest \<and> rounds r cs rest)"

lemma neutral_rounds:
  "rounds r cs evs \<Longrightarrow> (\<And>c a cur. neutral (r c a cur)) \<Longrightarrow> neutral evs"
  by (induction r cs evs rule: rounds.induct) (auto intro: neutral_append)

lemmas neutral_stop_rounds = neutral_rounds [OF _ neutral_stop_round]

lemmas neutral_start_rounds = neutral_rounds [OF _ neutral_start_round]

text \<open>CPUs \<open>n - 1\<close> down to \<open>k\<close>, and \<open>i\<close> up to \<open>k - 1\<close>.\<close>

definition cpus_down :: "nat \<Rightarrow> nat \<Rightarrow> int64 list" where
  "cpus_down n k = map of_nat (rev [k..<n])"

definition cpus_up :: "nat \<Rightarrow> nat \<Rightarrow> int64 list" where
  "cpus_up i k = map of_nat [i..<k]"

lemma cpus_down_empty [simp]: "cpus_down n n = []"
  by (simp add: cpus_down_def)

lemma cpus_up_empty [simp]: "cpus_up n n = []"
  by (simp add: cpus_up_def)

lemma cpus_down_Suc: "k \<le> n \<Longrightarrow> cpus_down (Suc n) k = of_nat n # cpus_down n k"
  by (simp add: cpus_down_def)

lemma cpus_up_step: "i < k \<Longrightarrow> cpus_up i k = of_nat i # cpus_up (Suc i) k"
  by (simp add: cpus_up_def upt_conv_Cons)

section \<open>Stopping\<close>

text \<open>
  The calls of a round that fails on the CPU \<open>c\<close> with the code \<open>r\<close>: the platform refuses the
  affinity, or the VMM answers the request with an error; and a stop that the VMM refuses.
\<close>

definition failed_start :: "('h, 'z) env_scheme \<Rightarrow> int64 \<Rightarrow> int64 \<Rightarrow> event list \<Rightarrow> bool" where
  "failed_start E c r evs \<longleftrightarrow>
     sint r < 0 \<and> evs = [SetAffinity c r] \<or>
     (\<exists>aff vs. 0 \<le> sint aff \<and> evs = SetAffinity c aff # vs \<and>
        vmm_call_events E BF_REQUEST_VMM_INIT c r vs)"

definition failed_stop :: "('h, 'z) env_scheme \<Rightarrow> int64 \<Rightarrow> int64 \<Rightarrow> event list \<Rightarrow> bool" where
  "failed_stop E c r evs \<longleftrightarrow>
     sint r < 0 \<and> evs = [SetAffinity c r] \<or>
     (\<exists>aff vs. 0 \<le> sint aff \<and> evs = SetAffinity c aff # Vmcall (VMCALL_STOP E) 0 # vs \<and>
        vmm_call_events E BF_REQUEST_VMM_FINI c r vs)"

definition refused_stop :: "('h, 'z) env_scheme \<Rightarrow> int64 \<Rightarrow> event list \<Rightarrow> bool" where
  "refused_stop E c evs \<longleftrightarrow>
     (\<exists>aff x. 0 \<le> sint aff \<and> x \<noteq> 0 \<and> evs = [SetAffinity c aff, Vmcall (VMCALL_STOP E) x])"

text \<open>
  How the stop loop ends: after the last CPU, at a \<open>vmcall\<close> that the VMM refuses, or at
  an affinity or a VMM call that fails, which marks the VMM as corrupt.
\<close>

inductive stop_end ::
  "('h, 'z) env_scheme \<Rightarrow> nat \<Rightarrow> 'h common_state \<Rightarrow> int64 \<Rightarrow> 'h common_state \<Rightarrow> bool"
  for E :: "('h, 'z) env_scheme"
where
  stopped: "stop_end E 0 t (rc E BF_SUCCESS) (t\<lparr>g_vmm_status := VMM_LOADED\<rparr>)"
| refused: "vmm_only t s' \<Longrightarrow> trace s' = trace t @ evs \<Longrightarrow> neutral evs \<Longrightarrow>
    refused_stop E (of_nat k) evs \<Longrightarrow> stop_end E (Suc k) t (rc E ENTRY_ERROR_VMM_STOP_FAILED) s'"
| corrupted: "vmm_only t u \<Longrightarrow> trace u = trace t @ evs \<Longrightarrow> neutral evs \<Longrightarrow> ret \<noteq> rc E BF_SUCCESS \<Longrightarrow>
    failed_stop E (of_nat k) ret evs \<Longrightarrow> stop_end E (Suc k) t ret (u\<lparr>g_vmm_status := VMM_CORRUPT\<rparr>)"

inductive_cases stop_endE: "stop_end E k t ret s'"
inductive_simps stop_end_0: "stop_end E 0 t ret s'"

lemma of_nat_Suc_minus_1: "of_nat (Suc n) - 1 = (of_nat n :: int64)"
  by simp

lemma stop_loop_summary:
  assumes "stop_loop E n regs s = (ret, s')" and ok: "codes_ok E"
    and "g_num_cpus_started s = of_nat n"
  shows "\<exists>k t evs. k \<le> n \<and> vmm_only (s\<lparr>g_num_cpus_started := of_nat k\<rparr>) t \<and>
    trace t = trace s @ evs \<and> rounds (stop_round E) (cpus_down n k) evs \<and> stop_end E k t ret s'"
  using assms(1,3)
proof (induction n arbitrary: regs s)
  case 0
  then show ?case
    by (intro exI [of _ 0] exI [of _ s] exI [of _ "[]"]) (auto simp: stop_end_0 vmm_only_def)
next
  case (Suc n)
  have same: "s\<lparr>g_num_cpus_started := of_nat (Suc n)\<rparr> = s"
    using Suc.prems(2) by (cases s) simp
  have here: ?case if "stop_end E (Suc n) s ret s'"
    using that same by (intro exI [of _ "Suc n"] exI [of _ s] exI [of _ "[]"]) auto
  note zero = codes_ok_success [OF ok]
  from Suc.prems(1) ok show ?case
  proof (cases rule: stop_loop_Suc_cases)
    case (affinity t)
    then have "ret \<noteq> rc E BF_SUCCESS" using zero(1) by auto
    then show ?thesis
      using affinity stop_end.corrupted [of s t "[SetAffinity (of_nat n) ret]" ret E n]
      by (intro here) (simp add: failed_stop_def)
  next
    case (vmcall aff x)
    have "neutral [SetAffinity (of_nat n) aff, Vmcall (VMCALL_STOP E) x]"
      by (simp add: neutral_def)
    moreover have "refused_stop E (of_nat n) [SetAffinity (of_nat n) aff, Vmcall (VMCALL_STOP E) x]"
      using vmcall(3,4) by (simp add: refused_stop_def)
    ultimately show ?thesis
      using vmcall(1) stop_end.refused [OF vmcall(2,5)] by (intro here) simp
  next
    case (fini aff evs t)
    have "neutral ([SetAffinity (of_nat n) aff, Vmcall (VMCALL_STOP E) 0] @ evs)"
      by (rule neutral_append [OF _ neutral_vmm_call [OF fini(4)]]) (simp add: neutral_def)
    moreover have "ret \<noteq> rc E BF_SUCCESS" using fini(1) zero by simp
    moreover have "failed_stop E (of_nat n) ret ([SetAffinity (of_nat n) aff, Vmcall (VMCALL_STOP E) 0] @ evs)"
      using fini(3,4) by (auto simp: failed_stop_def)
    ultimately show ?thesis
      using fini(6) stop_end.corrupted [OF fini(2,5)] by (intro here) simp
  next
    case (again aff cur regs' t)
    have "g_num_cpus_started t = of_nat n"
      using vmm_onlyD(5) [OF again(2)] Suc.prems(2) by simp
    from Suc.IH [OF again(4) this]
    obtain k u evs where u: "k \<le> n" "vmm_only (t\<lparr>g_num_cpus_started := of_nat k\<rparr>) u"
      "trace u = trace t @ evs" "rounds (stop_round E) (cpus_down n k) evs" "stop_end E k u ret s'"
      by blast
    have "vmm_only (s\<lparr>g_num_cpus_started := of_nat k\<rparr>) u"
      using again(2) u(2) by (cases s; cases t; cases u) (simp add: vmm_only_def)
    then show ?thesis
      using u again(1,3) cpus_down_Suc [OF u(1)]
      by (intro exI [of _ k] exI [of _ u] exI [of _ "stop_round E (of_nat n) aff cur @ evs"]) auto
  qed
qed

text \<open>The counter of started CPUs as a natural number.\<close>

lemma nat_sint_less: "nat (sint (x :: int64)) < 2 ^ 63"
  using sint_less_max [of x] by (cases "0 \<le> sint x") (simp_all add: nat_less_iff)

lemma of_nat_sint: "0 \<le> sint (x :: int64) \<Longrightarrow> of_nat (nat (sint x)) = x"
  by (rule signed_word_eqI) (simp add: sint_of_nat_less [OF nat_sint_less])

lemma running_started:
  assumes "vmm_inv E s" and "g_vmm_status s = VMM_RUNNING"
  shows "g_num_cpus_started s = of_nat (nat (sint (g_num_cpus_started s)))"
    and "0 < nat (sint (g_num_cpus_started s))"
proof -
  have "0 < sint (g_num_cpus_started s)"
    using assms by (simp add: vmm_inv_def)
  then show "g_num_cpus_started s = of_nat (nat (sint (g_num_cpus_started s)))"
    and "0 < nat (sint (g_num_cpus_started s))"
    by (simp_all add: of_nat_sint)
qed

lemma common_stop_cases:
  assumes run: "common_stop_vmm E s = (ret, s')" and ok: "codes_ok E"
    and started: "g_num_cpus_started s = of_nat (nat (sint (g_num_cpus_started s)))"
  obtains
    (answered) "s' = s" and "g_vmm_status s \<noteq> VMM_RUNNING"
      and "ret = rc E BF_SUCCESS \<and> g_vmm_status s = VMM_LOADED \<or> sint ret < 0"
  | (ran) k t evs where "g_vmm_status s = VMM_RUNNING" and "k \<le> nat (sint (g_num_cpus_started s))"
      and "vmm_only (s\<lparr>g_num_cpus_started := of_nat k\<rparr>) t" and "trace t = trace s @ evs"
      and "rounds (stop_round E) (cpus_down (nat (sint (g_num_cpus_started s))) k) evs"
      and "stop_end E k t ret s'"
proof (cases "g_vmm_status s = VMM_RUNNING")
  case False
  note neg = codes_ok_error(1) [OF ok]
  have "s' = s" and "ret = rc E BF_SUCCESS \<and> g_vmm_status s = VMM_LOADED \<or> sint ret < 0"
    using run False neg
    by (auto simp: common_stop_vmm_def common_vmm_status_def error_codes_def
        split: vmm_status.splits if_splits)
  with False show thesis by (intro answered) auto
next
  case True
  have "stop_loop E (nat (sint (g_num_cpus_started s))) (uninit_regs E) s = (ret, s')"
    using run True by (simp add: common_stop_vmm_def common_vmm_status_def)
  from stop_loop_summary [OF this ok started] show thesis
    using ran True by blast
qed

text \<open>
  The invariant but for what it says of the counter, as it holds between two rounds.
\<close>

definition between_rounds :: "('h, 'z) env_scheme \<Rightarrow> 'h common_state \<Rightarrow> bool" where
  "between_rounds E s \<longleftrightarrow>
     table_ok E s \<and> stack_ok E s \<and> pinned s = Some False \<and>
     g_stack s \<noteq> 0 \<and> g_tls s \<noteq> 0 \<and> 0 < sint (g_num_modules s)"

lemma inv_between:
  "vmm_inv E s \<Longrightarrow> g_vmm_status s = VMM_LOADED \<or> g_vmm_status s = VMM_RUNNING \<Longrightarrow> between_rounds E s"
  by (auto simp: vmm_inv_def between_rounds_def)

lemma between_inv:
  "between_rounds E s \<Longrightarrow> g_vmm_status s = VMM_RUNNING \<longrightarrow> 0 < sint (g_num_cpus_started s) \<Longrightarrow>
   vmm_inv E s"
  by (simp add: vmm_inv_def between_rounds_def)

lemma between_calls: "vmm_calls s t \<Longrightarrow> between_rounds E s \<Longrightarrow> between_rounds E t"
  using vmm_only_table [of s t E] vmm_only_stack [of s t E] vmm_onlyD [of s t]
  by (simp add: between_rounds_def vmm_calls_def)

lemma between_update:
  "between_rounds E (s\<lparr>g_num_cpus_started := n\<rparr>) = between_rounds E s"
  "between_rounds E (s\<lparr>g_vmm_status := v\<rparr>) = between_rounds E s"
  by (simp_all add: between_rounds_def table_ok_def stack_ok_def)

lemma heap_update:
  "heap_ok R (s\<lparr>g_num_cpus_started := n\<rparr>) = heap_ok R s"
  by (simp add: heap_ok_def held_def)

lemma stop_end_inv:
  assumes "stop_end E k t ret s'" and "between_rounds E t"
    and "g_vmm_status t = VMM_RUNNING" and "0 < k \<longrightarrow> 0 < sint (g_num_cpus_started t)"
  shows "vmm_inv E s'"
  using assms
proof (cases rule: stop_end.cases)
  case stopped
  then show ?thesis using assms(2) by (intro between_inv) (simp_all add: between_update)
next
  case (refused evs j)
  then show ?thesis
    using assms(2,4) between_calls [OF neutral_calls [OF refused(3-5)]] vmm_onlyD(5) [OF refused(3)]
    by (intro between_inv) simp_all
next
  case (corrupted u evs j)
  then show ?thesis
    using assms(2) between_calls [OF neutral_calls [OF corrupted(3-5)]]
    by (intro between_inv) (simp_all add: between_update)
qed

lemma stop_end_heap:
  assumes "stop_end E k t ret s'"
  shows "heap_ok R s' = heap_ok R t" and "g_stack s' = g_stack t" and "g_tls s' = g_tls t"
    and "g_vmm_status t = VMM_RUNNING \<Longrightarrow> g_vmm_status s' \<noteq> VMM_UNLOADED"
  using assms
  by (auto elim!: stop_endE simp: set_status_heap vmm_calls_heap [OF neutral_calls] vmm_onlyD)

lemma sint_of_nat_le: "k \<le> nat (sint (x :: int64)) \<Longrightarrow> sint (of_nat k :: int64) = int k"
  using nat_sint_less [of x] by (intro sint_of_nat_less) simp

lemma common_stop_inv:
  assumes run: "common_stop_vmm E s = (ret, s')" and env: "env_ok E" and inv: "vmm_inv E s"
  shows "vmm_inv E s'"
proof (cases "g_vmm_status s = VMM_RUNNING")
  case False
  then show ?thesis
    using run inv
    by (auto simp: common_stop_vmm_def common_vmm_status_def split: vmm_status.splits)
next
  case True
  from run env_okD(1) [OF env] running_started(1) [OF inv True] show ?thesis
  proof (cases rule: common_stop_cases)
    case answered
    then show ?thesis using inv by simp
  next
    case (ran k t evs)
    have "between_rounds E (s\<lparr>g_num_cpus_started := of_nat k\<rparr>)"
      using inv_between [OF inv] True by (simp add: between_update)
    then have "between_rounds E t"
      by (rule between_calls [OF neutral_calls [OF ran(3) _ neutral_stop_rounds [OF ran(5)]], rotated])
        (simp add: ran(4))
    then show ?thesis
      using vmm_onlyD(5,6) [OF ran(3)] ran(1) sint_of_nat_le [OF ran(2)]
      by (intro stop_end_inv [OF ran(6)]) simp_all
  qed
qed

lemma common_stop_heap:
  assumes run: "common_stop_vmm E s = (ret, s')" and env: "env_ok E" and inv: "vmm_inv E s"
  shows "heap_ok R s' = heap_ok R s" and "clean s \<Longrightarrow> clean s'"
proof -
  have *: "heap_ok R s' = heap_ok R s \<and> (clean s \<longrightarrow> clean s')"
  proof (cases "g_vmm_status s = VMM_RUNNING")
    case False
    then show ?thesis
      using run inv
      by (auto simp: common_stop_vmm_def common_vmm_status_def split: vmm_status.splits)
  next
    case True
    from run env_okD(1) [OF env] running_started(1) [OF inv True] show ?thesis
    proof (cases rule: common_stop_cases)
      case answered
      then show ?thesis by simp
    next
      case (ran k t evs)
      have "vmm_calls (s\<lparr>g_num_cpus_started := of_nat k\<rparr>) t"
        using neutral_calls [OF ran(3) _ neutral_stop_rounds [OF ran(5)]] ran(4) by simp
      then have "heap_ok R t = heap_ok R s"
        by (simp add: vmm_calls_heap heap_update)
      then show ?thesis
        using stop_end_heap [OF ran(6)] vmm_onlyD(6) [OF ran(3)] ran(1)
        by (simp add: clean_def)
    qed
  qed
  then show "heap_ok R s' = heap_ok R s" and "clean s \<Longrightarrow> clean s'" by simp_all
qed

section \<open>Starting\<close>

text \<open>
  How the start loop ends after some complete rounds, in a state whose counter is the
  number of the next CPU: the platform has no more CPUs, an affinity or a VMM call fails
  and the label \<open>failure\<close> stops what was started, or the VMM refuses the \<open>vmcall\<close>.
\<close>

inductive start_end ::
  "('h, 'z) env_scheme \<Rightarrow> int64 \<Rightarrow> 'h common_state \<Rightarrow> int64 \<Rightarrow> 'h common_state \<Rightarrow> bool"
  for E :: "('h, 'z) env_scheme"
where
  all_started: "platform_num_cpus E (machine t) = (n, m) \<Longrightarrow> \<not> sint cpu < sint n \<Longrightarrow>
    start_end E cpu t (rc E BF_SUCCESS) (t\<lparr>machine := m\<rparr>)"
| rolled_back: "vmm_only t u \<Longrightarrow> trace u = trace t @ evs \<Longrightarrow> neutral evs \<Longrightarrow> r \<noteq> rc E BF_SUCCESS \<Longrightarrow>
    common_stop_vmm E u = (q, s') \<Longrightarrow> failed_start E cpu r evs \<Longrightarrow> start_end E cpu t r s'"
| refused: "vmm_only (t\<lparr>g_num_cpus_started := cpu + 1\<rparr>) s' \<Longrightarrow> trace s' = trace t @ evs \<Longrightarrow>
    neutral evs \<Longrightarrow> sint (cpu + 1) = sint cpu + 1 \<Longrightarrow> start_end E cpu t (rc E ENTRY_ERROR_VMM_START_FAILED) s'"

inductive_cases start_endE: "start_end E cpu t ret s'"

lemma start_failure_eq:
  "start_failure E r t = (ret, s') \<Longrightarrow> ret = r \<and> (\<exists>q. common_stop_vmm E t = (q, s'))"
  by (auto simp: start_failure_def split: prod.splits)

definition after_rounds :: "nat \<Rightarrow> nat \<Rightarrow> 'h common_state \<Rightarrow> 'h common_state" where
  "after_rounds i k s =
     s\<lparr>g_num_cpus_started := of_nat k,
       g_vmm_status := if i < k then VMM_RUNNING else g_vmm_status s\<rparr>"

text \<open>A platform that always reports the same number of CPUs.\<close>

definition num_cpus_is :: "('h, 'z) env_scheme \<Rightarrow> nat \<Rightarrow> bool" where
  "num_cpus_is E n \<longleftrightarrow> n < 2 ^ 63 \<and> (\<forall>m. fst (platform_num_cpus E m) = of_nat n)"

lemma start_loop_summary:
  assumes "start_loop E cpuid regs s = (ret, s')" and ok: "codes_ok E"
    and "sint cpuid = int i" and "g_num_cpus_started s = cpuid"
  shows "\<exists>k t evs. i \<le> k \<and> sint (of_nat k :: int64) = int k \<and>
    (\<forall>n. num_cpus_is E n \<and> i \<le> n \<longrightarrow> k \<le> n) \<and> vmm_only (after_rounds i k s) t \<and>
    trace t = trace s @ evs \<and> rounds (start_round E) (cpus_up i k) evs \<and>
    start_end E (of_nat k) t ret s'"
  using assms(1,2,3,4)
proof (induction arbitrary: i rule: start_loop_rounds)
  case (finished cpuid s m n)
  have "cpuid = of_nat i"
    using of_nat_sint [of cpuid] finished(3) by simp
  then show ?case
    using finished start_end.all_started [of E s n m cpuid]
    by (intro exI [of _ i] exI [of _ s] exI [of _ "[]"]) (auto simp: after_rounds_def vmm_only_def)
next
  case (affinity cpuid s aff t ret s')
  have eq: "cpuid = of_nat i" using of_nat_sint [of cpuid] affinity(5) by simp
  obtain q where q: "ret = aff" "common_stop_vmm E t = (q, s')"
    using start_failure_eq [OF affinity(4)] by blast
  have "aff \<noteq> rc E BF_SUCCESS" using affinity(1) codes_ok_success(1) [OF ok] by auto
  then have "start_end E cpuid s aff s'"
    using start_end.rolled_back [OF affinity(2,3) neutral_affinity _ q(2)] affinity(1)
    by (simp add: failed_start_def)
  then show ?case
    using eq affinity(5,6) q(1)
    by (intro exI [of _ i] exI [of _ s] exI [of _ "[]"]) (auto simp: after_rounds_def vmm_only_def)
next
  case (init cpuid s aff evs r t ret s')
  have eq: "cpuid = of_nat i" using of_nat_sint [of cpuid] init(7) by simp
  obtain q where q: "ret = r" "common_stop_vmm E t = (q, s')"
    using start_failure_eq [OF init(6)] by blast
  have "failed_start E cpuid r ([SetAffinity cpuid aff] @ evs)"
    using init(3,4) by (auto simp: failed_start_def)
  then have "start_end E cpuid s r s'"
    using start_end.rolled_back [OF init(2,5) neutral_append [OF neutral_affinity
        neutral_vmm_call [OF init(4)]] init(1) q(2)] by blast
  then show ?case
    using eq init(7,8) q(1)
    by (intro exI [of _ i] exI [of _ s] exI [of _ "[]"]) (auto simp: after_rounds_def vmm_only_def)
next
  case (vmcall cpuid s aff cur x s')
  have eq: "cpuid = of_nat i" using of_nat_sint [of cpuid] vmcall(6) by simp
  have "start_end E cpuid s (rc E ENTRY_ERROR_VMM_START_FAILED) s'"
    using vmcall(3,4,7) by (intro start_end.refused [OF _ vmcall(5)]) (simp_all add: neutral_def)
  then show ?case
    using eq vmcall(6,7)
    by (intro exI [of _ i] exI [of _ s] exI [of _ "[]"]) (auto simp: after_rounds_def vmm_only_def)
next
  case (again cpuid s aff cur t ret s')
  have eq: "cpuid = of_nat i" using of_nat_sint [of cpuid] again(7) by simp
  have more: "Suc i \<le> n" if "num_cpus_is E n" for n
    using that again(3,7) by (simp add: num_cpus_is_def sint_of_nat_less)
  have "sint (cpuid + 1) = int (Suc i)" "g_num_cpus_started t = cpuid + 1"
    using again(2,7,8) vmm_onlyD(5) [OF again(4)] by simp_all
  from again.IH [OF this] obtain k u evs where u: "Suc i \<le> k" "sint (of_nat k :: int64) = int k"
    "\<forall>n. num_cpus_is E n \<and> Suc i \<le> n \<longrightarrow> k \<le> n"
    "vmm_only (after_rounds (Suc i) k t) u" "trace u = trace t @ evs"
    "rounds (start_round E) (cpus_up (Suc i) k) evs" "start_end E (of_nat k) u ret s'" by blast
  have "vmm_only (after_rounds i k s) u"
    using again(4) u(1,4)
    by (cases s; cases t; cases u) (auto simp: after_rounds_def vmm_only_def)
  then show ?case
    using u again(1,5) eq cpus_up_step [of i k] more
    by (intro exI [of _ k] exI [of _ u] exI [of _ "start_round E cpuid aff cur @ evs"]) auto
qed

lemma common_start_cases:
  assumes run: "common_start_vmm E s = (ret, s')" and ok: "codes_ok E"
  obtains
    (answered) "s' = s" and "g_vmm_status s \<noteq> VMM_LOADED"
      and "ret = rc E BF_SUCCESS \<and> g_vmm_status s = VMM_RUNNING \<or> sint ret < 0"
  | (ran) k t evs where "g_vmm_status s = VMM_LOADED" and "sint (of_nat k :: int64) = int k"
      and "\<forall>n. num_cpus_is E n \<longrightarrow> k \<le> n"
      and "vmm_only (after_rounds 0 k s) t" and "trace t = trace s @ evs"
      and "rounds (start_round E) (cpus_up 0 k) evs" and "start_end E (of_nat k) t ret s'"
proof (cases "g_vmm_status s = VMM_LOADED")
  case False
  note neg = codes_ok_error(1) [OF ok]
  have "s' = s" and "ret = rc E BF_SUCCESS \<and> g_vmm_status s = VMM_RUNNING \<or> sint ret < 0"
    using run False neg
    by (auto simp: common_start_vmm_def common_vmm_status_def error_codes_def
        split: vmm_status.splits if_splits)
  with False show thesis by (intro answered) auto
next
  case True
  let ?z = "s\<lparr>g_num_cpus_started := 0\<rparr>"
  have "start_loop E 0 (uninit_regs E) ?z = (ret, s')"
    using run True by (simp add: common_start_vmm_def common_vmm_status_def)
  from start_loop_summary [OF this ok, of 0]
  obtain k t evs where t: "sint (of_nat k :: int64) = int k" "vmm_only (after_rounds 0 k ?z) t"
    "\<forall>n. num_cpus_is E n \<longrightarrow> k \<le> n"
    "trace t = trace ?z @ evs" "rounds (start_round E) (cpus_up 0 k) evs"
    "start_end E (of_nat k) t ret s'" by auto
  have "after_rounds 0 k ?z = after_rounds 0 k s" by (simp add: after_rounds_def)
  then show thesis using ran [OF True t(1,3) _ _ t(5,6)] t(2,4) by simp
qed

lemma after_rounds_between:
  "between_rounds E s \<Longrightarrow> between_rounds E (after_rounds i k s)"
  by (simp add: after_rounds_def between_rounds_def table_ok_def stack_ok_def)

lemma after_rounds_heap: "heap_ok R (after_rounds i k s) = heap_ok R s"
  by (simp add: after_rounds_def heap_ok_def held_def)

lemma start_rounds_state:
  assumes inv: "vmm_inv E s" and st: "g_vmm_status s = VMM_LOADED"
    and k: "sint (of_nat k :: int64) = int k" and only: "vmm_only (after_rounds 0 k s) t"
    and tr: "trace t = trace s @ evs" and evs: "rounds (start_round E) (cpus_up 0 k) evs"
  shows "vmm_inv E t" and "between_rounds E t" and "heap_ok R t = heap_ok R s"
    and "g_num_cpus_started t = of_nat k"
    and "g_vmm_status t = (if 0 < k then VMM_RUNNING else VMM_LOADED)"
proof -
  have c: "vmm_calls (after_rounds 0 k s) t"
    using tr neutral_calls [OF only _ neutral_start_rounds [OF evs]] by (simp add: after_rounds_def)
  show t: "between_rounds E t"
    using inv_between [OF inv] st by (intro between_calls [OF c] after_rounds_between) simp
  show "heap_ok R t = heap_ok R s" by (simp add: vmm_calls_heap [OF c] after_rounds_heap)
  show started: "g_num_cpus_started t = of_nat k"
    and status: "g_vmm_status t = (if 0 < k then VMM_RUNNING else VMM_LOADED)"
    using vmm_onlyD(5,6) [OF only] st by (auto simp: after_rounds_def)
  show "vmm_inv E t"
    using t started status k by (intro between_inv) auto
qed

lemma common_start_inv:
  assumes run: "common_start_vmm E s = (ret, s')" and env: "env_ok E" and inv: "vmm_inv E s"
  shows "vmm_inv E s'"
  using run env_okD(1) [OF env]
proof (cases rule: common_start_cases)
  case answered
  then show ?thesis using inv by simp
next
  case (ran k t evs)
  note t = start_rounds_state [OF inv ran(1,2,4-6)]
  from ran(7) show ?thesis
  proof (cases rule: start_end.cases)
    case (all_started n m)
    then show ?thesis
      using t(1) by (simp add: vmm_inv_def table_ok_def stack_ok_def)
  next
    case (rolled_back u evs q)
    have "vmm_inv E u" by (rule vmm_calls_inv [OF neutral_calls t(1)]) (fact rolled_back)+
    then show ?thesis by (rule common_stop_inv [OF rolled_back(5) env])
  next
    case (refused evs)
    have c: "vmm_calls (t\<lparr>g_num_cpus_started := of_nat k + 1\<rparr>) s'"
      using neutral_calls [OF refused(2) _ refused(4)] refused(3) by simp
    have "between_rounds E s'"
      using t(2) by (intro between_calls [OF c]) (simp add: between_update)
    then show ?thesis
      using vmm_onlyD(5) [OF refused(2)] refused(5) ran(2) by (intro between_inv) simp_all
  qed
qed

lemma common_start_heap:
  assumes run: "common_start_vmm E s = (ret, s')" and env: "env_ok E" and inv: "vmm_inv E s"
  shows "heap_ok R s' = heap_ok R s" and "clean s \<Longrightarrow> clean s'"
proof -
  have *: "heap_ok R s' = heap_ok R s \<and> (clean s \<longrightarrow> clean s')"
    using run env_okD(1) [OF env]
  proof (cases rule: common_start_cases)
    case answered
    then show ?thesis by simp
  next
    case (ran k t evs)
    note t = start_rounds_state [OF inv ran(1,2,4-6)]
    from ran(7) show ?thesis
    proof (cases rule: start_end.cases)
      case (all_started n m)
      then show ?thesis using t(3-5) by (simp add: clean_def heap_ok_def held_def)
    next
      case (rolled_back u evs q)
      have tu: "vmm_calls t u" by (rule neutral_calls) (fact rolled_back)+
      then have "clean u"
        using vmm_callsD(6) [OF tu] t(5) by (simp add: clean_def)
      then show ?thesis
        using common_stop_heap [OF rolled_back(5) env vmm_calls_inv [OF tu t(1)]]
          vmm_calls_heap [OF tu] t(3) by simp
    next
      case (refused evs)
      have c: "vmm_calls (t\<lparr>g_num_cpus_started := of_nat k + 1\<rparr>) s'"
        using neutral_calls [OF refused(2) _ refused(4)] refused(3) by simp
      then show ?thesis
        using t(3,5) vmm_callsD(6) [OF c] by (simp add: vmm_calls_heap heap_update clean_def)
    qed
  qed
  then show "heap_ok R s' = heap_ok R s" and "clean s \<Longrightarrow> clean s'" by simp_all
qed

end
