(* ===== verification/Driver_Lifecycle.thy ===== *)
theory Driver_Lifecycle
  imports Driver_Load Driver_Start
begin

text \<open>
  All operations of \<open>common.c\<close> as one step function, the status automaton they refine, and
  the contract that a driver built from such a step function fulfils: a locale for step
  functions with an invariant and an automaton, interpreted on the operations of
  \<open>common.c\<close> here and on the dispatch functions of the ports in their theories.
\<close>

section \<open>Dump and fini\<close>

lemma common_dump_calls:
  assumes "common_dump_vmm E drr vcpuid s = (ret, s')"
  shows "vmm_calls s s'"
  using assms
  by (auto simp: common_dump_vmm_def split: if_splits prod.splits dest: call_vmm_calls)

lemma common_fini_cases:
  assumes run: "common_fini E s = (ret, s')"
  obtains t u where
    "if g_vmm_status s = VMM_RUNNING then \<exists>q. common_stop_vmm E s = (q, t) else t = s"
    and "if g_vmm_status t = VMM_LOADED then \<exists>q. common_unload_vmm E t = (q, u) else u = t"
    and "if g_vmm_status u = VMM_UNLOADED \<and> 0 < sint (g_num_modules u)
      then \<exists>q. common_reset E u = (q, s') else s' = u"
    and "ret = (if g_vmm_status u = VMM_CORRUPT then rc E BF_ERROR_VMM_CORRUPTED else rc E BF_SUCCESS)"
proof -
  define t where "t = (if g_vmm_status s = VMM_RUNNING then snd (common_stop_vmm E s) else s)"
  define u where "u = (if g_vmm_status t = VMM_LOADED then snd (common_unload_vmm E t) else t)"
  show thesis
  proof (rule that [of t u])
    show "if g_vmm_status s = VMM_RUNNING then \<exists>q. common_stop_vmm E s = (q, t) else t = s"
      by (cases "common_stop_vmm E s") (simp add: t_def)
    show "if g_vmm_status t = VMM_LOADED then \<exists>q. common_unload_vmm E t = (q, u) else u = t"
      by (cases "common_unload_vmm E t") (simp add: u_def)
    show "if g_vmm_status u = VMM_UNLOADED \<and> 0 < sint (g_num_modules u)
        then \<exists>q. common_reset E u = (q, s') else s' = u"
      "ret = (if g_vmm_status u = VMM_CORRUPT then rc E BF_ERROR_VMM_CORRUPTED else rc E BF_SUCCESS)"
      using run unfolding common_fini_def Let_def common_vmm_status_def
        t_def [symmetric] u_def [symmetric]
      by (cases "common_reset E u"; auto split: if_splits)+
  qed
qed

lemma common_fini_inv:
  assumes run: "common_fini E s = (ret, s')" and env: "env_ok E" and inv: "vmm_inv E s"
  shows "vmm_inv E s'"
  using run
proof (cases rule: common_fini_cases)
  case (1 t u)
  have t: "vmm_inv E t" using 1(1) inv by (auto split: if_splits intro: common_stop_inv [OF _ env])
  have u: "vmm_inv E u" using 1(2) t by (auto split: if_splits intro: common_unload_inv)
  show ?thesis
    using 1(3) u common_reset_inv(1) [OF _ vmm_inv_pinned [OF u]] by (auto split: if_splits)
qed

lemma common_unload_clean:
  assumes "common_unload_vmm E s = (ret, s')"
  shows "clean s'"
  using assms
  by (cases rule: common_unload_cases) (auto simp: clean_def reset_fields)

lemma common_fini_heap:
  assumes run: "common_fini E s = (ret, s')" and env: "env_ok E" and inv: "vmm_inv E s"
    and heap: "heap_ok R s"
  shows "heap_ok R s'" and "clean s \<Longrightarrow> clean s'"
proof -
  have "heap_ok R s' \<and> (clean s \<longrightarrow> clean s')"
    using run
  proof (cases rule: common_fini_cases)
    case (1 t u)
    have t: "heap_ok R t \<and> (clean s \<longrightarrow> clean t)"
      using 1(1) heap common_stop_heap [OF _ env inv] by (auto split: if_splits)
    have u: "heap_ok R u \<and> (clean s \<longrightarrow> clean u)"
      using 1(2) t common_unload_heap common_unload_clean by (fastforce split: if_splits)
    have "clean s'" if "common_reset E u = (q, s')" for q
      by (simp add: clean_def reset_fields [OF that])
    then show ?thesis
      using 1(3) u common_reset_heap(1) by (fastforce split: if_splits)
  qed
  then show "heap_ok R s'" and "clean s \<Longrightarrow> clean s'" by simp_all
qed

section \<open>One step function\<close>

datatype common_op =
    Common_Init
  | Common_Fini
  | Common_Add_Module uint64 uint64
  | Common_Load
  | Common_Unload
  | Common_Start
  | Common_Stop
  | Common_Dump uint64 uint64

definition common_step ::
  "('h, 'z) env_scheme \<Rightarrow> common_op \<Rightarrow> 'h common_state \<Rightarrow> (int64 \<times> 'h common_state) option" where
  "common_step E op s =
     (case op of
        Common_Init \<Rightarrow> Some (common_init E s)
      | Common_Fini \<Rightarrow> Some (common_fini E s)
      | Common_Add_Module addr fsize \<Rightarrow> Some (common_add_module E addr fsize s)
      | Common_Load \<Rightarrow> common_load_vmm E s
      | Common_Unload \<Rightarrow> Some (common_unload_vmm E s)
      | Common_Start \<Rightarrow> Some (common_start_vmm E s)
      | Common_Stop \<Rightarrow> Some (common_stop_vmm E s)
      | Common_Dump drr vcpuid \<Rightarrow> Some (common_dump_vmm E drr vcpuid s))"

lemma common_step_inv:
  assumes "common_step E op s = Some (ret, s')" and "env_ok E" and "vmm_inv E s"
  shows "vmm_inv E s'"
  using assms common_reset_inv(1) [OF _ vmm_inv_pinned [OF assms(3)]]
  by (cases op) (auto simp: common_step_def common_init_def intro: common_fini_inv
      common_add_module_inv common_load_inv common_unload_inv common_start_inv common_stop_inv
      vmm_calls_inv [OF common_dump_calls])

lemma common_step_heap:
  assumes "common_step E op s = Some (ret, s')" and "env_ok E" and "vmm_inv E s"
    and "heap_ok R s" and "clean s"
  shows "heap_ok R s'" and "op \<noteq> Common_Load \<Longrightarrow> clean s'"
proof -
  have "heap_ok R s' \<and> (op \<noteq> Common_Load \<longrightarrow> clean s')"
  proof (cases op)
    case Common_Init
    then have r: "common_reset E s = (ret, s')"
      using assms(1) by (simp add: common_step_def common_init_def)
    show ?thesis
      using common_reset_heap(1) [OF r assms(4)] by (simp add: clean_def reset_fields [OF r])
  next
    case Common_Fini
    then have r: "common_fini E s = (ret, s')" using assms(1) by (simp add: common_step_def)
    show ?thesis using common_fini_heap [OF r assms(2-4)] assms(5) by simp
  next
    case (Common_Add_Module a n)
    then show ?thesis
      using assms common_add_module_heap [of E a n s ret s'] by (simp add: common_step_def)
  next
    case Common_Load
    then show ?thesis using assms common_load_heap by (auto simp: common_step_def)
  next
    case Common_Unload
    then have r: "common_unload_vmm E s = (ret, s')" using assms(1) by (simp add: common_step_def)
    show ?thesis using common_unload_heap [OF r assms(4)] common_unload_clean [OF r] by simp
  next
    case Common_Start
    then have r: "common_start_vmm E s = (ret, s')" using assms(1) by (simp add: common_step_def)
    show ?thesis using common_start_heap [OF r assms(2,3)] assms(4,5) by simp
  next
    case Common_Stop
    then have r: "common_stop_vmm E s = (ret, s')" using assms(1) by (simp add: common_step_def)
    show ?thesis using common_stop_heap [OF r assms(2,3)] assms(4,5) by simp
  next
    case (Common_Dump drr v)
    then have c: "vmm_calls s s'"
      using assms(1) common_dump_calls by (auto simp: common_step_def)
    then show ?thesis
      using assms(4,5) vmm_calls_heap [OF c] vmm_only_clean [of s s'] by (simp add: vmm_calls_def)
  qed
  then show "heap_ok R s'" and "op \<noteq> Common_Load \<Longrightarrow> clean s'" by simp_all
qed

section \<open>The status automaton\<close>

text \<open>
  The statuses that an operation can leave, given the one it finds and whether it
  reports success. Only \<open>Common_Init\<close> leaves \<open>VMM_CORRUPT\<close>.
\<close>

inductive lifecycle :: "vmm_status \<Rightarrow> common_op \<Rightarrow> bool \<Rightarrow> vmm_status \<Rightarrow> bool" where
  init: "lifecycle st Common_Init True VMM_UNLOADED"
| add: "st = VMM_UNLOADED \<or> \<not> ok \<Longrightarrow> lifecycle st (Common_Add_Module a n) ok st"
| load: "lifecycle VMM_UNLOADED Common_Load True VMM_LOADED"
| load_again: "lifecycle VMM_LOADED Common_Load True VMM_LOADED"
| load_fails: "st \<noteq> VMM_LOADED \<Longrightarrow> lifecycle st Common_Load False st"
| unload: "st = VMM_UNLOADED \<or> st = VMM_LOADED \<Longrightarrow> lifecycle st Common_Unload True VMM_UNLOADED"
| unload_refused: "st = VMM_RUNNING \<or> st = VMM_CORRUPT \<Longrightarrow> lifecycle st Common_Unload False st"
| unload_corrupts: "lifecycle VMM_LOADED Common_Unload False VMM_CORRUPT"
| start: "lifecycle VMM_LOADED Common_Start True VMM_RUNNING"
| start_no_cpus: "lifecycle VMM_LOADED Common_Start True VMM_LOADED"
| start_again: "lifecycle VMM_RUNNING Common_Start True VMM_RUNNING"
| start_fails: "st \<noteq> VMM_UNLOADED \<Longrightarrow> lifecycle VMM_LOADED Common_Start False st"
| start_refused: "st = VMM_UNLOADED \<or> st = VMM_CORRUPT \<Longrightarrow> lifecycle st Common_Start False st"
| stop: "lifecycle VMM_RUNNING Common_Stop True VMM_LOADED"
| stop_again: "lifecycle VMM_LOADED Common_Stop True VMM_LOADED"
| stop_fails: "st = VMM_RUNNING \<or> st = VMM_CORRUPT \<Longrightarrow> lifecycle VMM_RUNNING Common_Stop False st"
| stop_refused: "st = VMM_UNLOADED \<or> st = VMM_CORRUPT \<Longrightarrow> lifecycle st Common_Stop False st"
| dump: "st \<noteq> VMM_UNLOADED \<or> \<not> ok \<Longrightarrow> lifecycle st (Common_Dump drr vcpuid) ok st"
| fini: "st \<noteq> VMM_CORRUPT \<Longrightarrow> lifecycle st Common_Fini True VMM_UNLOADED"
| fini_runs: "lifecycle VMM_RUNNING Common_Fini True VMM_RUNNING"
| fini_corrupt: "st \<noteq> VMM_UNLOADED \<Longrightarrow> lifecycle st Common_Fini False VMM_CORRUPT"

inductive_cases lifecycle_corruptE: "lifecycle VMM_CORRUPT op ok st"
inductive_cases lifecycle_loadedE: "lifecycle st op ok VMM_LOADED"
inductive_cases lifecycle_runningE: "lifecycle st op ok VMM_RUNNING"
inductive_simps lifecycle_load_simps: "lifecycle st Common_Load ok st'"
inductive_simps lifecycle_add_simps: "lifecycle st (Common_Add_Module a n) ok st'"
inductive_simps lifecycle_unload_simps: "lifecycle st Common_Unload ok st'"
inductive_simps lifecycle_start_simps: "lifecycle st Common_Start ok st'"
inductive_simps lifecycle_stop_simps: "lifecycle st Common_Stop ok st'"
inductive_simps lifecycle_dump_simps: "lifecycle st (Common_Dump drr vcpuid) ok st'"
inductive_simps lifecycle_fini_simps: "lifecycle st Common_Fini ok st'"

lemmas lifecycle_simps =
  lifecycle_load_simps lifecycle_add_simps lifecycle_unload_simps lifecycle_start_simps
  lifecycle_stop_simps lifecycle_dump_simps lifecycle_fini_simps

lemma load_refines:
  assumes "common_load_vmm E s = Some (ret, s')" and "codes_ok E"
  shows "lifecycle (g_vmm_status s) Common_Load (ret = rc E BF_SUCCESS) (g_vmm_status s')"
proof (cases "ret = rc E BF_SUCCESS")
  case True
  have "g_vmm_status s = VMM_UNLOADED \<or> g_vmm_status s = VMM_LOADED"
    using assms(1)
    unfolding True common_load_vmm_def common_vmm_status_def
    using codes_ok_success(1) [OF assms(2)] codes_ok_errors [OF assms(2)]
    by (cases "g_vmm_status s") simp_all
  then show ?thesis
    using common_load_success_status(1) [OF assms] True by (auto simp: lifecycle_simps)
next
  case False
  then show ?thesis
    using common_load_success_status(2) [OF assms] by (simp add: lifecycle_simps)
qed

lemma add_refines:
  assumes "common_add_module E a n s = (ret, s')" and "codes_ok E"
  shows "lifecycle (g_vmm_status s) (Common_Add_Module a n) (ret = rc E BF_SUCCESS) (g_vmm_status s')"
  using assms(1)
proof (cases rule: common_add_module_cases)
  case (refused e)
  then show ?thesis
    using codes_ok_error(2) [OF assms(2)] codes_ok_success(1) [OF assms(2)]
    by (simp add: lifecycle_simps)
qed (simp add: lifecycle_simps)

lemma unload_refines:
  assumes "common_unload_vmm E s = (ret, s')" and "codes_ok E"
  shows "lifecycle (g_vmm_status s) Common_Unload (ret = rc E BF_SUCCESS) (g_vmm_status s')"
proof -
  have ne: "rc E BF_ERROR_VMM_CORRUPTED \<noteq> rc E BF_SUCCESS"
    "rc E BF_ERROR_VMM_INVALID_STATE \<noteq> rc E BF_SUCCESS"
    using codes [OF assms(2)] by simp_all
  from assms(1) show ?thesis
  proof (cases rule: common_unload_cases)
    case unloaded
    then show ?thesis using reset_fields(1) [OF unloaded(3)] by (simp add: lifecycle_unload_simps)
  next
    case (fini t)
    then show ?thesis using reset_fields(1) [OF fini(4)] by (simp add: lifecycle_unload_simps)
  qed (use ne in \<open>simp_all add: lifecycle_unload_simps\<close>)
qed

lemma stop_end_status:
  assumes "stop_end E k t ret s'" and "g_vmm_status t = VMM_RUNNING" and "codes_ok E"
  shows "ret = rc E BF_SUCCESS \<longrightarrow> g_vmm_status s' = VMM_LOADED"
    and "ret \<noteq> rc E BF_SUCCESS \<longrightarrow> g_vmm_status s' = VMM_RUNNING \<or> g_vmm_status s' = VMM_CORRUPT"
proof -
  have "if ret = rc E BF_SUCCESS then g_vmm_status s' = VMM_LOADED
    else g_vmm_status s' = VMM_RUNNING \<or> g_vmm_status s' = VMM_CORRUPT"
    using assms(1)
  proof (cases rule: stop_end.cases)
    case (refused evs j)
    then show ?thesis
      using vmm_onlyD(6) [OF refused(3)] assms(2) codes [OF assms(3)] by simp
  qed simp_all
  then show "ret = rc E BF_SUCCESS \<longrightarrow> g_vmm_status s' = VMM_LOADED"
    and "ret \<noteq> rc E BF_SUCCESS \<longrightarrow> g_vmm_status s' = VMM_RUNNING \<or> g_vmm_status s' = VMM_CORRUPT"
    by (simp_all split: if_splits)
qed

lemma stop_refines:
  assumes run: "common_stop_vmm E s = (ret, s')" and ok: "codes_ok E" and inv: "vmm_inv E s"
  shows "lifecycle (g_vmm_status s) Common_Stop (ret = rc E BF_SUCCESS) (g_vmm_status s')"
proof (cases "g_vmm_status s = VMM_RUNNING")
  case True
  from run ok running_started(1) [OF inv True] show ?thesis
  proof (cases rule: common_stop_cases)
    case (ran k t evs)
    have "g_vmm_status t = VMM_RUNNING" using vmm_onlyD(6) [OF ran(3)] True by simp
    then show ?thesis using stop_end_status [OF ran(6) _ ok] True by (auto simp: lifecycle_simps)
  qed (use True in simp)
next
  case False
  then show ?thesis
    using run codes [OF ok]
    by (cases "g_vmm_status s")
      (auto simp: common_stop_vmm_def common_vmm_status_def lifecycle_simps)
qed

lemma start_refines:
  assumes run: "common_start_vmm E s = (ret, s')" and ok: "codes_ok E" and inv: "vmm_inv E s"
  shows "lifecycle (g_vmm_status s) Common_Start (ret = rc E BF_SUCCESS) (g_vmm_status s')"
proof (cases "g_vmm_status s = VMM_LOADED")
  case False
  then show ?thesis
    using run codes [OF ok]
    by (cases "g_vmm_status s")
      (auto simp: common_start_vmm_def common_vmm_status_def lifecycle_simps)
next
  case True
  from run ok show ?thesis
  proof (cases rule: common_start_cases)
    case (ran k t evs)
    note t = start_rounds_state [OF inv ran(1,2,4-6)]
    from ran(7) show ?thesis
    proof (cases rule: start_end.cases)
      case (all_started n m)
      then show ?thesis using t(5) True by (simp add: lifecycle_start_simps)
    next
      case (rolled_back u evs q)
      have tu: "vmm_calls t u" by (rule neutral_calls) (fact rolled_back)+
      have "lifecycle (g_vmm_status u) Common_Stop (q = rc E BF_SUCCESS) (g_vmm_status s')"
        by (rule stop_refines [OF rolled_back(5) ok vmm_calls_inv [OF tu t(1)]])
      moreover have "g_vmm_status u = VMM_LOADED \<or> g_vmm_status u = VMM_RUNNING"
        using vmm_callsD(6) [OF tu] t(5) by simp
      ultimately have "g_vmm_status s' \<noteq> VMM_UNLOADED"
        by (auto simp: lifecycle_stop_simps)
      then show ?thesis using rolled_back(4) True by (simp add: lifecycle_start_simps)
    next
      case (refused evs)
      have "g_vmm_status s' \<noteq> VMM_UNLOADED"
        using vmm_onlyD(6) [OF refused(2)] t(5) by simp
      moreover have "ret \<noteq> rc E BF_SUCCESS"
        using refused(1) codes [OF ok] by simp
      ultimately show ?thesis using True by (simp add: lifecycle_start_simps)
    qed
  qed (use True in simp)
qed

lemma dump_refines:
  assumes run: "common_dump_vmm E drr vcpuid s = (ret, s')" and ok: "codes_ok E"
  shows "lifecycle (g_vmm_status s) (Common_Dump drr vcpuid) (ret = rc E BF_SUCCESS) (g_vmm_status s')"
proof -
  have "g_vmm_status s' = g_vmm_status s"
    by (rule vmm_callsD(6) [OF common_dump_calls [OF run]])
  moreover have "ret \<noteq> rc E BF_SUCCESS" if "g_vmm_status s = VMM_UNLOADED"
    using run that codes [OF ok]
    by (auto simp: common_dump_vmm_def common_vmm_status_def split: if_splits)
  ultimately show ?thesis by (auto simp: lifecycle_dump_simps)
qed

lemma fini_refines:
  assumes run: "common_fini E s = (ret, s')" and env: "env_ok E" and inv: "vmm_inv E s"
  shows "lifecycle (g_vmm_status s) Common_Fini (ret = rc E BF_SUCCESS) (g_vmm_status s')"
  using run
proof (cases rule: common_fini_cases)
  case (1 t u)
  note ok = env_okD(1) [OF env]
  have t: "if g_vmm_status s = VMM_RUNNING then g_vmm_status t \<noteq> VMM_UNLOADED else t = s"
    using 1(1) stop_refines [OF _ ok inv] by (auto simp: lifecycle_stop_simps split: if_splits)
  have u: "if g_vmm_status t = VMM_LOADED
    then g_vmm_status u = VMM_UNLOADED \<or> g_vmm_status u = VMM_CORRUPT else u = t"
    using 1(2) unload_refines [OF _ ok] by (fastforce simp: lifecycle_unload_simps split: if_splits)
  have s': "g_vmm_status s' = g_vmm_status u"
    using 1(3) reset_fields(1) by (fastforce split: if_splits)
  have ne: "rc E BF_ERROR_VMM_CORRUPTED \<noteq> rc E BF_SUCCESS"
    using codes [OF ok] by simp
  show ?thesis
    using t u s' 1(4) ne
    by (cases "g_vmm_status s"; cases "g_vmm_status t")
      (auto simp: lifecycle_fini_simps split: if_splits)
qed

text \<open>Every operation of \<open>common.c\<close> is a step of the automaton.\<close>

lemma common_step_lifecycle:
  assumes run: "common_step E op s = Some (ret, s')" and env: "env_ok E" and inv: "vmm_inv E s"
  shows "lifecycle (g_vmm_status s) op (ret = rc E BF_SUCCESS) (g_vmm_status s')"
proof -
  note ok = env_okD(1) [OF env]
  show ?thesis
  proof (cases op)
    case Common_Init
    then have r: "common_reset E s = (ret, s')"
      using run by (simp add: common_step_def common_init_def)
    show ?thesis
      using lifecycle.init reset_fields(1) [OF r] common_reset_state(1) [OF r] by (simp add: Common_Init)
  next
    case Common_Load
    then show ?thesis using run by (simp add: common_step_def load_refines [OF _ ok])
  qed (use run in \<open>simp_all add: common_step_def add_refines [OF _ ok] unload_refines [OF _ ok]
    start_refines [OF _ ok inv] stop_refines [OF _ ok inv] dump_refines [OF _ ok]
    fini_refines [OF _ env inv]\<close>)
qed

section \<open>The contract of a driver\<close>

text \<open>
  A machine of operations that keep an invariant and only take steps of an automaton on
  an observed status. The dispatch functions of the ports call \<open>common.c\<close> only through such
  operations.
\<close>

text \<open>The statuses along a run of an automaton whose answers are not fixed.\<close>

primrec automaton_run ::
  "('st \<Rightarrow> 'op \<Rightarrow> bool \<Rightarrow> 'st \<Rightarrow> bool) \<Rightarrow> 'st \<Rightarrow> 'op list \<Rightarrow> 'st \<Rightarrow> bool" where
  "automaton_run allowed st [] st' \<longleftrightarrow> st' = st"
| "automaton_run allowed st (op # ops) st' \<longleftrightarrow>
     (\<exists>ok st1. allowed st op ok st1 \<and> automaton_run allowed st1 ops st')"

text \<open>The state that a list of operations leaves, the returned codes dropped.\<close>

definition op_run :: "('op \<Rightarrow> 's \<Rightarrow> ('r \<times> 's) option) \<Rightarrow> 'op list \<Rightarrow> 's \<Rightarrow> 's option" where
  "op_run step = run (\<lambda>op s. map_option snd (step op s))"

locale guarded_machine =
  fixes step :: "'op \<Rightarrow> 's \<Rightarrow> ('r \<times> 's) option"
    and inv :: "'s \<Rightarrow> bool"
    and status :: "'s \<Rightarrow> 'st"
    and success :: "'r \<Rightarrow> bool"
    and allowed :: "'st \<Rightarrow> 'op \<Rightarrow> bool \<Rightarrow> 'st \<Rightarrow> bool"
  assumes step_inv: "step op s = Some (r, s') \<Longrightarrow> inv s \<Longrightarrow> inv s'"
    and step_allowed: "step op s = Some (r, s') \<Longrightarrow> inv s \<Longrightarrow> allowed (status s) op (success r) (status s')"
begin

lemma run_inv: "op_run step ops s = Some s' \<Longrightarrow> inv s \<Longrightarrow> inv s'"
  unfolding op_run_def
  by (induction ops arbitrary: s) (auto split: option.splits dest: step_inv)

lemma run_allowed:
  "op_run step ops s = Some s' \<Longrightarrow> inv s \<Longrightarrow> automaton_run allowed (status s) ops (status s')"
  unfolding op_run_def
proof (induction ops arbitrary: s)
  case Nil
  then show ?case by simp
next
  case (Cons op ops)
  then obtain r t where t: "step op s = Some (r, t)"
    "run (\<lambda>op s. map_option snd (step op s)) ops t = Some s'"
    by (auto split: option.splits)
  from Cons.IH [OF t(2) step_inv [OF t(1) Cons.prems(2)]] step_allowed [OF t(1) Cons.prems(2)]
  show ?case by auto
qed

text \<open>A status that no operation of a run leaves is the status at its end.\<close>

lemma run_absorbed:
  assumes "op_run step ops s = Some s'" and "inv s"
    and "\<And>op ok st. op \<in> set ops \<Longrightarrow> allowed (status s) op ok st \<Longrightarrow> st = status s"
  shows "status s' = status s"
proof -
  have *: "st = st0" if "automaton_run allowed st0 ops st"
    and "\<And>op ok st. op \<in> set ops \<Longrightarrow> allowed st0 op ok st \<Longrightarrow> st = st0" for st0 st
    using that
  proof (induction ops)
    case (Cons op ops)
    then obtain ok st1 where "allowed st0 op ok st1" "automaton_run allowed st1 ops st" by auto
    moreover from this(1) have "st1 = st0" using Cons.prems(2) [of op ok st1] by simp
    moreover have "\<And>op' ok st. op' \<in> set ops \<Longrightarrow> allowed st0 op' ok st \<Longrightarrow> st = st0"
      using Cons.prems(2) by (meson list.set_intros(2))
    ultimately show ?case using Cons.IH by blast
  qed simp
  show ?thesis
    by (rule * [OF run_allowed [OF assms(1,2)]]) (rule assms(3))
qed

end

section \<open>Ownership\<close>

text \<open>
  A predicate that holds before every operation of a run.
\<close>

primrec all_along ::
  "('op \<Rightarrow> 's \<Rightarrow> ('r \<times> 's) option) \<Rightarrow> ('s \<Rightarrow> bool) \<Rightarrow> 'op list \<Rightarrow> 's \<Rightarrow> bool" where
  "all_along step P [] s \<longleftrightarrow> True"
| "all_along step P (op # ops) s \<longleftrightarrow>
     P s \<and> (case step op s of None \<Rightarrow> True | Some (r, t) \<Rightarrow> all_along step P ops t)"

text \<open>
  A driver that owns blocks: an operation keeps the ownership when it starts in a clean
  state, and only an operation in \<open>leaky\<close> can leave a state that is not clean.
\<close>

locale owning_machine = guarded_machine step inv status success allowed
  for step :: "'op \<Rightarrow> 's \<Rightarrow> ('r \<times> 's) option"
    and inv :: "'s \<Rightarrow> bool"
    and status :: "'s \<Rightarrow> 'st"
    and success :: "'r \<Rightarrow> bool"
    and allowed :: "'st \<Rightarrow> 'op \<Rightarrow> bool \<Rightarrow> 'st \<Rightarrow> bool" +
  fixes owns :: "blocks \<Rightarrow> 's \<Rightarrow> bool"
    and clean :: "'s \<Rightarrow> bool"
    and leaky :: "'op \<Rightarrow> bool"
  assumes step_owns: "step op s = Some (r, s') \<Longrightarrow> inv s \<Longrightarrow> clean s \<Longrightarrow> owns R s \<Longrightarrow> owns R s'"
    and step_clean: "step op s = Some (r, s') \<Longrightarrow> inv s \<Longrightarrow> clean s \<Longrightarrow> owns R s \<Longrightarrow> \<not> leaky op \<Longrightarrow> clean s'"
begin

lemma run_owns:
  "op_run step ops s = Some s' \<Longrightarrow> inv s \<Longrightarrow> owns R s \<Longrightarrow> all_along step clean ops s \<Longrightarrow> owns R s'"
  unfolding op_run_def
proof (induction ops arbitrary: s)
  case (Cons op ops)
  then obtain r t where t: "step op s = Some (r, t)"
    "run (\<lambda>op s. map_option snd (step op s)) ops t = Some s'" "clean s" "all_along step clean ops t"
    by (auto split: option.splits)
  show ?case
    by (rule Cons.IH [OF t(2) step_inv [OF t(1) Cons.prems(2)]
          step_owns [OF t(1) Cons.prems(2) t(3) Cons.prems(3)] t(4)])
qed simp

lemma run_clean:
  "op_run step ops s = Some s' \<Longrightarrow> inv s \<Longrightarrow> owns R s \<Longrightarrow> clean s \<Longrightarrow>
   \<forall>op \<in> set ops. \<not> leaky op \<Longrightarrow> owns R s' \<and> clean s'"
  unfolding op_run_def
proof (induction ops arbitrary: s)
  case (Cons op ops)
  then obtain r t where t: "step op s = Some (r, t)"
    "run (\<lambda>op s. map_option snd (step op s)) ops t = Some s'"
    by (auto split: option.splits)
  show ?case
    by (rule Cons.IH [OF t(2) step_inv [OF t(1) Cons.prems(2)]
          step_owns [OF t(1) Cons.prems(2,4,3)] step_clean [OF t(1) Cons.prems(2,4,3)]])
      (use Cons.prems(5) in simp_all)
qed simp

end

interpretation core: owning_machine
  "common_step E" "\<lambda>s. env_ok E \<and> vmm_inv E s" g_vmm_status "\<lambda>r. r = rc E BF_SUCCESS" lifecycle
  heap_ok clean "\<lambda>op. op = Common_Load"
  for E :: "('h, 'z) env_scheme"
  by unfold_locales
    (auto intro: common_step_inv common_step_lifecycle common_step_heap)

end
