(* ===== verification/Platform_Contract.thy ===== *)
theory Platform_Contract
  imports Driver_Lifecycle
begin

text \<open>
  What \<open>common.c\<close> relies on of every port of the platform layer, as a locale, and what
  follows from it: the blocks that \<open>setup_stack\<close> and \<open>setup_tls\<close> hand to the VMM are
  zeroed, and there is storage for every CPU that is started. Each port interprets the
  locale on its own \<open>platform.c\<close>.
\<close>

definition zeroed :: "uint64 \<Rightarrow> uint64 \<Rightarrow> memory \<Rightarrow> bool" where
  "zeroed p n m \<longleftrightarrow> (\<forall>x. x - p < n \<longrightarrow> m x = 0)"

lemma zeroed_mem_set: "zeroed p n (mem_set p 0 n m)"
  by (simp add: zeroed_def mem_set_def)

lemma ucast_nonneg: "0 \<le> sint (ucast (x :: uint32) :: int64)"
proof -
  have "unat x < 2 ^ 32" using unsigned_less [of x, where ?'a = nat] by simp
  then have "unat x < 2 ^ 63" by simp
  from sint_of_nat_less [OF this] show ?thesis by simp
qed

locale platform_layer =
  fixes E :: "'h env"
  assumes num_cpus_nonneg: "0 \<le> sint (fst (platform_num_cpus E m))"
    and memset_bytes: "p \<noteq> 0 \<Longrightarrow> mem (platform_memset E p v n m) = mem_set p v n (mem m)"
begin

lemma setup_stack_zeroed:
  assumes "setup_stack E s = (rc E BF_SUCCESS, s')" and "codes_ok E"
  shows "zeroed (g_stack s') (STACK_SIZE E * 2) (mem (machine s'))"
proof -
  obtain a m where a: "platform_alloc_rw E (STACK_SIZE E * 2) (machine s) = (a, m)" by force
  then have "a \<noteq> 0"
    using assms codes_ok_success(1) [OF assms(2)] codes_ok_errors(2) [OF assms(2)]
    by (auto simp: setup_stack_def call_defs Let_def)
  then show ?thesis
    using assms(1) a memset_bytes zeroed_mem_set
    by (auto simp: setup_stack_def call_defs Let_def)
qed

lemma setup_tls_zeroed:
  assumes "setup_tls E s = (rc E BF_SUCCESS, s')" and "codes_ok E"
  shows "zeroed (g_tls s') (g_tls_size s') (mem (machine s'))"
    and "\<exists>n. 0 \<le> sint n \<and> g_tls_size s' = THREAD_LOCAL_STORAGE_SIZE E * n"
proof -
  obtain n m0 where n: "platform_num_cpus E (machine s) = (n, m0)" by force
  obtain a m where a: "platform_alloc_rw E (THREAD_LOCAL_STORAGE_SIZE E * n) m0 = (a, m)" by force
  have "a \<noteq> 0"
    using assms a n codes_ok_success(1) [OF assms(2)] codes_ok_errors(2) [OF assms(2)]
    by (auto simp: setup_tls_def call_defs Let_def)
  then show "zeroed (g_tls s') (g_tls_size s') (mem (machine s'))"
    using assms(1) a n memset_bytes zeroed_mem_set
    by (auto simp: setup_tls_def call_defs Let_def)
  have "0 \<le> sint n" using num_cpus_nonneg [of "machine s"] n by simp
  then show "\<exists>n. 0 \<le> sint n \<and> g_tls_size s' = THREAD_LOCAL_STORAGE_SIZE E * n"
    using setup_tls_frame(9) [OF assms(1)] n by auto
qed

end

end
