(* ===== verification/Linux_Platform.thy ===== *)
theory Linux_Platform
  imports Platform_Contract
begin

text \<open>
  The Linux port of the platform layer, \<open>src/src/arch/linux/platform.c\<close>. The kernel's
  services are a record of functions on the machine. The port has one global of its own,
  the cached address of \<open>sched_setaffinity\<close>, which the kernel cannot reach.
\<close>

section \<open>The kernel\<close>

text \<open>
  \<open>vmalloc_exec\<close> is \<open>__vmalloc(len, GFP_KERNEL, PAGE_KERNEL_EXEC)\<close>;
  \<open>vmalloc_to_phys\<close> is \<open>page_to_phys(vmalloc_to_page(p))\<close>; \<open>lookup_sched_setaffinity\<close>
  is \<open>kallsyms_lookup_name("sched_setaffinity")\<close>; \<open>call_setaffinity f cpu\<close> is
  \<open>f(current->pid, cpumask_of(cpu))\<close>, which takes the CPU as an \<open>unsigned int\<close>;
  \<open>version_4_0\<close> is \<open>LINUX_VERSION_CODE >= KERNEL_VERSION(4,0,0)\<close>.
\<close>

record 'k linux_kernel =
  vmalloc :: "uint64 \<Rightarrow> 'k machine \<Rightarrow> uint64 \<times> 'k machine"
  vmalloc_exec :: "uint64 \<Rightarrow> 'k machine \<Rightarrow> uint64 \<times> 'k machine"
  vfree :: "uint64 \<Rightarrow> 'k machine \<Rightarrow> 'k machine"
  is_vmalloc_addr :: "uint64 \<Rightarrow> 'k machine \<Rightarrow> bool"
  vmalloc_to_phys :: "uint64 \<Rightarrow> 'k machine \<Rightarrow> uint64"
  virt_to_phys :: "uint64 \<Rightarrow> 'k machine \<Rightarrow> uint64"
  version_4_0 :: bool
  cr4_init_shadow :: "'k machine \<Rightarrow> 'k machine"
  num_online_cpus :: "'k machine \<Rightarrow> uint32"
  lookup_sched_setaffinity :: "'k machine \<Rightarrow> uint64"
  call_setaffinity :: "uint64 \<Rightarrow> uint32 \<Rightarrow> 'k machine \<Rightarrow> int64 \<times> 'k machine"
  get_cpu :: "'k machine \<Rightarrow> uint32 \<times> 'k machine"
  put_cpu :: "'k machine \<Rightarrow> 'k machine"

record 'k linux_host =
  set_cpu_affinity :: uint64
  kernel :: 'k

definition kernel_view :: "'k linux_host machine \<Rightarrow> 'k machine" where
  "kernel_view m = \<lparr>mem = mem m, host = kernel (host m)\<rparr>"

definition from_kernel :: "'k machine \<Rightarrow> 'k linux_host machine \<Rightarrow> 'k linux_host machine" where
  "from_kernel k m = \<lparr>mem = mem k, host = (host m)\<lparr>kernel := host k\<rparr>\<rparr>"

definition in_kernel :: "('k machine \<Rightarrow> 'k machine) \<Rightarrow> 'k linux_host machine \<Rightarrow> 'k linux_host machine" where
  "in_kernel f m = from_kernel (f (kernel_view m)) m"

definition ask_kernel ::
  "('k machine \<Rightarrow> 'r \<times> 'k machine) \<Rightarrow> 'k linux_host machine \<Rightarrow> 'r \<times> 'k linux_host machine" where
  "ask_kernel f m = (case f (kernel_view m) of (r, k) \<Rightarrow> (r, from_kernel k m))"

section \<open>The functions of \<open>platform.c\<close>\<close>

definition linux_platform_alloc_rw ::
  "'k linux_kernel \<Rightarrow> uint64 \<Rightarrow> 'k linux_host machine \<Rightarrow> uint64 \<times> 'k linux_host machine" where
  "linux_platform_alloc_rw K len m = (if len = 0 then (0, m) else ask_kernel (vmalloc K len) m)"

definition linux_platform_alloc_rwe ::
  "'k linux_kernel \<Rightarrow> uint64 \<Rightarrow> 'k linux_host machine \<Rightarrow> uint64 \<times> 'k linux_host machine" where
  "linux_platform_alloc_rwe K len m = (if len = 0 then (0, m) else ask_kernel (vmalloc_exec K len) m)"

definition linux_platform_free_rw ::
  "'k linux_kernel \<Rightarrow> uint64 \<Rightarrow> uint64 \<Rightarrow> 'k linux_host machine \<Rightarrow> 'k linux_host machine" where
  "linux_platform_free_rw K addr len m = (if addr = 0 then m else in_kernel (vfree K addr) m)"

definition linux_platform_free_rwe ::
  "'k linux_kernel \<Rightarrow> uint64 \<Rightarrow> uint64 \<Rightarrow> 'k linux_host machine \<Rightarrow> 'k linux_host machine" where
  "linux_platform_free_rwe K addr len m = (if addr = 0 then m else in_kernel (vfree K addr) m)"

definition linux_platform_virt_to_phys ::
  "'k linux_kernel \<Rightarrow> uint64 \<Rightarrow> 'k linux_host machine \<Rightarrow> uint64" where
  "linux_platform_virt_to_phys K virt m =
     (if is_vmalloc_addr K virt (kernel_view m) then vmalloc_to_phys K virt (kernel_view m)
      else virt_to_phys K virt (kernel_view m))"

definition linux_platform_memset ::
  "uint64 \<Rightarrow> byte \<Rightarrow> uint64 \<Rightarrow> 'k linux_host machine \<Rightarrow> 'k linux_host machine" where
  "linux_platform_memset p v n m = (if p = 0 then m else m\<lparr>mem := mem_set p v n (mem m)\<rparr>)"

definition linux_platform_memcpy ::
  "uint64 \<Rightarrow> uint64 \<Rightarrow> uint64 \<Rightarrow> 'k linux_host machine \<Rightarrow> 'k linux_host machine" where
  "linux_platform_memcpy dst src n m =
     (if dst = 0 \<or> src = 0 then m else m\<lparr>mem := mem_copy dst src n (mem m)\<rparr>)"

definition linux_platform_start ::
  "'k linux_kernel \<Rightarrow> 'k linux_host machine \<Rightarrow> 'k linux_host machine" where
  "linux_platform_start K m = (if version_4_0 K then in_kernel (cr4_init_shadow K) m else m)"

definition linux_platform_stop ::
  "'k linux_kernel \<Rightarrow> 'k linux_host machine \<Rightarrow> 'k linux_host machine" where
  "linux_platform_stop K m = (if version_4_0 K then in_kernel (cr4_init_shadow K) m else m)"

definition linux_platform_num_cpus ::
  "'k linux_kernel \<Rightarrow> 'k linux_host machine \<Rightarrow> int64 \<times> 'k linux_host machine" where
  "linux_platform_num_cpus K m =
     (let num_cpus = ucast (num_online_cpus K (kernel_view m)) :: int64
      in if sint num_cpus < 0 then (0, m) else (num_cpus, m))"

text \<open>\<open>current\<close> is the thread that makes the call. The error code comes from the headers.\<close>

definition linux_platform_set_affinity ::
  "'k linux_kernel \<Rightarrow> int64 \<Rightarrow> int64 \<Rightarrow> 'k linux_host machine \<Rightarrow> int64 \<times> 'k linux_host machine" where
  "linux_platform_set_affinity K bf_error_unknown affinity m =
     (let m = (if set_cpu_affinity (host m) = 0
               then m\<lparr>host := (host m)\<lparr>set_cpu_affinity :=
                        lookup_sched_setaffinity K (kernel_view m)\<rparr>\<rparr>
               else m)
      in if set_cpu_affinity (host m) = 0 then (bf_error_unknown, m)
         else
           let (r, m) = ask_kernel (call_setaffinity K (set_cpu_affinity (host m)) (ucast affinity)) m
           in if r \<noteq> 0 then (bf_error_unknown, m) else (affinity, m))"

definition linux_platform_restore_affinity ::
  "int64 \<Rightarrow> 'k linux_host machine \<Rightarrow> 'k linux_host machine" where
  "linux_platform_restore_affinity affinity m = m"

definition linux_platform_get_current_cpu_num ::
  "'k linux_kernel \<Rightarrow> 'k linux_host machine \<Rightarrow> int64 \<times> 'k linux_host machine" where
  "linux_platform_get_current_cpu_num K m =
     (case ask_kernel (get_cpu K) m of (cpu, m) \<Rightarrow> (scast cpu, m))"

definition linux_platform_restore_preemption ::
  "'k linux_kernel \<Rightarrow> 'k linux_host machine \<Rightarrow> 'k linux_host machine" where
  "linux_platform_restore_preemption K m = in_kernel (put_cpu K) m"

text \<open>
  The environment of the driver on Linux: the constants, the ELF loader and the VMM of
  \<open>B\<close>, with the platform layer of this port.
\<close>

definition linux_env ::
  "'k linux_kernel \<Rightarrow> 'k linux_host env \<Rightarrow> 'k linux_host env" where
  "linux_env K B =
     B\<lparr>platform_alloc_rw := linux_platform_alloc_rw K,
       platform_alloc_rwe := linux_platform_alloc_rwe K,
       platform_free_rw := linux_platform_free_rw K,
       platform_free_rwe := linux_platform_free_rwe K,
       platform_virt_to_phys := linux_platform_virt_to_phys K,
       platform_memset := linux_platform_memset,
       platform_memcpy := linux_platform_memcpy,
       platform_start := linux_platform_start K,
       platform_stop := linux_platform_stop K,
       platform_num_cpus := linux_platform_num_cpus K,
       platform_set_affinity := linux_platform_set_affinity K (rc B BF_ERROR_UNKNOWN),
       platform_restore_affinity := linux_platform_restore_affinity,
       platform_get_current_cpu_num := linux_platform_get_current_cpu_num K,
       platform_restore_preemption := linux_platform_restore_preemption K\<rparr>"

text \<open>The port changes nothing but the platform layer.\<close>

lemma linux_env_ok [simp]: "env_ok (linux_env K B) = env_ok B"
  by (simp add: linux_env_def env_ok_def codes_ok_def loader_ok_def)

lemma linux_env_consts [simp]:
  "rc (linux_env K B) = rc B" "MAX_NUM_MODULES (linux_env K B) = MAX_NUM_MODULES B"
  "STACK_SIZE (linux_env K B) = STACK_SIZE B"
  "THREAD_LOCAL_STORAGE_SIZE (linux_env K B) = THREAD_LOCAL_STORAGE_SIZE B"
  by (simp_all add: linux_env_def)

text \<open>The answer of \<open>platform_set_affinity\<close> is the CPU asked for or the error code.\<close>

lemma linux_set_affinity_answer:
  assumes "linux_platform_set_affinity K e cpu m = (r, m')"
  shows "r = cpu \<or> r = e" and "mem m' = mem m \<or> set_cpu_affinity (host m') \<noteq> 0"
  using assms
  by (auto simp: linux_platform_set_affinity_def Let_def ask_kernel_def from_kernel_def
      split: prod.splits if_splits)

lemma linux_num_cpus:
  "linux_platform_num_cpus K m = (ucast (num_online_cpus K (kernel_view m)), m)"
  "0 \<le> sint (ucast (num_online_cpus K (kernel_view m)) :: int64)"
  using ucast_nonneg [of "num_online_cpus K (kernel_view m)"]
  by (simp_all add: linux_platform_num_cpus_def Let_def not_less [symmetric])

interpretation linux_layer: platform_layer "linux_env K B"
  for K :: "'k linux_kernel" and B :: "'k linux_host env"
  by unfold_locales
    (auto simp: linux_env_def linux_num_cpus linux_platform_memset_def)

end
