(* ===== verification/Linux_Entry.thy ===== *)
theory Linux_Entry
  imports Driver_Lifecycle
begin

text \<open>
  The Linux character device, \<open>src/src/arch/linux/entry.c\<close>: its globals, one function per
  ioctl handler, the dispatch, and the entry and exit points of the kernel module. The
  handlers call \<open>common.c\<close> and the platform layer; copying from and to user space and the
  registration services of the kernel are parameters.
\<close>

section \<open>The kernel as the device sees it\<close>

text \<open>
  \<open>copy_from_user dst src n\<close> and \<open>copy_to_user dst src n\<close> return the number of bytes that
  were not copied. A variable whose address the code takes has an address here:
  \<open>addr_of_drr\<close> and \<open>addr_of_vmm_status\<close> are automatic variables, the other two globals.
\<close>

record 'h linux_services =
  copy_from_user :: "uint64 \<Rightarrow> uint64 \<Rightarrow> uint64 \<Rightarrow> 'h machine \<Rightarrow> uint64 \<times> 'h machine"
  copy_to_user :: "uint64 \<Rightarrow> uint64 \<Rightarrow> uint64 \<Rightarrow> 'h machine \<Rightarrow> uint64 \<times> 'h machine"
  misc_register :: "'h machine \<Rightarrow> int64 \<times> 'h machine"
  misc_deregister :: "'h machine \<Rightarrow> 'h machine"
  addr_of_g_module_length :: uint64
  addr_of_g_vcpuid :: uint64
  addr_of_drr :: uint64
  addr_of_vmm_status :: uint64
  sizeof_drr :: uint64
  vmm_status_code :: "vmm_status \<Rightarrow> int64"
  BF_IOCTL_SUCCESS :: int64
  BF_IOCTL_FAILURE :: int64
  EINVAL :: int64
  EPERM :: int64
  NOTIFY_DONE :: int64
  IOCTL_ADD_MODULE :: uint32
  IOCTL_ADD_MODULE_LENGTH :: uint32
  IOCTL_LOAD_VMM :: uint32
  IOCTL_UNLOAD_VMM :: uint32
  IOCTL_START_VMM :: uint32
  IOCTL_STOP_VMM :: uint32
  IOCTL_DUMP_VMM :: uint32
  IOCTL_VMM_STATUS :: uint32
  IOCTL_SET_VCPUID :: uint32

section \<open>Globals\<close>

record pmodule =
  pm_data :: uint64
  pm_size :: int64

text \<open>
  The last two fields are what the kernel holds of the module: whether its reboot
  notifier and its device are registered.
\<close>

record 'h linux_state =
  core :: "'h common_state"
  g_vcpuid :: uint64
  g_module_length :: uint64
  g_num_pmodules :: uint64
  pmodules :: "pmodule list"
  notifier_registered :: bool
  device_registered :: bool

definition zero_pmodules :: "('h, 'z) env_scheme \<Rightarrow> pmodule list" where
  "zero_pmodules E = replicate (MAX_NUM_MODULES E) \<lparr>pm_data = 0, pm_size = 0\<rparr>"

definition linux_initial :: "('h, 'z) env_scheme \<Rightarrow> 'h machine \<Rightarrow> 'h linux_state" where
  "linux_initial E m =
     \<lparr>core = initial_state E m, g_vcpuid = 0, g_module_length = 0, g_num_pmodules = 0,
      pmodules = zero_pmodules E, notifier_registered = False, device_registered = False\<rparr>"

text \<open>A function of \<open>common.c\<close> or of the platform, on the state of the device.\<close>

definition with_core ::
  "('h common_state \<Rightarrow> 'r \<times> 'h common_state) \<Rightarrow> 'h linux_state \<Rightarrow> 'r \<times> 'h linux_state" where
  "with_core f s = (case f (core s) of (r, c) \<Rightarrow> (r, s\<lparr>core := c\<rparr>))"

definition with_machine ::
  "('h machine \<Rightarrow> 'r \<times> 'h machine) \<Rightarrow> 'h linux_state \<Rightarrow> 'r \<times> 'h linux_state" where
  "with_machine f =
     with_core (\<lambda>c. case f (machine c) of (r, m) \<Rightarrow> (r, c\<lparr>machine := m\<rparr>))"

definition update_machine ::
  "('h machine \<Rightarrow> 'h machine) \<Rightarrow> 'h linux_state \<Rightarrow> 'h linux_state" where
  "update_machine f s = s\<lparr>core := on_machine f (core s)\<rparr>"

definition free_pmodule ::
  "('h, 'z) env_scheme \<Rightarrow> uint64 \<Rightarrow> uint64 \<Rightarrow> 'h linux_state \<Rightarrow> 'h linux_state" where
  "free_pmodule E addr n s = s\<lparr>core := call_free_rw E addr n (core s)\<rparr>"

section \<open>The handlers\<close>

definition dev_open :: "'h linux_state \<Rightarrow> int64 \<times> 'h linux_state" where
  "dev_open s = (0, s)"

definition dev_release :: "'h linux_state \<Rightarrow> int64 \<times> 'h linux_state" where
  "dev_release s = (0, s)"

definition ioctl_add_module ::
  "'h linux_services \<Rightarrow> ('h, 'z) env_scheme \<Rightarrow> uint64 \<Rightarrow> 'h linux_state \<Rightarrow> int64 \<times> 'h linux_state" where
  "ioctl_add_module U E file s =
     (if MAX_NUM_MODULES E \<le> unat (g_num_pmodules s) then (BF_IOCTL_FAILURE U, s)
      else
        let (buf, s) = with_core (call_alloc_rw E (g_module_length s)) s
        in if buf = 0 then (BF_IOCTL_FAILURE U, s)
           else
             let (left, s) = with_machine (copy_from_user U buf file (g_module_length s)) s
             in if left \<noteq> 0
                then (BF_IOCTL_FAILURE U, free_pmodule E buf (g_module_length s) s)
                else
                  let (ret, s) = with_core (common_add_module E buf (g_module_length s)) s
                  in if ret \<noteq> rc E BF_SUCCESS
                     then (BF_IOCTL_FAILURE U, free_pmodule E buf (g_module_length s) s)
                     else
                       (BF_IOCTL_SUCCESS U,
                        s\<lparr>pmodules := (pmodules s)
                             [unat (g_num_pmodules s) := \<lparr>pm_data = buf, pm_size = g_module_length s\<rparr>],
                          g_num_pmodules := g_num_pmodules s + 1\<rparr>))"

text \<open>
  A copy into a 64-bit global: its bytes are those at its address after the copy, whatever
  the copy returns.
\<close>

definition copy_u64_from_user ::
  "'h linux_services \<Rightarrow> uint64 \<Rightarrow> uint64 \<Rightarrow> uint64 \<Rightarrow> 'h linux_state
    \<Rightarrow> uint64 \<times> uint64 \<times> 'h linux_state" where
  "copy_u64_from_user U addr old src s =
     (let (left, s) = with_machine (\<lambda>m. copy_from_user U addr src 8
                         (m\<lparr>mem := store_u64 addr old (mem m)\<rparr>)) s
      in (left, load_u64 addr (mem (machine (core s))), s))"

definition ioctl_add_module_length ::
  "'h linux_services \<Rightarrow> uint64 \<Rightarrow> 'h linux_state \<Rightarrow> int64 \<times> 'h linux_state" where
  "ioctl_add_module_length U len s =
     (if len = 0 then (BF_IOCTL_FAILURE U, s)
      else
        let (left, v, s) = copy_u64_from_user U (addr_of_g_module_length U) (g_module_length s) len s;
            s = s\<lparr>g_module_length := v\<rparr>
        in if left \<noteq> 0 then (BF_IOCTL_FAILURE U, s) else (BF_IOCTL_SUCCESS U, s))"

fun free_pmodules ::
  "('h, 'z) env_scheme \<Rightarrow> pmodule list \<Rightarrow> 'h linux_state \<Rightarrow> 'h linux_state" where
  "free_pmodules E [] s = s"
| "free_pmodules E (p # ps) s = free_pmodules E ps (free_pmodule E (pm_data p) (pm_size p) s)"

definition ioctl_unload_vmm ::
  "'h linux_services \<Rightarrow> ('h, 'z) env_scheme \<Rightarrow> 'h linux_state \<Rightarrow> int64 \<times> 'h linux_state" where
  "ioctl_unload_vmm U E s =
     (let (ret, s) = with_core (common_unload_vmm E) s;
          status = (if ret \<noteq> rc E BF_SUCCESS then BF_IOCTL_FAILURE U else BF_IOCTL_SUCCESS U);
          s = free_pmodules E (take (unat (g_num_pmodules s)) (pmodules s)) s
      in (status, s\<lparr>g_num_pmodules := 0, pmodules := zero_pmodules E\<rparr>))"

definition ioctl_load_vmm ::
  "'h linux_services \<Rightarrow> ('h, 'z) env_scheme \<Rightarrow> 'h linux_state \<Rightarrow> (int64 \<times> 'h linux_state) option" where
  "ioctl_load_vmm U E s =
     (case common_load_vmm E (core s) of
        None \<Rightarrow> None
      | Some (ret, c) \<Rightarrow>
          let s = s\<lparr>core := c\<rparr>
          in if ret \<noteq> rc E BF_SUCCESS
             then (let (_, s) = ioctl_unload_vmm U E s in Some (BF_IOCTL_FAILURE U, s))
             else Some (BF_IOCTL_SUCCESS U, s))"

definition ioctl_stop_vmm ::
  "'h linux_services \<Rightarrow> ('h, 'z) env_scheme \<Rightarrow> 'h linux_state \<Rightarrow> int64 \<times> 'h linux_state" where
  "ioctl_stop_vmm U E s =
     (let (ret, s) = with_core (common_stop_vmm E) s
      in (if ret \<noteq> rc E BF_SUCCESS then BF_IOCTL_FAILURE U else BF_IOCTL_SUCCESS U, s))"

definition ioctl_start_vmm ::
  "'h linux_services \<Rightarrow> ('h, 'z) env_scheme \<Rightarrow> 'h linux_state \<Rightarrow> int64 \<times> 'h linux_state" where
  "ioctl_start_vmm U E s =
     (let (ret, s) = with_core (common_start_vmm E) s
      in if ret \<noteq> rc E BF_SUCCESS
         then (let (_, s) = ioctl_stop_vmm U E s in (BF_IOCTL_FAILURE U, s))
         else (BF_IOCTL_SUCCESS U, s))"

text \<open>The automatic variable \<open>drr\<close> starts as a null pointer; the VMM sets it.\<close>

definition ioctl_dump_vmm ::
  "'h linux_services \<Rightarrow> ('h, 'z) env_scheme \<Rightarrow> uint64 \<Rightarrow> 'h linux_state \<Rightarrow> int64 \<times> 'h linux_state" where
  "ioctl_dump_vmm U E user_drr s =
     (let s = update_machine (\<lambda>m. m\<lparr>mem := store_u64 (addr_of_drr U) 0 (mem m)\<rparr>) s;
          (ret, s) = with_core (common_dump_vmm E (addr_of_drr U) (g_vcpuid s)) s
      in if ret \<noteq> rc E BF_SUCCESS then (BF_IOCTL_FAILURE U, s)
         else
           let drr = load_u64 (addr_of_drr U) (mem (machine (core s)));
               (left, s) = with_machine (copy_to_user U user_drr drr (sizeof_drr U)) s
           in if left \<noteq> 0 then (BF_IOCTL_FAILURE U, s) else (BF_IOCTL_SUCCESS U, s))"

definition ioctl_vmm_status ::
  "'h linux_services \<Rightarrow> uint64 \<Rightarrow> 'h linux_state \<Rightarrow> int64 \<times> 'h linux_state" where
  "ioctl_vmm_status U status s =
     (let vmm_status = vmm_status_code U (common_vmm_status (core s))
      in if status = 0 then (BF_IOCTL_FAILURE U, s)
         else
           let (left, s) = with_machine (\<lambda>m. copy_to_user U status (addr_of_vmm_status U) 8
                 (m\<lparr>mem := store_u64 (addr_of_vmm_status U) vmm_status (mem m)\<rparr>)) s
           in if left \<noteq> 0 then (BF_IOCTL_FAILURE U, s) else (BF_IOCTL_SUCCESS U, s))"

definition ioctl_set_vcpuid ::
  "'h linux_services \<Rightarrow> uint64 \<Rightarrow> 'h linux_state \<Rightarrow> int64 \<times> 'h linux_state" where
  "ioctl_set_vcpuid U vcpuid s =
     (if vcpuid = 0 then (BF_IOCTL_FAILURE U, s)
      else
        let (left, v, s) = copy_u64_from_user U (addr_of_g_vcpuid U) (g_vcpuid s) vcpuid s;
            s = s\<lparr>g_vcpuid := v\<rparr>
        in if left \<noteq> 0 then (BF_IOCTL_FAILURE U, s) else (BF_IOCTL_SUCCESS U, s))"

section \<open>Dispatch\<close>

definition dev_unlocked_ioctl ::
  "'h linux_services \<Rightarrow> ('h, 'z) env_scheme \<Rightarrow> uint32 \<Rightarrow> uint64 \<Rightarrow> 'h linux_state
    \<Rightarrow> (int64 \<times> 'h linux_state) option" where
  "dev_unlocked_ioctl U E cmd arg s =
     (if cmd = IOCTL_ADD_MODULE U then Some (ioctl_add_module U E arg s)
      else if cmd = IOCTL_ADD_MODULE_LENGTH U then Some (ioctl_add_module_length U arg s)
      else if cmd = IOCTL_LOAD_VMM U then ioctl_load_vmm U E s
      else if cmd = IOCTL_UNLOAD_VMM U then Some (ioctl_unload_vmm U E s)
      else if cmd = IOCTL_START_VMM U then Some (ioctl_start_vmm U E s)
      else if cmd = IOCTL_STOP_VMM U then Some (ioctl_stop_vmm U E s)
      else if cmd = IOCTL_DUMP_VMM U then Some (ioctl_dump_vmm U E arg s)
      else if cmd = IOCTL_VMM_STATUS U then Some (ioctl_vmm_status U arg s)
      else if cmd = IOCTL_SET_VCPUID U then Some (ioctl_set_vcpuid U arg s)
      else Some (- EINVAL U, s))"

section \<open>Entry and exit of the kernel module\<close>

definition dev_reboot ::
  "'h linux_services \<Rightarrow> ('h, 'z) env_scheme \<Rightarrow> 'h linux_state \<Rightarrow> int64 \<times> 'h linux_state" where
  "dev_reboot U E s = (let (_, s) = with_core (common_fini E) s in (NOTIFY_DONE U, s))"

definition dev_init ::
  "'h linux_services \<Rightarrow> ('h, 'z) env_scheme \<Rightarrow> 'h linux_state \<Rightarrow> int64 \<times> 'h linux_state" where
  "dev_init U E s =
     (let s = s\<lparr>notifier_registered := True\<rparr>;
          (ret, s) = with_machine (misc_register U) s
      in if ret \<noteq> 0 then (- EPERM U, s)
         else
           let s = s\<lparr>device_registered := True\<rparr>;
               (ret, s) = with_core (common_init E) s
           in if ret \<noteq> 0 then (- EPERM U, s) else (0, s))"

definition dev_exit ::
  "'h linux_services \<Rightarrow> ('h, 'z) env_scheme \<Rightarrow> 'h linux_state \<Rightarrow> 'h linux_state" where
  "dev_exit U E s =
     (let (_, s) = with_core (common_fini E) s;
          s = update_machine (misc_deregister U) s
      in s\<lparr>device_registered := False, notifier_registered := False\<rparr>)"

end
