(* ===== verification/Linux_Invariant.thy ===== *)
theory Linux_Invariant
  imports Linux_Entry
begin

text \<open>
  The invariant of the Linux device: the one of \<open>common.c\<close>, the bounds of the table of
  copied modules, and, while no VMM is loaded, the agreement of that table with the
  modules \<open>common.c\<close> knows. The device owns the copies; together with the blocks of
  \<open>common.c\<close> they are all that is allocated. Every ioctl keeps both.
\<close>

section \<open>The invariant\<close>

definition live_pmodules :: "'h linux_state \<Rightarrow> (uint64 \<times> uint64) list" where
  "live_pmodules s = map (\<lambda>p. (pm_data p, pm_size p)) (take (unat (g_num_pmodules s)) (pmodules s))"

definition core_files :: "'h common_state \<Rightarrow> (uint64 \<times> uint64) list" where
  "core_files c =
     map (\<lambda>b. (bin_file b, bin_file_size b)) (take (nat (sint (g_num_modules c))) (g_modules c))"

definition modules_match :: "'h linux_state \<Rightarrow> bool" where
  "modules_match s \<longleftrightarrow>
     sint (g_num_modules (core s)) = int (unat (g_num_pmodules s)) \<and>
     core_files (core s) = live_pmodules s"

definition linux_inv :: "('h, 'z) env_scheme \<Rightarrow> 'h linux_state \<Rightarrow> bool" where
  "linux_inv E s \<longleftrightarrow>
     vmm_inv E (core s) \<and> length (pmodules s) = MAX_NUM_MODULES E \<and>
     unat (g_num_pmodules s) \<le> MAX_NUM_MODULES E \<and>
     (g_vmm_status (core s) = VMM_UNLOADED \<longrightarrow> modules_match s)"

definition linux_owns :: "blocks \<Rightarrow> 'h linux_state \<Rightarrow> bool" where
  "linux_owns R s \<longleftrightarrow> heap_ok (mset (live_pmodules s) + R) (core s)"

definition linux_clean :: "'h linux_state \<Rightarrow> bool" where
  "linux_clean s \<longleftrightarrow> clean (core s)"

section \<open>Calls on the core that change only the machine and the trace\<close>

lemma files_cong:
  "g_num_modules d = g_num_modules c \<Longrightarrow> g_modules d = g_modules c \<Longrightarrow> core_files d = core_files c"
  by (simp add: core_files_def)

lemma calls_inv:
  assumes "vmm_calls (core s) c" and "linux_inv E s"
  shows "linux_inv E (s\<lparr>core := c\<rparr>)"
  using assms vmm_calls_inv [OF assms(1), of E] vmm_callsD [OF assms(1)]
    files_cong [OF vmm_callsD(1,2) [OF assms(1)]]
  by (simp add: linux_inv_def modules_match_def live_pmodules_def)

lemma calls_owns:
  assumes "vmm_calls (core s) c"
  shows "linux_owns R (s\<lparr>core := c\<rparr>) = linux_owns R s"
    and "linux_clean (s\<lparr>core := c\<rparr>) = linux_clean s"
  using vmm_calls_heap [OF assms] vmm_only_clean [of "core s" c] assms
  by (simp_all add: linux_owns_def linux_clean_def live_pmodules_def vmm_calls_def)

lemma with_machine_calls:
  assumes "with_machine f s = (r, s')"
  obtains c where "s' = s\<lparr>core := c\<rparr>" and "vmm_calls (core s) c"
proof -
  obtain q m where "f (machine (core s)) = (q, m)" by force
  then have "s' = s\<lparr>core := (core s)\<lparr>machine := m\<rparr>\<rparr>"
    using assms by (simp add: with_machine_def with_core_def)
  moreover have "vmm_calls (core s) ((core s)\<lparr>machine := m\<rparr>)"
    by (simp add: vmm_calls_def vmm_only_def)
  ultimately show thesis by (rule that)
qed

lemma update_core_idem [simp]: "s\<lparr>core := core s\<rparr> = (s :: 'h linux_state)"
  by simp

lemma g_fields_inv [simp]:
  "linux_inv E (s\<lparr>g_module_length := v\<rparr>) = linux_inv E s"
  "linux_inv E (s\<lparr>g_vcpuid := v\<rparr>) = linux_inv E s"
  "linux_inv E (s\<lparr>notifier_registered := b\<rparr>) = linux_inv E s"
  "linux_inv E (s\<lparr>device_registered := b\<rparr>) = linux_inv E s"
  by (simp_all add: linux_inv_def modules_match_def live_pmodules_def)

lemma g_fields_owns [simp]:
  "linux_owns R (s\<lparr>g_module_length := v\<rparr>) = linux_owns R s"
  "linux_owns R (s\<lparr>g_vcpuid := v\<rparr>) = linux_owns R s"
  "linux_owns R (s\<lparr>notifier_registered := b\<rparr>) = linux_owns R s"
  "linux_owns R (s\<lparr>device_registered := b\<rparr>) = linux_owns R s"
  "linux_clean (s\<lparr>g_module_length := v\<rparr>) = linux_clean s"
  "linux_clean (s\<lparr>g_vcpuid := v\<rparr>) = linux_clean s"
  "linux_clean (s\<lparr>notifier_registered := b\<rparr>) = linux_clean s"
  "linux_clean (s\<lparr>device_registered := b\<rparr>) = linux_clean s"
  by (simp_all add: linux_owns_def linux_clean_def live_pmodules_def)

text \<open>What such an operation keeps, in one predicate.\<close>

definition keeps :: "('h, 'z) env_scheme \<Rightarrow> 'h linux_state \<Rightarrow> 'h linux_state \<Rightarrow> bool" where
  "keeps E s t \<longleftrightarrow>
     (linux_inv E s \<longrightarrow> linux_inv E t) \<and> (\<forall>R. linux_owns R s \<longrightarrow> linux_owns R t) \<and>
     (linux_clean s \<longrightarrow> linux_clean t) \<and> g_vmm_status (core t) = g_vmm_status (core s)"

lemma keeps_refl [simp]: "keeps E s s"
  by (simp add: keeps_def)

lemma keeps_trans: "keeps E s t \<Longrightarrow> keeps E t u \<Longrightarrow> keeps E s u"
  by (simp add: keeps_def)

lemma keeps_fields [simp]:
  "keeps E s (t\<lparr>g_module_length := v\<rparr>) = keeps E s t" "keeps E s (t\<lparr>g_vcpuid := v\<rparr>) = keeps E s t"
  by (simp_all add: keeps_def)

lemma calls_keeps: "vmm_calls (core s) c \<Longrightarrow> keeps E s (s\<lparr>core := c\<rparr>)"
  using calls_inv [of s c E] calls_owns [of s c] vmm_callsD(6) [of "core s" c]
  by (simp add: keeps_def)

lemma with_machine_keeps: "with_machine f s = (r, s') \<Longrightarrow> keeps E s s'"
  by (erule with_machine_calls) (simp add: calls_keeps)

lemma update_machine_keeps: "keeps E s (update_machine f s)"
  unfolding update_machine_def
  by (rule calls_keeps) (simp add: vmm_calls_def vmm_only_def on_machine_def cong: pinned_cong live_cong exec_cong)

lemma copy_u64_keeps:
  assumes "copy_u64_from_user U addr old src s = (left, v, s')"
  shows "keeps E s s'"
  using assms by (auto simp: copy_u64_from_user_def Let_def split: prod.splits dest: with_machine_keeps)

lemma ioctl_add_module_length_keeps: "ioctl_add_module_length U len s = (r, s') \<Longrightarrow> keeps E s s'"
  by (auto simp: ioctl_add_module_length_def Let_def split: prod.splits if_splits dest: copy_u64_keeps)

lemma ioctl_set_vcpuid_keeps: "ioctl_set_vcpuid U vcpuid s = (r, s') \<Longrightarrow> keeps E s s'"
  by (auto simp: ioctl_set_vcpuid_def Let_def split: prod.splits if_splits dest: copy_u64_keeps)

lemma ioctl_vmm_status_keeps: "ioctl_vmm_status U status s = (r, s') \<Longrightarrow> keeps E s s'"
  by (auto simp: ioctl_vmm_status_def Let_def split: prod.splits if_splits dest: with_machine_keeps)

lemma ioctl_dump_vmm_keeps:
  assumes "ioctl_dump_vmm U E user_drr s = (r, s')"
  shows "keeps E s s'"
proof -
  define t where "t = update_machine (\<lambda>m. m\<lparr>mem := store_u64 (addr_of_drr U) 0 (mem m)\<rparr>) s"
  obtain ret c where c: "common_dump_vmm E (addr_of_drr U) (g_vcpuid t) (core t) = (ret, c)" by force
  obtain left u where u: "with_machine (copy_to_user U user_drr
      (load_u64 (addr_of_drr U) (mem (machine c))) (sizeof_drr U)) (t\<lparr>core := c\<rparr>) = (left, u)" by force
  have "keeps E s t" unfolding t_def by (rule update_machine_keeps)
  then have "keeps E s (t\<lparr>core := c\<rparr>)"
    by (rule keeps_trans [OF _ calls_keeps [OF common_dump_calls [OF c]]])
  moreover have "keeps E s u"
    by (rule keeps_trans [OF calculation with_machine_keeps [OF u]])
  ultimately show ?thesis
    using assms c u by (auto simp: ioctl_dump_vmm_def with_core_def Let_def t_def [symmetric] split: if_splits)
qed

section \<open>Blocks of the device\<close>

lemma call_free_rw_only: "vmm_only c (call_free_rw E a n c)"
  by (simp add: vmm_only_def call_free_rw_def on_machine_def log_def)

lemma call_free_rw_pinned: "pinned c = Some False \<Longrightarrow> pinned (call_free_rw E a n c) = Some False"
  by (simp add: call_free_rw_def on_machine_def)

lemma call_free_rw_heap:
  assumes "heap_ok (add_mset (a, n) R) c"
  shows "heap_ok R (call_free_rw E a n c)"
proof -
  have "live_blocks c = Some (add_mset (a, n) (held c + R))"
    using assms by (simp add: heap_ok_def)
  then have "live_blocks (call_free_rw E a n c) = Some (held c + R)"
    by (simp add: call_free_rw_def on_machine_def)
  then show ?thesis
    using vmm_only_held [OF call_free_rw_only] by (metis heap_ok_def)
qed

lemma call_alloc_rw_facts:
  assumes "call_alloc_rw E n c = (a, c')"
  shows "vmm_only c c'" and "pinned c = Some False \<Longrightarrow> pinned c' = Some False"
    and "heap_ok R c \<Longrightarrow> heap_ok (block a n + R) c'"
proof -
  obtain m where m: "c' = log (AllocRw n a) (c\<lparr>machine := m\<rparr>)"
    using assms by (auto simp: call_alloc_rw_def split: prod.splits)
  show "vmm_only c c'" by (simp add: m vmm_only_def log_def)
  then have h: "held c' = held c" by (rule vmm_only_held)
  show "pinned c = Some False \<Longrightarrow> pinned c' = Some False" by (simp add: m)
  have "live_blocks c' = Some (block a n + l)" if "live_blocks c = Some l" for l
    using that by (simp add: m block_def)
  then show "heap_ok R c \<Longrightarrow> heap_ok (block a n + R) c'"
    by (simp add: heap_ok_def h ac_simps)
qed

lemma free_pmodules_frame:
  "\<exists>c. free_pmodules E ps s = s\<lparr>core := c\<rparr> \<and> vmm_only (core s) c \<and>
     (pinned (core s) = Some False \<longrightarrow> pinned c = Some False)"
proof (induction ps arbitrary: s)
  case Nil
  show ?case by (intro exI [of _ "core s"]) simp
next
  case (Cons p ps)
  let ?t = "free_pmodule E (pm_data p) (pm_size p) s"
  obtain c where "free_pmodules E ps ?t = ?t\<lparr>core := c\<rparr>" "vmm_only (core ?t) c"
    "pinned (core ?t) = Some False \<longrightarrow> pinned c = Some False" using Cons.IH [of ?t] by blast
  moreover have "vmm_only (core s) (core ?t)"
    "pinned (core s) = Some False \<longrightarrow> pinned (core ?t) = Some False"
    by (simp_all add: free_pmodule_def call_free_rw_only call_free_rw_pinned)
  ultimately show ?case
    by (intro exI [of _ c]) (auto simp: free_pmodule_def intro: vmm_only_trans)
qed

lemma free_pmodules_heap:
  "heap_ok (mset (map (\<lambda>p. (pm_data p, pm_size p)) ps) + R) (core s) \<Longrightarrow>
   heap_ok R (core (free_pmodules E ps s))"
proof (induction ps arbitrary: s)
  case (Cons p ps)
  then show ?case
    using call_free_rw_heap [of "pm_data p" "pm_size p" _ "core s" E]
    by (auto simp: free_pmodule_def intro!: Cons.IH)
qed simp

end
