(* ===== verification/Linux_Operations.thy ===== *)
theory Linux_Operations
  imports Linux_Invariant
begin

text \<open>
  Every ioctl keeps the invariant of the device and the ownership of its blocks, and its
  effect on the status of the VMM is a composition of steps of the automaton of
  \<open>common.c\<close>. The contracts of \<open>Driver_Lifecycle\<close> are interpreted on the dispatch function.
\<close>

section \<open>One predicate per operation\<close>

definition linux_safe :: "('h, 'z) env_scheme \<Rightarrow> 'h linux_state \<Rightarrow> 'h linux_state \<Rightarrow> bool" where
  "linux_safe E s s' \<longleftrightarrow>
     (linux_inv E s \<longrightarrow> linux_inv E s') \<and>
     (\<forall>R. linux_inv E s \<and> linux_owns R s \<and> linux_clean s \<longrightarrow> linux_owns R s' \<and> linux_clean s')"

lemma keeps_safe: "keeps E s s' \<Longrightarrow> linux_safe E s s'"
  by (simp add: keeps_def linux_safe_def)

section \<open>Unload and load\<close>

lemma unload_state:
  assumes "ioctl_unload_vmm U E s = (r, s')"
  obtains ret c d where "common_unload_vmm E (core s) = (ret, c)" and "vmm_only c d"
    and "pinned c = Some False \<longrightarrow> pinned d = Some False"
    and "\<And>R. heap_ok (mset (live_pmodules s) + R) c \<Longrightarrow> heap_ok R d"
    and "s' = s\<lparr>core := d, g_num_pmodules := 0, pmodules := zero_pmodules E\<rparr>"
    and "r = (if ret = rc E BF_SUCCESS then BF_IOCTL_SUCCESS U else BF_IOCTL_FAILURE U)"
proof -
  obtain ret c where c: "common_unload_vmm E (core s) = (ret, c)" by force
  let ?t = "s\<lparr>core := c\<rparr>"
  let ?ps = "take (unat (g_num_pmodules s)) (pmodules s)"
  obtain d where d: "free_pmodules E ?ps ?t = ?t\<lparr>core := d\<rparr>" "vmm_only c d"
    "pinned c = Some False \<longrightarrow> pinned d = Some False"
    using free_pmodules_frame [of E ?ps ?t] by auto
  have "heap_ok R d" if "heap_ok (mset (live_pmodules s) + R) c" for R
    using free_pmodules_heap [of ?ps R ?t E] that d(1) by (simp add: live_pmodules_def)
  then show thesis
    using assms c d
    by (intro that [OF c d(2,3)]) (auto simp: ioctl_unload_vmm_def with_core_def Let_def)
qed

lemma unload_core_empty:
  assumes "common_unload_vmm E c = (ret, c')" and "g_vmm_status c' = VMM_UNLOADED"
  shows "g_num_modules c' = 0"
  using assms(1)
proof (cases rule: common_unload_cases)
  case unloaded
  then show ?thesis using reset_fields(4) [OF unloaded(3)] by simp
next
  case (fini t)
  then show ?thesis using reset_fields(4) [OF fini(4)] by simp
qed (use assms(2) in simp_all)

lemma ioctl_unload_inv:
  assumes "ioctl_unload_vmm U E s = (r, s')" and inv: "vmm_inv E (core s)"
  shows "linux_inv E s'"
  using assms(1)
proof (cases rule: unload_state)
  case (1 ret c d)
  have c: "vmm_inv E c" by (rule common_unload_inv [OF 1(1) inv])
  have d: "vmm_inv E d"
    using vmm_only_inv [OF 1(2) _ c] 1(3) vmm_inv_pinned [OF c] by simp
  have "g_num_modules d = 0" if "g_vmm_status d = VMM_UNLOADED"
    using that unload_core_empty [OF 1(1)] vmm_onlyD(1,6) [OF 1(2)] by simp
  then show ?thesis
    using d 1(5) by (auto simp: linux_inv_def modules_match_def live_pmodules_def core_files_def
        zero_pmodules_def)
qed

lemma ioctl_unload_owns:
  assumes "ioctl_unload_vmm U E s = (r, s')" and heap: "linux_owns R s"
  shows "linux_owns R s'" and "linux_clean s'"
proof -
  have "linux_owns R s' \<and> linux_clean s'"
    using assms(1)
  proof (cases rule: unload_state)
    case (1 ret c d)
    have "heap_ok (mset (live_pmodules s) + R) c"
      using common_unload_heap [OF 1(1)] heap by (simp add: linux_owns_def)
    from 1(4) [OF this] show ?thesis
      using 1(5) vmm_only_clean [OF 1(2)] common_unload_clean [OF 1(1)]
      by (simp add: linux_owns_def linux_clean_def live_pmodules_def)
  qed
  then show "linux_owns R s'" and "linux_clean s'" by simp_all
qed

lemma ioctl_load_cases:
  assumes "ioctl_load_vmm U E s = Some (r, s')"
  obtains (loaded) c where "common_load_vmm E (core s) = Some (rc E BF_SUCCESS, c)"
      and "s' = s\<lparr>core := c\<rparr>" and "r = BF_IOCTL_SUCCESS U"
  | (failed) ret c q where "common_load_vmm E (core s) = Some (ret, c)" and "ret \<noteq> rc E BF_SUCCESS"
      and "ioctl_unload_vmm U E (s\<lparr>core := c\<rparr>) = (q, s')" and "r = BF_IOCTL_FAILURE U"
proof -
  obtain ret c where c: "common_load_vmm E (core s) = Some (ret, c)"
    using assms by (auto simp: ioctl_load_vmm_def split: option.splits)
  obtain q t where t: "ioctl_unload_vmm U E (s\<lparr>core := c\<rparr>) = (q, t)" by force
  show thesis
    using assms c t loaded [of c] failed [of ret c q]
    by (cases "ret = rc E BF_SUCCESS") (simp_all add: ioctl_load_vmm_def)
qed

text \<open>A load gets a loaded VMM, or it leaves a device without modules.\<close>

lemma ioctl_load_safe:
  assumes run: "ioctl_load_vmm U E s = Some (r, s')" and env: "env_ok E"
  shows "linux_safe E s s'"
  using run
proof (cases rule: ioctl_load_cases)
  case (loaded c)
  have st: "g_vmm_status c = VMM_LOADED"
    using common_load_success_status(1) [OF loaded(1) env_okD(1) [OF env]] by simp
  show ?thesis
    using common_load_inv [OF loaded(1) env] common_load_heap [OF loaded(1) env] st loaded(2)
    by (auto simp: linux_safe_def linux_inv_def linux_owns_def linux_clean_def clean_def
        live_pmodules_def)
next
  case (failed ret c q)
  let ?t = "s\<lparr>core := c\<rparr>"
  have inv: "linux_inv E s'" if "linux_inv E s"
    using ioctl_unload_inv [OF failed(3)] common_load_inv [OF failed(1) env] that
    by (simp add: linux_inv_def)
  have owns: "linux_owns R s' \<and> linux_clean s'" if "linux_owns R s" "linux_clean s" for R
  proof -
    have "linux_owns R ?t"
      using common_load_heap [OF failed(1) env] that
      by (simp add: linux_owns_def linux_clean_def live_pmodules_def)
    from ioctl_unload_owns [OF failed(3) this] show ?thesis by blast
  qed
  show ?thesis unfolding linux_safe_def using inv owns by blast
qed

section \<open>Start and stop\<close>

lemma with_core_eq:
  "with_core f s = (r, s') \<longleftrightarrow> (\<exists>c. f (core s) = (r, c) \<and> s' = s\<lparr>core := c\<rparr>)"
  by (auto simp: with_core_def split: prod.splits)

lemma core_step_safe:
  assumes run: "common_step E op (core s) = Some (ret, c)" and env: "env_ok E"
    and op: "op = Common_Start \<or> op = Common_Stop"
  shows "linux_safe E s (s\<lparr>core := c\<rparr>)"
proof -
  have st: "c = core s" if "g_vmm_status (core s) = VMM_UNLOADED"
    using run op that
    by (auto simp: common_step_def common_start_vmm_def common_stop_vmm_def common_vmm_status_def)
  have st': "g_vmm_status c \<noteq> VMM_UNLOADED"
    if "g_vmm_status (core s) \<noteq> VMM_UNLOADED" and "vmm_inv E (core s)"
    using common_step_lifecycle [OF run env that(2)] that(1) op by (auto simp: lifecycle_simps)
  have inv: "linux_inv E (s\<lparr>core := c\<rparr>)" if "linux_inv E s"
  proof (cases "g_vmm_status (core s) = VMM_UNLOADED")
    case True
    then show ?thesis using st that by simp
  next
    case False
    then show ?thesis
      using that st' common_step_inv [OF run env] by (simp add: linux_inv_def)
  qed
  show ?thesis
    using inv common_step_heap [OF run env] op
    by (auto simp: linux_safe_def linux_inv_def linux_owns_def linux_clean_def live_pmodules_def)
qed

lemma ioctl_stop_eq:
  assumes "ioctl_stop_vmm U E s = (r, s')"
  obtains ret c where "common_stop_vmm E (core s) = (ret, c)" and "s' = s\<lparr>core := c\<rparr>"
    and "r = (if ret = rc E BF_SUCCESS then BF_IOCTL_SUCCESS U else BF_IOCTL_FAILURE U)"
  using assms by (auto simp: ioctl_stop_vmm_def with_core_def Let_def split: prod.splits)

lemma ioctl_stop_safe:
  assumes "ioctl_stop_vmm U E s = (r, s')" and "env_ok E"
  shows "linux_safe E s s'"
  using assms(1)
proof (cases rule: ioctl_stop_eq)
  case (1 ret c)
  then show ?thesis
    using core_step_safe [of E Common_Stop s ret c] assms(2) by (simp add: common_step_def)
qed

lemma linux_safe_trans: "linux_safe E s t \<Longrightarrow> linux_safe E t u \<Longrightarrow> linux_safe E s u"
  by (auto simp: linux_safe_def)

lemma ioctl_start_cases:
  assumes "ioctl_start_vmm U E s = (r, s')"
  obtains (started) c where "common_start_vmm E (core s) = (rc E BF_SUCCESS, c)"
      and "s' = s\<lparr>core := c\<rparr>" and "r = BF_IOCTL_SUCCESS U"
  | (failed) ret c q where "common_start_vmm E (core s) = (ret, c)" and "ret \<noteq> rc E BF_SUCCESS"
      and "ioctl_stop_vmm U E (s\<lparr>core := c\<rparr>) = (q, s')" and "r = BF_IOCTL_FAILURE U"
proof -
  obtain ret c where c: "common_start_vmm E (core s) = (ret, c)" by force
  obtain q t where t: "ioctl_stop_vmm U E (s\<lparr>core := c\<rparr>) = (q, t)" by force
  show thesis
    using assms c t started [of c] failed [of ret c q]
    by (cases "ret = rc E BF_SUCCESS") (simp_all add: ioctl_start_vmm_def with_core_def)
qed

lemma ioctl_start_safe:
  assumes "ioctl_start_vmm U E s = (r, s')" and "env_ok E"
  shows "linux_safe E s s'"
  using assms(1)
proof (cases rule: ioctl_start_cases)
  case (started c)
  then show ?thesis
    using core_step_safe [of E Common_Start s _ c] assms(2) by (simp add: common_step_def)
next
  case (failed ret c q)
  have "linux_safe E s (s\<lparr>core := c\<rparr>)"
    using failed(1) core_step_safe [of E Common_Start s ret c] assms(2) by (simp add: common_step_def)
  then show ?thesis by (rule linux_safe_trans [OF _ ioctl_stop_safe [OF failed(3) assms(2)]])
qed

section \<open>Add module\<close>

lemma add_module_cases:
  assumes "ioctl_add_module U E file s = (r, s')" and "codes_ok E"
  obtains (full) "r = BF_IOCTL_FAILURE U" and "s' = s"
  | (no_memory) c where "r = BF_IOCTL_FAILURE U" and "s' = s\<lparr>core := c\<rparr>"
      and "call_alloc_rw E (g_module_length s) (core s) = (0, c)"
  | (freed) a c d where "r = BF_IOCTL_FAILURE U" and "a \<noteq> 0"
      and "call_alloc_rw E (g_module_length s) (core s) = (a, c)" and "vmm_calls c d"
      and "s' = s\<lparr>core := call_free_rw E a (g_module_length s) d\<rparr>"
  | (added) a c d e where "r = BF_IOCTL_SUCCESS U" and "a \<noteq> 0"
      and "unat (g_num_pmodules s) < MAX_NUM_MODULES E"
      and "call_alloc_rw E (g_module_length s) (core s) = (a, c)" and "vmm_calls c d"
      and "common_add_module E a (g_module_length s) d = (rc E BF_SUCCESS, e)"
      and "s' = s\<lparr>core := e, pmodules := (pmodules s)
             [unat (g_num_pmodules s) := \<lparr>pm_data = a, pm_size = g_module_length s\<rparr>],
           g_num_pmodules := g_num_pmodules s + 1\<rparr>"
proof (cases "MAX_NUM_MODULES E \<le> unat (g_num_pmodules s)")
  case True
  then show thesis using assms(1) full by (simp add: ioctl_add_module_def)
next
  case False
  obtain a c where c: "call_alloc_rw E (g_module_length s) (core s) = (a, c)" by force
  obtain left t where t: "with_machine (copy_from_user U a file (g_module_length s))
      (s\<lparr>core := c\<rparr>) = (left, t)" by force
  then obtain d where d: "t = s\<lparr>core := d\<rparr>" "vmm_calls c d"
    by (auto elim!: with_machine_calls)
  obtain ret e where e: "common_add_module E a (g_module_length s) d = (ret, e)" by force
  note run = assms(1) [unfolded ioctl_add_module_def Let_def with_core_def]
  consider "a = 0" | "a \<noteq> 0" "left \<noteq> 0" | "a \<noteq> 0" "left = 0" "ret \<noteq> rc E BF_SUCCESS"
    | "a \<noteq> 0" "left = 0" "ret = rc E BF_SUCCESS" by blast
  then show thesis
  proof cases
    case 1
    then show thesis using run False c by (intro no_memory [of c]) auto
  next
    case 2
    then show thesis
      using run False c t d by (intro freed [of a c d]) (auto simp: free_pmodule_def)
  next
    case 3
    have "e = d"
      using e 3(3) by (cases rule: common_add_module_cases) simp_all
    then show thesis
      using run False c t d e 3 by (intro freed [of a c d]) (auto simp: free_pmodule_def)
  next
    case 4
    then show thesis
      using run False c t d e by (intro added [of a c d e]) auto
  qed
qed

lemma block_nonzero: "a \<noteq> 0 \<Longrightarrow> block a n = {#(a, n)#}"
  by (simp add: block_def)

lemma alloc_free_keeps:
  assumes alloc: "call_alloc_rw E n c = (a, d)" and "a \<noteq> 0" and "vmm_calls d e"
  shows "vmm_only c (call_free_rw E a n e)"
    and "pinned c = Some False \<longrightarrow> pinned (call_free_rw E a n e) = Some False"
    and "heap_ok R c \<Longrightarrow> heap_ok R (call_free_rw E a n e)"
proof -
  note f = call_alloc_rw_facts [OF alloc]
  show "vmm_only c (call_free_rw E a n e)"
    using f(1) assms(3) call_free_rw_only by (metis vmm_calls_def vmm_only_trans)
  show "pinned c = Some False \<longrightarrow> pinned (call_free_rw E a n e) = Some False"
    using f(2) assms(3) call_free_rw_pinned by (metis vmm_calls_pinned)
  show "heap_ok R (call_free_rw E a n e)" if "heap_ok R c"
    using f(3) [OF that] assms(2) vmm_calls_heap [OF assms(3)]
    by (intro call_free_rw_heap) (simp add: block_nonzero)
qed

lemma only_inv:
  assumes "vmm_only (core s) c" and "pinned (core s) = Some False \<longrightarrow> pinned c = Some False"
    and inv: "linux_inv E s"
  shows "linux_inv E (s\<lparr>core := c\<rparr>)"
proof -
  have "vmm_inv E c"
    using vmm_only_inv [OF assms(1), of E] assms(2) inv vmm_inv_pinned [of E "core s"]
    by (simp add: linux_inv_def)
  then show ?thesis
    using inv vmm_onlyD [OF assms(1)] files_cong [OF vmm_onlyD(1,2) [OF assms(1)]]
    by (simp add: linux_inv_def modules_match_def live_pmodules_def)
qed

lemma take_update_Suc:
  "n < length xs \<Longrightarrow> take (Suc n) (xs[n := x]) = take n xs @ [x]"
  by (simp add: take_Suc_conv_app_nth)

lemma unat_incr: "unat (x :: uint64) < k \<Longrightarrow> k < 2 ^ 63 \<Longrightarrow> unat (x + 1) = Suc (unat x)"
  by (simp add: unat_word_ariths)

lemma ioctl_add_module_safe:
  assumes run: "ioctl_add_module U E file s = (r, s')" and env: "env_ok E"
  shows "linux_safe E s s'"
  using run env_okD(1) [OF env]
proof (cases rule: add_module_cases)
  case full
  then show ?thesis by (simp add: linux_safe_def)
next
  case (no_memory c)
  note f = call_alloc_rw_facts [OF no_memory(3)]
  show ?thesis
    using only_inv [OF f(1)] f(2,3) vmm_only_clean [OF f(1)]
    by (auto simp: linux_safe_def no_memory(2) linux_owns_def linux_clean_def live_pmodules_def block_def)
next
  case (freed a c d)
  note f = alloc_free_keeps [OF freed(3,2,4)]
  show ?thesis
    using only_inv [OF f(1,2)] f(3) vmm_only_clean [OF f(1)]
    by (auto simp: linux_safe_def freed(5) linux_owns_def linux_clean_def live_pmodules_def)
next
  case (added a c d e)
  note f = call_alloc_rw_facts [OF added(4)]
  let ?n = "unat (g_num_pmodules s)"
  have Suc: "unat (g_num_pmodules s + 1) = Suc ?n"
    by (rule unat_incr [OF added(3) env_okD(3) [OF env]])
  have only: "vmm_only (core s) d"
    using f(1) added(5) by (meson vmm_calls_def vmm_only_trans)
  have live: "live_pmodules s' = live_pmodules s @ [(a, g_module_length s)]" if "linux_inv E s"
    using that added(3,7) Suc by (simp add: live_pmodules_def take_update_Suc linux_inv_def)
  have inv: "linux_inv E s'" if inv: "linux_inv E s"
  proof -
    have d: "vmm_inv E d"
      using vmm_only_inv [OF only, of E] vmm_calls_pinned [OF added(5)] f(2) inv
        vmm_inv_pinned [of E "core s"] by (simp add: linux_inv_def)
    then have e: "vmm_inv E e" by (rule common_add_module_inv [OF added(6) _ env])
    from added(6) show ?thesis
    proof (cases rule: common_add_module_cases)
      case (refused x)
      then show ?thesis using codes_ok_error(2) [OF env_okD(1) [OF env] refused(1)]
          codes_ok_success(1) [OF env_okD(1) [OF env]] by simp
    next
      case more: (added i)
      have m: "modules_match s" using inv more(3) vmm_onlyD(6) [OF only] by (simp add: linux_inv_def)
      have i: "i = ?n" "i < length (g_modules d)"
        using m more(4,6) d vmm_onlyD(1) [OF only] added(3)
        by (simp_all add: modules_match_def vmm_inv_def table_ok_def)
      have "sint (g_num_modules e) = int (Suc ?n)"
        using num_modules_incr [OF env more(4)] m vmm_onlyD(1) [OF only] more(7)
        by (simp add: modules_match_def)
      moreover have "core_files e = core_files d @ [(a, g_module_length s)]"
        using calculation i more(7) vmm_onlyD(1) [OF only] m
        by (simp add: core_files_def take_update_Suc nat_add_distrib modules_match_def)
      moreover have "core_files d = core_files (core s)"
        by (rule files_cong [OF vmm_onlyD(1,2) [OF only]])
      ultimately have "modules_match s'"
        using live [OF inv] m added(7) Suc by (simp add: modules_match_def)
      then show ?thesis
        using e inv added(3,7) Suc by (simp add: linux_inv_def)
    qed
  qed
  have "linux_owns R s' \<and> linux_clean s'"
    if "linux_inv E s" "linux_owns R s" "linux_clean s" for R
  proof -
    have "heap_ok ({#(a, g_module_length s)#} + (mset (live_pmodules s) + R)) d"
      using f(3) that(2) added(2) vmm_calls_heap [OF added(5)]
      by (simp add: linux_owns_def block_nonzero)
    then have "heap_ok (mset (live_pmodules s') + R) e"
      using common_add_module_heap(1) [OF added(6)] live [OF that(1)] by (simp add: ac_simps)
    moreover have "clean e"
      using common_add_module_heap(2) [OF added(6)] that(3) vmm_only_clean [OF only]
      by (simp add: linux_clean_def)
    ultimately show ?thesis using added(7) by (simp add: linux_owns_def linux_clean_def)
  qed
  then show ?thesis unfolding linux_safe_def using inv by blast
qed

section \<open>Dispatch\<close>

text \<open>
  What a command does to the status: the step of the automaton it stands for; a load or a
  start that fails is followed by an unload or a stop whose answer is dropped.
\<close>

definition linux_lifecycle ::
  "'h linux_services \<Rightarrow> vmm_status \<Rightarrow> uint32 \<times> uint64 \<Rightarrow> bool \<Rightarrow> vmm_status \<Rightarrow> bool" where
  "linux_lifecycle U st op ok st' =
     (if fst op = IOCTL_ADD_MODULE U then st' = st \<and> (ok \<longrightarrow> st = VMM_UNLOADED)
      else if fst op = IOCTL_ADD_MODULE_LENGTH U then st' = st
      else if fst op = IOCTL_LOAD_VMM U then
        (if ok then lifecycle st Common_Load True st'
         else \<exists>st1 ok1. lifecycle st Common_Load False st1 \<and> lifecycle st1 Common_Unload ok1 st')
      else if fst op = IOCTL_UNLOAD_VMM U then lifecycle st Common_Unload ok st'
      else if fst op = IOCTL_START_VMM U then
        (if ok then lifecycle st Common_Start True st'
         else \<exists>st1 ok1. lifecycle st Common_Start False st1 \<and> lifecycle st1 Common_Stop ok1 st')
      else if fst op = IOCTL_STOP_VMM U then lifecycle st Common_Stop ok st'
      else st' = st)"

text \<open>The documented values: the two answers of an ioctl differ.\<close>

definition services_ok :: "'h linux_services \<Rightarrow> bool" where
  "services_ok U \<longleftrightarrow> BF_IOCTL_SUCCESS U \<noteq> BF_IOCTL_FAILURE U"

definition linux_step ::
  "'h linux_services \<Rightarrow> ('h, 'z) env_scheme \<Rightarrow> uint32 \<times> uint64 \<Rightarrow> 'h linux_state
    \<Rightarrow> (int64 \<times> 'h linux_state) option" where
  "linux_step U E op s = dev_unlocked_ioctl U E (fst op) (snd op) s"

lemma linux_safe_refl: "linux_safe E s s"
  by (simp add: linux_safe_def)

lemma ioctl_unload_safe: "ioctl_unload_vmm U E s = (r, s') \<Longrightarrow> linux_safe E s s'"
  unfolding linux_safe_def linux_inv_def [of E s] using ioctl_unload_inv ioctl_unload_owns by blast

lemma linux_step_safe:
  assumes run: "linux_step U E op s = Some (r, s')" and env: "env_ok E"
  shows "linux_safe E s s'"
  using run env
  by (auto simp: linux_step_def dev_unlocked_ioctl_def split: if_splits
      intro: linux_safe_refl ioctl_unload_safe ioctl_add_module_safe ioctl_load_safe ioctl_start_safe ioctl_stop_safe
        keeps_safe [OF ioctl_add_module_length_keeps] keeps_safe [OF ioctl_dump_vmm_keeps]
        keeps_safe [OF ioctl_vmm_status_keeps] keeps_safe [OF ioctl_set_vcpuid_keeps])

lemma keeps_status: "keeps E s s' \<Longrightarrow> g_vmm_status (core s') = g_vmm_status (core s)"
  by (simp add: keeps_def)

lemma add_module_status:
  assumes run: "ioctl_add_module U E file s = (r, s')" and ok: "codes_ok E" and u: "services_ok U"
  shows "g_vmm_status (core s') = g_vmm_status (core s)"
    and "r = BF_IOCTL_SUCCESS U \<longrightarrow> g_vmm_status (core s) = VMM_UNLOADED"
proof -
  have "g_vmm_status (core s') = g_vmm_status (core s) \<and>
    (r = BF_IOCTL_SUCCESS U \<longrightarrow> g_vmm_status (core s) = VMM_UNLOADED)"
    using run ok
  proof (cases rule: add_module_cases)
    case full
    then show ?thesis using u by (auto simp: services_ok_def)
  next
    case (no_memory c)
    then show ?thesis
      using u vmm_onlyD(6) [OF call_alloc_rw_facts(1) [OF no_memory(3)]]
      by (auto simp: services_ok_def)
  next
    case (freed a c d)
    then show ?thesis
      using u vmm_onlyD(6) [OF alloc_free_keeps(1) [OF freed(3,2,4)]] by (auto simp: services_ok_def)
  next
    case (added a c d e)
    have d: "g_vmm_status d = g_vmm_status (core s)"
      using vmm_onlyD(6) [OF call_alloc_rw_facts(1) [OF added(4)]] vmm_callsD(6) [OF added(5)] by simp
    have "lifecycle (g_vmm_status d) (Common_Add_Module a (g_module_length s)) True (g_vmm_status e)"
      using add_refines [OF added(6) ok] by simp
    then show ?thesis using d added(7) by (simp add: lifecycle_add_simps)
  qed
  then show "g_vmm_status (core s') = g_vmm_status (core s)"
    and "r = BF_IOCTL_SUCCESS U \<longrightarrow> g_vmm_status (core s) = VMM_UNLOADED" by simp_all
qed

lemma unload_status:
  assumes run: "ioctl_unload_vmm U E s = (r, s')" and ok: "codes_ok E" and u: "services_ok U"
  shows "lifecycle (g_vmm_status (core s)) Common_Unload (r = BF_IOCTL_SUCCESS U) (g_vmm_status (core s'))"
  using run
proof (cases rule: unload_state)
  case (1 ret c d)
  have "(r = BF_IOCTL_SUCCESS U) = (ret = rc E BF_SUCCESS)"
    using 1(6) u by (auto simp: services_ok_def)
  then show ?thesis
    using unload_refines [OF 1(1) ok] vmm_onlyD(6) [OF 1(2)] 1(5) by simp
qed

lemma load_status:
  assumes run: "ioctl_load_vmm U E s = Some (r, s')" and ok: "codes_ok E" and u: "services_ok U"
  shows "if r = BF_IOCTL_SUCCESS U
    then lifecycle (g_vmm_status (core s)) Common_Load True (g_vmm_status (core s'))
    else \<exists>st1 ok1. lifecycle (g_vmm_status (core s)) Common_Load False st1 \<and>
      lifecycle st1 Common_Unload ok1 (g_vmm_status (core s'))"
  using run
proof (cases rule: ioctl_load_cases)
  case (loaded c)
  then show ?thesis using load_refines [OF loaded(1) ok] by simp
next
  case (failed ret c q)
  have "lifecycle (g_vmm_status (core s)) Common_Load False (g_vmm_status c)"
    using load_refines [OF failed(1) ok] failed(2) by simp
  then show ?thesis
    using unload_status [OF failed(3) ok u] failed(4) u by (auto simp: services_ok_def)
qed

lemma stop_status:
  assumes run: "ioctl_stop_vmm U E s = (r, s')" and ok: "codes_ok E" and u: "services_ok U"
    and inv: "vmm_inv E (core s)"
  shows "lifecycle (g_vmm_status (core s)) Common_Stop (r = BF_IOCTL_SUCCESS U) (g_vmm_status (core s'))"
  using run
proof (cases rule: ioctl_stop_eq)
  case (1 ret c)
  then show ?thesis
    using stop_refines [OF 1(1) ok inv] u by (cases "ret = rc E BF_SUCCESS") (auto simp: services_ok_def)
qed

lemma start_status:
  assumes run: "ioctl_start_vmm U E s = (r, s')" and env: "env_ok E" and u: "services_ok U"
    and inv: "vmm_inv E (core s)"
  shows "if r = BF_IOCTL_SUCCESS U
    then lifecycle (g_vmm_status (core s)) Common_Start True (g_vmm_status (core s'))
    else \<exists>st1 ok1. lifecycle (g_vmm_status (core s)) Common_Start False st1 \<and>
      lifecycle st1 Common_Stop ok1 (g_vmm_status (core s'))"
  using run
proof (cases rule: ioctl_start_cases)
  case (started c)
  then show ?thesis using start_refines [OF started(1) env_okD(1) [OF env] inv] by simp
next
  case (failed ret c q)
  have "lifecycle (g_vmm_status (core s)) Common_Start False (g_vmm_status c)"
    using start_refines [OF failed(1) env_okD(1) [OF env] inv] failed(2) by simp
  moreover have "vmm_inv E (core (s\<lparr>core := c\<rparr>))"
    using common_start_inv [OF failed(1) env inv] by simp
  ultimately show ?thesis
    using stop_status [OF failed(3) env_okD(1) [OF env] u] failed(4) u by (auto simp: services_ok_def)
qed

lemma linux_step_lifecycle:
  assumes run: "linux_step U E op s = Some (r, s')" and env: "env_ok E" and u: "services_ok U"
    and inv: "vmm_inv E (core s)"
  shows "linux_lifecycle U (g_vmm_status (core s)) op (r = BF_IOCTL_SUCCESS U) (g_vmm_status (core s'))"
proof -
  note ok = env_okD(1) [OF env]
  have same: ?thesis if "g_vmm_status (core s') = g_vmm_status (core s)"
    and "fst op \<notin> {IOCTL_ADD_MODULE U, IOCTL_LOAD_VMM U, IOCTL_UNLOAD_VMM U, IOCTL_START_VMM U,
      IOCTL_STOP_VMM U}"
    using that by (simp add: linux_lifecycle_def)
  have run': "dev_unlocked_ioctl U E (fst op) (snd op) s = Some (r, s')"
    using run by (simp add: linux_step_def)
  consider (add) "fst op = IOCTL_ADD_MODULE U"
    | (load) "fst op \<noteq> IOCTL_ADD_MODULE U" "fst op \<noteq> IOCTL_ADD_MODULE_LENGTH U" "fst op = IOCTL_LOAD_VMM U"
    | (unload) "fst op \<notin> {IOCTL_ADD_MODULE U, IOCTL_ADD_MODULE_LENGTH U, IOCTL_LOAD_VMM U}"
        "fst op = IOCTL_UNLOAD_VMM U"
    | (start) "fst op \<notin> {IOCTL_ADD_MODULE U, IOCTL_ADD_MODULE_LENGTH U, IOCTL_LOAD_VMM U, IOCTL_UNLOAD_VMM U}"
        "fst op = IOCTL_START_VMM U"
    | (stop) "fst op \<notin> {IOCTL_ADD_MODULE U, IOCTL_ADD_MODULE_LENGTH U, IOCTL_LOAD_VMM U, IOCTL_UNLOAD_VMM U,
        IOCTL_START_VMM U}" "fst op = IOCTL_STOP_VMM U"
    | (len) "fst op \<noteq> IOCTL_ADD_MODULE U" "fst op = IOCTL_ADD_MODULE_LENGTH U"
    | (rest) "fst op \<notin> {IOCTL_ADD_MODULE U, IOCTL_ADD_MODULE_LENGTH U, IOCTL_LOAD_VMM U, IOCTL_UNLOAD_VMM U,
        IOCTL_START_VMM U, IOCTL_STOP_VMM U}"
    by blast
  then show ?thesis
  proof cases
    case add
    then have "ioctl_add_module U E (snd op) s = (r, s')"
      using run' by (simp add: dev_unlocked_ioctl_def)
    from add_module_status [OF this ok u] show ?thesis using add by (simp add: linux_lifecycle_def)
  next
    case load
    then have "ioctl_load_vmm U E s = Some (r, s')" using run' by (simp add: dev_unlocked_ioctl_def)
    from load_status [OF this ok u] show ?thesis using load by (simp add: linux_lifecycle_def)
  next
    case unload
    then have "ioctl_unload_vmm U E s = (r, s')" using run' by (simp add: dev_unlocked_ioctl_def)
    from unload_status [OF this ok u] show ?thesis using unload by (simp add: linux_lifecycle_def)
  next
    case start
    then have "ioctl_start_vmm U E s = (r, s')" using run' by (simp add: dev_unlocked_ioctl_def)
    from start_status [OF this env u inv] show ?thesis using start by (simp add: linux_lifecycle_def)
  next
    case stop
    then have "ioctl_stop_vmm U E s = (r, s')" using run' by (simp add: dev_unlocked_ioctl_def)
    from stop_status [OF this ok u inv] show ?thesis using stop by (simp add: linux_lifecycle_def)
  next
    case len
    then have "ioctl_add_module_length U (snd op) s = (r, s')"
      using run' by (simp add: dev_unlocked_ioctl_def)
    from keeps_status [OF ioctl_add_module_length_keeps [OF this]] show ?thesis
      using len by (simp add: linux_lifecycle_def)
  next
    case rest
    then have "g_vmm_status (core s') = g_vmm_status (core s)"
      using run' keeps_status [OF ioctl_dump_vmm_keeps] keeps_status [OF ioctl_vmm_status_keeps]
        keeps_status [OF ioctl_set_vcpuid_keeps]
      by (auto simp: dev_unlocked_ioctl_def split: if_splits)
    then show ?thesis using rest by (intro same) auto
  qed
qed

lemma linux_step_inv:
  "linux_step U E op s = Some (r, s') \<Longrightarrow> env_ok E \<Longrightarrow> linux_inv E s \<Longrightarrow> linux_inv E s'"
  using linux_step_safe by (metis linux_safe_def)

lemma linux_step_owns:
  assumes "linux_step U E op s = Some (r, s')" and "env_ok E" and "linux_inv E s"
    and "linux_owns R s" and "linux_clean s"
  shows "linux_owns R s'" and "linux_clean s'"
  using linux_step_safe [OF assms(1,2)] assms(3-5) by (simp_all add: linux_safe_def)

lemma linux_inv_core: "linux_inv E s \<Longrightarrow> vmm_inv E (core s)"
  by (simp add: linux_inv_def)

interpretation linux: owning_machine
  "linux_step U E" "\<lambda>s. env_ok E \<and> services_ok U \<and> linux_inv E s"
  "\<lambda>s. g_vmm_status (core s)" "\<lambda>r. r = BF_IOCTL_SUCCESS U" "linux_lifecycle U"
  linux_owns linux_clean "\<lambda>op. False"
  for U :: "'h linux_services" and E :: "('h, 'z) env_scheme"
  by unfold_locales
    (auto intro: linux_step_inv linux_step_owns
      linux_step_lifecycle [OF _ _ _ linux_inv_core])

end
