(* ===== verification/Demo.thy ===== *)
theory Demo
  imports Linux_Platform Linux_Operations
begin

text \<open>
  A concrete machine for the witnesses: a kernel whose \<open>vmalloc\<close> hands out pages in order
  and may be told to fail, an ELF loader that places every module at a fixed address, and
  a VMM that answers from a script. The driver on it is the one of the Linux port.
\<close>

record demo =
  next_page :: uint64
  out_of_memory :: bool
  this_cpu :: uint32
  pin_fails :: bool
  replies :: "int64 list"
  vmcall_replies :: "uint64 list"

text \<open>The next reply of a script; a script that has run out answers 0.\<close>

fun next_reply :: "'a::zero list \<Rightarrow> 'a \<times> 'a list" where
  "next_reply [] = (0, [])"
| "next_reply (r # rs) = (r, rs)"

definition demo_vmalloc :: "uint64 \<Rightarrow> demo machine \<Rightarrow> uint64 \<times> demo machine" where
  "demo_vmalloc len m =
     (let d = host m in
      if out_of_memory d then (0, m)
      else (next_page d, m\<lparr>host := d\<lparr>next_page :=
              (next_page d + align_down (len + 0xfff) 0x1000) OR 0x100000\<rparr>\<rparr>))"

lemma or_bit_nonzero: "(x OR 0x100000 :: uint64) \<noteq> 0"
proof
  assume "x OR 0x100000 = 0"
  then have "\<not> bit (x OR 0x100000) 20" by simp
  moreover have "bit (0x100000 :: uint64) 20" by (simp add: bit_numeral_rec)
  ultimately show False by (simp add: bit_or_iff)
qed

definition demo_kernel :: "demo linux_kernel" where
  "demo_kernel =
     \<lparr>vmalloc = demo_vmalloc, vmalloc_exec = demo_vmalloc, vfree = (\<lambda>a m. m),
      is_vmalloc_addr = (\<lambda>a m. 0x100000 \<le> a), vmalloc_to_phys = (\<lambda>a m. a - 0x100000),
      virt_to_phys = (\<lambda>a m. a), version_4_0 = True, cr4_init_shadow = (\<lambda>m. m),
      num_online_cpus = (\<lambda>m. 2),
      lookup_sched_setaffinity = (\<lambda>m. 0x8000),
      call_setaffinity = (\<lambda>f cpu m. if pin_fails (host m) then (-22, m)
                                else (0, m\<lparr>host := (host m)\<lparr>this_cpu := cpu\<rparr>\<rparr>)),
      get_cpu = (\<lambda>m. (this_cpu (host m), m)), put_cpu = (\<lambda>m. m)\<rparr>"

fun demo_rc :: "retcode \<Rightarrow> int64" where
  "demo_rc BF_SUCCESS = 0"
| "demo_rc MEMORY_MANAGER_SUCCESS = 0"
| "demo_rc BFELF_SUCCESS = 0"
| "demo_rc BF_ERROR_INVALID_ARG = -1"
| "demo_rc BF_ERROR_OUT_OF_MEMORY = -2"
| "demo_rc BF_ERROR_UNKNOWN = -3"
| "demo_rc BF_ERROR_NO_MODULES_ADDED = -4"
| "demo_rc BF_ERROR_MAX_MODULES_REACHED = -5"
| "demo_rc BF_ERROR_VMM_INVALID_STATE = -6"
| "demo_rc BF_ERROR_VMM_CORRUPTED = -7"
| "demo_rc ENTRY_ERROR_VMM_START_FAILED = -8"
| "demo_rc ENTRY_ERROR_VMM_STOP_FAILED = -9"

fun demo_rq :: "bf_request \<Rightarrow> uint64" where
  "demo_rq BF_REQUEST_INIT = 1"
| "demo_rq BF_REQUEST_ADD_MDL = 2"
| "demo_rq BF_REQUEST_VMM_INIT = 3"
| "demo_rq BF_REQUEST_VMM_FINI = 4"
| "demo_rq BF_REQUEST_GET_DRR = 5"
| "demo_rq BF_REQUEST_FINI = 6"

definition demo_on_host :: "(demo \<Rightarrow> demo) \<Rightarrow> demo linux_host machine \<Rightarrow> demo linux_host machine" where
  "demo_on_host f m = m\<lparr>host := (host m)\<lparr>kernel := f (kernel (host m))\<rparr>\<rparr>"

definition demo_vmm_entry ::
  "uint64 \<Rightarrow> uint64 \<Rightarrow> byte list \<Rightarrow> demo linux_host machine
    \<Rightarrow> int64 \<times> byte list \<times> demo linux_host machine" where
  "demo_vmm_entry start rsp info m =
     (case next_reply (replies (kernel (host m))) of
        (r, rs) \<Rightarrow> (r, info, demo_on_host (\<lambda>d. d\<lparr>replies := rs\<rparr>) m))"

definition demo_vmcall ::
  "vmcall_registers \<Rightarrow> demo linux_host machine \<Rightarrow> vmcall_registers \<times> demo linux_host machine" where
  "demo_vmcall regs m =
     (case next_reply (vmcall_replies (kernel (host m))) of
        (r, rs) \<Rightarrow> (regs\<lparr>r01 := r\<rparr>, demo_on_host (\<lambda>d. d\<lparr>vmcall_replies := rs\<rparr>) m))"

definition demo_bfelf_load ::
  "bfelf_binary list \<Rightarrow> int64 \<Rightarrow> uint64 \<Rightarrow> byte list \<Rightarrow> byte list \<Rightarrow> demo linux_host machine
    \<Rightarrow> int64 \<times> bfelf_binary list \<times> uint64 \<times> byte list \<times> byte list \<times> demo linux_host machine" where
  "demo_bfelf_load ms n start info loader m =
     (0, map (\<lambda>b. if bin_file b = 0 then b
                  else b\<lparr>bin_exec := bin_file b + 0x400000, bin_exec_size := 0x1000\<rparr>)
           (take (nat (sint n)) ms) @ drop (nat (sint n)) ms,
      0x4010, info, loader, m)"

definition demo_regs :: vmcall_registers where
  "demo_regs = \<lparr>r00 = 7, r01 = 7, r02 = 7, r03 = 7, r04 = 7, r05 = 7, r06 = 7, r07 = 7,
     r08 = 7, r09 = 7, r10 = 7, r11 = 7, r12 = 7\<rparr>"

definition demo_bfsdk :: "demo linux_host env" where
  "demo_bfsdk =
     \<lparr>rc = demo_rc, rq = demo_rq, MAX_NUM_MODULES = 3, STACK_SIZE = 0x8000,
      THREAD_LOCAL_STORAGE_SIZE = 0x1000, MAX_PAGE_SIZE = 0x1000, MEMORY_TYPE_R = 1,
      MEMORY_TYPE_W = 2, MEMORY_TYPE_E = 4, bfpf_x = 1, VMCALL_START = 16, VMCALL_STOP = 17,
      VMCALL_MAGIC_NUMBER = 0xBF, sizeof_thread_context = 16, tc_cpuid_offset = 0,
      tc_tlsptr_offset = 8, md_virt_offset = 0, md_phys_offset = 8, md_type_offset = 16,
      sizeof_crt_info = 2, sizeof_bfelf_loader = 2, sizeof_bfelf_file = 2,
      addr_of_md = 0x9000, uninit_regs = demo_regs,
      platform_alloc_rw = (\<lambda>n m. (0, m)), platform_alloc_rwe = (\<lambda>n m. (0, m)),
      platform_free_rw = (\<lambda>a n m. m), platform_free_rwe = (\<lambda>a n m. m),
      platform_virt_to_phys = (\<lambda>a m. a), platform_memset = (\<lambda>p v n m. m),
      platform_memcpy = (\<lambda>d s n m. m), platform_start = (\<lambda>m. m), platform_stop = (\<lambda>m. m),
      platform_num_cpus = (\<lambda>m. (0, m)), platform_set_affinity = (\<lambda>c m. (c, m)),
      platform_restore_affinity = (\<lambda>c m. m), platform_get_current_cpu_num = (\<lambda>m. (0, m)),
      platform_restore_preemption = (\<lambda>m. m),
      bfelf_load = demo_bfelf_load, bfelf_set_integer_args = (\<lambda>info a b c d. (0, info)),
      bfelf_file_get_num_load_instrs = (\<lambda>ef. 1),
      bfelf_file_get_load_instr = (\<lambda>ef i. (0, \<lparr>instr_mem_offset = 0, instr_memsz = 0x100, instr_perm = 5\<rparr>)),
      vmm_entry = demo_vmm_entry, vmcall = demo_vmcall\<rparr>"

definition demo_env :: "demo linux_host env" where
  "demo_env = linux_env demo_kernel demo_bfsdk"

text \<open>A machine with two CPUs, and the scripts of the VMM.\<close>

definition demo_machine :: "int64 list \<Rightarrow> uint64 list \<Rightarrow> demo linux_host machine" where
  "demo_machine rs vs =
     \<lparr>mem = (\<lambda>x. 0xCC),
      host = \<lparr>set_cpu_affinity = 0,
              kernel = \<lparr>next_page = 0x100000, out_of_memory = False, this_cpu = 0,
                        pin_fails = False, replies = rs, vmcall_replies = vs\<rparr>\<rparr>\<rparr>"

definition demo_state :: "int64 list \<Rightarrow> uint64 list \<Rightarrow> demo linux_host common_state" where
  "demo_state rs vs = initial_state demo_env (demo_machine rs vs)"

lemma demo_codes: "codes_ok demo_env"
  by (simp add: demo_env_def codes_ok_def linux_env_def demo_bfsdk_def error_codes_def)

lemma demo_env_ok: "env_ok demo_env"
  using demo_codes
  by (simp add: env_ok_def loader_ok_def)
    (simp add: demo_env_def linux_env_def demo_bfsdk_def demo_bfelf_load_def min_def)

text \<open>
  Evaluation: the fields of the environment are rewritten one at a time, so that its
  definition is never unfolded as a whole.
\<close>

lemma demo_consts:
  "rc demo_env = demo_rc" "rq demo_env = demo_rq" "MAX_NUM_MODULES demo_env = 3"
  "STACK_SIZE demo_env = 0x8000" "THREAD_LOCAL_STORAGE_SIZE demo_env = 0x1000"
  "MAX_PAGE_SIZE demo_env = 0x1000" "MEMORY_TYPE_R demo_env = 1" "MEMORY_TYPE_W demo_env = 2"
  "MEMORY_TYPE_E demo_env = 4" "bfpf_x demo_env = 1" "VMCALL_START demo_env = 16"
  "VMCALL_STOP demo_env = 17" "VMCALL_MAGIC_NUMBER demo_env = 0xBF"
  "sizeof_thread_context demo_env = 16" "tc_cpuid_offset demo_env = 0"
  "tc_tlsptr_offset demo_env = 8" "md_virt_offset demo_env = 0" "md_phys_offset demo_env = 8"
  "md_type_offset demo_env = 16" "sizeof_crt_info demo_env = 2" "sizeof_bfelf_loader demo_env = 2"
  "sizeof_bfelf_file demo_env = 2" "addr_of_md demo_env = 0x9000" "uninit_regs demo_env = demo_regs"
  by (simp_all add: demo_env_def linux_env_def demo_bfsdk_def)

lemma demo_library:
  "bfelf_load demo_env = demo_bfelf_load"
  "bfelf_set_integer_args demo_env info a b c d = (0, info)"
  "bfelf_file_get_num_load_instrs demo_env ef = 1"
  "bfelf_file_get_load_instr demo_env ef i =
     (0, \<lparr>instr_mem_offset = 0, instr_memsz = 0x100, instr_perm = 5\<rparr>)"
  "vmm_entry demo_env = demo_vmm_entry" "vmcall demo_env = demo_vmcall"
  by (simp_all add: demo_env_def linux_env_def demo_bfsdk_def)

lemma demo_platform:
  "platform_alloc_rw demo_env = linux_platform_alloc_rw demo_kernel"
  "platform_free_rw demo_env = linux_platform_free_rw demo_kernel"
  "platform_free_rwe demo_env = linux_platform_free_rwe demo_kernel"
  "platform_virt_to_phys demo_env = linux_platform_virt_to_phys demo_kernel"
  "platform_memset demo_env = linux_platform_memset"
  "platform_memcpy demo_env = linux_platform_memcpy"
  "platform_start demo_env = linux_platform_start demo_kernel"
  "platform_stop demo_env = linux_platform_stop demo_kernel"
  "platform_num_cpus demo_env = linux_platform_num_cpus demo_kernel"
  "platform_set_affinity demo_env = linux_platform_set_affinity demo_kernel (-3)"
  "platform_restore_affinity demo_env = linux_platform_restore_affinity"
  "platform_get_current_cpu_num demo_env = linux_platform_get_current_cpu_num demo_kernel"
  "platform_restore_preemption demo_env = linux_platform_restore_preemption demo_kernel"
  by (simp_all add: demo_env_def linux_env_def demo_bfsdk_def)

lemma demo_services:
  "vmalloc demo_kernel = demo_vmalloc" "vmalloc_exec demo_kernel = demo_vmalloc"
  "vfree demo_kernel a m = m" "is_vmalloc_addr demo_kernel a m = (0x100000 \<le> a)"
  "vmalloc_to_phys demo_kernel a m = a - 0x100000" "virt_to_phys demo_kernel a m = a"
  "version_4_0 demo_kernel" "cr4_init_shadow demo_kernel m = m"
  "num_online_cpus demo_kernel m = 2"
  "lookup_sched_setaffinity demo_kernel m = 0x8000"
  "call_setaffinity demo_kernel f cpu m = (if pin_fails (host m) then (-22, m)
     else (0, m\<lparr>host := (host m)\<lparr>this_cpu := cpu\<rparr>\<rparr>))"
  "get_cpu demo_kernel m = (this_cpu (host m), m)" "put_cpu demo_kernel m = m"
  by (simp_all add: demo_kernel_def)

lemmas demo_defs =
  demo_consts demo_library demo_platform demo_services demo_vmalloc_def demo_vmm_entry_def
  demo_vmcall_def demo_bfelf_load_def demo_regs_def demo_on_host_def
  linux_platform_alloc_rw_def linux_platform_free_rw_def linux_platform_free_rwe_def
  linux_platform_virt_to_phys_def linux_platform_memset_def linux_platform_memcpy_def
  linux_platform_start_def linux_platform_stop_def linux_platform_num_cpus_def
  linux_platform_set_affinity_def linux_platform_restore_affinity_def
  linux_platform_get_current_cpu_num_def linux_platform_restore_preemption_def
  ask_kernel_def in_kernel_def from_kernel_def kernel_view_def

lemmas driver_defs =
  call_defs Let_def setup_stack_def setup_tls_def thread_context_def write_thread_context_def
  enter_vmm_def call_vmm_def store_md_def add_raw_md_to_memory_manager_def segment_first_def
  segment_last_def segment_type_def add_md_to_memory_manager_def common_vmm_status_def
  common_reset_def common_init_def unload_unloaded_def unload_corrupted_def common_unload_vmm_def
  common_add_module_def call_bfelf_load_def load_setup_def add_md_tls_def load_failure_def
  load_descriptors_def common_load_vmm_def stop_corrupted_def common_stop_vmm_def
  start_failure_def common_start_vmm_def common_dump_vmm_def common_fini_def

lemmas demo_start = demo_state_def demo_machine_def initial_state_def zero_modules_def zero_binary_def

text \<open>
  A driver with one module, and one that has been loaded, on machines whose VMM answers
  from the scripts \<open>rs\<close> and \<open>vs\<close>.
\<close>

definition demo_added :: "int64 list \<Rightarrow> demo linux_host common_state" where
  "demo_added rs = snd (common_add_module demo_env 0x2000 16 (demo_state rs []))"

definition demo_loaded :: "int64 list \<Rightarrow> uint64 list \<Rightarrow> demo linux_host common_state" where
  "demo_loaded rs vs =
     (demo_state rs vs)\<lparr>g_num_modules := 1, g_start := 0x4010, g_vmm_status := VMM_LOADED,
        g_stack := 0x100000, g_stack_size := 0x10000, g_stack_top := 0x10FFFF,
        g_tls := 0x110000, g_tls_size := 0x2000,
        trace := [AllocRw 0x10000 0x100000, AllocRw 0x2000 0x110000]\<rparr>"

definition demo_running :: "int64 list \<Rightarrow> uint64 list \<Rightarrow> demo linux_host common_state" where
  "demo_running rs vs = (demo_loaded rs vs)\<lparr>g_vmm_status := VMM_RUNNING, g_num_cpus_started := 2\<rparr>"

lemmas demo_states = demo_added_def demo_loaded_def demo_running_def demo_start

lemmas demo_eval = driver_defs demo_defs demo_states align_down_def

lemma demo_added_inv: "vmm_inv demo_env (demo_added rs)"
  by (simp add: vmm_inv_def table_ok_def stack_ok_def demo_eval pinned_def)

lemma demo_loaded_inv: "vmm_inv demo_env (demo_loaded rs vs)"
  by (simp add: vmm_inv_def table_ok_def stack_ok_def demo_eval pinned_def stack_top_of_def)

lemma demo_running_inv: "vmm_inv demo_env (demo_running rs vs)"
  by (simp add: vmm_inv_def table_ok_def stack_ok_def demo_eval pinned_def stack_top_of_def)

lemma demo_state_inv: "vmm_inv demo_env (demo_state rs vs)"
  by (simp add: vmm_inv_def table_ok_def stack_ok_def demo_eval pinned_def)

lemma demo_heap:
  "heap_ok {#} (demo_added rs)" "heap_ok {#} (demo_loaded rs vs)" "heap_ok {#} (demo_running rs vs)"
  "clean (demo_added rs)" "clean (demo_loaded rs vs)" "clean (demo_running rs vs)"
  by (simp_all add: heap_ok_def live_blocks_def held_def block_def clean_def demo_eval)

lemma demo_num_cpus: "num_cpus_is demo_env 2"
  by (simp add: num_cpus_is_def demo_platform linux_num_cpus demo_services)

lemma demo_load: "\<exists>s'. common_load_vmm demo_env (demo_added []) = Some (0, s')"
  by (simp add: demo_eval md_loop.simps numeral_3_eq_3
      cong: prod.case_cong_weak option.case_cong_weak)

lemma demo_load_fits: "load_fits demo_env (snd (load_setup demo_env (demo_added [])))"
  by (simp add: load_fits_def module_fits_def segment_fits_def load_instr_at_def no_wrap_def
      demo_eval numeral_3_eq_3 cong: prod.case_cong_weak)

lemma stop_loop_2: "stop_loop E 2 regs s = stop_loop E (Suc (Suc 0)) regs s"
  by (simp add: numeral_2_eq_2)

section \<open>The Linux device on the same machine\<close>

text \<open>Every user buffer holds its own address, as a 64-bit number.\<close>

definition demo_user :: "demo linux_host linux_services" where
  "demo_user =
     \<lparr>copy_from_user = (\<lambda>dst src n m. (0, m\<lparr>mem := store_u64 dst src (mem m)\<rparr>)),
      copy_to_user = (\<lambda>dst src n m. (0, m\<lparr>mem := mem_copy dst src n (mem m)\<rparr>)),
      misc_register = (\<lambda>m. (if pin_fails (kernel (host m)) then -16 else 0, m)),
      misc_deregister = (\<lambda>m. m), addr_of_g_module_length = 0x9100, addr_of_g_vcpuid = 0x9108,
      addr_of_drr = 0x9110, addr_of_vmm_status = 0x9118, sizeof_drr = 0x100,
      vmm_status_code = (\<lambda>v. case v of VMM_UNLOADED \<Rightarrow> 10 | VMM_LOADED \<Rightarrow> 20 | VMM_RUNNING \<Rightarrow> 30
        | VMM_CORRUPT \<Rightarrow> 99),
      BF_IOCTL_SUCCESS = 0, BF_IOCTL_FAILURE = -1, EINVAL = 22, EPERM = 1, NOTIFY_DONE = 0,
      IOCTL_ADD_MODULE = 1, IOCTL_ADD_MODULE_LENGTH = 2, IOCTL_LOAD_VMM = 3, IOCTL_UNLOAD_VMM = 4,
      IOCTL_START_VMM = 5, IOCTL_STOP_VMM = 6, IOCTL_DUMP_VMM = 7, IOCTL_VMM_STATUS = 8,
      IOCTL_SET_VCPUID = 9\<rparr>"

definition demo_device :: "demo linux_host common_state \<Rightarrow> demo linux_host linux_state" where
  "demo_device c =
     \<lparr>core = c, g_vcpuid = 0, g_module_length = 16, g_num_pmodules = 1,
      pmodules = [\<lparr>pm_data = 0x2000, pm_size = 16\<rparr>, \<lparr>pm_data = 0, pm_size = 0\<rparr>, \<lparr>pm_data = 0, pm_size = 0\<rparr>],
      notifier_registered = True, device_registered = True\<rparr>"

lemma demo_user_ok: "services_ok demo_user"
  by (simp add: services_ok_def demo_user_def)

lemma linux_initial_inv: "vmm_inv E (initial_state E m) \<Longrightarrow> linux_inv E (linux_initial E m)"
  by (simp add: linux_inv_def linux_initial_def zero_pmodules_def modules_match_def core_files_def
      live_pmodules_def) (simp add: initial_state_def)

lemmas linux_defs =
  with_core_def with_machine_def update_machine_def free_pmodule_def ioctl_add_module_def
  copy_u64_from_user_def ioctl_add_module_length_def ioctl_unload_vmm_def ioctl_load_vmm_def
  ioctl_stop_vmm_def ioctl_start_vmm_def ioctl_dump_vmm_def ioctl_vmm_status_def
  ioctl_set_vcpuid_def dev_unlocked_ioctl_def linux_step_def dev_init_def dev_exit_def
  dev_reboot_def linux_initial_def zero_pmodules_def demo_user_def demo_device_def

lemma demo_two_commands:
  "\<exists>s'. op_run (linux_step demo_user demo_env) [(2, 16), (1, 0x7100)]
      (linux_initial demo_env (demo_machine [] [])) = Some s' \<and>
     core_files (core s') = [(0x100000, 16)] \<and> g_vmm_status (core s') = VMM_UNLOADED"
  by (simp add: op_run_def linux_defs demo_eval core_files_def numeral_3_eq_3)

end
