(* ===== verification/Driver_Leaks.thy ===== *)
theory Driver_Leaks
  imports Driver_Lifecycle
begin

text \<open>
  Runs that are not clean: a load that starts while the globals still hold blocks forgets
  some of them. What every operation keeps all the same is that each block the globals hold
  is allocated, so that nothing is ever freed twice or with a wrong length.
\<close>

text \<open>
  A setup whose stack is allocated does not depend on the blocks the globals held before:
  their addresses are overwritten.
\<close>

lemma setup_stack_overwrites:
  "setup_stack E (s\<lparr>g_stack := a, g_tls := b\<rparr>) =
   (case setup_stack E s of (r, t) \<Rightarrow> (r, t\<lparr>g_tls := b\<rparr>))"
  by (simp add: setup_stack_def call_defs Let_def case_prod_beta)

lemma setup_tls_overwrites: "setup_tls E (s\<lparr>g_tls := b\<rparr>) = setup_tls E s"
  by (simp add: setup_tls_def call_defs Let_def case_prod_beta)

lemma load_setup_overwrites:
  assumes "fst (setup_stack E s) = rc E BF_SUCCESS"
  shows "load_setup E (s\<lparr>g_stack := a, g_tls := b\<rparr>) = load_setup E s"
proof -
  obtain u where u: "setup_stack E s = (rc E BF_SUCCESS, u)"
    using assms by (cases "setup_stack E s") simp
  show ?thesis
    by (simp add: load_setup_def setup_stack_overwrites setup_tls_overwrites u)
qed

text \<open>
  The blocks that a setup forgets: those held before, except that a setup without a stack
  still holds the storage.
\<close>

lemma load_setup_forgets:
  assumes run: "load_setup E s = (ret, s')" and ok: "codes_ok E" and heap: "heap_ok R s"
  shows "heap_ok (held s + R) s' \<or> heap_ok (block (g_stack s) (g_stack_size s) + R) s'"
proof (cases "fst (setup_stack E s) = rc E BF_SUCCESS")
  case True
  have "load_setup E (s\<lparr>g_stack := 0, g_tls := 0\<rparr>) = (ret, s')"
    using load_setup_overwrites [OF True] run by simp
  moreover have "live_blocks (s\<lparr>g_stack := 0, g_tls := 0\<rparr>) = Some (held s + R)"
    using heap by (simp add: heap_ok_def)
  ultimately show ?thesis using load_setup_heap [OF _ ok] by fastforce
next
  case False
  then have stack: "setup_stack E s = (ret, s')" and "ret \<noteq> rc E BF_SUCCESS"
    using run by (auto simp: load_setup_def split: prod.splits if_splits)
  from stack have "heap_ok (block (g_stack s) (g_stack_size s) + R) s'"
  proof (cases rule: setup_stack_cases)
    case failed
    then show ?thesis
      using setup_stack_live [OF stack, of "held s + R"] heap setup_stack_frame [OF stack]
      by (simp add: heap_ok_def held_def block_def ac_simps)
  next
    case success
    then show ?thesis using \<open>ret \<noteq> rc E BF_SUCCESS\<close> by simp
  qed
  then show ?thesis ..
qed

lemma load_owned:
  assumes run: "common_load_vmm E s = Some (ret, s')" and env: "env_ok E" and heap: "heap_ok R s"
  shows "\<exists>lost. heap_ok (lost + R) s'"
  using run env_okD(1) [OF env]
proof (cases rule: common_load_cases)
  case answered
  then show ?thesis using heap by (intro exI [of _ "{#}"]) simp
next
  case (setup_failed t)
  show ?thesis
    using load_setup_forgets [OF setup_failed(2) env_okD(1) [OF env] heap]
      common_reset_heap(1) [OF setup_failed(4)] by blast
next
  case (descriptors t)
  obtain lost where t: "heap_ok (lost + R) t"
    using load_setup_forgets [OF descriptors(3) env_okD(1) [OF env] heap] by blast
  from descriptors(5,4) have "heap_ok (lost + R) s'"
  proof (cases rule: load_descriptors_cases)
    case (modules_failed u)
    then show ?thesis
      using common_reset_heap(1) vmm_calls_heap [OF add_md_modules_calls [OF modules_failed(1)]] t by blast
  next
    case (tls_failed u)
    then show ?thesis
      using vmm_calls_heap [OF add_md_modules_calls [OF tls_failed(1)]]
        vmm_calls_heap [OF add_md_tls_calls [OF tls_failed(2)]] t by simp
  next
    case (loaded u v)
    then show ?thesis
      using vmm_calls_heap [OF add_md_modules_calls [OF loaded(1)]]
        vmm_calls_heap [OF add_md_tls_calls [OF loaded(2)]] t by (simp add: set_status_heap)
  qed
  then show ?thesis ..
qed

lemma step_owned:
  assumes "common_step E op s = Some (ret, s')" and "env_ok E" and "vmm_inv E s" and "heap_ok R s"
  shows "\<exists>lost. heap_ok (lost + R) s'"
proof (cases "op = Common_Load")
  case True
  then show ?thesis using assms load_owned by (simp add: common_step_def)
next
  case False
  then have "heap_ok R s'"
    using assms common_reset_heap(1) [of E s ret s' R] common_fini_heap(1) [of E s ret s' R]
      common_add_module_heap(1) [where E = E and s = s and ret = ret and s' = s' and R = R] common_unload_heap [of E s ret s' R] common_start_heap(1) [of E s ret s' R]
      common_stop_heap(1) [of E s ret s' R] vmm_calls_heap [OF common_dump_calls [where E = E and s = s], of _ _ _ s' R]
    by (cases op) (auto simp: common_step_def common_init_def)
  then show ?thesis by (intro exI [of _ "{#}"]) simp
qed

lemma run_owned:
  "op_run (common_step E) ops s = Some s' \<Longrightarrow> env_ok E \<Longrightarrow> vmm_inv E s \<Longrightarrow> heap_ok R s \<Longrightarrow>
   \<exists>lost. heap_ok (lost + R) s'"
  unfolding op_run_def
proof (induction ops arbitrary: s R)
  case Nil
  then show ?case by (intro exI [of _ "{#}"]) simp
next
  case (Cons op ops)
  then obtain r t where t: "common_step E op s = Some (r, t)"
    "run (\<lambda>op s. map_option snd (common_step E op s)) ops t = Some s'"
    by (auto split: option.splits)
  obtain l1 where "heap_ok (l1 + R) t" using step_owned [OF t(1) Cons.prems(2-4)] ..
  from Cons.IH [OF t(2) Cons.prems(2) common_step_inv [OF t(1) Cons.prems(2,3)] this]
  show ?case by (metis add.assoc)
qed

lemma run_ownership:
  assumes "op_run (common_step E) ops (initial_state E m) = Some s'" and "env_ok E"
  shows "\<exists>lost. live_blocks s' = Some (held s' + lost) \<and>
    (all_along (common_step E) clean ops (initial_state E m) \<longrightarrow> lost = {#})"
proof (cases "all_along (common_step E) clean ops (initial_state E m)")
  case True
  have "heap_ok {#} s'"
    by (rule core.run_owns [OF assms(1) _ initial_heap(1) True]) (use assms(2) initial_inv in auto)
  then show ?thesis by (simp add: heap_ok_def)
next
  case False
  then show ?thesis
    using run_owned [OF assms initial_inv initial_heap(1)] assms(2) by (auto simp: heap_ok_def)
qed

end
