(* ===== verification/Load_Refused.thy ===== *)
theory Load_Refused
  imports Driver_Leaks
begin

text \<open>
  The one way out of \<open>common_load_vmm\<close> that does not go through the label \<open>failure\<close>: the VMM
  refuses a descriptor of the thread local storage. Every other load that fails cleans up, so
  that a run in which no load ends this way loses nothing.
\<close>

section \<open>A load that is refused at the storage\<close>

text \<open>The load gets as far as the storage, and the VMM refuses one of its pages.\<close>

definition refused_at_storage :: "('h, 'z) env_scheme \<Rightarrow> 'h common_state \<Rightarrow> bool" where
  "refused_at_storage E s \<longleftrightarrow>
     g_vmm_status s = VMM_UNLOADED \<and> g_num_modules s \<noteq> 0 \<and>
     (case load_setup E s of (ret, t) \<Rightarrow>
        ret = rc E BF_SUCCESS \<and>
        (case add_md_modules E (nat (sint (g_num_modules t))) 0 t of
           None \<Rightarrow> False
         | Some (ret, u) \<Rightarrow>
             ret = rc E BF_SUCCESS \<and>
             (case add_md_tls E u of Some (Some ret, v) \<Rightarrow> True | _ \<Rightarrow> False)))"

lemma load_ends:
  assumes run: "common_load_vmm E s = Some (ret, s')" and ok: "codes_ok E"
  obtains
    (answered) "s' = s" and "g_vmm_status s \<noteq> VMM_UNLOADED \<or> g_num_modules s = 0"
      and "\<not> refused_at_storage E s"
  | (cleaned) t where "g_vmm_status s = VMM_UNLOADED" and "ret \<noteq> rc E BF_SUCCESS"
      and "common_reset E t = (rc E BF_SUCCESS, s')" and "\<not> refused_at_storage E s"
  | (refused) "refused_at_storage E s" and "ret \<noteq> rc E BF_SUCCESS" and "g_vmm_status s' = VMM_UNLOADED"
      and "g_stack s' \<noteq> 0" and "g_tls s' \<noteq> 0" and "g_num_modules s' = g_num_modules s"
  | (loaded) "ret = rc E BF_SUCCESS" and "g_vmm_status s' = VMM_LOADED"
      and "g_num_modules s' = g_num_modules s" and "\<not> refused_at_storage E s"
  using run ok
proof (cases rule: common_load_cases)
  case answered
  then show thesis by (intro that(1)) (auto simp: refused_at_storage_def)
next
  case (setup_failed t)
  then show thesis by (intro that(2)) (auto simp: refused_at_storage_def)
next
  case (descriptors t)
  have n: "g_num_modules t = g_num_modules s" by (rule load_setup_frame(1) [OF descriptors(3) ok])
  have blocks: "g_stack t \<noteq> 0" "g_tls t \<noteq> 0"
    by (rule load_setup_success [OF descriptors(3) ok], assumption)+
  from descriptors(5,4) show thesis
  proof (cases rule: load_descriptors_cases)
    case (modules_failed u)
    then show thesis using descriptors by (intro that(2)) (auto simp: refused_at_storage_def)
  next
    case (tls_failed u)
    have c: "vmm_calls t s'"
      by (rule vmm_calls_trans [OF add_md_modules_calls [OF tls_failed(1)] add_md_tls_calls [OF tls_failed(2)]])
    have "ret \<noteq> rc E BF_SUCCESS"
      using tls_failed(2) unfolding add_md_tls_def Let_def by (rule md_loop_error)
    then show thesis
      using descriptors tls_failed n blocks vmm_callsD [OF c]
      by (intro that(3)) (simp_all add: refused_at_storage_def)
  next
    case (loaded u v)
    have c: "vmm_calls t v"
      by (rule vmm_calls_trans [OF add_md_modules_calls [OF loaded(1)] add_md_tls_calls [OF loaded(2)]])
    show thesis
      using descriptors loaded n vmm_callsD(1) [OF c] by (intro that(4)) (auto simp: refused_at_storage_def)
  qed
qed

lemma refused_load:
  assumes "common_load_vmm E s = Some (ret, s')" and "codes_ok E" and "refused_at_storage E s"
  shows "ret \<noteq> rc E BF_SUCCESS" and "g_vmm_status s' = VMM_UNLOADED" and "g_stack s' \<noteq> 0" and "g_tls s' \<noteq> 0"
  using assms(1,2) by (cases rule: load_ends; use assms(3) in simp)+

lemma load_clean:
  assumes run: "common_load_vmm E s = Some (ret, s')" and ok: "codes_ok E"
    and "\<not> refused_at_storage E s" and "clean s"
  shows "clean s'"
  using run ok
proof (cases rule: load_ends)
  case (cleaned t)
  then show ?thesis by (simp add: clean_def reset_fields [OF cleaned(3)])
qed (use assms in \<open>auto simp: clean_def\<close>)

section \<open>Runs\<close>

text \<open>No load of the run is refused at the storage.\<close>

primrec storage_accepted ::
  "('h, 'z) env_scheme \<Rightarrow> common_op list \<Rightarrow> 'h common_state \<Rightarrow> bool" where
  "storage_accepted E [] s \<longleftrightarrow> True"
| "storage_accepted E (op # ops) s \<longleftrightarrow>
     (op = Common_Load \<longrightarrow> \<not> refused_at_storage E s) \<and>
     (case common_step E op s of None \<Rightarrow> True | Some (r, t) \<Rightarrow> storage_accepted E ops t)"

lemma accepted_step_clean:
  assumes "common_step E op s = Some (r, t)" and "env_ok E" and "vmm_inv E s" and "heap_ok R s"
    and "clean s" and "op = Common_Load \<longrightarrow> \<not> refused_at_storage E s"
  shows "clean t"
proof (cases "op = Common_Load")
  case True
  then show ?thesis using assms load_clean [OF _ env_okD(1)] by (simp add: common_step_def)
next
  case False
  then show ?thesis using common_step_heap(2) [OF assms(1-5)] by simp
qed

lemma accepted_clean:
  "storage_accepted E ops s \<Longrightarrow> env_ok E \<Longrightarrow> vmm_inv E s \<Longrightarrow> heap_ok R s \<Longrightarrow> clean s \<Longrightarrow>
   all_along (common_step E) clean ops s"
proof (induction ops arbitrary: s)
  case (Cons op ops)
  show ?case
  proof (cases "common_step E op s")
    case (Some x)
    obtain r t where t: "common_step E op s = Some (r, t)" using Some by (cases x) simp
    have "clean t" by (rule accepted_step_clean [OF t Cons.prems(2-5)]) (use Cons.prems(1) in simp)
    then show ?thesis
      using Cons t common_step_inv [OF t] common_step_heap(1) [OF t] by simp
  qed (use Cons.prems(5) in simp)
qed simp

lemma accepted_run_clean:
  "op_run (common_step E) ops s = Some s' \<Longrightarrow> storage_accepted E ops s \<Longrightarrow> env_ok E \<Longrightarrow> vmm_inv E s \<Longrightarrow>
   heap_ok R s \<Longrightarrow> clean s \<Longrightarrow> clean s'"
  unfolding op_run_def
proof (induction ops arbitrary: s)
  case (Cons op ops)
  then obtain r t where t: "common_step E op s = Some (r, t)"
    "run (\<lambda>op s. map_option snd (common_step E op s)) ops t = Some s'"
    by (auto split: option.splits)
  have "clean t" by (rule accepted_step_clean [OF t(1) Cons.prems(3-6)]) (use Cons.prems(2) in simp)
  then show ?case
    using Cons.IH [OF t(2)] Cons.prems t(1) common_step_inv [OF t(1)] common_step_heap(1) [OF t(1)] by simp
qed simp

lemma run_ownership_accepted:
  assumes "op_run (common_step E) ops (initial_state E m) = Some s'" and "env_ok E"
  shows "\<exists>lost. live_blocks s' = Some (held s' + lost) \<and>
    (storage_accepted E ops (initial_state E m) \<longrightarrow>
      lost = {#} \<and> (g_vmm_status s' = VMM_UNLOADED \<longrightarrow> held s' = {#}))"
proof -
  note start = initial_inv [of E m] initial_heap [of E m]
  have "held s' = {#}" if "storage_accepted E ops (initial_state E m)" "g_vmm_status s' = VMM_UNLOADED"
    using accepted_run_clean [OF assms(1) that(1) assms(2) start] that(2)
    by (simp add: clean_def held_def block_def)
  then show ?thesis
    using run_ownership [OF assms] accepted_clean [OF _ assms(2) start] by blast
qed

end
