(* ===== verification/Common_Properties.thy ===== *)
theory Common_Properties
  imports Demo Load_Refused
begin

text \<open>
  The properties of \<open>common.c\<close>, each over any environment that keeps the conventions of
  the headers, with a witness on the concrete machine of \<open>Demo\<close>.
\<close>

section \<open>Loading\<close>

text \<open>
  C1. A load that returns success has, in this order, allocated the stack and the thread
  local storage, loaded the modules, entered the VMM once to initialise it, and sent one
  descriptor for every page of every segment of every module and of the thread local
  storage, in order, each acknowledged; nothing else was called. The VMM is then loaded.
\<close>

theorem load_success_sends_all_pages:
  assumes run: "common_load_vmm E s = Some (rc E BF_SUCCESS, s')" and env: "env_ok E"
    and inv: "vmm_inv E s" and st: "g_vmm_status s = VMM_UNLOADED"
    and fit: "load_fits E (snd (load_setup E s))"
  shows "g_vmm_status s' = VMM_LOADED \<and>
    (\<exists>cur evs.
      trace s' = trace s @
        [AllocRw (STACK_SIZE E * 2) (g_stack s'), AllocRw (g_tls_size s') (g_tls s'),
         ElfLoad (rc E BF_SUCCESS) (placed (g_modules s) (g_modules s')), GetCpu cur,
         VmmCall BF_REQUEST_INIT 0 0 0 (rc E BF_SUCCESS), RestorePreemption] @ evs \<and>
      md_acks (addr_of_md E) (modules_mds E s' @ tls_mds E s') evs)"
  using run env_okD(1) [OF env]
proof (cases rule: common_load_cases)
  case (descriptors t)
  note ok = env_okD(1) [OF env]
  have table: "table_ok E t"
    using load_setup_inv [OF descriptors(3) env inv st] by (simp add: vmm_inv_def)
  have "load_fits E t" using fit descriptors(3) by simp
  from load_descriptors_success [OF descriptors(5) ok descriptors(4) table this]
  obtain evs v where v: "s' = v\<lparr>g_vmm_status := VMM_LOADED\<rparr>" "vmm_only t v"
    "trace v = trace t @ evs" "md_acks (addr_of_md E) (modules_mds E t @ tls_mds E t) evs"
    by blast
  have "modules_mds E s' = modules_mds E t" "tls_mds E s' = tls_mds E t"
    "g_stack s' = g_stack t" "g_tls s' = g_tls t" "g_tls_size s' = g_tls_size t" "g_modules s' = g_modules t"
    using v(1) vmm_onlyD [OF v(2)] by (simp_all add: modules_mds_def tls_mds_def)
  then show ?thesis
    using v load_setup_success [OF descriptors(3) ok] by (fastforce simp: v(1))
qed (use st codes_ok_success(1) [OF env_okD(1) [OF env]] in auto)

theorem load_success_sends_all_pages_witness:
  "\<exists>s'. common_load_vmm demo_env (demo_added []) = Some (0, s') \<and> g_vmm_status s' = VMM_LOADED"
  using load_success_sends_all_pages [OF _ demo_env_ok demo_added_inv _ demo_load_fits] demo_load
  by (auto simp: demo_consts demo_states driver_defs)

text \<open>
  C12. A load returns, unless a segment or the thread local storage reaches the last page of
  the address space.
\<close>

theorem load_returns:
  assumes env: "env_ok E" and inv: "vmm_inv E s"
    and fit: "load_fits E (snd (load_setup E s))"
  shows "\<exists>ret s'. common_load_vmm E s = Some (ret, s')"
proof (cases "g_vmm_status s = VMM_UNLOADED \<and> g_num_modules s \<noteq> 0")
  case True
  obtain r t where t: "load_setup E s = (r, t)" by force
  have "table_ok E t"
    using load_setup_inv [OF t env inv] True by (simp add: vmm_inv_def)
  then obtain q u where "load_descriptors E t = Some (q, u)"
    using load_descriptors_returns fit t by fastforce
  then show ?thesis
    using True t by (simp add: common_load_vmm_def common_vmm_status_def)
next
  case False
  then show ?thesis
    by (cases "g_vmm_status s") (simp_all add: common_load_vmm_def common_vmm_status_def)
qed

theorem load_returns_witness:
  "\<exists>ret s'. common_load_vmm demo_env (demo_added [5]) = Some (ret, s')"
proof (rule load_returns [OF demo_env_ok demo_added_inv])
  show "load_fits demo_env (snd (load_setup demo_env (demo_added [5])))"
    by (simp add: load_fits_def module_fits_def segment_fits_def load_instr_at_def no_wrap_def
        demo_eval numeral_3_eq_3 cong: prod.case_cong_weak)
qed

text \<open>
  C13. A load of an unloaded driver that fails, anywhere but at a descriptor of the thread local
  storage, leaves the globals as they are when the program starts (but for the two size fields),
  and every block of \<open>platform_alloc_rw\<close> that it allocated has been freed.
\<close>

theorem load_failure_releases:
  assumes run: "common_load_vmm E s = Some (ret, s')" and "ret \<noteq> rc E BF_SUCCESS"
    and env: "env_ok E" and heap: "heap_ok R s" and start: "clean s"
    and st: "g_vmm_status s = VMM_UNLOADED" and mods: "g_num_modules s \<noteq> 0"
    and before: "\<not> refused_at_storage E s"
  shows "live_blocks s' = Some R \<and>
    s' = (initial_state E (machine s'))
      \<lparr>g_tls_size := g_tls_size s', g_stack_size := g_stack_size s', trace := trace s'\<rparr>"
  using run env_okD(1) [OF env]
proof (cases rule: load_ends)
  case (cleaned t)
  have live: "live_blocks s' = Some R"
    by (rule clean_unloaded(1) [OF _ reset_fields(1) [OF cleaned(3)] common_load_heap [OF run env heap start]])
      (simp add: clean_def reset_fields [OF cleaned(3)])
  obtain m where m: "s' = (initial_state E m)\<lparr>g_tls_size := g_tls_size t,
      g_stack_size := g_stack_size t, trace := trace t @ reset_events t\<rparr>"
    by (rule common_reset_obtain [OF cleaned(3)])
  have "s' = (initial_state E (machine s'))
      \<lparr>g_tls_size := g_tls_size s', g_stack_size := g_stack_size s', trace := trace s'\<rparr>"
    unfolding m by (simp add: initial_state_def)
  with live show ?thesis by blast
qed (use assms in auto)

theorem load_failure_releases_witness:
  "\<exists>s'. common_load_vmm demo_env (demo_added [5]) = Some (5, s') \<and> live_blocks s' = Some {#} \<and> g_stack s' = 0"
proof -
  have run: "\<exists>s'. common_load_vmm demo_env (demo_added [5]) = Some (5, s') \<and> g_stack s' = 0"
    by (simp add: demo_eval numeral_3_eq_3 cong: prod.case_cong_weak option.case_cong_weak)
  then obtain s' where s': "common_load_vmm demo_env (demo_added [5]) = Some (5, s')" "g_stack s' = 0"
    by blast
  have "\<not> refused_at_storage demo_env (demo_added [5])"
    using refused_load(3) [OF s'(1) demo_codes] s'(2) by blast
  from load_failure_releases [OF s'(1) _ demo_env_ok demo_heap(1,4) _ _ this]
  show ?thesis
    using s' by (auto simp: demo_consts demo_states driver_defs)
qed

text \<open>
  C2. A start that returns success on a machine with \<open>n\<close> CPUs has taken exactly one
  complete round on each of them, in order from CPU 0: set the affinity, enter the VMM to
  initialise the CPU, \<open>vmcall\<close> it, tell the platform, restore the affinity. The number of
  started CPUs is \<open>n\<close>, and the VMM is running if there is a CPU at all.
\<close>

theorem start_success_starts_every_cpu:
  assumes run: "common_start_vmm E s = (rc E BF_SUCCESS, s')" and ok: "codes_ok E"
    and cpus: "num_cpus_is E n" and st: "g_vmm_status s = VMM_LOADED"
  shows "g_num_cpus_started s' = of_nat n \<and>
    g_vmm_status s' = (if 0 < n then VMM_RUNNING else VMM_LOADED) \<and>
    (\<exists>evs. trace s' = trace s @ evs \<and> rounds (start_round E) (cpus_up 0 n) evs)"
  using run ok
proof (cases rule: common_start_cases)
  case (ran k t evs)
  have le: "k \<le> n" using ran(3) cpus by blast
  have st_t: "g_num_cpus_started t = of_nat k"
    "g_vmm_status t = (if 0 < k then VMM_RUNNING else VMM_LOADED)"
    using vmm_onlyD(5,6) [OF ran(4)] st by (auto simp: after_rounds_def)
  from ran(7) show ?thesis
  proof (cases rule: start_end.cases)
    case (all_started m mc)
    have "fst (platform_num_cpus E (machine t)) = of_nat n"
      using cpus by (simp add: num_cpus_is_def)
    then have "sint m = int n"
      using cpus all_started(2) by (simp add: num_cpus_is_def sint_of_nat_less)
    then have "k = n" using le all_started(3) ran(2) by simp
    then show ?thesis using ran(5,6) st_t all_started(1) by auto
  next
    case (refused evs)
    then show ?thesis using codes [OF ok] by simp
  qed simp
qed (use st in simp)

theorem start_success_starts_every_cpu_witness:
  "\<exists>s'. common_start_vmm demo_env (demo_loaded [] []) = (0, s') \<and>
     g_num_cpus_started s' = 2 \<and> g_vmm_status s' = VMM_RUNNING"
proof -
  have "\<exists>s'. common_start_vmm demo_env (demo_loaded [] []) = (0, s')"
    by (simp add: demo_eval start_loop.simps cong: prod.case_cong_weak)
  then show ?thesis
    using start_success_starts_every_cpu [OF _ demo_codes demo_num_cpus]
    by (auto simp: demo_consts demo_states)
qed

text \<open>
  C3. A stop of a running VMM that returns success has taken exactly one complete round on
  every started CPU, in the reverse order of the start: set the affinity, \<open>vmcall\<close>, enter
  the VMM to finish the CPU, tell the platform, restore the affinity. The VMM is loaded
  again and no CPU is started.
\<close>

theorem stop_success_stops_every_cpu:
  assumes run: "common_stop_vmm E s = (rc E BF_SUCCESS, s')" and ok: "codes_ok E"
    and inv: "vmm_inv E s" and st: "g_vmm_status s = VMM_RUNNING"
  shows "g_num_cpus_started s' = 0 \<and> g_vmm_status s' = VMM_LOADED \<and>
    (\<exists>evs. trace s' = trace s @ evs \<and>
       rounds (stop_round E) (cpus_down (nat (sint (g_num_cpus_started s))) 0) evs)"
  using run ok running_started(1) [OF inv st]
proof (cases rule: common_stop_cases)
  case (ran k t evs)
  from ran(6) show ?thesis
  proof (cases rule: stop_end.cases)
    case stopped
    then show ?thesis using ran vmm_onlyD(5) [OF ran(3)] by auto
  next
    case refused
    then show ?thesis using codes [OF ok] by simp
  qed simp
qed (use st in simp)

theorem stop_success_stops_every_cpu_witness:
  "\<exists>s'. common_stop_vmm demo_env (demo_running [] []) = (0, s') \<and>
     g_num_cpus_started s' = 0 \<and> g_vmm_status s' = VMM_LOADED"
proof -
  have "\<exists>s'. common_stop_vmm demo_env (demo_running [] []) = (0, s')"
    by (simp add: demo_eval stop_loop_2 cong: prod.case_cong_weak)
  then show ?thesis
    using stop_success_stops_every_cpu [OF _ demo_codes demo_running_inv]
    by (auto simp: demo_consts demo_running_def)
qed

text \<open>The ways the label \<open>failure\<close> of \<open>common_start_vmm\<close> ends, with \<open>k\<close> CPUs started.\<close>

lemma clean_up_ends:
  assumes run: "common_stop_vmm E u = (q, s')" and ok: "codes_ok E"
    and u: "g_num_cpus_started u = of_nat k" "g_vmm_status u = (if 0 < k then VMM_RUNNING else VMM_LOADED)"
    and k: "sint (of_nat k :: int64) = int k"
  shows "\<exists>j down rest. trace s' = trace u @ down @ rest \<and> rounds (stop_round E) (cpus_down k j) down \<and>
    j \<le> k \<and> g_num_cpus_started s' = of_nat j \<and>
    (case j of 0 \<Rightarrow> rest = [] \<and> g_vmm_status s' = VMM_LOADED
     | Suc i \<Rightarrow> refused_stop E (of_nat i) rest \<and> g_vmm_status s' = VMM_RUNNING \<or>
       (\<exists>q. failed_stop E (of_nat i) q rest) \<and> g_vmm_status s' = VMM_CORRUPT)"
proof -
  have n: "nat (sint (g_num_cpus_started u)) = k" using k by (simp add: u(1))
  have started: "g_num_cpus_started u = of_nat (nat (sint (g_num_cpus_started u)))"
    unfolding n by (rule u(1))
  from run ok started show ?thesis
  proof (cases rule: common_stop_cases)
    case answered
    then have "k = 0" using u(2) by (cases k) simp_all
    then show ?thesis using answered(1) u by (intro exI [of _ 0] exI [of _ "[]"]) simp
  next
    case (ran j v down)
    have v: "g_vmm_status v = VMM_RUNNING" "g_num_cpus_started v = of_nat j"
      using vmm_onlyD(5,6) [OF ran(3)] ran(1) by simp_all
    have down: "rounds (stop_round E) (cpus_down k j) down" "j \<le> k" using ran(2,5) by (simp_all add: n)
    from ran(6) show ?thesis
    proof (cases rule: stop_end.cases)
      case stopped
      then show ?thesis using ran(4) v(2) down
        by - (rule exI [of _ j], rule exI [of _ down], rule exI [of _ "[]"], simp)
    next
      case (refused evs i)
      then show ?thesis using ran(4) v down vmm_onlyD(5,6) [OF refused(3)]
        by - (rule exI [of _ j], rule exI [of _ down], rule exI [of _ evs], simp)
    next
      case (corrupted w evs i)
      then show ?thesis using ran(4) v down vmm_onlyD(5) [OF corrupted(3)]
        by - (rule exI [of _ j], rule exI [of _ down], rule exI [of _ evs], auto)
    qed
  qed
qed

text \<open>
  C14. A start of a loaded driver that fails at an affinity or at a VMM call has started the
  CPUs below some \<open>k\<close> and failed on the CPU \<open>k\<close>. It then stops the started CPUs in reverse order,
  down to some \<open>j\<close>, which is also what the counter says at the end: all of them, and the VMM is loaded; or
  the VMM refuses to stop the next one, and it goes on running; or the next one cannot be stopped
  for another reason, and the VMM is corrupt. Nothing else is called.
\<close>

theorem start_failure_rolls_back:
  assumes run: "common_start_vmm E s = (ret, s')" and ok: "codes_ok E" and inv: "vmm_inv E s"
    and st: "g_vmm_status s = VMM_LOADED" and "ret \<noteq> rc E BF_SUCCESS"
    and "ret \<noteq> rc E ENTRY_ERROR_VMM_START_FAILED"
  shows "\<exists>k j up failing down rest. trace s' = trace s @ up @ failing @ down @ rest \<and>
    rounds (start_round E) (cpus_up 0 k) up \<and> failed_start E (of_nat k) ret failing \<and>
    rounds (stop_round E) (cpus_down k j) down \<and> j \<le> k \<and> g_num_cpus_started s' = of_nat j \<and>
    (case j of 0 \<Rightarrow> rest = [] \<and> g_vmm_status s' = VMM_LOADED
     | Suc i \<Rightarrow> refused_stop E (of_nat i) rest \<and> g_vmm_status s' = VMM_RUNNING \<or>
       (\<exists>q. failed_stop E (of_nat i) q rest) \<and> g_vmm_status s' = VMM_CORRUPT)"
  using run ok
proof (cases rule: common_start_cases)
  case (ran k t up)
  note t = start_rounds_state [OF inv ran(1,2,4-6)]
  from ran(7) show ?thesis
  proof (cases rule: start_end.cases)
    case (rolled_back u failing q)
    have tu: "vmm_calls t u" by (rule neutral_calls) (fact rolled_back)+
    have u: "g_num_cpus_started u = of_nat k"
      "g_vmm_status u = (if 0 < k then VMM_RUNNING else VMM_LOADED)"
      using vmm_callsD(5,6) [OF tu] t(4,5) by simp_all
    have tr: "trace u = trace s @ up @ failing" using ran(5) rolled_back(2) by simp
    obtain j down rest where "trace s' = trace u @ down @ rest \<and> rounds (stop_round E) (cpus_down k j) down \<and>
        j \<le> k \<and> g_num_cpus_started s' = of_nat j \<and>
        (case j of 0 \<Rightarrow> rest = [] \<and> g_vmm_status s' = VMM_LOADED
         | Suc i \<Rightarrow> refused_stop E (of_nat i) rest \<and> g_vmm_status s' = VMM_RUNNING \<or>
           (\<exists>q. failed_stop E (of_nat i) q rest) \<and> g_vmm_status s' = VMM_CORRUPT)"
      using clean_up_ends [OF rolled_back(5) ok u ran(2)] by blast
    then show ?thesis
      using tr ran(6) rolled_back(6)
      by - (rule exI [of _ k], rule exI [of _ j], rule exI [of _ up], rule exI [of _ failing],
        rule exI [of _ down], rule exI [of _ rest], simp)
  qed (use assms(5,6) in auto)
qed (use st in simp)

theorem start_failure_rolls_back_witness:
  "\<exists>s' k j down. common_start_vmm demo_env (demo_loaded [0, 5] []) = (5, s') \<and>
     rounds (stop_round demo_env) (cpus_down k j) down \<and> g_num_cpus_started s' = of_nat j \<and>
     j = 0 \<and> g_vmm_status s' = VMM_LOADED"
proof -
  obtain s' where run: "common_start_vmm demo_env (demo_loaded [0, 5] []) = (5, s')"
    and st: "g_vmm_status s' = VMM_LOADED"
    by (simp add: demo_eval start_loop.simps cong: prod.case_cong_weak)
  have "g_vmm_status (demo_loaded [0, 5] []) = VMM_LOADED" by (simp add: demo_states)
  from start_failure_rolls_back [OF run demo_codes demo_loaded_inv this]
  obtain k j down rest where d: "rounds (stop_round demo_env) (cpus_down k j) down" "g_num_cpus_started s' = of_nat j"
    "case j of 0 \<Rightarrow> rest = [] \<and> g_vmm_status s' = VMM_LOADED
     | Suc i \<Rightarrow> refused_stop demo_env (of_nat i) rest \<and> g_vmm_status s' = VMM_RUNNING \<or>
       (\<exists>q. failed_stop demo_env (of_nat i) q rest) \<and> g_vmm_status s' = VMM_CORRUPT"
    by (simp add: demo_consts) blast
  have "j = 0" using d(3) st by (cases j) auto
  then show ?thesis using run st d(1,2) by blast
qed

end
