(* ===== verification/Common_Layout.thy ===== *)
theory Common_Layout
  imports Demo
begin

text \<open>
  Properties of what the driver hands to the VMM: the stack, the thread context, the
  thread local storage of each CPU, and the pages of the modules.
\<close>

section \<open>Stack and thread context\<close>

text \<open>
  C31. The stack that \<open>setup_stack\<close> prepares: the byte above its top is a multiple of the
  stack size, at least one full stack size lies between the start of the block and the
  top, and the thread context right below the top lies inside the block.
\<close>

theorem stack_layout:
  assumes run: "setup_stack E s = (rc E BF_SUCCESS, s')" and ok: "codes_ok E"
    and sizes: "stack_consts_ok E" and fit: "fits (g_stack s') (STACK_SIZE E * 2)"
  shows "unat (g_stack_top s' + 1) mod unat (STACK_SIZE E) = 0 \<and>
    unat (g_stack s') + unat (STACK_SIZE E) < unat (g_stack_top s' + 1) \<and>
    unat (g_stack_top s') < unat (g_stack s') + 2 * unat (STACK_SIZE E) \<and>
    unat (g_stack s') \<le> unat (thread_context E s') \<and>
    unat (thread_context E s') + unat (sizeof_thread_context E) = unat (g_stack_top s')"
proof -
  have top: "g_stack_top s' = stack_top_of E (g_stack s')"
    using setup_stack_cases [OF run] codes_ok_success(1) [OF ok] codes_ok_errors(2) [OF ok] by metis
  show ?thesis
    using stack_top_bounds [OF sizes fit] thread_context_bounds [OF sizes fit top] top by simp
qed

theorem stack_layout_witness:
  "\<exists>s'. setup_stack demo_env (demo_state [] []) = (0, s') \<and>
     unat (g_stack_top s' + 1) mod 0x8000 = 0 \<and> unat (g_stack s') \<le> unat (thread_context demo_env s')"
proof -
  have "\<exists>s'. setup_stack demo_env (demo_state [] []) = (0, s') \<and> fits (g_stack s') 0x10000"
    by (simp add: demo_eval fits_def)
  moreover have "stack_consts_ok demo_env"
    by (simp add: stack_consts_ok_def demo_consts is_pow2I [of 15])
  ultimately show ?thesis
    using stack_layout [OF _ demo_codes] by (fastforce simp: demo_consts)
qed

text \<open>
  The thread context that the VMM finds when it is entered holds the number of the
  CPU the thread is pinned to and the address of that CPU's storage.
\<close>

theorem thread_context_holds_cpu:
  assumes "tc_consts_ok E"
  shows "load_u64 (thread_context E s + tc_cpuid_offset E) (mem (machine (write_thread_context E cpu s))) = cpu \<and>
    load_u64 (thread_context E s + tc_tlsptr_offset E) (mem (machine (write_thread_context E cpu s))) =
      g_tls s + THREAD_LOCAL_STORAGE_SIZE E * cpu"
proof -
  have "thread_context E (write_thread_context E cpu s) = thread_context E s"
    using vmm_onlyD(11) [OF write_thread_context_only, of E cpu s] by (simp add: thread_context_def)
  then show ?thesis
    using write_thread_context_contents [OF assms refl, of cpu s] by (simp add: tls_slot_def)
qed

theorem thread_context_holds_cpu_witness:
  "load_u64 (thread_context demo_env (demo_loaded [] []) + 8)
     (mem (machine (write_thread_context demo_env 1 (demo_loaded [] [])))) = 0x111000"
proof -
  have "tc_consts_ok demo_env" by (simp add: tc_consts_ok_def demo_consts)
  from thread_context_holds_cpu [OF this, of "demo_loaded [] []" 1] show ?thesis
    by (simp add: demo_consts demo_states)
qed

section \<open>Thread local storage\<close>

text \<open>
  C30. The storage that \<open>setup_tls\<close> allocates has one slot per CPU the platform reported:
  the slot of every CPU below that number lies inside the block, and slots of different
  CPUs share no byte. (Nothing is said of a CPU whose number is not below the count.)
\<close>

theorem tls_slots_are_separate:
  assumes run: "setup_tls E s = (rc E BF_SUCCESS, s')"
    and n: "fst (platform_num_cpus E (machine s)) = n"
    and size: "unat (THREAD_LOCAL_STORAGE_SIZE E) * unat n < 2 ^ 64"
    and fit: "fits (g_tls s') (g_tls_size s')"
    and i: "unat i < unat n" and j: "unat j < unat n" and "i \<noteq> j"
    and x: "x < unat (THREAD_LOCAL_STORAGE_SIZE E)" and y: "y < unat (THREAD_LOCAL_STORAGE_SIZE E)"
  shows "unat (g_tls s') \<le> unat (tls_slot E s' i) \<and>
    unat (tls_slot E s' i) + x < unat (g_tls s') + unat (g_tls_size s') \<and>
    unat (tls_slot E s' i) + x \<noteq> unat (tls_slot E s' j) + y"
proof -
  have ok: "tls_ok E n s'"
    using setup_tls_frame(9) [OF run] n size fit by (simp add: tls_ok_def)
  show ?thesis
    using tls_slot_bounds [OF ok i] tls_slots_disjoint [OF ok i j assms(7) x y] x by simp
qed

theorem tls_slots_are_separate_witness:
  "\<exists>s'. setup_tls demo_env (demo_state [] []) = (0, s') \<and>
     unat (tls_slot demo_env s' 0) + 7 \<noteq> unat (tls_slot demo_env s' 1) + 5"
proof -
  have run: "\<exists>s'. setup_tls demo_env (demo_state [] []) = (rc demo_env BF_SUCCESS, s') \<and>
      fits (g_tls s') (g_tls_size s')"
    by (simp add: demo_eval fits_def)
  have n: "fst (platform_num_cpus demo_env (machine (demo_state [] []))) = 2"
    by (simp add: demo_eval)
  show ?thesis
    using run tls_slots_are_separate [OF _ n, of _ 0 1 7 5] by (auto simp: demo_consts)
qed

section \<open>Pages of the modules\<close>

text \<open>
  C15. The descriptors of a module cover it: the page of every address of every segment
  is among them, with the permissions of that segment, and no page of a segment is sent
  twice. (\<open>load_success_sends_all_pages\<close> shows that these are the descriptors sent.)
\<close>

theorem module_pages_cover_segments:
  assumes i: "i < unat (bfelf_file_get_num_load_instrs E (bin_ef b))"
    and instr: "bfelf_file_get_load_instr E (bin_ef b) (of_nat i) = (r, instr)"
    and page: "is_pow2 (MAX_PAGE_SIZE E)" and fit: "module_fits E b"
    and low: "unat (bin_exec b + instr_mem_offset instr) \<le> unat x"
    and high: "unat x \<le> unat (bin_exec b + instr_mem_offset instr + instr_memsz instr)"
  shows "(align_down x (MAX_PAGE_SIZE E), segment_type E instr) \<in> set (module_mds E b) \<and>
    distinct (segment_mds E b instr)"
proof -
  have at: "load_instr_at E b (of_nat i) = instr" by (simp add: load_instr_at_def instr)
  have "align_down x (MAX_PAGE_SIZE E) \<in>
      set (page_range (MAX_PAGE_SIZE E) (segment_first E b instr) (segment_last E b instr))"
    using page_range_covers [OF page low high] by (simp add: segment_first_def segment_last_def)
  then have seg: "(align_down x (MAX_PAGE_SIZE E), segment_type E instr) \<in> set (segment_mds E b instr)"
    by (simp add: segment_mds_def)
  have "segment_fits E b (of_nat i)" using fit i by (simp add: module_fits_def)
  then have "distinct (segment_mds E b instr)"
    using page_range_distinct by (simp add: segment_mds_def segment_fits_def at distinct_map inj_on_def)
  moreover have "(align_down x (MAX_PAGE_SIZE E), segment_type E instr) \<in> set (module_mds E b)"
    unfolding module_mds_def using seg i at by force
  ultimately show ?thesis by blast
qed

definition demo_module :: bfelf_binary where
  "demo_module = \<lparr>bin_file = 0x2000, bin_file_size = 16, bin_exec = 0x402000, bin_exec_size = 0x1000,
     bin_ef = [0, 0]\<rparr>"

theorem module_pages_cover_segments_witness:
  "(0x402000, 5) \<in> set (module_mds demo_env demo_module)"
proof -
  have "is_pow2 (MAX_PAGE_SIZE demo_env)" by (simp add: demo_consts is_pow2I [of 12])
  moreover have "module_fits demo_env demo_module"
    by (simp add: module_fits_def segment_fits_def load_instr_at_def no_wrap_def demo_library
        demo_consts segment_last_def align_down_def demo_module_def)
  moreover have "bfelf_file_get_load_instr demo_env (bin_ef demo_module) (of_nat 0) =
      (0, \<lparr>instr_mem_offset = 0, instr_memsz = 0x100, instr_perm = 5\<rparr>)"
    by (simp add: demo_library)
  ultimately show ?thesis
    using module_pages_cover_segments [where i = 0 and E = demo_env and b = demo_module and x = "0x402010"]
    by (simp add: demo_library demo_consts demo_module_def align_down_def segment_type_def)
qed

text \<open>
  C37. The loop over the pages never returns when the last page of a range is the last
  page of the address space and the VMM acknowledges every descriptor: the address wraps
  around to 0, which is below the end again.
\<close>

theorem last_page_loops_for_ever:
  assumes "\<And>v t r t'. Q t \<Longrightarrow> add_raw_md_to_memory_manager E v ty t = (r, t') \<Longrightarrow> r = ok \<and> Q t'"
    and "is_pow2 (MAX_PAGE_SIZE E)" and "Q s"
  shows "md_loop E ok ty (align_down x (MAX_PAGE_SIZE E)) (- MAX_PAGE_SIZE E) s = None"
  by (rule md_loop_diverges [where Q = Q, OF assms(1,2) refl align_down_dvd [OF assms(2)] assms(3)])

theorem last_page_loops_for_ever_witness:
  "md_loop demo_env 0 3 (align_down 0x402000 (MAX_PAGE_SIZE demo_env)) (- MAX_PAGE_SIZE demo_env)
     (demo_loaded [] []) = None"
proof (rule last_page_loops_for_ever
    [where Q = "\<lambda>t. g_start t \<noteq> 0 \<and> replies (kernel (host (machine t))) = []"])
  show "is_pow2 (MAX_PAGE_SIZE demo_env)" by (simp add: demo_consts is_pow2I [of 12])
  show "g_start (demo_loaded [] []) \<noteq> 0 \<and> replies (kernel (host (machine (demo_loaded [] [])))) = []"
    by (simp add: demo_states)
  show "r = 0 \<and> g_start t' \<noteq> 0 \<and> replies (kernel (host (machine t'))) = []"
    if "g_start t \<noteq> 0 \<and> replies (kernel (host (machine t))) = []"
      and "add_raw_md_to_memory_manager demo_env v 3 t = (r, t')" for v t r t'
    using that by (auto simp: driver_defs demo_defs)
qed

end
