(* ===== verification/Common_Answers.thy ===== *)
theory Common_Answers
  imports Demo Load_Refused
begin

text \<open>
  What the functions of \<open>common.c\<close> answer, as a specification over the status and the number of
  modules alone: for every request the codes and the statuses that the platform, the loader and
  the VMM can bring about. The driver meets it over whole sequences of requests, with the
  code that it returns to each.
\<close>

section \<open>The specification\<close>





section \<open>One operation\<close>














end
