(* ===== verification/Cooperation.thy ===== *)
theory Cooperation
  imports Driver_Lifecycle
begin

text \<open>
  When the driver must succeed: a locale for a platform, a loader and a VMM that never fail
  while the machine is in a good state, and never leave the good states. Inside it every
  operation that is called in the right status returns success.
\<close>

text \<open>A loader and a VMM that do not fail; every port takes them from outside.\<close>

definition vmm_good :: "('h, 'z) env_scheme \<Rightarrow> ('h machine \<Rightarrow> bool) \<Rightarrow> bool" where
  "vmm_good B G \<longleftrightarrow>
     (\<forall>m ms n st info loader ret ms' st' info' loader' m'. G m \<longrightarrow>
        bfelf_load B ms n st info loader m = (ret, ms', st', info', loader', m') \<longrightarrow>
        ret = rc B BF_SUCCESS \<and> st' \<noteq> 0 \<and> G m') \<and>
     (\<forall>info r a b c. fst (bfelf_set_integer_args B info r a b c) = rc B BF_SUCCESS) \<and>
     (\<forall>ef i. fst (bfelf_file_get_load_instr B ef i) = rc B BFELF_SUCCESS) \<and>
     (\<forall>m st rsp info ret info' m'. G m \<longrightarrow> vmm_entry B st rsp info m = (ret, info', m') \<longrightarrow>
        ret = rc B BF_SUCCESS \<and> G m') \<and>
     (\<forall>m regs regs' m'. G m \<longrightarrow> vmcall B regs m = (regs', m') \<longrightarrow> r01 regs' = 0 \<and> G m')"

lemma vmm_goodD:
  assumes "vmm_good B G"
  shows "G m \<Longrightarrow> bfelf_load B ms i st info loader m = (ret, ms', st', info', loader', m') \<Longrightarrow>
      ret = rc B BF_SUCCESS \<and> st' \<noteq> 0 \<and> G m'"
    and "fst (bfelf_set_integer_args B info q a b c) = rc B BF_SUCCESS"
    and "fst (bfelf_file_get_load_instr B ef j) = rc B BFELF_SUCCESS"
    and "G m \<Longrightarrow> vmm_entry B st rsp info m = (ret, info', m') \<Longrightarrow> ret = rc B BF_SUCCESS \<and> G m'"
    and "G m \<Longrightarrow> vmcall B regs m = (regs', m') \<Longrightarrow> r01 regs' = 0 \<and> G m'"
  using assms unfolding vmm_good_def by - (elim conjE, metis)+

locale cooperative_world =
  fixes E :: "('h, 'z) env_scheme"
    and G :: "'h machine \<Rightarrow> bool"
    and N :: int64
  assumes coop_env: "G m \<Longrightarrow> env_ok E"
    and coop_stack: "G m \<Longrightarrow> STACK_SIZE E * 2 \<noteq> 0"
    and coop_mem: "G m \<Longrightarrow> G (m\<lparr>mem := x\<rparr>)"
    and coop_alloc: "G m \<Longrightarrow> n \<noteq> 0 \<Longrightarrow> platform_alloc_rw E n m = (a, m') \<Longrightarrow> a \<noteq> 0 \<and> G m'"
    and coop_memset: "G m \<Longrightarrow> G (platform_memset E p v n m)"
    and coop_cpus: "G m \<Longrightarrow> 0 < sint N" "G m \<Longrightarrow> THREAD_LOCAL_STORAGE_SIZE E * N \<noteq> 0"
    and coop_num_cpus: "G m \<Longrightarrow> platform_num_cpus E m = (k, m') \<Longrightarrow> k = N \<and> G m'"
    and coop_load: "G m \<Longrightarrow> bfelf_load E ms n st info loader m = (ret, ms', st', info', loader', m') \<Longrightarrow>
      ret = rc E BF_SUCCESS \<and> st' \<noteq> 0 \<and> G m'"
    and coop_args: "G m \<Longrightarrow> fst (bfelf_set_integer_args E info req a1 a2 a3) = rc E BF_SUCCESS"
    and coop_instr: "G m \<Longrightarrow> fst (bfelf_file_get_load_instr E ef i) = rc E BFELF_SUCCESS"
    and coop_cpu: "G m \<Longrightarrow> platform_get_current_cpu_num E m = (k, m') \<Longrightarrow> G m'"
    and coop_preempt: "G m \<Longrightarrow> G (platform_restore_preemption E m)"
    and coop_vmm: "G m \<Longrightarrow> vmm_entry E start rsp info m = (ret, info', m') \<Longrightarrow>
      ret = rc E BF_SUCCESS \<and> G m'"
    and coop_affinity: "G m \<Longrightarrow> 0 \<le> sint cpu \<Longrightarrow> sint cpu < sint N \<Longrightarrow>
      platform_set_affinity E cpu m = (k, m') \<Longrightarrow> 0 \<le> sint k \<and> G m'"
    and coop_restore: "G m \<Longrightarrow> G (platform_restore_affinity E k m)"
    and coop_start: "G m \<Longrightarrow> G (platform_start E m)"
    and coop_stop: "G m \<Longrightarrow> G (platform_stop E m)"
    and coop_vmcall: "G m \<Longrightarrow> vmcall E regs m = (regs', m') \<Longrightarrow> r01 regs' = 0 \<and> G m'"
begin

lemma zeros:
  assumes "G m"
  shows "rc E BF_SUCCESS = 0" and "rc E MEMORY_MANAGER_SUCCESS = 0" and "rc E BFELF_SUCCESS = 0"
  using codes_ok_success [OF env_okD(1) [OF coop_env [OF assms]]] by simp_all

lemma call_vmm_succeeds:
  assumes "G (machine s)" and "g_start s \<noteq> 0"
  shows "\<exists>s'. call_vmm E req a b c s = (0, s') \<and> G (machine s')"
proof -
  note success_zero = zeros [OF assms(1)]
  obtain info where i: "bfelf_set_integer_args E (g_info s) (rq E req) a b c = (0, info)"
    using coop_args [OF assms(1), of "g_info s" "rq E req" a b c] success_zero
    by (cases "bfelf_set_integer_args E (g_info s) (rq E req) a b c") simp
  obtain k m1 where k: "platform_get_current_cpu_num E (machine s) = (k, m1)" by force
  have m1: "G m1" by (rule coop_cpu [OF assms(1) k])
  define t where "t = write_thread_context E k
    (s\<lparr>g_info := info, machine := m1, trace := trace s @ [GetCpu k]\<rparr>)"
  have t: "G (machine t)"
    using m1 coop_mem by (simp add: t_def write_thread_context_def Let_def call_defs)
  have start: "g_start t = g_start s"
    by (simp add: t_def write_thread_context_def Let_def call_defs)
  obtain r u where u: "enter_vmm E req a b c t = (r, u)" by force
  have "r = 0 \<and> G (machine u)"
    using u t coop_vmm success_zero
    by (auto simp: enter_vmm_def Let_def call_defs split: prod.splits)
  then show ?thesis
    using i k u start assms(2) coop_preempt success_zero
    by (simp add: call_vmm_def Let_def call_get_current_cpu_num_def t_def [symmetric]
        call_restore_preemption_def on_machine_def log_def)
qed

lemma call_vmm_good:
  assumes "call_vmm E req a b c s = (r, s')" and "G (machine s)" and "g_start s \<noteq> 0"
  shows "r = 0" and "G (machine s')" and "g_start s' \<noteq> 0"
  using call_vmm_succeeds [OF assms(2,3), of req a b c] assms(1,3) vmm_onlyD(3) [OF call_vmm_only [OF assms(1)]]
  by auto

lemma add_raw_md_good:
  assumes "add_raw_md_to_memory_manager E v ty s = (r, s')" and "G (machine s)" and "g_start s \<noteq> 0"
  shows "r = 0" and "G (machine s')" and "g_start s' \<noteq> 0"
proof -
  note success_zero = zeros [OF assms(2)]
  define t where "t = store_md E v (platform_virt_to_phys E v (machine s)) ty s"
  have t: "G (machine t)" "g_start t \<noteq> 0"
    using assms(2,3) coop_mem by (simp_all add: t_def store_md_def call_defs)
  obtain q u where u: "call_vmm E BF_REQUEST_ADD_MDL (addr_of_md E) 0 0 t = (q, u)" by force
  note good = call_vmm_good [OF u t]
  have "r = 0 \<and> s' = u"
    using assms(1) u good(1) success_zero
    by (simp add: add_raw_md_to_memory_manager_def Let_def t_def [symmetric])
  then show "r = 0" and "G (machine s')" and "g_start s' \<noteq> 0" using good(2,3) by simp_all
qed

lemma md_loop_good:
  assumes "md_loop E 0 ty cur limit s = Some (r, s')" and "G (machine s)" and "g_start s \<noteq> 0"
  shows "r = None" and "G (machine s')" and "g_start s' \<noteq> 0"
proof -
  have "G (machine s) \<longrightarrow> g_start s \<noteq> 0 \<longrightarrow> r = None \<and> G (machine s') \<and> g_start s' \<noteq> 0"
    using assms(1) by (induction rule: md_loop_induct) (auto dest: add_raw_md_good)
  then show "r = None" and "G (machine s')" and "g_start s' \<noteq> 0" using assms(2,3) by simp_all
qed

lemma add_md_segments_good:
  assumes "add_md_segments E b n i s = Some (r, s')" and "G (machine s)" and "g_start s \<noteq> 0"
  shows "r = 0 \<and> G (machine s') \<and> g_start s' \<noteq> 0"
  using assms
proof (induction n arbitrary: i s)
  case 0
  then show ?case using zeros by simp
next
  case (Suc n)
  note success_zero = zeros [OF Suc.prems(2)]
  obtain instr where i: "bfelf_file_get_load_instr E (bin_ef b) i = (0, instr)"
    using coop_instr [OF Suc.prems(2), of "bin_ef b" i] success_zero
    by (cases "bfelf_file_get_load_instr E (bin_ef b) i") simp
  then obtain q t where t: "md_loop E 0 (segment_type E instr) (segment_first E b instr)
      (segment_last E b instr) s = Some (q, t)"
    using Suc.prems(1) success_zero by (auto split: option.splits)
  note good = md_loop_good [OF t Suc.prems(2,3)]
  have "add_md_segments E b n (i + 1) t = Some (r, s')"
    using Suc.prems(1) i t good(1) success_zero by simp
  then show ?case using Suc.IH good(2,3) by blast
qed

lemma add_md_modules_good:
  assumes "add_md_modules E n i s = Some (r, s')" and "G (machine s)" and "g_start s \<noteq> 0"
  shows "r = 0 \<and> G (machine s') \<and> g_start s' \<noteq> 0"
  using assms
proof (induction n arbitrary: i s)
  case 0
  then show ?case using zeros by simp
next
  case (Suc n)
  note success_zero = zeros [OF Suc.prems(2)]
  obtain q t where t: "add_md_to_memory_manager E (Some (g_modules s ! i)) s = Some (q, t)"
    using Suc.prems(1) by (auto split: option.splits)
  then have "q = 0 \<and> G (machine t) \<and> g_start t \<noteq> 0"
    using add_md_segments_good Suc.prems(2,3) by (fastforce simp: add_md_to_memory_manager_def)
  then show ?case using Suc t success_zero by (auto split: if_splits)
qed

lemma load_setup_good:
  assumes "load_setup E s = (r, s')" and "G (machine s)"
  shows "r = 0 \<and> G (machine s') \<and> g_start s' \<noteq> 0"
proof -
  note success_zero = zeros [OF assms(2)]
  obtain a m1 where a: "platform_alloc_rw E (STACK_SIZE E * 2) (machine s) = (a, m1)" by force
  note a' = coop_alloc [OF assms(2) coop_stack [OF assms(2)] a]
  obtain t where t: "setup_stack E s = (0, t)" "G (machine t)"
    using a a' coop_memset success_zero by (simp add: setup_stack_def call_defs Let_def)
  obtain n m2 where n: "platform_num_cpus E (machine t) = (n, m2)" by force
  obtain b m3 where b: "platform_alloc_rw E (THREAD_LOCAL_STORAGE_SIZE E * n) m2 = (b, m3)" by force
  have n': "n = N" "G m2" using coop_num_cpus [OF t(2) n] by simp_all
  note b' = coop_alloc [OF n'(2) coop_cpus(2) [OF t(2)] b [unfolded n'(1)]]
  obtain u where u: "setup_tls E t = (0, u)" "G (machine u)"
    using n b b' coop_memset success_zero by (simp add: setup_tls_def call_defs Let_def)
  obtain q v where v: "call_bfelf_load E u = (q, v)" by force
  have "q = 0 \<and> G (machine v) \<and> g_start v \<noteq> 0"
    using v coop_load [OF u(2)] success_zero
    by (auto simp: call_bfelf_load_def log_def split: prod.splits)
  then show ?thesis
    using assms(1) t u v success_zero call_vmm_good [of BF_REQUEST_INIT 0 0 0 v]
    by (auto simp: load_setup_def split: prod.splits)
qed

lemma load_succeeds:
  assumes run: "common_load_vmm E s = Some (r, s')" and good: "G (machine s)"
    and st: "g_vmm_status s = VMM_UNLOADED" and mods: "g_num_modules s \<noteq> 0"
  shows "r = rc E BF_SUCCESS \<and> G (machine s') \<and> g_start s' \<noteq> 0"
  using run env_okD(1) [OF coop_env [OF good]]
proof (cases rule: common_load_cases)
  case (setup_failed t)
  then show ?thesis using load_setup_good [OF setup_failed(2) good] zeros [OF good] by simp
next
  case (descriptors t)
  have t: "G (machine t)" "g_start t \<noteq> 0" using load_setup_good [OF descriptors(3) good] by simp_all
  from descriptors(5,4) show ?thesis
  proof (cases rule: load_descriptors_cases)
    case (modules_failed u)
    then show ?thesis using add_md_modules_good [OF _ t] zeros [OF good] by force
  next
    case (tls_failed u)
    have u: "G (machine u)" "g_start u \<noteq> 0" using add_md_modules_good [OF tls_failed(1) t] by simp_all
    show ?thesis
      using md_loop_good(1) [OF tls_failed(2) [unfolded add_md_tls_def Let_def zeros [OF good]] u] by simp
  next
    case (loaded u v)
    have u: "G (machine u)" "g_start u \<noteq> 0" using add_md_modules_good [OF loaded(1) t] by simp_all
    show ?thesis
      using md_loop_good [OF loaded(2) [unfolded add_md_tls_def Let_def zeros [OF good]] u] loaded(3,4)
      by simp
  qed
qed (use st mods in simp)

lemma stop_loop_good:
  assumes "stop_loop E n regs s = (r, s')" and "G (machine s)" and "g_start s \<noteq> 0" and "int n \<le> sint N"
  shows "r = 0 \<and> G (machine s') \<and> g_start s' \<noteq> 0"
  using assms
proof (induction n arbitrary: regs s)
  case 0
  then show ?case using zeros by auto
next
  case (Suc n)
  note success_zero = zeros [OF Suc.prems(2)]
  have "n < 2 ^ 63" using Suc.prems(4) sint_less_max [of N] by simp
  then have cpu: "0 \<le> sint (of_nat n :: int64)" "sint (of_nat n :: int64) < sint N"
    using sint_of_nat_less [of n] Suc.prems(4) by simp_all
  define regs0 where "regs0 = regs\<lparr>r00 := VMCALL_STOP E, r01 := VMCALL_MAGIC_NUMBER E\<rparr>"
  obtain k s1 where s1: "call_set_affinity E (of_nat n) s = (k, s1)" by force
  have 1: "0 \<le> sint k" "G (machine s1)" "g_start s1 \<noteq> 0"
    using s1 coop_affinity [OF Suc.prems(2) cpu] Suc.prems(3)
    by (auto simp: call_set_affinity_def log_def split: prod.splits)
  obtain regs1 s2 where s2: "call_vmcall E regs0 s1 = (regs1, s2)" by force
  have 2: "r01 regs1 = 0" "G (machine s2)" "g_start s2 \<noteq> 0"
    using s2 coop_vmcall [OF 1(2)] 1(3) by (auto simp: call_vmcall_def log_def split: prod.splits)
  obtain q s3 where s3: "call_vmm E BF_REQUEST_VMM_FINI (of_nat n) 0 0 s2 = (q, s3)" by force
  note 3 = call_vmm_good [OF s3 2(2,3)]
  define s4 where "s4 = call_restore_affinity E k (call_platform_stop E
      (s3\<lparr>g_num_cpus_started := g_num_cpus_started s3 - 1\<rparr>))"
  have 4: "G (machine s4)" "g_start s4 \<noteq> 0"
    using 3 coop_stop coop_restore by (simp_all add: s4_def call_defs)
  have "stop_loop E n regs1 s4 = (r, s')"
    using Suc.prems(1) 1(1) 2(1) 3(1) success_zero s1 s2 s3
    by (simp add: Let_def regs0_def [symmetric] s4_def)
  then show ?case using Suc.IH [OF _ 4] Suc.prems(4) by simp
qed

lemma stop_succeeds:
  assumes "common_stop_vmm E s = (r, s')" and "G (machine s)" and "g_start s \<noteq> 0"
    and "g_vmm_status s = VMM_RUNNING \<or> g_vmm_status s = VMM_LOADED"
    and "g_vmm_status s = VMM_RUNNING \<Longrightarrow> sint (g_num_cpus_started s) \<le> sint N"
  shows "r = rc E BF_SUCCESS \<and> G (machine s') \<and> g_start s' \<noteq> 0"
proof (cases "g_vmm_status s = VMM_RUNNING")
  case True
  have "int (nat (sint (g_num_cpus_started s))) \<le> sint N" using assms(5) [OF True] coop_cpus(1) [OF assms(2)] by simp
  from stop_loop_good [OF _ assms(2,3) this] show ?thesis
    using True assms(1) zeros [OF assms(2)] by (auto simp: common_stop_vmm_def common_vmm_status_def)
qed (use assms(1-4) zeros [OF assms(2)] in \<open>simp add: common_stop_vmm_def common_vmm_status_def\<close>)

text \<open>One round of the loop of \<open>common_start_vmm\<close>, on a CPU that exists.\<close>

lemma start_round_good:
  assumes run: "start_loop E cpuid regs s = (r, s')" and good: "G (machine s)" "g_start s \<noteq> 0"
    and cpu: "0 \<le> sint cpuid" "sint cpuid < sint N"
  obtains regs' t where "start_loop E (cpuid + 1) regs' t = (r, s')" and "G (machine t)" and "g_start t \<noteq> 0"
    and "g_vmm_status t = VMM_RUNNING" and "g_num_cpus_started t = g_num_cpus_started s + 1"
proof -
  note success_zero = zeros [OF good(1)]
  define regs0 where "regs0 = regs\<lparr>r00 := VMCALL_START E, r01 := VMCALL_MAGIC_NUMBER E\<rparr>"
  obtain k0 s0 where s0: "call_num_cpus E s = (k0, s0)" by force
  have 0: "G (machine s0)" "g_start s0 \<noteq> 0" "k0 = N" "g_num_cpus_started s0 = g_num_cpus_started s"
    using s0 coop_num_cpus [OF good(1)] good(2) by (auto simp: call_num_cpus_def split: prod.splits)
  obtain k s1 where s1: "call_set_affinity E cpuid s0 = (k, s1)" by force
  have 1: "0 \<le> sint k" "G (machine s1)" "g_start s1 \<noteq> 0" "g_num_cpus_started s1 = g_num_cpus_started s0"
    using s1 coop_affinity [OF 0(1) cpu] 0(2)
    by (auto simp: call_set_affinity_def log_def split: prod.splits)
  obtain q s2 where s2: "call_vmm E BF_REQUEST_VMM_INIT cpuid 0 0 s1 = (q, s2)" by force
  note 2 = call_vmm_good [OF s2 1(2,3)] vmm_onlyD(5) [OF call_vmm_only [OF s2]]
  define s3 where "s3 = s2\<lparr>g_num_cpus_started := g_num_cpus_started s2 + 1\<rparr>"
  obtain regs1 s4 where s4: "call_vmcall E regs0 s3 = (regs1, s4)" by force
  have 4: "r01 regs1 = 0" "G (machine s4)" "g_start s4 \<noteq> 0" "g_num_cpus_started s4 = g_num_cpus_started s2 + 1"
    using s4 coop_vmcall [of "machine s3" regs0] 2
    by (auto simp: s3_def call_vmcall_def log_def split: prod.splits)
  define s5 where "s5 = (call_restore_affinity E k (call_platform_start E s4))
      \<lparr>g_vmm_status := VMM_RUNNING\<rparr>"
  have 5: "G (machine s5)" "g_start s5 \<noteq> 0" "g_vmm_status s5 = VMM_RUNNING"
    "g_num_cpus_started s5 = g_num_cpus_started s + 1"
    using 4 2(4) 1(4) 0(4) coop_start coop_restore by (simp_all add: s5_def call_defs)
  have "start_loop E (cpuid + 1) regs1 s5 = (r, s')"
    using run [unfolded start_loop.simps [of E cpuid regs s] Let_def s0 s1 prod.case
      regs0_def [symmetric] s2 s3_def [symmetric] s4] 0(3) cpu(2) 1(1) 2(1) 4(1) success_zero
    by (simp add: s5_def)
  then show thesis using that 5 by blast
qed

lemma start_loop_good:
  assumes "start_loop E cpuid regs s = (r, s')" and "G (machine s)" and "g_start s \<noteq> 0"
    and "0 \<le> sint cpuid" and "sint cpuid \<le> sint N" and "g_num_cpus_started s = cpuid"
  shows "r = 0 \<and> G (machine s') \<and> g_start s' \<noteq> 0 \<and> g_num_cpus_started s' = N \<and>
    (cpuid = 0 \<or> g_vmm_status s = VMM_RUNNING \<longrightarrow> g_vmm_status s' = VMM_RUNNING)"
  using assms
proof (induction "nat (2 ^ 63 - sint cpuid)" arbitrary: cpuid regs s rule: less_induct)
  case less
  show ?case
  proof (cases "sint cpuid < sint N")
    case False
    then have n: "cpuid = N" using less.prems(5) by (auto intro: signed_word_eqI)
    obtain k m where k: "platform_num_cpus E (machine s) = (k, m)" by force
    have m: "k = N" "G m" using coop_num_cpus [OF less.prems(2) k] by simp_all
    have "start_loop E cpuid regs s = (0, s\<lparr>machine := m\<rparr>)"
      using k m(1) n zeros [OF less.prems(2)]
      by (simp add: start_loop.simps [of E N regs s] call_num_cpus_def Let_def)
    then show ?thesis using less.prems(1,3,6) m(2) n coop_cpus(1) [OF less.prems(2)] by auto
  next
    case True
    obtain regs' t where t: "start_loop E (cpuid + 1) regs' t = (r, s')" "G (machine t)" "g_start t \<noteq> 0"
      "g_vmm_status t = VMM_RUNNING" "g_num_cpus_started t = g_num_cpus_started s + 1"
      by (rule start_round_good [OF less.prems(1-4) True])
    have "nat (2 ^ 63 - sint (cpuid + 1)) < nat (2 ^ 63 - sint cpuid)" "0 \<le> sint (cpuid + 1)"
      "sint (cpuid + 1) \<le> sint N"
      using sint_incr [OF True] sint_less_max [of cpuid] less.prems(4) True by simp_all
    then show ?thesis using less.hyps [OF _ t(1-3)] t(4,5) less.prems(6) by simp
  qed
qed

lemma start_succeeds:
  assumes "common_start_vmm E s = (r, s')" and "G (machine s)" and "g_start s \<noteq> 0"
    and "g_vmm_status s = VMM_LOADED"
  shows "r = rc E BF_SUCCESS \<and> G (machine s') \<and> g_start s' \<noteq> 0 \<and> g_vmm_status s' = VMM_RUNNING \<and>
    g_num_cpus_started s' = N"
  using assms start_loop_good [of 0 "uninit_regs E" "s\<lparr>g_num_cpus_started := 0\<rparr>" r s'] zeros [OF assms(2)]
    coop_cpus(1) [OF assms(2)]
  by (simp add: common_start_vmm_def common_vmm_status_def)

lemma unload_succeeds:
  assumes "common_unload_vmm E s = (r, s')" and "G (machine s)" and "g_start s \<noteq> 0"
    and "g_vmm_status s = VMM_LOADED"
  shows "r = rc E BF_SUCCESS"
  using assms(1)
proof (cases rule: common_unload_cases)
  case (fini_failed q t)
  then show ?thesis using call_vmm_good(1) [OF fini_failed(2) assms(2,3)] zeros [OF assms(2)] by simp
qed (use assms(4) in simp_all)

lemma load_completes:
  assumes good: "G (machine s)" and inv: "vmm_inv E s" and st: "g_vmm_status s = VMM_UNLOADED"
    and mods: "g_num_modules s \<noteq> 0" and fit: "load_fits E (snd (load_setup E s))"
  shows "\<exists>r s'. common_load_vmm E s = Some (r, s')"
proof -
  obtain q t where t: "load_setup E s = (q, t)" by force
  have "q = 0" using load_setup_good [OF t good] by simp
  moreover have "table_ok E t"
    using load_setup_inv [OF t coop_env [OF good] inv st] by (simp add: vmm_inv_def)
  ultimately show ?thesis
    using load_descriptors_returns [of E t] fit t st mods zeros [OF good]
    by (auto simp: common_load_vmm_def common_vmm_status_def)
qed

text \<open>The whole life of a VMM, from an unloaded driver with modules to an unloaded driver.\<close>

lemma whole_life_succeeds:
  assumes inv: "vmm_inv E s" and heap: "heap_ok R s" and cl: "clean s"
    and st: "g_vmm_status s = VMM_UNLOADED" and mods: "g_num_modules s \<noteq> 0" and good: "G (machine s)"
    and fit: "load_fits E (snd (load_setup E s))"
  shows "\<exists>s1 s2 s3 s4. common_load_vmm E s = Some (rc E BF_SUCCESS, s1) \<and>
    common_start_vmm E s1 = (rc E BF_SUCCESS, s2) \<and> common_stop_vmm E s2 = (rc E BF_SUCCESS, s3) \<and>
    common_unload_vmm E s3 = (rc E BF_SUCCESS, s4) \<and>
    g_vmm_status s1 = VMM_LOADED \<and> g_vmm_status s2 = VMM_RUNNING \<and> g_num_cpus_started s2 = N \<and>
    g_vmm_status s3 = VMM_LOADED \<and> g_vmm_status s4 = VMM_UNLOADED \<and> live_blocks s4 = Some R"
proof -
  note env = coop_env [OF good] and ok = env_okD(1) [OF coop_env [OF good]] and success_zero = zeros [OF good]
  obtain r1 s1 where load: "common_load_vmm E s = Some (r1, s1)"
    using load_completes [OF good inv st mods fit] by blast
  note l = load_succeeds [OF load good st mods]
  have s1: "g_vmm_status s1 = VMM_LOADED" using common_load_success_status(1) [OF load ok] l by simp
  have inv1: "vmm_inv E s1" by (rule common_load_inv [OF load env inv])
  have heap1: "heap_ok R s1" by (rule common_load_heap [OF load env heap cl])
  obtain r2 s2 where start: "common_start_vmm E s1 = (r2, s2)" by force
  have g2: "r2 = rc E BF_SUCCESS" "G (machine s2)" "g_start s2 \<noteq> 0" and s2: "g_vmm_status s2 = VMM_RUNNING" "g_num_cpus_started s2 = N"
    using start_succeeds [OF start _ _ s1] l by simp_all
  have inv2: "vmm_inv E s2" by (rule common_start_inv [OF start env inv1])
  have heap2: "heap_ok R s2" using common_start_heap(1) [OF start env inv1] heap1 by simp
  obtain r3 s3 where stop: "common_stop_vmm E s2 = (r3, s3)" by force
  have g3: "r3 = rc E BF_SUCCESS" "G (machine s3)" "g_start s3 \<noteq> 0"
    using stop_succeeds [OF stop g2(2,3)] s2 by auto
  have s3: "g_vmm_status s3 = VMM_LOADED"
    using stop_refines [OF stop ok inv2] s2(1) g3(1) by (auto simp: lifecycle_stop_simps)
  have heap3: "heap_ok R s3" using common_stop_heap(1) [OF stop env inv2] heap2 by simp
  obtain r4 s4 where unload: "common_unload_vmm E s3 = (r4, s4)" by force
  have g4: "r4 = rc E BF_SUCCESS" by (rule unload_succeeds [OF unload g3(2,3) s3])
  have s4: "g_vmm_status s4 = VMM_UNLOADED"
    using unload_refines [OF unload ok] s3 g4 by (simp add: lifecycle_unload_simps)
  have "live_blocks s4 = Some R"
    by (rule clean_unloaded(1) [OF common_unload_clean [OF unload] s4 common_unload_heap [OF unload heap3]])
  then show ?thesis
    using load start stop unload l g2(1) g3(1) g4 s1 s2 s3 s4 by blast
qed

end

end
