(* ===== verification/Device_Session.thy ===== *)
theory Device_Session
  imports Cooperation Linux_Operations
begin

text \<open>
  The handlers of a device when nothing fails: inside the contract \<open>cooperative_world\<close> every
  request that is sent in the right status succeeds and leaves the machine in a good state.
  The handlers are those of the Linux device, which the Windows device shares.
\<close>

text \<open>A run in which every operation answers success.\<close>

primrec session ::
  "('op \<Rightarrow> 's \<Rightarrow> ('r \<times> 's) option) \<Rightarrow> ('r \<Rightarrow> bool) \<Rightarrow> 'op list \<Rightarrow> 's \<Rightarrow> 's option" where
  "session step ok [] s = Some s"
| "session step ok (op # ops) s =
     (case step op s of None \<Rightarrow> None
      | Some (r, t) \<Rightarrow> if ok r then session step ok ops t else None)"

lemma session_append:
  "session step ok (xs @ ys) s =
   (case session step ok xs s of None \<Rightarrow> None | Some t \<Rightarrow> session step ok ys t)"
  by (induction xs arbitrary: s) (auto split: option.splits)

lemma session_cons:
  "session step ok [op] s = Some t \<Longrightarrow> session step ok (op # ops) s = session step ok ops t"
  by (auto split: option.splits if_splits)

lemma session_run: "session step ok ops s = Some s' \<Longrightarrow> op_run step ops s = Some s'"
  unfolding op_run_def by (induction ops arbitrary: s) (auto split: option.splits if_splits)

text \<open>A device that is unloaded, on a good machine.\<close>

definition ready :: "('h, 'z) env_scheme \<Rightarrow> ('h machine \<Rightarrow> bool) \<Rightarrow> nat \<Rightarrow> 'h linux_state \<Rightarrow> bool" where
  "ready E G n s \<longleftrightarrow> G (machine (core s)) \<and> linux_inv E s \<and> linux_owns {#} s \<and> linux_clean s \<and>
     g_vmm_status (core s) = VMM_UNLOADED \<and> unat (g_num_pmodules s) = n"

text \<open>A good machine under a device whose VMM has been loaded; if it runs, on all \<open>N\<close> CPUs.\<close>

definition serving :: "('h, 'z) env_scheme \<Rightarrow> ('h machine \<Rightarrow> bool) \<Rightarrow> int64 \<Rightarrow> vmm_status
    \<Rightarrow> 'h linux_state \<Rightarrow> bool" where
  "serving E G N st s \<longleftrightarrow> G (machine (core s)) \<and> g_start (core s) \<noteq> 0 \<and> linux_inv E s \<and> linux_owns {#} s \<and>
     linux_clean s \<and> g_vmm_status (core s) = st \<and>
     (st = VMM_RUNNING \<longrightarrow> g_num_cpus_started (core s) = N)"

section \<open>The commands of a session\<close>

definition commands_distinct :: "'h linux_services \<Rightarrow> bool" where
  "commands_distinct U \<longleftrightarrow>
     distinct [IOCTL_ADD_MODULE U, IOCTL_ADD_MODULE_LENGTH U, IOCTL_LOAD_VMM U, IOCTL_UNLOAD_VMM U,
       IOCTL_START_VMM U, IOCTL_STOP_VMM U]"

text \<open>
  User memory that can be read, and a user variable that holds the length of a module, not 0.
\<close>

definition readable :: "'h linux_services \<Rightarrow> ('h machine \<Rightarrow> bool) \<Rightarrow> uint64 \<Rightarrow> bool" where
  "readable U G src \<longleftrightarrow>
     (\<forall>dst k m. G m \<longrightarrow> (\<exists>m'. copy_from_user U dst src k m = (0, m') \<and> G m'))"

definition holds_length :: "'h linux_services \<Rightarrow> ('h machine \<Rightarrow> bool) \<Rightarrow> uint64 \<Rightarrow> bool" where
  "holds_length U G src \<longleftrightarrow> src \<noteq> 0 \<and> readable U G src \<and>
     (\<forall>m m'. G m \<longrightarrow> copy_from_user U (addr_of_g_module_length U) src 8 m = (0, m') \<longrightarrow>
        load_u64 (addr_of_g_module_length U) (mem m') \<noteq> 0)"

text \<open>For each module, the ioctl that sets its length and the one that adds it.\<close>

definition add_requests :: "'h linux_services \<Rightarrow> (uint64 \<times> uint64) list \<Rightarrow> (uint32 \<times> uint64) list" where
  "add_requests U mods =
     concat (map (\<lambda>(len, file). [(IOCTL_ADD_MODULE_LENGTH U, len), (IOCTL_ADD_MODULE U, file)]) mods)"

section \<open>The handlers\<close>

context cooperative_world begin

lemma add_module_succeeds:
  assumes ready: "ready E G n s" and "n < MAX_NUM_MODULES E" and "g_module_length s \<noteq> 0"
    and copy: "\<And>dst k m. G m \<Longrightarrow> \<exists>m'. copy_from_user U dst file k m = (0, m') \<and> G m'"
  shows "\<exists>s'. ioctl_add_module U E file s = (BF_IOCTL_SUCCESS U, s') \<and> ready E G (n + 1) s'"
proof -
  have good: "G (machine (core s))" and inv: "linux_inv E s" and st: "g_vmm_status (core s) = VMM_UNLOADED"
    and num: "unat (g_num_pmodules s) = n"
    using ready by (simp_all add: ready_def)
  note env = coop_env [OF good] and success_zero = zeros [OF good]
  obtain a m1 where a: "platform_alloc_rw E (g_module_length s) (machine (core s)) = (a, m1)" by force
  note a' = coop_alloc [OF good assms(3) a]
  obtain m2 where m2: "copy_from_user U a file (g_module_length s) m1 = (0, m2)" "G m2"
    using copy a' by blast
  let ?d = "(core s)\<lparr>trace := trace (core s) @ [AllocRw (g_module_length s) a], machine := m2\<rparr>"
  have mods: "sint (g_num_modules (core s)) = int n"
    using inv st num by (simp add: linux_inv_def modules_match_def)
  obtain e where e: "common_add_module E a (g_module_length s) ?d = (rc E BF_SUCCESS, e)"
    "machine e = m2" "g_vmm_status e = VMM_UNLOADED"
    using a' assms(2,3) mods st by (simp add: common_add_module_def common_vmm_status_def Let_def)
  let ?s' = "s\<lparr>core := e, pmodules := (pmodules s)[n := \<lparr>pm_data = a, pm_size = g_module_length s\<rparr>],
    g_num_pmodules := g_num_pmodules s + 1\<rparr>"
  have run: "ioctl_add_module U E file s = (BF_IOCTL_SUCCESS U, ?s')"
    using a a' m2 e(1) assms(2) num
    by (simp add: ioctl_add_module_def with_machine_def with_core_def call_alloc_rw_def log_def Let_def)
  have "n + 1 < 2 ^ 64" using assms(2) env_okD(3) [OF env] by simp
  then have "unat (g_num_pmodules s + 1) = n + 1"
    using num by (simp add: unat_word_ariths)
  moreover have "linux_inv E ?s' \<and> linux_owns {#} ?s' \<and> linux_clean ?s'"
    using ioctl_add_module_safe [OF run env] ready by (auto simp: linux_safe_def ready_def)
  ultimately show ?thesis using run e m2(2) by (auto simp: ready_def)
qed

lemma add_length_succeeds:
  assumes ready: "ready E G n s" and len: "holds_length U G l"
  shows "\<exists>s'. ioctl_add_module_length U l s = (BF_IOCTL_SUCCESS U, s') \<and> ready E G n s' \<and>
    g_module_length s' \<noteq> 0"
proof -
  let ?m = "(machine (core s))\<lparr>mem := store_u64 (addr_of_g_module_length U) (g_module_length s)
    (mem (machine (core s)))\<rparr>"
  have m: "G ?m" using ready coop_mem by (simp add: ready_def)
  obtain m' where m': "copy_from_user U (addr_of_g_module_length U) l 8 ?m = (0, m')" "G m'"
    using len m unfolding holds_length_def readable_def by blast
  have nz: "load_u64 (addr_of_g_module_length U) (mem m') \<noteq> 0"
    using len m m'(1) by (auto simp: holds_length_def)
  obtain s' where run: "ioctl_add_module_length U l s = (BF_IOCTL_SUCCESS U, s')"
    and s': "machine (core s') = m'" "g_module_length s' = load_u64 (addr_of_g_module_length U) (mem m')"
      "g_num_pmodules s' = g_num_pmodules s"
    using len m' by (simp add: ioctl_add_module_length_def copy_u64_from_user_def with_machine_def
        with_core_def holds_length_def Let_def)
  have "keeps E s s'" by (rule ioctl_add_module_length_keeps [OF run])
  then have "ready E G n s'" using ready m'(2) s' by (simp add: ready_def keeps_def)
  then show ?thesis using run s'(2) nz by auto
qed

lemma adds_succeed:
  assumes "commands_distinct U" and "ready E G n s" and "n + length mods \<le> MAX_NUM_MODULES E"
    and "\<forall>(l, f) \<in> set mods. holds_length U G l \<and> readable U G f"
  shows "\<exists>s'. session (linux_step U E) (\<lambda>r. r = BF_IOCTL_SUCCESS U) (add_requests U mods) s = Some s' \<and>
    ready E G (n + length mods) s'"
  using assms
proof (induction mods arbitrary: n s)
  case Nil
  then show ?case by (simp add: add_requests_def)
next
  case (Cons lf mods)
  obtain l f where lf: "lf = (l, f)" by force
  have len: "holds_length U G l" and src: "readable U G f" using Cons.prems(4) lf by auto
  obtain s1 where s1: "ioctl_add_module_length U l s = (BF_IOCTL_SUCCESS U, s1)" "ready E G n s1"
    "g_module_length s1 \<noteq> 0"
    using add_length_succeeds [OF Cons.prems(2) len] by blast
  obtain s2 where s2: "ioctl_add_module U E f s1 = (BF_IOCTL_SUCCESS U, s2)" "ready E G (n + 1) s2"
    using add_module_succeeds [OF s1(2) _ s1(3), of U f] Cons.prems(3) src by (auto simp: readable_def)
  obtain s' where s': "session (linux_step U E) (\<lambda>r. r = BF_IOCTL_SUCCESS U) (add_requests U mods) s2 = Some s'"
    "ready E G (n + 1 + length mods) s'"
    using Cons.IH [OF Cons.prems(1) s2(2)] Cons.prems(3,4) by auto
  have "linux_step U E (IOCTL_ADD_MODULE_LENGTH U, l) s = Some (BF_IOCTL_SUCCESS U, s1)"
    "linux_step U E (IOCTL_ADD_MODULE U, f) s1 = Some (BF_IOCTL_SUCCESS U, s2)"
    using s1(1) s2(1) Cons.prems(1)
    by (auto simp: linux_step_def dev_unlocked_ioctl_def commands_distinct_def)
  then show ?case using s' lf by (simp add: add_requests_def)
qed

lemma load_ioctl_succeeds:
  assumes ready: "ready E G n s" and "0 < n" and fits: "load_fits E (snd (load_setup E (core s)))"
  shows "\<exists>c. common_load_vmm E (core s) = Some (rc E BF_SUCCESS, c) \<and>
    ioctl_load_vmm U E s = Some (BF_IOCTL_SUCCESS U, s\<lparr>core := c\<rparr>) \<and> serving E G N VMM_LOADED (s\<lparr>core := c\<rparr>)"
proof -
  have good: "G (machine (core s))" and inv: "linux_inv E s" and st: "g_vmm_status (core s) = VMM_UNLOADED"
    and num: "unat (g_num_pmodules s) = n"
    using ready by (simp_all add: ready_def)
  note env = coop_env [OF good] and ok = env_okD(1) [OF coop_env [OF good]]
  have "sint (g_num_modules (core s)) = int n"
    using inv st num by (simp add: linux_inv_def modules_match_def)
  then have mods: "g_num_modules (core s) \<noteq> 0" using assms(2) by auto
  obtain r c where run: "common_load_vmm E (core s) = Some (r, c)"
    using load_completes [OF good _ st mods fits] inv by (auto simp: linux_inv_def)
  note finished = load_succeeds [OF run good st mods]
  let ?s' = "s\<lparr>core := c\<rparr>"
  have eq: "ioctl_load_vmm U E s = Some (BF_IOCTL_SUCCESS U, ?s')"
    using run finished by (simp add: ioctl_load_vmm_def Let_def)
  have "linux_inv E ?s' \<and> linux_owns {#} ?s' \<and> linux_clean ?s'"
    using ioctl_load_safe [OF eq env] ready by (auto simp: linux_safe_def ready_def)
  moreover have "g_vmm_status c = VMM_LOADED"
    using common_load_success_status(1) [OF run ok] finished by simp
  ultimately show ?thesis using run eq finished by (auto simp: serving_def)
qed

lemma start_ioctl_succeeds:
  assumes "serving E G N VMM_LOADED s"
  shows "\<exists>s'. ioctl_start_vmm U E s = (BF_IOCTL_SUCCESS U, s') \<and> serving E G N VMM_RUNNING s'"
proof -
  obtain r c where run: "common_start_vmm E (core s) = (r, c)" by force
  have good: "G (machine (core s))" using assms by (simp add: serving_def)
  note finished = start_succeeds [OF run good]
  let ?s' = "s\<lparr>core := c\<rparr>"
  have c: "r = rc E BF_SUCCESS \<and> G (machine c) \<and> g_start c \<noteq> 0 \<and> g_vmm_status c = VMM_RUNNING \<and>
    g_num_cpus_started c = N"
    using finished assms by (simp add: serving_def)
  then have eq: "ioctl_start_vmm U E s = (BF_IOCTL_SUCCESS U, ?s')"
    using run by (simp add: ioctl_start_vmm_def with_core_def Let_def)
  have "linux_inv E ?s' \<and> linux_owns {#} ?s' \<and> linux_clean ?s'"
    using ioctl_start_safe [OF eq coop_env [OF good]] assms by (auto simp: linux_safe_def serving_def)
  then show ?thesis using eq c by (auto simp: serving_def)
qed

lemma stop_ioctl_succeeds:
  assumes "serving E G N VMM_RUNNING s"
  shows "\<exists>s'. ioctl_stop_vmm U E s = (BF_IOCTL_SUCCESS U, s') \<and> serving E G N VMM_LOADED s'"
proof -
  obtain r c where run: "common_stop_vmm E (core s) = (r, c)" by force
  have good: "G (machine (core s))" and inv: "vmm_inv E (core s)" and st: "g_vmm_status (core s) = VMM_RUNNING"
    using assms by (simp_all add: serving_def linux_inv_def)
  have c: "r = rc E BF_SUCCESS \<and> G (machine c) \<and> g_start c \<noteq> 0"
    using stop_succeeds [OF run good] assms by (simp add: serving_def)
  let ?s' = "s\<lparr>core := c\<rparr>"
  have eq: "ioctl_stop_vmm U E s = (BF_IOCTL_SUCCESS U, ?s')"
    using run c by (simp add: ioctl_stop_vmm_def with_core_def Let_def)
  have "linux_inv E ?s' \<and> linux_owns {#} ?s' \<and> linux_clean ?s'"
    using ioctl_stop_safe [OF eq coop_env [OF good]] assms by (auto simp: linux_safe_def serving_def)
  moreover have "g_vmm_status c = VMM_LOADED"
    using stop_refines [OF run env_okD(1) [OF coop_env [OF good]] inv] st c
    by (auto simp: lifecycle_stop_simps)
  ultimately show ?thesis using eq c by (auto simp: serving_def)
qed

text \<open>What an unload does to the core, on both devices.\<close>

lemma unload_core_succeeds:
  assumes "serving E G N VMM_LOADED s"
  shows "\<exists>c. common_unload_vmm E (core s) = (rc E BF_SUCCESS, c) \<and> g_vmm_status c = VMM_UNLOADED \<and>
    held c = {#} \<and> live_blocks c = Some (mset (live_pmodules s))"
proof -
  obtain r c where run: "common_unload_vmm E (core s) = (r, c)" by force
  have good: "G (machine (core s))" and start: "g_start (core s) \<noteq> 0"
    and st: "g_vmm_status (core s) = VMM_LOADED"
    and heap: "heap_ok (mset (live_pmodules s)) (core s)"
    using assms by (simp_all add: serving_def linux_owns_def)
  have r: "r = rc E BF_SUCCESS" by (rule unload_succeeds [OF run good start st])
  have c: "g_vmm_status c = VMM_UNLOADED"
    using unload_refines [OF run env_okD(1) [OF coop_env [OF good]]] st r
    by (simp add: lifecycle_unload_simps)
  have empty: "g_stack c = 0" "g_tls c = 0" "live_blocks c = Some (mset (live_pmodules s))"
    using clean_unloaded [OF common_unload_clean [OF run] c common_unload_heap [OF run heap]] by simp_all
  then have "held c = {#}" by (simp add: held_def block_def)
  then show ?thesis using run r c empty(3) by blast
qed

lemma unload_ioctl_succeeds:
  assumes "serving E G N VMM_LOADED s"
  shows "\<exists>s'. ioctl_unload_vmm U E s = (BF_IOCTL_SUCCESS U, s') \<and> g_vmm_status (core s') = VMM_UNLOADED \<and>
    g_num_pmodules s' = 0 \<and> live_blocks (core s') = Some {#}"
proof -
  obtain c where c: "common_unload_vmm E (core s) = (rc E BF_SUCCESS, c)" "g_vmm_status c = VMM_UNLOADED"
    "held c = {#}" "live_blocks c = Some (mset (live_pmodules s))"
    using unload_core_succeeds [OF assms] by blast
  obtain r s' where run: "ioctl_unload_vmm U E s = (r, s')" by force
  then show ?thesis
  proof (cases rule: unload_state)
    case (1 ret c' d)
    have "c' = c" "ret = rc E BF_SUCCESS" using 1(1) c(1) by simp_all
    moreover have "heap_ok {#} d"
      using 1(4) [of "{#}"] c(3,4) \<open>c' = c\<close> by (simp add: heap_ok_def)
    moreover have "held d = {#}" using vmm_only_held [OF 1(2)] c(3) \<open>c' = c\<close> by simp
    ultimately show ?thesis
      using run 1 c(2) vmm_onlyD(6) [OF 1(2)] by (simp add: heap_ok_def)
  qed
qed

text \<open>A whole session: adding modules, loading, starting, stopping, unloading.\<close>

lemma ioctl_session_succeeds:
  assumes cmds: "commands_distinct U" and ready: "ready E G 0 s"
    and mods: "mods \<noteq> []" "length mods \<le> MAX_NUM_MODULES E"
      "\<forall>(l, f) \<in> set mods. holds_length U G l \<and> readable U G f"
    and fits: "\<And>s1. op_run (linux_step U E) (add_requests U mods) s = Some s1 \<Longrightarrow>
      load_fits E (snd (load_setup E (core s1)))"
  shows "\<exists>s1 s2 s3 s4. session (linux_step U E) (\<lambda>r. r = BF_IOCTL_SUCCESS U)
      (add_requests U mods @ [(IOCTL_LOAD_VMM U, x)]) s = Some s1 \<and> g_vmm_status (core s1) = VMM_LOADED \<and>
    session (linux_step U E) (\<lambda>r. r = BF_IOCTL_SUCCESS U) [(IOCTL_START_VMM U, x)] s1 = Some s2 \<and>
    g_vmm_status (core s2) = VMM_RUNNING \<and> g_num_cpus_started (core s2) = N \<and>
    session (linux_step U E) (\<lambda>r. r = BF_IOCTL_SUCCESS U) [(IOCTL_STOP_VMM U, x)] s2 = Some s3 \<and>
    g_vmm_status (core s3) = VMM_LOADED \<and>
    session (linux_step U E) (\<lambda>r. r = BF_IOCTL_SUCCESS U) [(IOCTL_UNLOAD_VMM U, x)] s3 = Some s4 \<and>
    g_vmm_status (core s4) = VMM_UNLOADED \<and> g_num_pmodules s4 = 0 \<and> live_blocks (core s4) = Some {#}"
proof -
  obtain s0 where s0: "session (linux_step U E) (\<lambda>r. r = BF_IOCTL_SUCCESS U) (add_requests U mods) s = Some s0"
    "ready E G (length mods) s0"
    using adds_succeed [OF cmds ready, of mods] mods by auto
  have "load_fits E (snd (load_setup E (core s0)))" by (rule fits [OF session_run [OF s0(1)]])
  then obtain s1 where s1: "ioctl_load_vmm U E s0 = Some (BF_IOCTL_SUCCESS U, s1)" "serving E G N VMM_LOADED s1"
    using load_ioctl_succeeds [OF s0(2)] mods(1) by blast
  obtain s2 where s2: "ioctl_start_vmm U E s1 = (BF_IOCTL_SUCCESS U, s2)" "serving E G N VMM_RUNNING s2"
    using start_ioctl_succeeds [OF s1(2)] by blast
  obtain s3 where s3: "ioctl_stop_vmm U E s2 = (BF_IOCTL_SUCCESS U, s3)" "serving E G N VMM_LOADED s3"
    using stop_ioctl_succeeds [OF s2(2)] by blast
  obtain s4 where s4: "ioctl_unload_vmm U E s3 = (BF_IOCTL_SUCCESS U, s4)"
    "g_vmm_status (core s4) = VMM_UNLOADED" "g_num_pmodules s4 = 0" "live_blocks (core s4) = Some {#}"
    using unload_ioctl_succeeds [OF s3(2)] by blast
  have "linux_step U E (IOCTL_LOAD_VMM U, x) s0 = Some (BF_IOCTL_SUCCESS U, s1)"
    "linux_step U E (IOCTL_START_VMM U, x) s1 = Some (BF_IOCTL_SUCCESS U, s2)"
    "linux_step U E (IOCTL_STOP_VMM U, x) s2 = Some (BF_IOCTL_SUCCESS U, s3)"
    "linux_step U E (IOCTL_UNLOAD_VMM U, x) s3 = Some (BF_IOCTL_SUCCESS U, s4)"
    using s1(1) s2(1) s3(1) s4(1) cmds
    by (auto simp: linux_step_def dev_unlocked_ioctl_def commands_distinct_def)
  then show ?thesis
    using s0(1) s1(2) s2(2) s3(2) s4(2-4)
    by (simp add: session_append serving_def)
qed

end

end
