(* ===== verification/Linux_Properties.thy ===== *)
theory Linux_Properties
  imports Demo
begin

text \<open>
  Properties of the Linux device and of the Linux platform layer.
\<close>

lemma linux_initial_ok: "linux_inv E (linux_initial E m)"
  "linux_owns {#} (linux_initial E m)" "linux_clean (linux_initial E m)"
  by (rule linux_initial_inv [OF initial_inv])
    (use initial_heap [of E m] in \<open>simp_all add: linux_owns_def linux_clean_def live_pmodules_def
      linux_initial_def\<close>)

text \<open>
  C8. Whatever ioctls are sent, with whatever arguments: what is allocated is exactly the
  stack and the storage that \<open>common.c\<close> holds and the copies of the modules that the device
  holds, and nothing was freed twice or with a wrong length. In particular the driver is
  clean after every ioctl: a failed load leaves nothing behind.
\<close>

theorem ioctls_leak_nothing:
  assumes "op_run (linux_step U E) ops (linux_initial E m) = Some s'"
    and "env_ok E" and "services_ok U"
  shows "live_blocks (core s') = Some (held (core s') + mset (live_pmodules s')) \<and> clean (core s')"
proof -
  have "linux_owns {#} s' \<and> linux_clean s'"
    by (rule linux.run_clean [OF assms(1)]) (use assms(2,3) linux_initial_ok in auto)
  then show ?thesis by (simp add: linux_owns_def linux_clean_def heap_ok_def)
qed

theorem ioctls_leak_nothing_witness:
  "\<exists>s'. op_run (linux_step demo_user demo_env) [(2, 0x7000), (1, 0x7100), (4, 0)]
      (linux_initial demo_env (demo_machine [] [])) = Some s' \<and> clean (core s')"
proof -
  have "\<exists>s'. op_run (linux_step demo_user demo_env) [(2, 0x7000), (1, 0x7100), (4, 0)]
      (linux_initial demo_env (demo_machine [] [])) = Some s'"
    by (auto simp: op_run_def linux_step_def dev_unlocked_ioctl_def demo_user_def)
  then show ?thesis
    using ioctls_leak_nothing [OF _ demo_env_ok demo_user_ok] by blast
qed

text \<open>
  C22. Whatever ioctls are sent, the tables of the device and of \<open>common.c\<close> keep their
  bounds, and while no VMM is loaded the two tables agree: the files that the next load reads
  are the copies in the table of the device, as many, in the same order, with the same lengths.
\<close>

theorem ioctls_keep_modules:
  assumes "op_run (linux_step U E) ops (linux_initial E m) = Some s'"
    and "env_ok E" and "services_ok U"
  shows "unat (g_num_pmodules s') \<le> MAX_NUM_MODULES E \<and> length (pmodules s') = MAX_NUM_MODULES E \<and>
    0 \<le> sint (g_num_modules (core s')) \<and> sint (g_num_modules (core s')) \<le> int (MAX_NUM_MODULES E) \<and>
    (g_vmm_status (core s') = VMM_UNLOADED \<longrightarrow>
      sint (g_num_modules (core s')) = int (unat (g_num_pmodules s')) \<and> core_files (core s') = live_pmodules s')"
proof -
  have "linux_inv E s'"
    using linux.run_inv [OF assms(1)] assms(2,3) linux_initial_ok(1) by blast
  then show ?thesis by (simp add: linux_inv_def modules_match_def vmm_inv_def table_ok_def)
qed

theorem ioctls_keep_modules_witness:
  "\<exists>s'. op_run (linux_step demo_user demo_env) [(2, 16), (1, 0x7100)]
      (linux_initial demo_env (demo_machine [] [])) = Some s' \<and> live_pmodules s' = [(0x100000, 16)]"
  using demo_two_commands ioctls_keep_modules [OF _ demo_env_ok demo_user_ok] by fastforce

text \<open>
  C20. The effect of a run of ioctls on the status of the VMM is a run of the automaton
  \<open>linux_lifecycle\<close>; so a corrupt VMM stays corrupt whatever is sent to the device.
\<close>

theorem ioctls_follow_lifecycle:
  assumes "op_run (linux_step U E) ops (linux_initial E m) = Some s'"
    and "env_ok E" and "services_ok U"
  shows "automaton_run (linux_lifecycle U) VMM_UNLOADED ops (g_vmm_status (core s'))"
proof -
  have "g_vmm_status (core (linux_initial E m)) = VMM_UNLOADED"
    by (simp add: linux_initial_def initial_state_def)
  then show ?thesis
    using linux.run_allowed [OF assms(1)] assms(2,3) linux_initial_ok(1) by metis
qed

theorem ioctls_follow_lifecycle_witness:
  "automaton_run (linux_lifecycle demo_user) VMM_UNLOADED [(2, 16), (1, 0x7100)] VMM_UNLOADED"
  using demo_two_commands ioctls_follow_lifecycle [OF _ demo_env_ok demo_user_ok] by metis

text \<open>
  An unload ioctl while the VMM is running fails and leaves the VMM running and
  every global of \<open>common.c\<close> as it was, and yet frees every copy of a module and forgets
  them: the module table of \<open>common.c\<close> still points to the freed copies.
\<close>

theorem unload_of_running_vmm_frees_modules:
  assumes st: "g_vmm_status (core s) = VMM_RUNNING" and inv: "linux_inv E s"
    and owns: "linux_owns R s" and run: "ioctl_unload_vmm U E s = (r, s')" and ok: "codes_ok E"
  shows "r = BF_IOCTL_FAILURE U \<and> g_vmm_status (core s') = VMM_RUNNING \<and>
    g_num_pmodules s' = 0 \<and> core_files (core s') = core_files (core s) \<and>
    live_blocks (core s') = Some (held (core s) + R)"
  using run
proof (cases rule: unload_state)
  case (1 ret c d)
  have c: "ret = rc E BF_ERROR_VMM_INVALID_STATE" "c = core s"
    using 1(1) st by (simp_all add: common_unload_vmm_def common_vmm_status_def)
  have "heap_ok R d" using 1(4) owns c(2) by (simp add: linux_owns_def)
  then show ?thesis
    using 1(5,6) c codes [OF ok] st vmm_onlyD [OF 1(2)] files_cong [OF vmm_onlyD(1,2) [OF 1(2)]]
      vmm_only_held [OF 1(2)]
    by (simp add: heap_ok_def)
qed

theorem unload_of_running_vmm_frees_modules_witness:
  "\<exists>s'. ioctl_unload_vmm demo_user demo_env (demo_device ((demo_running [] [])
      \<lparr>trace := [AllocRw 0x10000 0x100000, AllocRw 0x2000 0x110000, AllocRw 16 0x2000]\<rparr>)) = (-1, s') \<and>
     g_vmm_status (core s') = VMM_RUNNING \<and> g_num_pmodules s' = 0"
proof -
  let ?c = "(demo_running [] [])
      \<lparr>trace := [AllocRw 0x10000 0x100000, AllocRw 0x2000 0x110000, AllocRw 16 0x2000]\<rparr>"
  have "vmm_inv demo_env ?c"
    by (simp add: vmm_inv_def table_ok_def stack_ok_def demo_eval pinned_def stack_top_of_def)
  then have "linux_inv demo_env (demo_device ?c)"
    by (simp add: linux_inv_def demo_device_def demo_consts demo_states)
  moreover have "linux_owns {#} (demo_device ?c)"
    by (simp add: linux_owns_def live_pmodules_def demo_device_def heap_ok_def live_blocks_def held_def
        block_def demo_states)
  moreover have "g_vmm_status (core (demo_device ?c)) = VMM_RUNNING"
    by (simp add: demo_device_def demo_states)
  ultimately show ?thesis
    using unload_of_running_vmm_frees_modules [OF _ _ _ _ demo_codes]
    by (cases "ioctl_unload_vmm demo_user demo_env (demo_device ?c)") (fastforce simp: demo_user_def)
qed

text \<open>
  C38. After a load ioctl that fails on an unloaded driver, nothing the driver allocated
  is left, whatever the step of the load that failed: the device has no modules, the
  globals of \<open>common.c\<close> hold no block, and the driver is unloaded.
\<close>

theorem failed_load_ioctl_releases_everything:
  assumes run: "ioctl_load_vmm U E s = Some (r, s')" and failed: "r \<noteq> BF_IOCTL_SUCCESS U"
    and env: "env_ok E" and owns: "linux_owns R s" and clean: "linux_clean s"
    and st: "g_vmm_status (core s) = VMM_UNLOADED"
  shows "g_vmm_status (core s') = VMM_UNLOADED \<and> g_num_pmodules s' = 0 \<and>
    g_num_modules (core s') = 0 \<and> live_blocks (core s') = Some R"
  using run
proof (cases rule: ioctl_load_cases)
  case loaded
  then show ?thesis using failed by simp
next
  case (failed ret c q)
  have c: "g_vmm_status c = VMM_UNLOADED"
    using common_load_success_status(2) [OF failed(1) env_okD(1) [OF env]] failed(2) st by simp
  have "linux_owns R (s\<lparr>core := c\<rparr>)"
    using common_load_heap [OF failed(1) env] owns clean
    by (simp add: linux_owns_def linux_clean_def live_pmodules_def)
  note after = ioctl_unload_owns [OF failed(3) this]
  from failed(3) show ?thesis
  proof (cases rule: unload_state)
    case (1 q' c' d)
    have reset: "common_reset E c = (rc E BF_SUCCESS, c')"
      using unload_unloaded_driver [OF c] 1(1) by simp
    have d: "g_vmm_status d = VMM_UNLOADED" "g_num_modules d = 0"
      using reset_fields(1,4) [OF reset] vmm_onlyD(1,6) [OF 1(2)] by simp_all
    have "heap_ok R d" "clean d"
      using after 1(5) by (simp_all add: linux_owns_def linux_clean_def live_pmodules_def)
    from clean_unloaded(1) [OF this(2) d(1) this(1)] show ?thesis
      using 1(5) d by simp
  qed
qed

theorem failed_load_ioctl_releases_everything_witness:
  "\<exists>s'. ioctl_load_vmm demo_user demo_env (demo_device ((demo_added [0, 0, 5])
      \<lparr>trace := [AllocRw 16 0x2000]\<rparr>)) = Some (-1, s') \<and> live_blocks (core s') = Some {#}"
proof -
  let ?s = "demo_device ((demo_added [0, 0, 5])\<lparr>trace := [AllocRw 16 0x2000]\<rparr>)"
  have run: "\<exists>s'. ioctl_load_vmm demo_user demo_env ?s = Some (-1, s')"
    by (simp add: linux_defs demo_eval md_loop.simps numeral_3_eq_3
        cong: prod.case_cong_weak option.case_cong_weak)
  have "linux_owns {#} ?s" "linux_clean ?s" "g_vmm_status (core ?s) = VMM_UNLOADED"
    by (simp_all add: linux_owns_def linux_clean_def live_pmodules_def demo_device_def heap_ok_def
        live_blocks_def held_def block_def clean_def demo_eval)
  then show ?thesis
    using run failed_load_ioctl_releases_everything [OF _ _ demo_env_ok]
    by (fastforce simp: demo_user_def)
qed

end
