(* ===== verification/Driver_Exec.thy ===== *)
theory Driver_Exec
  imports Load_Refused
begin

text \<open>
  The executable blocks. The ELF loader allocates them, one for each module, and leaves their
  addresses in the table of \<open>common.c\<close>; \<open>common_reset\<close> frees those of the modules that were
  added. What every operation does to them, and what a run has lost at its end.
\<close>

section \<open>What the table holds\<close>

definition exec_entries :: "bfelf_binary list \<Rightarrow> blocks" where
  "exec_entries bs = mset (map (\<lambda>b. (bin_exec b, bin_exec_size b)) (filter (\<lambda>b. bin_exec b \<noteq> 0) bs))"

definition exec_held :: "'h common_state \<Rightarrow> blocks" where
  "exec_held s = exec_entries (g_modules s)"

text \<open>The loader fills in the entries it was given the number of, and no other.\<close>

definition loader_in_place :: "('h, 'z) env_scheme \<Rightarrow> bool" where
  "loader_in_place E \<longleftrightarrow>
     (\<forall>ms n start info loader m.
        drop (nat (sint n)) (fst (snd (bfelf_load E ms n start info loader m))) = drop (nat (sint n)) ms)"

text \<open>
  The blocks that are live are those of the table and \<open>lost\<close>, and the entries that are not
  in use hold none.
\<close>

definition exec_ok :: "blocks \<Rightarrow> 'h common_state \<Rightarrow> bool" where
  "exec_ok lost s \<longleftrightarrow>
     exec_blocks s = Some (exec_held s + lost) \<and>
     exec_entries (drop (nat (sint (g_num_modules s))) (g_modules s)) = {#}"

text \<open>An unloaded driver that holds no executable block.\<close>

definition unplaced :: "'h common_state \<Rightarrow> bool" where
  "unplaced s \<longleftrightarrow> (g_vmm_status s = VMM_UNLOADED \<longrightarrow> exec_held s = {#})"

lemma exec_entries_simps [simp]:
  "exec_entries [] = {#}"
  "exec_entries (b # bs) = (if bin_exec b = 0 then {#} else {#(bin_exec b, bin_exec_size b)#}) + exec_entries bs"
  "exec_entries (bs @ cs) = exec_entries bs + exec_entries cs"
  by (simp_all add: exec_entries_def)

lemma exec_entries_split: "exec_entries bs = exec_entries (take n bs) + exec_entries (drop n bs)"
  by (metis append_take_drop_id exec_entries_simps(3))

lemma exec_entries_zero [simp]: "exec_entries (replicate n (zero_binary E)) = {#}"
  by (induction n) (simp_all add: zero_binary_def)

lemma exec_entries_file:
  "exec_entries (bs[i := (bs ! i)\<lparr>bin_file := a, bin_file_size := n\<rparr>]) = exec_entries bs"
proof (induction bs arbitrary: i)
  case (Cons b bs)
  then show ?case by (cases i) simp_all
qed simp

lemma exec_ok_cong:
  "exec_blocks s = exec_blocks t \<Longrightarrow> g_modules s = g_modules t \<Longrightarrow> g_num_modules s = g_num_modules t \<Longrightarrow>
   exec_ok L s = exec_ok L t"
  by (simp add: exec_ok_def exec_held_def)

lemma exec_ok_update [simp]:
  "exec_ok L (s\<lparr>g_vmm_status := v\<rparr>) = exec_ok L s" "exec_ok L (s\<lparr>g_num_cpus_started := k\<rparr>) = exec_ok L s"
  "exec_ok L (s\<lparr>machine := m\<rparr>) = exec_ok L s"
  by (rule exec_ok_cong; simp)+

lemma exec_ok_calls: "vmm_calls s t \<Longrightarrow> exec_ok L t = exec_ok L s"
  by (rule exec_ok_cong) (simp_all add: vmm_calls_exec vmm_callsD)

section \<open>Reset\<close>

lemma run_free_events_exec: "run exec_step (free_events bs) (exec_entries bs + L) = Some L"
  by (induction bs) (simp_all add: free_events_def)

lemma reset_exec:
  assumes run: "common_reset E s = (ret, s')" and ok: "exec_ok L s"
  shows "exec_ok L s'" and "exec_held s' = {#}"
proof -
  let ?n = "nat (sint (g_num_modules s))"
  have "exec_entries (take ?n (g_modules s)) = exec_held s"
    using ok exec_entries_split [of "g_modules s" ?n] by (simp add: exec_ok_def exec_held_def)
  then have "run exec_step (reset_events s) (exec_held s + L) = Some L"
    using run_free_events_exec [of "take ?n (g_modules s)" L] by (simp add: reset_events_def run_append)
  then have "exec_blocks s' = Some L"
    using ok by (simp add: exec_ok_def exec_blocks_def reset_fields(8) [OF run] run_append)
  moreover show "exec_held s' = {#}"
    by (simp add: exec_held_def reset_fields(7) [OF run] zero_modules_def)
  ultimately show "exec_ok L s'"
    by (simp add: exec_ok_def reset_fields [OF run] zero_modules_def)
qed

lemma reset_unplaced: "common_reset E s = (ret, s') \<Longrightarrow> unplaced s'"
  by (simp add: unplaced_def exec_held_def reset_fields zero_modules_def)

section \<open>Unload, start, stop, add, dump\<close>

lemma unload_exec:
  assumes "common_unload_vmm E s = (ret, s')" and "exec_ok L s"
  shows "exec_ok L s'" and "unplaced s \<Longrightarrow> unplaced s'"
proof -
  have "exec_ok L s' \<and> (unplaced s \<longrightarrow> unplaced s')"
    using assms(1)
  proof (cases rule: common_unload_cases)
    case (fini_failed r t)
    then show ?thesis using exec_ok_calls [OF call_vmm_calls [OF fini_failed(2)]] assms(2)
      by (simp add: unplaced_def)
  next
    case unloaded
    then show ?thesis using reset_exec(1) reset_unplaced assms(2) by blast
  next
    case (fini t)
    then have "exec_ok L t" using exec_ok_calls [OF call_vmm_calls [OF fini(2)]] assms(2) by simp
    then show ?thesis using reset_exec(1) [OF fini(4)] reset_unplaced [OF fini(4)] by simp
  qed (use assms(2) in simp_all)
  then show "exec_ok L s'" and "unplaced s \<Longrightarrow> unplaced s'" by simp_all
qed

lemma stop_end_exec: "stop_end E k t ret s' \<Longrightarrow> exec_ok L s' = exec_ok L t"
  by (auto elim!: stop_endE simp: exec_ok_calls [OF neutral_calls])

lemma stop_exec:
  assumes run: "common_stop_vmm E s = (ret, s')" and ok: "codes_ok E" and inv: "vmm_inv E s"
  shows "exec_ok L s' = exec_ok L s"
proof (cases "g_vmm_status s = VMM_RUNNING")
  case False
  then show ?thesis
    using run by (auto simp: common_stop_vmm_def common_vmm_status_def split: vmm_status.splits)
next
  case True
  from run ok running_started(1) [OF inv True] show ?thesis
  proof (cases rule: common_stop_cases)
    case (ran k t evs)
    have "vmm_calls (s\<lparr>g_num_cpus_started := of_nat k\<rparr>) t"
      using neutral_calls [OF ran(3) _ neutral_stop_rounds [OF ran(5)]] ran(4) by simp
    then show ?thesis using stop_end_exec [OF ran(6), of L] by (simp add: exec_ok_calls)
  qed simp
qed

lemma start_exec:
  assumes run: "common_start_vmm E s = (ret, s')" and ok: "codes_ok E" and inv: "vmm_inv E s"
  shows "exec_ok L s' = exec_ok L s"
  using run ok
proof (cases rule: common_start_cases)
  case (ran k t evs)
  note t = start_rounds_state [OF inv ran(1,2,4-6)]
  have "vmm_calls (after_rounds 0 k s) t"
    using ran(5) neutral_calls [OF ran(4) _ neutral_start_rounds [OF ran(6)]] by (simp add: after_rounds_def)
  then have same: "exec_ok L t = exec_ok L s" by (simp add: exec_ok_calls after_rounds_def)
  from ran(7) show ?thesis
  proof (cases rule: start_end.cases)
    case (rolled_back u evs q)
    have tu: "vmm_calls t u" by (rule neutral_calls) (fact rolled_back)+
    show ?thesis
      using stop_exec [OF rolled_back(5) ok vmm_calls_inv [OF tu t(1)]] exec_ok_calls [OF tu] same by simp
  next
    case (refused evs)
    have "vmm_calls (t\<lparr>g_num_cpus_started := of_nat k + 1\<rparr>) s'"
      using neutral_calls [OF refused(2) _ refused(4)] refused(3) by simp
    then show ?thesis using same by (simp add: exec_ok_calls)
  qed (use same in simp)
qed simp

lemma add_exec:
  assumes run: "common_add_module E a n s = (ret, s')" and env: "env_ok E" and inv: "vmm_inv E s"
    and ok: "exec_ok L s"
  shows "exec_ok L s'" and "unplaced s' = unplaced s"
proof -
  have "exec_ok L s' \<and> unplaced s' = unplaced s"
    using run
  proof (cases rule: common_add_module_cases)
    case (added i)
    have "0 \<le> sint (g_num_modules s)" using inv by (simp add: vmm_inv_def table_ok_def)
    then have "nat (sint (g_num_modules s + 1)) = Suc i"
      using num_modules_incr [OF env added(4)] added(6) by simp
    moreover have "exec_entries (drop (Suc i) (g_modules s)) = {#}"
      using ok exec_entries_split [of "drop i (g_modules s)" 1] added(6)
      by (simp add: exec_ok_def)
    ultimately show ?thesis
      using ok added by (simp add: exec_ok_def exec_held_def unplaced_def exec_entries_file drop_update_cancel)
  qed (use ok in simp)
  then show "exec_ok L s'" and "unplaced s' = unplaced s" by simp_all
qed

lemma fini_exec:
  assumes run: "common_fini E s = (ret, s')" and env: "env_ok E" and inv: "vmm_inv E s"
    and ok: "exec_ok L s"
  shows "exec_ok L s'" and "unplaced s \<Longrightarrow> unplaced s'"
proof -
  have "exec_ok L s' \<and> (unplaced s \<longrightarrow> unplaced s')"
    using run
  proof (cases rule: common_fini_cases)
    case (1 t u)
    have t: "exec_ok L t" using 1(1) ok stop_exec [OF _ env_okD(1) [OF env] inv] by (auto split: if_splits)
    have t': "unplaced s \<longrightarrow> unplaced t"
      using 1(1) stop_refines [OF _ env_okD(1) [OF env] inv]
      by (auto simp: unplaced_def lifecycle_stop_simps split: if_splits)
    have u: "exec_ok L u \<and> (unplaced t \<longrightarrow> unplaced u)"
      using 1(2) t unload_exec by (fastforce split: if_splits)
    show ?thesis using 1(3) t' u reset_exec(1) reset_unplaced by (fastforce split: if_splits)
  qed
  then show "exec_ok L s'" and "unplaced s \<Longrightarrow> unplaced s'" by simp_all
qed

section \<open>Loading\<close>

lemma placed_Cons:
  "placed (b # bs) (c # cs) =
   (if bin_exec c \<noteq> 0 \<and> (bin_exec c, bin_exec_size c) \<noteq> (bin_exec b, bin_exec_size b)
    then [(bin_exec c, bin_exec_size c)] else []) @ placed bs cs"
  by (simp add: placed_def)

text \<open>The entries that the loader overwrites are lost; a table that holds no block loses none.\<close>

lemma placed_entries:
  "length old = length new \<Longrightarrow>
   \<exists>over. exec_entries old + mset (placed old new) = exec_entries new + over \<and>
     (exec_entries old = {#} \<longrightarrow> over = {#})"
proof (induction old new rule: list_induct2)
  case Nil
  then show ?case by (simp add: placed_def)
next
  case (Cons b bs c cs)
  then obtain over where over: "exec_entries bs + mset (placed bs cs) = exec_entries cs + over"
    "exec_entries bs = {#} \<longrightarrow> over = {#}" by blast
  let ?same = "(bin_exec c, bin_exec_size c) = (bin_exec b, bin_exec_size b)"
  have step: "exec_entries (b # bs) + mset (placed (b # bs) (c # cs)) =
      exec_entries (c # cs) + (if ?same then over else exec_entries [b] + over)"
    using over(1) by (cases ?same; cases "bin_exec c = 0") (auto simp: placed_Cons ac_simps)
  from over(2) show ?case by - (rule exI, rule conjI, rule step, auto)
qed

lemma bfelf_load_exec:
  assumes run: "call_bfelf_load E t = (ret, u)" and env: "loader_ok E" "loader_in_place E"
    and ok: "exec_ok L t"
  shows "\<exists>over. exec_ok (over + L) u \<and> (exec_held t = {#} \<longrightarrow> over = {#})"
proof -
  obtain over where over: "exec_entries (g_modules t) + mset (placed (g_modules t) (g_modules u)) =
      exec_entries (g_modules u) + over" "exec_entries (g_modules t) = {#} \<longrightarrow> over = {#}"
    using placed_entries [OF call_bfelf_load_length [OF run env(1), symmetric]] by blast
  obtain ms st info loader m where
    "bfelf_load E (g_modules t) (g_num_modules t) (g_start t) (g_info t) (g_loader t) (machine t)
      = (ret, ms, st, info, loader, m)" and "g_modules u = ms"
    using run by (auto simp: call_bfelf_load_def log_def split: prod.splits)
  then have "drop (nat (sint (g_num_modules t))) (g_modules u) = drop (nat (sint (g_num_modules t))) (g_modules t)"
    using env(2) unfolding loader_in_place_def by (metis fst_conv snd_conv)
  moreover have "exec_blocks u = Some (exec_entries (g_modules u) + (over + L))"
    using ok over(1)
    by (simp add: exec_ok_def exec_held_def exec_blocks_def call_bfelf_load_frame(9) [OF run] run_append ac_simps)
  ultimately show ?thesis
    using ok over(2) call_bfelf_load_frame(1) [OF run] by (intro exI [of _ over]) (simp add: exec_ok_def exec_held_def)
qed

lemma setup_exec:
  "setup_stack E s = (ret, t) \<Longrightarrow> exec_ok L t = exec_ok L s"
  "setup_tls E s = (ret, t) \<Longrightarrow> exec_ok L t = exec_ok L s"
proof -
  show "exec_ok L t = exec_ok L s" if run: "setup_stack E s = (ret, t)"
  proof -
    have "exec_blocks t = exec_blocks s"
      using run by (cases rule: setup_stack_cases) (simp_all add: exec_blocks_def run_append split: option.splits)
    then show ?thesis by (intro exec_ok_cong) (simp_all add: setup_stack_frame [OF run])
  qed
  show "exec_ok L t = exec_ok L s" if run: "setup_tls E s = (ret, t)"
  proof -
    have "exec_blocks t = exec_blocks s"
      using run by (cases rule: setup_tls_cases) (simp_all add: exec_blocks_def run_append split: option.splits)
    then show ?thesis by (intro exec_ok_cong) (simp_all add: setup_tls_frame [OF run])
  qed
qed

lemma load_setup_exec:
  assumes run: "load_setup E s = (ret, s')" and env: "env_ok E" "loader_in_place E" and ok: "exec_ok L s"
  shows "\<exists>over. exec_ok (over + L) s' \<and> (exec_held s = {#} \<longrightarrow> over = {#})"
  using run env_okD(1) [OF env(1)]
proof (cases rule: load_setup_cases)
  case no_stack
  then show ?thesis using ok setup_exec(1) [OF no_stack(2), of L] by (intro exI [of _ "{#}"]) simp
next
  case (no_tls t)
  then show ?thesis
    using ok setup_exec(1) [OF no_tls(2), of L] setup_exec(2) [OF no_tls(3), of L] by (intro exI [of _ "{#}"]) simp
next
  case (not_loaded t u)
  have "exec_ok L u" "exec_held u = exec_held s"
    using ok setup_exec(1) [OF not_loaded(2), of L] setup_exec(2) [OF not_loaded(3), of L]
    by (simp_all add: exec_held_def setup_stack_frame [OF not_loaded(2)] setup_tls_frame [OF not_loaded(3)])
  then show ?thesis using bfelf_load_exec [OF not_loaded(4) env_okD(2) [OF env(1)] env(2)] by simp
next
  case (entered t u v)
  have u: "exec_ok L u" "exec_held u = exec_held s"
    using ok setup_exec(1) [OF entered(1), of L] setup_exec(2) [OF entered(2), of L]
    by (simp_all add: exec_held_def setup_stack_frame [OF entered(1)] setup_tls_frame [OF entered(2)])
  show ?thesis
    using bfelf_load_exec [OF entered(3) env_okD(2) [OF env(1)] env(2) u(1)] u(2)
      exec_ok_calls [OF call_vmm_calls [OF entered(4)]] by simp
qed

text \<open>
  A load that cleans up frees what the loader has handed over; the one that does not
  keeps it in the table.
\<close>

lemma load_exec:
  assumes run: "common_load_vmm E s = Some (ret, s')" and env: "env_ok E" "loader_in_place E"
    and ok: "exec_ok L s"
  shows "\<exists>over. exec_ok (over + L) s' \<and> (unplaced s \<longrightarrow> over = {#})"
  using run env_okD(1) [OF env(1)]
proof (cases rule: common_load_cases)
  case answered
  then show ?thesis using ok by (intro exI [of _ "{#}"]) simp
next
  case (setup_failed t)
  then show ?thesis
    using load_setup_exec [OF setup_failed(2) env ok] reset_exec(1) [OF setup_failed(4)]
    by (auto simp: unplaced_def)
next
  case (descriptors t)
  obtain over where t: "exec_ok (over + L) t" "unplaced s \<longrightarrow> over = {#}"
    using load_setup_exec [OF descriptors(3) env ok] descriptors(1) by (auto simp: unplaced_def)
  from descriptors(5,4) have "exec_ok (over + L) s'"
  proof (cases rule: load_descriptors_cases)
    case (modules_failed u)
    then show ?thesis
      using t(1) exec_ok_calls [OF add_md_modules_calls [OF modules_failed(1)]] reset_exec(1) by blast
  next
    case (tls_failed u)
    then show ?thesis
      using t(1) exec_ok_calls [OF add_md_modules_calls [OF tls_failed(1)]]
        exec_ok_calls [OF add_md_tls_calls [OF tls_failed(2)]] by simp
  next
    case (loaded u v)
    then show ?thesis
      using t(1) exec_ok_calls [OF add_md_modules_calls [OF loaded(1)]]
        exec_ok_calls [OF add_md_tls_calls [OF loaded(2)]] by simp
  qed
  then show ?thesis using t(2) by blast
qed

lemma load_unplaced:
  assumes run: "common_load_vmm E s = Some (ret, s')" and ok: "codes_ok E"
    and "\<not> refused_at_storage E s" and "unplaced s"
  shows "unplaced s'"
  using run ok
proof (cases rule: load_ends)
  case (cleaned t)
  then show ?thesis by (simp add: reset_unplaced)
qed (use assms in \<open>auto simp: unplaced_def\<close>)

section \<open>Runs\<close>

lemma start_stop_unplaced:
  "common_start_vmm E s = (ret, s') \<Longrightarrow> codes_ok E \<Longrightarrow> vmm_inv E s \<Longrightarrow> unplaced s \<Longrightarrow> unplaced s'"
  "common_stop_vmm E s = (ret, s') \<Longrightarrow> codes_ok E \<Longrightarrow> vmm_inv E s \<Longrightarrow> unplaced s \<Longrightarrow> unplaced s'"
proof -
  show "unplaced s'" if r: "common_start_vmm E s = (ret, s')" "codes_ok E" "vmm_inv E s" and u: "unplaced s"
  proof (cases "g_vmm_status s = VMM_UNLOADED")
    case True
    then show ?thesis using r(1) u by (simp add: common_start_vmm_def common_vmm_status_def)
  next
    case False
    then show ?thesis using start_refines [OF r] by (auto simp: unplaced_def lifecycle_start_simps)
  qed
  show "unplaced s'" if r: "common_stop_vmm E s = (ret, s')" "codes_ok E" "vmm_inv E s" and u: "unplaced s"
  proof (cases "g_vmm_status s = VMM_UNLOADED")
    case True
    then show ?thesis using r(1) u by (simp add: common_stop_vmm_def common_vmm_status_def)
  next
    case False
    then show ?thesis using stop_refines [OF r] by (auto simp: unplaced_def lifecycle_stop_simps)
  qed
qed

lemma step_exec:
  assumes step: "common_step E op s = Some (ret, s')" and env: "env_ok E" "loader_in_place E"
    and inv: "vmm_inv E s" and ok: "exec_ok L s"
  shows "\<exists>over. exec_ok (over + L) s' \<and> (unplaced s \<longrightarrow> over = {#})"
    and "op = Common_Load \<longrightarrow> \<not> refused_at_storage E s \<Longrightarrow> unplaced s \<Longrightarrow> unplaced s'"
proof -
  note codes = env_okD(1) [OF env(1)]
  have "(\<exists>over. exec_ok (over + L) s' \<and> (unplaced s \<longrightarrow> over = {#})) \<and>
    ((op = Common_Load \<longrightarrow> \<not> refused_at_storage E s) \<longrightarrow> unplaced s \<longrightarrow> unplaced s')"
  proof (cases "op = Common_Load")
    case True
    then show ?thesis
      using step load_exec [OF _ env ok] load_unplaced [OF _ codes] by (simp add: common_step_def)
  next
    case False
    have "exec_ok L s' \<and> (unplaced s \<longrightarrow> unplaced s')"
    proof (cases op)
      case Common_Init
      then show ?thesis using step reset_exec(1) [OF _ ok] reset_unplaced
        by (auto simp: common_step_def common_init_def)
    next
      case Common_Fini
      then show ?thesis using step fini_exec [OF _ env(1) inv ok] by (auto simp: common_step_def)
    next
      case (Common_Add_Module a n)
      then show ?thesis using step add_exec [OF _ env(1) inv ok] by (auto simp: common_step_def)
    next
      case Common_Load
      then show ?thesis using False by simp
    next
      case Common_Unload
      then show ?thesis using step unload_exec [OF _ ok] by (auto simp: common_step_def)
    next
      case Common_Start
      then have r: "common_start_vmm E s = (ret, s')" using step by (simp add: common_step_def)
      show ?thesis using start_exec [OF r codes inv, of L] start_stop_unplaced(1) [OF r codes inv] ok by simp
    next
      case Common_Stop
      then have r: "common_stop_vmm E s = (ret, s')" using step by (simp add: common_step_def)
      show ?thesis using stop_exec [OF r codes inv, of L] start_stop_unplaced(2) [OF r codes inv] ok by simp
    next
      case (Common_Dump drr v)
      then have "common_dump_vmm E drr v s = (ret, s')" using step by (simp add: common_step_def)
      from common_dump_calls [OF this] show ?thesis
        using ok by (simp add: exec_ok_calls unplaced_def exec_held_def vmm_callsD)
    qed
    then show ?thesis using False by (intro conjI exI [of _ "{#}"]) auto
  qed
  then show "\<exists>over. exec_ok (over + L) s' \<and> (unplaced s \<longrightarrow> over = {#})"
    and "op = Common_Load \<longrightarrow> \<not> refused_at_storage E s \<Longrightarrow> unplaced s \<Longrightarrow> unplaced s'" by simp_all
qed

lemma run_exec:
  "op_run (common_step E) ops s = Some s' \<Longrightarrow> env_ok E \<Longrightarrow> loader_in_place E \<Longrightarrow> vmm_inv E s \<Longrightarrow> exec_ok L s \<Longrightarrow>
   \<exists>over. exec_ok (over + L) s' \<and> (unplaced s \<and> storage_accepted E ops s \<longrightarrow> over = {#} \<and> unplaced s')"
  unfolding op_run_def
proof (induction ops arbitrary: s L)
  case Nil
  then show ?case by (intro exI [of _ "{#}"]) simp
next
  case (Cons op ops)
  then obtain r t where t: "common_step E op s = Some (r, t)"
    "run (\<lambda>op s. map_option snd (common_step E op s)) ops t = Some s'"
    by (auto split: option.splits)
  obtain o1 where o1: "exec_ok (o1 + L) t" "unplaced s \<longrightarrow> o1 = {#}"
    using step_exec(1) [OF t(1) Cons.prems(2-5)] by blast
  obtain o2 where o2: "exec_ok (o2 + (o1 + L)) s'" "unplaced t \<and> storage_accepted E ops t \<longrightarrow> o2 = {#} \<and> unplaced s'"
    using Cons.IH [OF t(2) Cons.prems(2,3) common_step_inv [OF t(1) Cons.prems(2,4)] o1(1)] by blast
  show ?case
    using o1 o2 t(1) step_exec(2) [OF t(1) Cons.prems(2-5)]
    by (intro exI [of _ "o2 + o1"]) (auto simp: add.assoc)
qed

lemma initial_exec: "exec_ok {#} (initial_state E m)" "unplaced (initial_state E m)"
  by (simp_all add: exec_ok_def exec_held_def exec_blocks_def unplaced_def initial_state_def zero_modules_def)

end
