(* ===== verification/Common_Safety.thy ===== *)
theory Common_Safety
  imports Demo Driver_Exec
begin

text \<open>
  Properties of arbitrary sequences of calls of the functions of \<open>common.c\<close>, through the
  contracts of \<open>Driver_Lifecycle\<close>, and of the single operations that move the driver
  between its statuses.
\<close>

section \<open>Runs\<close>

text \<open>
  C6. Whatever operations are called, in whatever order and with whatever answers of the
  platform, the loader and the VMM: the module table keeps its bounds, the stack its
  layout, a loaded or running VMM has a stack, storage and modules, a running one a
  started CPU; the VMM was only ever entered by a thread pinned to its CPU, and no thread
  stayed pinned or allocated, freed or changed CPU while pinned.
\<close>

theorem run_keeps_invariant:
  assumes "op_run (common_step E) ops (initial_state E m) = Some s'" and "env_ok E"
  shows "vmm_inv E s'"
  using core.run_inv [OF assms(1)] assms(2) initial_inv by blast

theorem run_keeps_invariant_witness:
  "\<exists>s'. op_run (common_step demo_env) [Common_Init, Common_Add_Module 0x2000 16, Common_Unload]
      (demo_state [] []) = Some s' \<and> vmm_inv demo_env s'"
proof -
  have "\<exists>s'. op_run (common_step demo_env) [Common_Init, Common_Add_Module 0x2000 16, Common_Unload]
      (demo_state [] []) = Some s'"
    by (simp add: op_run_def common_step_def demo_eval numeral_3_eq_3)
  then show ?thesis
    using run_keeps_invariant [OF _ demo_env_ok] unfolding demo_state_def by blast
qed

text \<open>C5. Every such run takes the status of the VMM along the automaton \<open>lifecycle\<close>.\<close>

theorem run_follows_lifecycle:
  assumes "op_run (common_step E) ops (initial_state E m) = Some s'" and "env_ok E"
  shows "automaton_run lifecycle VMM_UNLOADED ops (g_vmm_status s')"
proof -
  have "g_vmm_status (initial_state E m) = VMM_UNLOADED" by (simp add: initial_state_def)
  then show ?thesis
    using core.run_allowed [OF assms(1)] assms(2) initial_inv by metis
qed

theorem run_follows_lifecycle_witness:
  "\<exists>s'. op_run (common_step demo_env) [Common_Add_Module 0x2000 16, Common_Start]
      (demo_state [] []) = Some s' \<and>
     automaton_run lifecycle VMM_UNLOADED [Common_Add_Module 0x2000 16, Common_Start] (g_vmm_status s')"
proof -
  have "\<exists>s'. op_run (common_step demo_env) [Common_Add_Module 0x2000 16, Common_Start]
      (demo_state [] []) = Some s'"
    by (simp add: op_run_def common_step_def demo_eval numeral_3_eq_3)
  then show ?thesis
    using run_follows_lifecycle [OF _ demo_env_ok] unfolding demo_state_def by blast
qed

text \<open>
  A corrupt driver stays corrupt through every operation but a reset by
  \<open>common_init\<close>.
\<close>

theorem corrupt_is_absorbing:
  assumes "op_run (common_step E) ops s = Some s'" and "env_ok E" and "vmm_inv E s"
    and "g_vmm_status s = VMM_CORRUPT" and "Common_Init \<notin> set ops"
  shows "g_vmm_status s' = VMM_CORRUPT"
proof -
  have "st = g_vmm_status s" if "op \<in> set ops" "lifecycle (g_vmm_status s) op b st" for op b st
    using that(2) assms(5) that(1) unfolding assms(4) by (elim lifecycle_corruptE) auto
  then show ?thesis
    using core.run_absorbed [OF assms(1)] assms(2-4) by metis
qed

theorem corrupt_is_absorbing_witness:
  "\<exists>s'. op_run (common_step demo_env) [Common_Load, Common_Stop, Common_Unload]
      ((demo_state [] [])\<lparr>g_vmm_status := VMM_CORRUPT\<rparr>) = Some s' \<and> g_vmm_status s' = VMM_CORRUPT"
proof -
  have "vmm_inv demo_env ((demo_state [] [])\<lparr>g_vmm_status := VMM_CORRUPT\<rparr>)"
    using set_corrupt_inv [OF demo_state_inv] .
  moreover have "\<exists>s'. op_run (common_step demo_env) [Common_Load, Common_Stop, Common_Unload]
      ((demo_state [] [])\<lparr>g_vmm_status := VMM_CORRUPT\<rparr>) = Some s'"
    by (simp add: op_run_def common_step_def demo_eval)
  ultimately show ?thesis
    using corrupt_is_absorbing [OF _ demo_env_ok] by fastforce
qed

text \<open>
  C7. After every run, whatever its operations and the answers of the platform: each block of
  \<open>platform_alloc_rw\<close> that was freed was allocated and not yet freed, with the length it was
  allocated with, and the stack and the storage that the globals hold are allocated. In a run in
  which no load is refused at a descriptor of the thread local storage nothing else is
  allocated: no block is lost, and while no VMM is loaded nothing is allocated at all. The
  executable blocks of the modules have a monitor of their own, \<open>exec_blocks\<close>, and a property
  of their own below.
\<close>

theorem run_owns_its_blocks:
  assumes "op_run (common_step E) ops (initial_state E m) = Some s'" and "env_ok E"
  shows "\<exists>lost. live_blocks s' = Some (held s' + lost) \<and>
    (storage_accepted E ops (initial_state E m) \<longrightarrow>
      lost = {#} \<and> (g_vmm_status s' = VMM_UNLOADED \<longrightarrow> held s' = {#}))"
  by (rule run_ownership_accepted [OF assms])

text \<open>A load that the VMM refuses when it is initialised.\<close>

theorem run_owns_its_blocks_witness:
  "\<exists>s'. op_run (common_step demo_env) [Common_Add_Module 0x2000 16, Common_Load] (demo_state [5] []) = Some s' \<and>
    live_blocks s' = Some {#}"
proof -
  let ?ops = "[Common_Add_Module 0x2000 16, Common_Load]"
  obtain s' where run: "op_run (common_step demo_env) ?ops (demo_state [5] []) = Some s'"
    and s': "g_stack s' = 0" "g_vmm_status s' = VMM_UNLOADED"
    by (simp add: op_run_def common_step_def demo_eval numeral_3_eq_3 cong: prod.case_cong_weak option.case_cong_weak)
  obtain t where t: "common_add_module demo_env 0x2000 16 (demo_state [5] []) = (0, t)"
    by (simp add: demo_eval numeral_3_eq_3)
  obtain r where load: "common_load_vmm demo_env t = Some (r, s')"
    using run t by (auto simp: op_run_def common_step_def split: option.splits)
  have "\<not> refused_at_storage demo_env t"
    using refused_load(3) [OF load demo_codes] s'(1) by blast
  then have "storage_accepted demo_env ?ops (demo_state [5] [])"
    using t load by (simp add: common_step_def)
  then show ?thesis
    using run_owns_its_blocks [OF run [unfolded demo_state_def] demo_env_ok] run s'(2)
    unfolding demo_state_def by auto
qed

text \<open>
  C33. The executable blocks that the ELF loader leaves in the table of the modules. After every
  run: each block that was freed had been handed over by the loader and not yet freed, with the length it
  was handed over with, and the blocks in the table are live. In a run in which no load is refused at
  a descriptor of the thread local storage no other block is live: every block is freed once, by
  the reset of a load that fails, of an unload or of \<open>common_fini\<close>, and while no VMM is loaded none is left.
  The loader is one that fills in only the entries it was given the number of.
\<close>

theorem run_owns_its_executable_blocks:
  assumes "op_run (common_step E) ops (initial_state E m) = Some s'" and "env_ok E" and "loader_in_place E"
  shows "\<exists>lost. exec_blocks s' = Some (exec_held s' + lost) \<and>
    (storage_accepted E ops (initial_state E m) \<longrightarrow>
      lost = {#} \<and> (g_vmm_status s' = VMM_UNLOADED \<longrightarrow> exec_held s' = {#}))"
  using run_exec [OF assms initial_inv initial_exec(1)] initial_exec(2)
  by (auto simp: exec_ok_def unplaced_def)

lemma demo_loader_in_place: "loader_in_place demo_env"
  by (simp add: loader_in_place_def) (simp add: demo_env_def linux_env_def demo_bfsdk_def demo_bfelf_load_def min_def)

text \<open>A load that succeeds, and the unload after it.\<close>

theorem run_owns_its_executable_blocks_witness:
  "\<exists>s1 s2. op_run (common_step demo_env) [Common_Add_Module 0x2000 16, Common_Load] (demo_state [] []) = Some s1 \<and>
    exec_blocks s1 = Some {#(0x402000, 0x1000)#} \<and>
    op_run (common_step demo_env) [Common_Add_Module 0x2000 16, Common_Load, Common_Unload] (demo_state [] []) = Some s2 \<and>
    exec_blocks s2 = Some {#}"
proof -
  let ?s = "demo_state [] []" and ?load = "[Common_Add_Module 0x2000 16, Common_Load]"
  let ?unload = "[Common_Add_Module 0x2000 16, Common_Load, Common_Unload]"
  obtain s1 where load: "common_load_vmm demo_env (demo_added []) = Some (0, s1)"
    and held: "exec_held s1 = {#(0x402000, 0x1000)#}"
    and unloads: "g_vmm_status (snd (common_unload_vmm demo_env s1)) = VMM_UNLOADED"
    by (simp add: exec_held_def exec_entries_def demo_eval md_loop.simps numeral_3_eq_3
        cong: prod.case_cong_weak option.case_cong_weak)
  obtain r s2 where unload: "common_unload_vmm demo_env s1 = (r, s2)" by force
  then have st: "g_vmm_status s2 = VMM_UNLOADED" using unloads by simp
  have add: "common_add_module demo_env 0x2000 16 ?s = (0, demo_added [])"
    by (simp add: demo_eval numeral_3_eq_3)
  have "\<not> refused_at_storage demo_env (demo_added [])"
    using refused_load(1) [OF load demo_codes] by (auto simp: demo_consts)
  then have ok: "storage_accepted demo_env ?load ?s" "storage_accepted demo_env ?unload ?s"
    using add load unload by (simp_all add: common_step_def)
  have run: "op_run (common_step demo_env) ?load ?s = Some s1" "op_run (common_step demo_env) ?unload ?s = Some s2"
    using add load unload by (simp_all add: op_run_def common_step_def)
  show ?thesis
    using run_owns_its_executable_blocks [OF run(1) [unfolded demo_state_def] demo_env_ok demo_loader_in_place]
      run_owns_its_executable_blocks [OF run(2) [unfolded demo_state_def] demo_env_ok demo_loader_in_place]
      run ok held st unfolding demo_state_def by auto
qed

section \<open>Single operations\<close>

text \<open>The refusals of \<open>common_add_module\<close>, and what it changes when it succeeds.\<close>

lemma add_module_refusals:
  assumes "vmm_inv E s"
  shows "common_add_module E addr fsize s =
    (if addr = 0 \<or> fsize = 0 then (rc E BF_ERROR_INVALID_ARG, s)
     else if g_vmm_status s = VMM_CORRUPT then (rc E BF_ERROR_VMM_CORRUPTED, s)
     else if g_vmm_status s \<noteq> VMM_UNLOADED then (rc E BF_ERROR_VMM_INVALID_STATE, s)
     else if sint (g_num_modules s) = int (MAX_NUM_MODULES E)
     then (rc E BF_ERROR_MAX_MODULES_REACHED, s)
     else (rc E BF_SUCCESS, snd (common_add_module E addr fsize s)))"
proof -
  have "sint (g_num_modules s) \<le> int (MAX_NUM_MODULES E)"
    using assms by (simp add: vmm_inv_def table_ok_def)
  then show ?thesis
    by (cases "g_vmm_status s") (auto simp: common_add_module_def common_vmm_status_def Let_def)
qed

lemma add_module_extends:
  assumes env: "env_ok E" and inv: "vmm_inv E s"
    and run: "common_add_module E addr fsize s = (rc E BF_SUCCESS, s')"
  shows "take (nat (sint (g_num_modules s'))) (g_modules s') =
      take (nat (sint (g_num_modules s))) (g_modules s) @
        [(g_modules s ! nat (sint (g_num_modules s)))\<lparr>bin_file := addr, bin_file_size := fsize\<rparr>] \<and>
    drop (nat (sint (g_num_modules s'))) (g_modules s') =
      drop (nat (sint (g_num_modules s'))) (g_modules s) \<and>
    sint (g_num_modules s') = sint (g_num_modules s) + 1"
  using run
proof (cases rule: common_add_module_cases)
  case (refused e)
  then show ?thesis
    using codes_ok_error(2) [OF env_okD(1) [OF env]] codes_ok_success(1) [OF env_okD(1) [OF env]] by simp
next
  case (added i)
  have "nat (sint (g_num_modules s)) < length (g_modules s)" "0 \<le> sint (g_num_modules s)"
    using inv added(4) by (simp_all add: vmm_inv_def table_ok_def nat_less_iff)
  then show ?thesis
    using added num_modules_incr [OF env added(4)]
    by (simp add: take_Suc_conv_app_nth nat_add_distrib)
qed

lemma add_module_branches:
  assumes "env_ok E" and "vmm_inv E s" and "common_add_module E addr fsize s = (r, s')"
  shows "if addr = 0 \<or> fsize = 0 then (r, s') = (rc E BF_ERROR_INVALID_ARG, s)
    else if g_vmm_status s = VMM_CORRUPT then (r, s') = (rc E BF_ERROR_VMM_CORRUPTED, s)
    else if g_vmm_status s \<noteq> VMM_UNLOADED then (r, s') = (rc E BF_ERROR_VMM_INVALID_STATE, s)
    else if sint (g_num_modules s) = int (MAX_NUM_MODULES E)
    then (r, s') = (rc E BF_ERROR_MAX_MODULES_REACHED, s)
    else r = rc E BF_SUCCESS \<and> sint (g_num_modules s') = sint (g_num_modules s) + 1 \<and>
      take (nat (sint (g_num_modules s'))) (g_modules s') =
        take (nat (sint (g_num_modules s))) (g_modules s) @
          [(g_modules s ! nat (sint (g_num_modules s)))\<lparr>bin_file := addr, bin_file_size := fsize\<rparr>] \<and>
      drop (nat (sint (g_num_modules s'))) (g_modules s') =
        drop (nat (sint (g_num_modules s'))) (g_modules s)"
proof -
  have success: "r = rc E BF_SUCCESS \<Longrightarrow> common_add_module E addr fsize s = (rc E BF_SUCCESS, s')"
    using assms(3) by simp
  note refusals = add_module_refusals [OF assms(2), of addr fsize, unfolded assms(3) snd_conv]
  show ?thesis
    using refusals add_module_extends [OF assms(1,2) success] by (auto split: if_splits)
qed

text \<open>
  Adding a module: with a null file or an empty one, an invalid argument; in any
  status but unloaded, the error of that status; with a full table, the maximum reached;
  and nothing changes. Otherwise it succeeds: the table of modules in use gets the file and
  its size as its new last entry, and no other entry changes.
\<close>

theorem add_module_behaviour:
  assumes "env_ok E" and "vmm_inv E s" and "common_add_module E addr fsize s = (r, s')"
  shows "if addr = 0 \<or> fsize = 0 then (r, s') = (rc E BF_ERROR_INVALID_ARG, s)
    else if g_vmm_status s = VMM_CORRUPT then (r, s') = (rc E BF_ERROR_VMM_CORRUPTED, s)
    else if g_vmm_status s \<noteq> VMM_UNLOADED then (r, s') = (rc E BF_ERROR_VMM_INVALID_STATE, s)
    else if sint (g_num_modules s) = int (MAX_NUM_MODULES E)
    then (r, s') = (rc E BF_ERROR_MAX_MODULES_REACHED, s)
    else r = rc E BF_SUCCESS \<and> sint (g_num_modules s') = sint (g_num_modules s) + 1 \<and>
      take (nat (sint (g_num_modules s'))) (g_modules s') =
        take (nat (sint (g_num_modules s))) (g_modules s) @
          [(g_modules s ! nat (sint (g_num_modules s)))\<lparr>bin_file := addr, bin_file_size := fsize\<rparr>] \<and>
      drop (nat (sint (g_num_modules s'))) (g_modules s') =
        drop (nat (sint (g_num_modules s'))) (g_modules s)"
  by (rule add_module_branches [OF assms])

theorem add_module_behaviour_witness:
  "\<exists>s'. common_add_module demo_env 0x2000 16 (demo_state [] []) = (0, s') \<and>
     sint (g_num_modules s') = sint (g_num_modules (demo_state [] [])) + 1"
proof -
  obtain r s' where run: "common_add_module demo_env 0x2000 16 (demo_state [] []) = (r, s')" by force
  from add_module_behaviour [OF demo_env_ok demo_state_inv run] show ?thesis
    using run by (simp add: demo_consts demo_states)
qed

text \<open>
  A reset frees the executables of the modules it knows, then the storage and the
  stack, and leaves the globals the program starts with (but for the two size fields). It
  is called with any globals, and always returns success.
\<close>

theorem reset_restores_initial_state:
  "\<exists>m. common_reset E s =
     (rc E BF_SUCCESS, (initial_state E m)
        \<lparr>g_tls_size := g_tls_size s, g_stack_size := g_stack_size s,
         trace := trace s @ free_events (take (nat (sint (g_num_modules s))) (g_modules s)) @
           (if g_tls s \<noteq> 0 then [FreeRw (g_tls s) (g_tls_size s)] else []) @
           (if g_stack s \<noteq> 0 then [FreeRw (g_stack s) (g_stack_size s)] else [])\<rparr>)"
proof -
  obtain r s' where r: "common_reset E s = (r, s')" by force
  obtain m where "s' = (initial_state E m)\<lparr>g_tls_size := g_tls_size s,
      g_stack_size := g_stack_size s, trace := trace s @ reset_events s\<rparr>"
    by (rule common_reset_obtain [OF r])
  then show ?thesis
    using r common_reset_state(1) [OF r] by (intro exI [of _ m]) (simp add: reset_events_def)
qed

text \<open>The outcomes of \<open>common_fini\<close>.\<close>

lemma common_fini_outcomes:
  assumes run: "common_fini E s = (ret, s')" and env: "env_ok E" and inv: "vmm_inv E s"
    and heap: "heap_ok R s" and start: "clean s"
  shows "(g_vmm_status s' = VMM_UNLOADED \<and> ret = rc E BF_SUCCESS \<and> g_num_modules s' = 0 \<and>
      live_blocks s' = Some R) \<or>
    (g_vmm_status s' = VMM_CORRUPT \<and> ret = rc E BF_ERROR_VMM_CORRUPTED) \<or>
    (g_vmm_status s' = VMM_RUNNING \<and> ret = rc E BF_SUCCESS \<and> g_vmm_status s = VMM_RUNNING \<and>
      fst (common_stop_vmm E s) \<noteq> rc E BF_SUCCESS)"
  using run
proof (cases rule: common_fini_cases)
  case (1 t u)
  note ok = env_okD(1) [OF env] and steps = 1
  have inv': "vmm_inv E s'" by (rule common_fini_inv [OF run env inv])
  have heap': "heap_ok R s'" "clean s'" using common_fini_heap [OF run env inv heap] start by simp_all
  have u: "g_vmm_status u \<noteq> VMM_LOADED"
    using 1(2) unload_refines [OF _ ok] by (fastforce simp: lifecycle_unload_simps split: if_splits)
  consider "g_vmm_status u = VMM_UNLOADED" | "g_vmm_status u = VMM_CORRUPT" | "g_vmm_status u = VMM_RUNNING"
    using u by (cases "g_vmm_status u") simp_all
  then show ?thesis
  proof cases
    case 1
    have mods: "g_num_modules s' = 0"
    proof (cases "0 < sint (g_num_modules u)")
      case True
      then show ?thesis using steps(3) 1 reset_fields(4) by auto
    next
      case False
      then have "s' = u" using steps(3) by simp
      then have "sint (g_num_modules s') = 0"
        using False inv' by (simp add: vmm_inv_def table_ok_def)
      then show ?thesis by (metis signed_0 signed_word_eqI)
    qed
    have "g_vmm_status s' = VMM_UNLOADED"
      using steps(3) 1 reset_fields(1) by (auto split: if_splits)
    then show ?thesis
      using mods clean_unloaded(1) [OF heap'(2) _ heap'(1)] 1
        steps(4) by simp
  next
    case 2
    then show ?thesis
      using steps(3)
        steps(4) by simp
  next
    case 3
    have "g_vmm_status t = VMM_RUNNING"
      using steps(2) 3 unload_refines [OF _ ok]
      by (fastforce simp: lifecycle_unload_simps split: if_splits)
    then have "g_vmm_status s = VMM_RUNNING \<and> fst (common_stop_vmm E s) \<noteq> rc E BF_SUCCESS"
      using steps(1) stop_refines [OF _ ok inv]
      by (fastforce simp: lifecycle_stop_simps split: if_splits)
    then show ?thesis
      using steps(3) 3
        steps(4) by simp
  qed
qed

text \<open>
  C29. The clean-up at the end of the driver leaves an unloaded driver without modules and
  without blocks, or reports that the VMM is corrupt, or reports success with the VMM still
  running. The last happens only if the VMM was running and refused to stop.
\<close>

theorem fini_outcomes:
  assumes run: "common_fini E s = (ret, s')" and env: "env_ok E" and inv: "vmm_inv E s"
    and heap: "heap_ok R s" and start: "clean s"
  shows "(g_vmm_status s' = VMM_UNLOADED \<and> ret = rc E BF_SUCCESS \<and> g_num_modules s' = 0 \<and>
      live_blocks s' = Some R) \<or>
    (g_vmm_status s' = VMM_CORRUPT \<and> ret = rc E BF_ERROR_VMM_CORRUPTED) \<or>
    (g_vmm_status s' = VMM_RUNNING \<and> ret = rc E BF_SUCCESS \<and> g_vmm_status s = VMM_RUNNING \<and>
      fst (common_stop_vmm E s) \<noteq> rc E BF_SUCCESS)"
  by (rule common_fini_outcomes [OF assms])

theorem fini_outcomes_witness:
  "\<exists>s'. common_fini demo_env (demo_loaded [] []) = (0, s') \<and> g_vmm_status s' = VMM_UNLOADED"
proof -
  have run: "\<exists>s'. common_fini demo_env (demo_loaded [] []) = (0, s') \<and> g_vmm_status s' \<noteq> VMM_RUNNING"
    by (simp add: demo_eval cong: prod.case_cong_weak)
  then obtain s' where s': "common_fini demo_env (demo_loaded [] []) = (0, s')"
    "g_vmm_status s' \<noteq> VMM_RUNNING" by blast
  from fini_outcomes [OF s'(1) demo_env_ok demo_loaded_inv demo_heap(2,5)]
  show ?thesis using s' by (auto simp: demo_consts)
qed

section \<open>A load that stops at the thread local storage\<close>

text \<open>
  C36. A load that is refused at a descriptor of the thread local storage fails without
  the clean-up: the VMM is unloaded while the stack and the storage stay allocated. If the
  next load succeeds, it allocates both again and forgets the first ones: they are
  allocated, and no global holds them.
\<close>

theorem refused_storage_leaks:
  assumes first: "common_load_vmm E s = Some (ret, s1)" and refused: "refused_at_storage E s"
    and env: "env_ok E" and heap: "heap_ok R s" and start: "clean s"
    and second: "common_load_vmm E s1 = Some (rc E BF_SUCCESS, s2)"
  shows "ret \<noteq> rc E BF_SUCCESS \<and> g_vmm_status s1 = VMM_UNLOADED \<and> g_stack s1 \<noteq> 0 \<and> g_tls s1 \<noteq> 0 \<and>
    live_blocks s1 = Some (held s1 + R) \<and>
    g_vmm_status s2 = VMM_LOADED \<and> live_blocks s2 = Some (held s2 + (held s1 + R))"
proof -
  note ok = env_okD(1) [OF env]
  note failed = refused_load [OF first ok refused]
  have live1: "live_blocks s1 = Some (held s1 + R)"
    using common_load_heap [OF first env heap start] by (simp add: heap_ok_def)
  define t where "t = s1\<lparr>g_stack := 0, g_tls := 0\<rparr>"
  have t: "heap_ok (held s1 + R) t" "clean t" "g_vmm_status t = VMM_UNLOADED"
    using live1 failed(2) by (simp_all add: t_def heap_ok_def clean_def held_def block_def)
  have "common_load_vmm E t = Some (rc E BF_SUCCESS, s2)"
    using second ok
  proof (cases rule: common_load_cases)
    case (descriptors u)
    then have "fst (setup_stack E s1) = rc E BF_SUCCESS"
      by (auto simp: load_setup_def split: prod.splits if_splits)
    from load_setup_overwrites [OF this, of 0 0] descriptors(2,3,5) failed(2)
    show ?thesis by (simp add: t_def common_load_vmm_def common_vmm_status_def)
  qed (use failed(2) codes_ok_success(1) [OF ok] in auto)
  note second' = this
  have "live_blocks s2 = Some (held s2 + (held s1 + R))"
    using common_load_heap [OF second' env t(1,2)] by (simp add: heap_ok_def)
  moreover have "g_vmm_status s2 = VMM_LOADED"
    using common_load_success_status(1) [OF second ok] by simp
  ultimately show ?thesis using failed live1 by simp
qed

theorem refused_storage_leaks_witness:
  "\<exists>s1 s2. common_load_vmm demo_env (demo_added [0, 0, 5]) = Some (5, s1) \<and>
     common_load_vmm demo_env s1 = Some (0, s2) \<and> live_blocks s2 = Some (held s2 + held s1) \<and> g_stack s1 \<noteq> 0"
proof -
  obtain s1 s2 where run: "common_load_vmm demo_env (demo_added [0, 0, 5]) = Some (5, s1)" "g_stack s1 \<noteq> 0"
      "common_load_vmm demo_env s1 = Some (0, s2)"
    by (simp add: demo_eval md_loop.simps numeral_3_eq_3
        cong: prod.case_cong_weak option.case_cong_weak)
  have "refused_at_storage demo_env (demo_added [0, 0, 5])"
    using run(1) demo_codes
  proof (cases rule: load_ends)
    case (cleaned t)
    then show ?thesis using run(2) by (simp add: reset_fields [OF cleaned(3)])
  qed (use run in \<open>simp_all add: demo_eval\<close>)
  then show ?thesis
    using run refused_storage_leaks [OF run(1) _ demo_env_ok demo_heap(1,4)] by (auto simp: demo_consts)
qed

end
