(* ===== verification/Linux_Life.thy ===== *)
theory Linux_Life
  imports Device_Session Linux_Properties Common_Safety
begin

text \<open>
  The driver on Linux when nothing fails: the kernel, the ELF loader and the VMM keep a set
  \<open>G\<close> of good states of the machine and succeed in it. Then the whole life of a VMM
  succeeds. The other properties are about the port itself: what the blocks handed to the
  VMM contain, and what the ends of the device leave behind.
\<close>

text \<open>A kernel with \<open>N\<close> CPUs, which the thread can be moved to.\<close>

definition kernel_good :: "'k linux_kernel \<Rightarrow> int64 \<Rightarrow> ('k linux_host machine \<Rightarrow> bool) \<Rightarrow> bool" where
  "kernel_good K N G \<longleftrightarrow>
     (\<forall>m x. G m \<longrightarrow> G (m\<lparr>mem := x\<rparr>)) \<and>
     (\<forall>m a. G m \<longrightarrow> G (m\<lparr>host := (host m)\<lparr>set_cpu_affinity := a\<rparr>\<rparr>)) \<and>
     (\<forall>m n a m'. G m \<longrightarrow> n \<noteq> 0 \<longrightarrow> ask_kernel (vmalloc K n) m = (a, m') \<longrightarrow> a \<noteq> 0 \<and> G m') \<and>
     (\<forall>m. G m \<longrightarrow> lookup_sched_setaffinity K (kernel_view m) \<noteq> 0) \<and>
     (\<forall>m. G m \<longrightarrow> ucast (num_online_cpus K (kernel_view m)) = N) \<and>
     (\<forall>m f c r m'. G m \<longrightarrow> uint c < sint N \<longrightarrow> ask_kernel (call_setaffinity K f c) m = (r, m') \<longrightarrow>
        r = 0 \<and> G m') \<and>
     (\<forall>m c m'. G m \<longrightarrow> ask_kernel (get_cpu K) m = (c, m') \<longrightarrow> G m') \<and>
     (\<forall>m. G m \<longrightarrow> G (in_kernel (put_cpu K) m)) \<and>
     (\<forall>m. G m \<longrightarrow> G (in_kernel (cr4_init_shadow K) m))"

definition linux_good ::
  "'k linux_kernel \<Rightarrow> 'k linux_host env \<Rightarrow> int64 \<Rightarrow> ('k linux_host machine \<Rightarrow> bool) \<Rightarrow> bool" where
  "linux_good K B N G \<longleftrightarrow>
     env_ok B \<and> STACK_SIZE B * 2 \<noteq> 0 \<and> THREAD_LOCAL_STORAGE_SIZE B * N \<noteq> 0 \<and>
     kernel_good K N G \<and> vmm_good B G"

lemma kernel_goodD:
  assumes "kernel_good K N G" and "G m"
  shows "G (m\<lparr>mem := x\<rparr>)" and "G (m\<lparr>host := (host m)\<lparr>set_cpu_affinity := a\<rparr>\<rparr>)"
    and "n \<noteq> 0 \<Longrightarrow> ask_kernel (vmalloc K n) m = (v, m') \<Longrightarrow> v \<noteq> 0 \<and> G m'"
    and "lookup_sched_setaffinity K (kernel_view m) \<noteq> 0"
    and "ucast (num_online_cpus K (kernel_view m)) = N"
    and "uint c < sint N \<Longrightarrow> ask_kernel (call_setaffinity K f c) m = (r, m') \<Longrightarrow> r = 0 \<and> G m'"
    and "ask_kernel (get_cpu K) m = (k, m') \<Longrightarrow> G m'"
    and "G (in_kernel (put_cpu K) m)" and "G (in_kernel (cr4_init_shadow K) m)"
  using assms unfolding kernel_good_def by - (elim conjE, metis)+

lemma low_half: "0 \<le> sint c \<Longrightarrow> uint (ucast c :: uint32) \<le> sint (c :: int64)"
proof -
  assume "0 \<le> sint c"
  moreover have "uint (ucast c :: uint32) = take_bit 32 (sint c)"
    by transfer (simp add: take_bit_signed_take_bit)
  ultimately show ?thesis by (simp add: take_bit_int_less_eq_self_iff)
qed

lemma linux_set_affinity_good:
  assumes "kernel_good K N G" and "G m" and "linux_platform_set_affinity K e c m = (r, m')"
    and "0 \<le> sint c" and "sint c < sint N"
  shows "r = c \<and> G m'"
proof -
  define m1 where "m1 = (if set_cpu_affinity (host m) = 0
    then m\<lparr>host := (host m)\<lparr>set_cpu_affinity := lookup_sched_setaffinity K (kernel_view m)\<rparr>\<rparr> else m)"
  have m1: "G m1" "set_cpu_affinity (host m1) \<noteq> 0"
    using kernel_goodD(2,4) [OF assms(1,2)] assms(2) by (auto simp: m1_def)
  have cpu: "uint (ucast c :: uint32) < sint N"
    using low_half [OF assms(4)] assms(5) by simp
  obtain q m2 where q: "ask_kernel (call_setaffinity K (set_cpu_affinity (host m1)) (ucast c)) m1 = (q, m2)"
    by force
  from kernel_goodD(6) [OF assms(1) m1(1) cpu q] show ?thesis
    using assms(3) q m1(2) by (simp add: linux_platform_set_affinity_def Let_def m1_def [symmetric])
qed

lemma linux_env_library:
  "bfelf_load (linux_env K B) = bfelf_load B"
  "bfelf_set_integer_args (linux_env K B) = bfelf_set_integer_args B"
  "bfelf_file_get_load_instr (linux_env K B) = bfelf_file_get_load_instr B"
  "vmm_entry (linux_env K B) = vmm_entry B" "vmcall (linux_env K B) = vmcall B"
  "platform_alloc_rw (linux_env K B) = linux_platform_alloc_rw K"
  "platform_memset (linux_env K B) = linux_platform_memset"
  "platform_num_cpus (linux_env K B) = linux_platform_num_cpus K"
  "platform_set_affinity (linux_env K B) = linux_platform_set_affinity K (rc B BF_ERROR_UNKNOWN)"
  "platform_restore_affinity (linux_env K B) = linux_platform_restore_affinity"
  "platform_get_current_cpu_num (linux_env K B) = linux_platform_get_current_cpu_num K"
  "platform_restore_preemption (linux_env K B) = linux_platform_restore_preemption K"
  "platform_start (linux_env K B) = linux_platform_start K"
  "platform_stop (linux_env K B) = linux_platform_stop K"
  by (simp_all add: linux_env_def)

interpretation linux_coop: cooperative_world "linux_env K B" "\<lambda>m. linux_good K B N G \<and> G m" N
  for K :: "'k linux_kernel" and B :: "'k linux_host env" and N :: int64 and G :: "'k linux_host machine \<Rightarrow> bool"
proof unfold_locales
  fix m :: "'k linux_host machine"
  assume g: "linux_good K B N G \<and> G m"
  then have good: "linux_good K B N G" and kg: "kernel_good K N G" and vg: "vmm_good B G" and gm: "G m"
    by (simp_all add: linux_good_def)
  note d = kernel_goodD [OF kg gm] and v = vmm_goodD [OF vg]
  show "env_ok (linux_env K B)" and "STACK_SIZE (linux_env K B) * 2 \<noteq> 0"
    using good by (simp_all add: linux_good_def)
  show "linux_good K B N G \<and> G (m\<lparr>mem := x\<rparr>)" for x using good d(1) by simp
  show "a \<noteq> 0 \<and> linux_good K B N G \<and> G m'" if "n \<noteq> 0" "platform_alloc_rw (linux_env K B) n m = (a, m')" for n a m'
    using good d(3) that by (simp add: linux_env_library linux_platform_alloc_rw_def)
  show "linux_good K B N G \<and> G (platform_memset (linux_env K B) p v n m)" for p v n
    using g d(1) by (simp add: linux_env_library linux_platform_memset_def)
  show "THREAD_LOCAL_STORAGE_SIZE (linux_env K B) * N \<noteq> 0" using good by (simp add: linux_good_def)
  then have "N \<noteq> 0" by auto
  then have "sint N \<noteq> sint (0 :: int64)" by (metis signed_word_eqI)
  then show "0 < sint N" using linux_num_cpus(2) [of K m] d(5) by simp
  show "k = N \<and> linux_good K B N G \<and> G m'" if "platform_num_cpus (linux_env K B) m = (k, m')" for k m'
    using that g d(5) linux_num_cpus(1) [of K m] by (auto simp: linux_env_library)
  show "ret = rc (linux_env K B) BF_SUCCESS \<and> st' \<noteq> 0 \<and> linux_good K B N G \<and> G m'"
    if "bfelf_load (linux_env K B) ms n st info loader m = (ret, ms', st', info', loader', m')"
    for ms n st info loader ret ms' st' info' loader' m'
    using that good v(1) [OF gm] by (simp add: linux_env_library)
  show "fst (bfelf_set_integer_args (linux_env K B) info r a1 a2 a3) = rc (linux_env K B) BF_SUCCESS"
    for info r a1 a2 a3 using v(2) by (simp add: linux_env_library)
  show "fst (bfelf_file_get_load_instr (linux_env K B) ef i) = rc (linux_env K B) BFELF_SUCCESS" for ef i
    using v(3) by (simp add: linux_env_library)
  show "linux_good K B N G \<and> G m'" if "platform_get_current_cpu_num (linux_env K B) m = (k, m')" for k m'
    using that good d(7) by (auto simp: linux_env_library linux_platform_get_current_cpu_num_def split: prod.splits)
  show "linux_good K B N G \<and> G (platform_restore_preemption (linux_env K B) m)"
    using good d(8) by (simp add: linux_env_library linux_platform_restore_preemption_def)
  show "ret = rc (linux_env K B) BF_SUCCESS \<and> linux_good K B N G \<and> G m'"
    if "vmm_entry (linux_env K B) start rsp info m = (ret, info', m')" for start rsp info ret info' m'
    using that good v(4) [OF gm] by (simp add: linux_env_library)
  show "0 \<le> sint k \<and> linux_good K B N G \<and> G m'"
    if "0 \<le> sint cpu" "sint cpu < sint N" "platform_set_affinity (linux_env K B) cpu m = (k, m')" for cpu k m'
    using linux_set_affinity_good [OF kg gm] that good by (auto simp: linux_env_library)
  show "linux_good K B N G \<and> G (platform_restore_affinity (linux_env K B) k m)" for k
    using g by (simp add: linux_env_library linux_platform_restore_affinity_def)
  show "linux_good K B N G \<and> G (platform_start (linux_env K B) m)"
    using g d(9) by (simp add: linux_env_library linux_platform_start_def)
  show "linux_good K B N G \<and> G (platform_stop (linux_env K B) m)"
    using g d(9) by (simp add: linux_env_library linux_platform_stop_def)
  show "r01 regs' = 0 \<and> linux_good K B N G \<and> G m'"
    if "vmcall (linux_env K B) regs m = (regs', m')" for regs regs' m'
    using that good v(5) [OF gm] by (simp add: linux_env_library)
qed

section \<open>A whole life\<close>

text \<open>
  On Linux, with a kernel, a loader and a VMM that do not fail: loading, starting,
  stopping and unloading, in this order, all return success; the VMM is loaded, then
  running on every CPU, then loaded, then unloaded; and at the end nothing the driver
  allocated is left.
\<close>

theorem linux_whole_life_succeeds:
  assumes good: "linux_good K B N G" and "G (machine s)"
    and "vmm_inv (linux_env K B) s" and "heap_ok R s" and "clean s"
    and "g_vmm_status s = VMM_UNLOADED" and "g_num_modules s \<noteq> 0"
    and "load_fits (linux_env K B) (snd (load_setup (linux_env K B) s))"
  shows "\<exists>s1 s2 s3 s4. common_load_vmm (linux_env K B) s = Some (rc B BF_SUCCESS, s1) \<and>
    common_start_vmm (linux_env K B) s1 = (rc B BF_SUCCESS, s2) \<and>
    common_stop_vmm (linux_env K B) s2 = (rc B BF_SUCCESS, s3) \<and>
    common_unload_vmm (linux_env K B) s3 = (rc B BF_SUCCESS, s4) \<and>
    g_vmm_status s1 = VMM_LOADED \<and> g_vmm_status s2 = VMM_RUNNING \<and> g_num_cpus_started s2 = N \<and>
    g_vmm_status s3 = VMM_LOADED \<and> g_vmm_status s4 = VMM_UNLOADED \<and> live_blocks s4 = Some R"
  using linux_coop.whole_life_succeeds [OF assms(3-7) _ assms(8), of N G] assms(1,2) by simp

text \<open>The concrete machine while its scripts are empty and it has memory.\<close>

definition demo_good :: "demo linux_host machine \<Rightarrow> bool" where
  "demo_good m \<longleftrightarrow> (let d = kernel (host m) in
     replies d = [] \<and> vmcall_replies d = [] \<and> \<not> pin_fails d \<and> \<not> out_of_memory d \<and> next_page d \<noteq> 0)"

lemma demo_kernel_good: "kernel_good demo_kernel 2 demo_good"
  by (auto simp: kernel_good_def demo_good_def demo_services demo_vmalloc_def ask_kernel_def
      in_kernel_def from_kernel_def kernel_view_def or_bit_nonzero Let_def split: if_splits)

lemma demo_vmm_good: "vmm_good demo_bfsdk demo_good"
  by (auto simp: vmm_good_def demo_good_def demo_bfsdk_def demo_bfelf_load_def demo_vmm_entry_def
      demo_vmcall_def demo_on_host_def Let_def)

lemma demo_linux_good: "linux_good demo_kernel demo_bfsdk 2 demo_good"
  using demo_kernel_good demo_vmm_good demo_env_ok
  by (simp add: linux_good_def demo_env_def demo_services) (simp add: demo_bfsdk_def)

theorem linux_whole_life_succeeds_witness:
  "\<exists>s1 s2 s3 s4. common_load_vmm demo_env (demo_added []) = Some (0, s1) \<and>
     common_start_vmm demo_env s1 = (0, s2) \<and> common_stop_vmm demo_env s2 = (0, s3) \<and>
     common_unload_vmm demo_env s3 = (0, s4) \<and> live_blocks s4 = Some {#}"
proof -
  have "demo_good (machine (demo_added []))" by (simp add: demo_good_def demo_eval)
  moreover have "g_vmm_status (demo_added []) = VMM_UNLOADED" "g_num_modules (demo_added []) \<noteq> 0"
    by (simp_all add: demo_eval)
  moreover have "rc demo_bfsdk BF_SUCCESS = 0" by (simp add: demo_bfsdk_def)
  ultimately show ?thesis
    using linux_whole_life_succeeds [OF demo_linux_good _ demo_added_inv [unfolded demo_env_def]
        demo_heap(1,4) _ _ demo_load_fits [unfolded demo_env_def]]
    unfolding demo_env_def by fastforce
qed

section \<open>What the VMM finds\<close>

text \<open>
  On Linux the stack that the VMM gets is all zeros, and so is the thread local
  storage, whose size is a non-negative number of slots, one per CPU the kernel reports.
\<close>

theorem linux_blocks_are_zeroed:
  assumes "codes_ok (linux_env K B)"
    and "setup_stack (linux_env K B) s = (rc B BF_SUCCESS, s1)"
    and "setup_tls (linux_env K B) s2 = (rc B BF_SUCCESS, s3)"
  shows "zeroed (g_stack s1) (STACK_SIZE B * 2) (mem (machine s1)) \<and>
    zeroed (g_tls s3) (g_tls_size s3) (mem (machine s3)) \<and>
    (\<exists>n. 0 \<le> sint n \<and> g_tls_size s3 = THREAD_LOCAL_STORAGE_SIZE B * n)"
  using linux_layer.setup_stack_zeroed [of K B s s1] linux_layer.setup_tls_zeroed [of K B s2 s3] assms
  by simp

theorem linux_blocks_are_zeroed_witness:
  "\<exists>s1. setup_stack demo_env (demo_state [] []) = (0, s1) \<and> mem (machine s1) (g_stack s1 + 0x1234) = 0"
proof -
  have run: "\<exists>s1. setup_stack demo_env (demo_state [] []) = (0, s1)"
    "\<exists>s3. setup_tls demo_env (demo_state [] []) = (0, s3)"
    by (simp_all add: demo_eval)
  moreover have "rc demo_bfsdk BF_SUCCESS = 0" "STACK_SIZE demo_bfsdk * 2 = 0x10000"
    by (simp_all add: demo_bfsdk_def)
  ultimately show ?thesis
    using linux_blocks_are_zeroed [OF demo_codes [unfolded demo_env_def], of "demo_state [] []"
        _ "demo_state [] []"]
    unfolding demo_env_def zeroed_def by fastforce
qed

section \<open>The end of the device\<close>

text \<open>
  C19. Removing the kernel module frees no copy of a module. Whatever \<open>common_fini\<close> ends with,
  every copy the device made is still allocated, beside the blocks \<open>common.c\<close> still holds, and
  the device and the notifier are gone, so nobody is left to free it. If the clean-up ends
  unloaded, \<open>common.c\<close> has no modules and holds no block: the copies are all that is leaked.
  Otherwise the VMM is corrupt, or it was running and refused to stop, and still runs.
\<close>

theorem module_exit_leaks_copies:
  assumes env: "env_ok E" and inv: "linux_inv E s" and owns: "linux_owns R s" and clean: "linux_clean s"
    and exit: "dev_exit U E s = s'"
  shows "live_pmodules s' = live_pmodules s \<and>
    live_blocks (core s') = Some (held (core s') + (mset (live_pmodules s) + R)) \<and>
    \<not> device_registered s' \<and> \<not> notifier_registered s' \<and>
    (g_vmm_status (core s') = VMM_UNLOADED \<and> g_num_modules (core s') = 0 \<and> held (core s') = {#} \<or>
     g_vmm_status (core s') = VMM_CORRUPT \<or>
     g_vmm_status (core s') = VMM_RUNNING \<and> g_vmm_status (core s) = VMM_RUNNING \<and>
       fst (common_stop_vmm E (core s)) \<noteq> rc E BF_SUCCESS)"
proof -
  obtain r c where c: "common_fini E (core s) = (r, c)" by force
  have s': "s' = s\<lparr>core := on_machine (misc_deregister U) c, device_registered := False,
      notifier_registered := False\<rparr>"
    using exit c by (simp add: dev_exit_def with_core_def update_machine_def Let_def)
  have pre: "vmm_inv E (core s)" "heap_ok (mset (live_pmodules s) + R) (core s)" "clean (core s)"
    using inv owns clean by (simp_all add: linux_inv_def linux_owns_def linux_clean_def)
  have heap: "heap_ok (mset (live_pmodules s) + R) c" and cl: "clean c"
    using common_fini_heap [OF c env pre(1,2)] pre(3) by simp_all
  have "g_vmm_status c = VMM_UNLOADED \<Longrightarrow> held c = {#}"
    using cl by (simp add: clean_def held_def block_def)
  then show ?thesis
    using common_fini_outcomes [OF c env pre] heap
    by (auto simp: s' on_machine_def live_pmodules_def heap_ok_def held_def live_blocks_def)
qed

theorem module_exit_leaks_copies_witness:
  "\<exists>s'. dev_exit demo_user demo_env (demo_device ((demo_added [])\<lparr>trace := [AllocRw 16 0x2000]\<rparr>)) = s' \<and>
     live_blocks (core s') = Some {#(0x2000, 16)#}"
proof -
  let ?c = "(demo_added [])\<lparr>trace := [AllocRw 16 0x2000]\<rparr>"
  have "vmm_inv demo_env ?c"
    by (simp add: vmm_inv_def table_ok_def stack_ok_def demo_eval pinned_def)
  then have inv: "linux_inv demo_env (demo_device ?c)"
    by (simp add: linux_inv_def modules_match_def core_files_def live_pmodules_def demo_device_def demo_eval
        numeral_3_eq_3)
  have owns: "linux_owns {#} (demo_device ?c)" "linux_clean (demo_device ?c)"
    by (simp_all add: linux_owns_def linux_clean_def live_pmodules_def demo_device_def heap_ok_def
        live_blocks_def held_def block_def clean_def demo_eval)
  have st: "g_vmm_status (core (dev_exit demo_user demo_env (demo_device ?c))) = VMM_UNLOADED"
    by (simp add: dev_exit_def with_core_def update_machine_def demo_device_def demo_eval numeral_3_eq_3)
  have "live_pmodules (demo_device ?c) = [(0x2000, 16)]"
    by (simp add: live_pmodules_def demo_device_def)
  then show ?thesis
    using module_exit_leaks_copies [OF demo_env_ok inv owns refl, of demo_user] st by auto
qed

end
