(* ===== verification/Linux_Session.thy ===== *)
theory Linux_Session
  imports Linux_Life
begin

text \<open>
  A whole session of ioctls on the Linux device, from a device that has just been opened:
  the modules are added, the VMM is loaded, started, stopped and unloaded.
\<close>

lemma linux_initial_ready:
  assumes "linux_good K B N G" and "G m"
  shows "ready (linux_env K B) (\<lambda>m. linux_good K B N G \<and> G m) 0 (linux_initial (linux_env K B) m)"
  using assms linux_initial_ok [of "linux_env K B" m]
  by (simp add: ready_def linux_good_def) (simp add: linux_initial_def initial_state_def)

text \<open>
  C4. On Linux, with a kernel, a loader and a VMM that do not fail, and user memory that can
  be read: every ioctl of a session succeeds, for any number of modules that the table can
  hold. After the load ioctl the VMM is loaded, after the start ioctl running on
  every CPU, after the
  stop ioctl loaded again; after the unload ioctl the device has no copies of modules
  and nothing the driver allocated since it was opened is left.
\<close>

theorem linux_session_succeeds:
  assumes good: "linux_good K B N G" "G m" and cmds: "commands_distinct U"
    and mods: "mods \<noteq> []" "length mods \<le> MAX_NUM_MODULES B"
      "\<forall>(l, f) \<in> set mods. holds_length U G l \<and> readable U G f"
    and fits: "\<And>s1. op_run (linux_step U (linux_env K B)) (add_requests U mods)
        (linux_initial (linux_env K B) m) = Some s1 \<Longrightarrow>
      load_fits (linux_env K B) (snd (load_setup (linux_env K B) (core s1)))"
  shows "\<exists>s1 s2 s3 s4.
    session (linux_step U (linux_env K B)) (\<lambda>r. r = BF_IOCTL_SUCCESS U)
      (add_requests U mods @ [(IOCTL_LOAD_VMM U, x)]) (linux_initial (linux_env K B) m) = Some s1 \<and>
    g_vmm_status (core s1) = VMM_LOADED \<and>
    session (linux_step U (linux_env K B)) (\<lambda>r. r = BF_IOCTL_SUCCESS U) [(IOCTL_START_VMM U, x)] s1 = Some s2 \<and>
    g_vmm_status (core s2) = VMM_RUNNING \<and> g_num_cpus_started (core s2) = N \<and>
    session (linux_step U (linux_env K B)) (\<lambda>r. r = BF_IOCTL_SUCCESS U) [(IOCTL_STOP_VMM U, x)] s2 = Some s3 \<and>
    g_vmm_status (core s3) = VMM_LOADED \<and>
    session (linux_step U (linux_env K B)) (\<lambda>r. r = BF_IOCTL_SUCCESS U) [(IOCTL_UNLOAD_VMM U, x)] s3 = Some s4 \<and>
    g_vmm_status (core s4) = VMM_UNLOADED \<and> g_num_pmodules s4 = 0 \<and> live_blocks (core s4) = Some {#}"
proof (rule linux_coop.ioctl_session_succeeds [OF cmds linux_initial_ready [OF good] mods(1) _ _ fits])
  show "length mods \<le> MAX_NUM_MODULES (linux_env K B)" using mods(2) by simp
  show "\<forall>(l, f) \<in> set mods. holds_length U (\<lambda>m. linux_good K B N G \<and> G m) l \<and>
      readable U (\<lambda>m. linux_good K B N G \<and> G m) f"
    using mods(3) good(1) by (auto simp: holds_length_def readable_def)
qed

lemma demo_readable: "readable demo_user demo_good src"
  by (auto simp: readable_def demo_user_def demo_good_def)

lemma demo_holds_length: "holds_length demo_user demo_good 16"
  using demo_readable by (auto simp: holds_length_def demo_user_def)

theorem linux_session_succeeds_witness:
  "\<exists>s1 s2. session (linux_step demo_user demo_env) (\<lambda>r. r = 0) [(2, 16), (1, 0x7100), (3, 0)]
      (linux_initial demo_env (demo_machine [] [])) = Some s1 \<and>
    session (linux_step demo_user demo_env) (\<lambda>r. r = 0) [(5, 0)] s1 = Some s2 \<and>
    g_vmm_status (core s2) = VMM_RUNNING \<and> g_num_cpus_started (core s2) = 2"
proof -
  have "demo_good (demo_machine [] [])" by (simp add: demo_good_def demo_eval)
  moreover have "commands_distinct demo_user" by (simp add: commands_distinct_def demo_user_def)
  moreover have "load_fits demo_env (snd (load_setup demo_env (core s1)))"
    if "op_run (linux_step demo_user demo_env) (add_requests demo_user [(16, 0x7100)])
        (linux_initial demo_env (demo_machine [] [])) = Some s1" for s1
    using that
    by (auto simp: add_requests_def op_run_def linux_defs load_fits_def module_fits_def segment_fits_def
        load_instr_at_def no_wrap_def demo_eval numeral_3_eq_3 cong: prod.case_cong_weak)
  moreover have "length [(16, 0x7100)] \<le> MAX_NUM_MODULES demo_bfsdk" by (simp add: demo_bfsdk_def)
  ultimately show ?thesis
    using linux_session_succeeds [OF demo_linux_good, of "demo_machine [] []" demo_user "[(16, 0x7100)]" 0]
      demo_holds_length demo_readable
    unfolding demo_env_def by (force simp: add_requests_def demo_user_def)
qed

end
