(* ===== verification/Interleaving.thy ===== *)
theory Interleaving
  imports Prelude
begin

text \<open>
  Threads that take their steps in any order, without a lock: a list of threads and the
  state they share, a step of one of them or of the rest of the system. The locale
  \<open>shared_invariant\<close> is the contract of an invariant of such a system; the handlers of the
  devices that run at the same time are instances of it.
\<close>

section \<open>Steps of a list of threads\<close>

text \<open>
  A thread \<open>t\<close> moves by the function \<open>f\<close>; \<open>g\<close> is what other requests may do to the state
  at any moment.
\<close>

inductive unlocked_step ::
  "('t \<Rightarrow> 's \<Rightarrow> 't \<times> 's) \<Rightarrow> ('s \<Rightarrow> 's \<Rightarrow> bool) \<Rightarrow> 't list \<times> 's \<Rightarrow> 't list \<times> 's \<Rightarrow> bool"
  for f :: "'t \<Rightarrow> 's \<Rightarrow> 't \<times> 's" and g :: "'s \<Rightarrow> 's \<Rightarrow> bool" where
  thread: "i < length ts \<Longrightarrow> f (ts ! i) s = (t', s') \<Longrightarrow> unlocked_step f g (ts, s) (ts[i := t'], s')"
| request: "g s s' \<Longrightarrow> unlocked_step f g (ts, s) (ts, s')"

inductive_cases unlocked_stepE: "unlocked_step f g (ts, s) c"

abbreviation unlocked_run where
  "unlocked_run f g \<equiv> (unlocked_step f g)\<^sup>*\<^sup>*"

text \<open>The run in which the threads move in a given order, and no other request comes.\<close>

fun schedule :: "('t \<Rightarrow> 's \<Rightarrow> 't \<times> 's) \<Rightarrow> nat list \<Rightarrow> 't list \<times> 's \<Rightarrow> 't list \<times> 's" where
  "schedule f [] c = c"
| "schedule f (i # is) (ts, s) = (case f (ts ! i) s of (t, s) \<Rightarrow> schedule f is (ts[i := t], s))"

lemma schedule_run:
  "\<forall>i \<in> set is. i < length ts \<Longrightarrow> unlocked_run f g (ts, s) (schedule f is (ts, s))"
proof (induction "is" arbitrary: ts s)
  case (Cons i "is")
  obtain t s' where t: "f (ts ! i) s = (t, s')" by force
  have "unlocked_step f g (ts, s) (ts[i := t], s')"
    using Cons.prems t by (intro unlocked_step.thread) simp_all
  moreover have "unlocked_run f g (ts[i := t], s') (schedule f is (ts[i := t], s'))"
    using Cons.prems by (intro Cons.IH) simp
  ultimately show ?case using t by (simp add: converse_rtranclp_into_rtranclp)
qed simp

lemma schedule_append: "schedule f (is @ js) c = schedule f js (schedule f is c)"
  by (induction "is" arbitrary: c) (auto split: prod.splits)

text \<open>One thread alone: \<open>thread_steps f n t\<close> are its first \<open>n\<close> steps.\<close>

fun thread_steps :: "('t \<Rightarrow> 's \<Rightarrow> 't \<times> 's) \<Rightarrow> nat \<Rightarrow> 't \<Rightarrow> 's \<Rightarrow> 't \<times> 's" where
  "thread_steps f 0 t s = (t, s)"
| "thread_steps f (Suc n) t s = (case f t s of (t, s) \<Rightarrow> thread_steps f n t s)"

lemma thread_steps_schedule:
  "thread_steps f n t s = (t', s') \<Longrightarrow> i < length ts \<Longrightarrow>
   schedule f (replicate n i) (ts[i := t], s) = (ts[i := t'], s')"
  by (induction n arbitrary: t s) (auto split: prod.splits)

lemma thread_run:
  assumes "thread_steps f n (ts ! i) s = (t', s')" and "i < length ts"
  shows "unlocked_run f g (ts, s) (ts[i := t'], s')"
  using schedule_run [of "replicate n i" ts f g s] thread_steps_schedule [OF assms] assms(2) by simp

lemma thread_steps_add:
  "thread_steps f (m + n) t s = (case thread_steps f m t s of (t, s) \<Rightarrow> thread_steps f n t s)"
  by (induction m arbitrary: t s) (auto split: prod.splits)

section \<open>Invariants\<close>

locale shared_invariant =
  fixes f :: "'t \<Rightarrow> 's \<Rightarrow> 't \<times> 's" and g :: "'s \<Rightarrow> 's \<Rightarrow> bool" and I :: "'t list \<Rightarrow> 's \<Rightarrow> bool"
  assumes thread_keeps: "I ts s \<Longrightarrow> i < length ts \<Longrightarrow> f (ts ! i) s = (t', s') \<Longrightarrow> I (ts[i := t']) s'"
    and request_keeps: "I ts s \<Longrightarrow> g s s' \<Longrightarrow> I ts s'"
begin

lemma step_keeps: "unlocked_step f g (ts, s) (ts', s') \<Longrightarrow> I ts s \<Longrightarrow> I ts' s'"
  by (auto elim!: unlocked_stepE intro: thread_keeps request_keeps)

lemma run_keeps: "unlocked_run f g (ts, s) (ts', s') \<Longrightarrow> I ts s \<Longrightarrow> I ts' s'"
  by (induction rule: rtranclp_induct2) (auto intro: step_keeps)

lemma run_length: "unlocked_run f g (ts, s) (ts', s') \<Longrightarrow> length ts' = length ts"
  by (induction rule: rtranclp_induct2) (auto elim!: unlocked_stepE)

end

section \<open>What threads own\<close>

text \<open>The things that the threads of a list own, together.\<close>

definition all_of :: "('t \<Rightarrow> 'b multiset) \<Rightarrow> 't list \<Rightarrow> 'b multiset" where
  "all_of p ts = sum_list (map p ts)"

lemma all_of_at:
  assumes "i < length ts"
  obtains M where "all_of p ts = p (ts ! i) + M" and "\<And>t. all_of p (ts[i := t]) = p t + M"
proof -
  let ?M = "all_of p (take i ts) + all_of p (drop (Suc i) ts)"
  have "all_of p (xs @ t # ys) = p t + (all_of p xs + all_of p ys)" for xs t ys
    by (simp add: all_of_def ac_simps)
  then have "all_of p ts = p (ts ! i) + ?M" "all_of p (ts[i := t]) = p t + ?M" for t
    using id_take_nth_drop [OF assms] upd_conv_take_nth_drop [OF assms] by metis+
  then show thesis by (rule that)
qed

text \<open>The same for two kinds of things at once.\<close>

lemma both_at:
  assumes "i < length ts"
  obtains M N where "all_of p ts = p (ts ! i) + M" and "\<And>t. all_of p (ts[i := t]) = p t + M"
    and "all_of q ts = q (ts ! i) + N" and "\<And>t. all_of q (ts[i := t]) = q t + N"
proof -
  obtain M where M: "all_of p ts = p (ts ! i) + M" "\<And>t. all_of p (ts[i := t]) = p t + M"
    using all_of_at [OF assms, of p] by blast
  obtain N where N: "all_of q ts = q (ts ! i) + N" "\<And>t. all_of q (ts[i := t]) = q t + N"
    using all_of_at [OF assms, of q] by blast
  show thesis by (rule that [OF M N])
qed

lemma all_of_none: "(\<And>t. t \<in> set ts \<Longrightarrow> p t = {#}) \<Longrightarrow> all_of p ts = {#}"
  by (induction ts) (simp_all add: all_of_def)

end
