(* ===== verification/Shared_Tables.thy ===== *)
theory Shared_Tables
  imports Interleaving Linux_Properties Common_Safety
begin

text \<open>
  What handlers that add modules at the same time keep of the tables of a device and of
  \<open>common.c\<close>: \<open>pend\<close> are the blocks that are not in the table of the device (those of the
  threads, and those of others), \<open>regs\<close> the files that \<open>common.c\<close> knows and the device does
  not yet. One lemma for each call the handlers make. Linux and Windows share them.
\<close>

definition tables_ok ::
  "('h, 'z) env_scheme \<Rightarrow> blocks \<Rightarrow> blocks \<Rightarrow> 'h linux_state \<Rightarrow> bool" where
  "tables_ok E pend regs s \<longleftrightarrow>
     vmm_inv E (core s) \<and> g_vmm_status (core s) = VMM_UNLOADED \<and>
     length (pmodules s) = MAX_NUM_MODULES E \<and> unat (g_num_pmodules s) \<le> MAX_NUM_MODULES E \<and>
     mset (core_files (core s)) = mset (live_pmodules s) + regs \<and>
     heap_ok (mset (live_pmodules s) + pend) (core s)"

lemma tables_start:
  assumes "linux_inv E s" and "linux_owns R s" and "g_vmm_status (core s) = VMM_UNLOADED"
  shows "tables_ok E R {#} s"
  using assms by (auto simp: tables_ok_def linux_inv_def linux_owns_def modules_match_def)

lemma tables_any_length [simp]: "tables_ok E P Q (s\<lparr>g_module_length := v\<rparr>) = tables_ok E P Q s"
  "tables_ok E P Q (s\<lparr>g_vcpuid := w\<rparr>) = tables_ok E P Q s"
  by (simp_all add: tables_ok_def live_pmodules_def)

text \<open>A thread whose file \<open>common.c\<close> knows has room in the table of the device.\<close>

lemma core_files_bound:
  assumes "vmm_inv E c"
  shows "size (core_files c) \<le> MAX_NUM_MODULES E"
proof -
  have "nat (sint (g_num_modules c)) \<le> MAX_NUM_MODULES E"
    using assms by (simp add: vmm_inv_def table_ok_def nat_le_iff)
  then show ?thesis by (simp add: core_files_def)
qed

lemma tables_room:
  assumes "tables_ok E P (add_mset b Q) s"
  shows "unat (g_num_pmodules s) < MAX_NUM_MODULES E"
proof -
  have "size (mset (core_files (core s))) = size (mset (live_pmodules s) + add_mset b Q)"
    using assms by (simp add: tables_ok_def)
  moreover have "size (mset (live_pmodules s)) = unat (g_num_pmodules s)"
    using assms by (simp add: tables_ok_def live_pmodules_def)
  ultimately show ?thesis
    using core_files_bound [of E "core s"] assms by (simp add: tables_ok_def)
qed

section \<open>Calls that leave the tables alone\<close>

lemma tables_update:
  assumes inv: "tables_ok E P Q s" and only: "vmm_only (core s) c"
    and pin: "pinned (core s) = Some False \<Longrightarrow> pinned c = Some False"
    and heap: "heap_ok (mset (live_pmodules s) + P') c"
  shows "tables_ok E P' Q (s\<lparr>core := c\<rparr>)"
proof -
  have "vmm_inv E (core s)" using inv by (simp add: tables_ok_def)
  then have "vmm_inv E c" using vmm_only_inv [OF only, of E] pin vmm_inv_pinned by blast
  then show ?thesis
    using inv heap vmm_onlyD(6) [OF only] files_cong [OF vmm_onlyD(1,2) [OF only]]
    by (simp add: tables_ok_def live_pmodules_def)
qed

lemma tables_calls:
  assumes inv: "tables_ok E P Q s" and calls: "vmm_calls (core s) c"
  shows "tables_ok E P Q (s\<lparr>core := c\<rparr>)"
proof (rule tables_update [OF inv])
  show "vmm_only (core s) c" using calls by (simp add: vmm_calls_def)
  show "pinned c = Some False" if "pinned (core s) = Some False" using vmm_calls_pinned [OF calls that] .
  show "heap_ok (mset (live_pmodules s) + P) c"
    using inv vmm_calls_heap [OF calls] by (simp add: tables_ok_def)
qed

lemma tables_with_machine:
  assumes "tables_ok E P Q s" and "with_machine f s = (r, s')"
  shows "tables_ok E P Q s'"
  using assms(2) by (rule with_machine_calls) (simp add: tables_calls [OF assms(1)])

lemma tables_alloc:
  assumes inv: "tables_ok E P Q s" and run: "call_alloc_rw E n (core s) = (a, c)"
  shows "tables_ok E (block a n + P) Q (s\<lparr>core := c\<rparr>)"
proof (rule tables_update [OF inv])
  note facts = call_alloc_rw_facts [OF run]
  show "vmm_only (core s) c" by (rule facts(1))
  show "pinned c = Some False" if "pinned (core s) = Some False" by (rule facts(2) [OF that])
  have "heap_ok (mset (live_pmodules s) + P) (core s)" using inv by (simp add: tables_ok_def)
  from facts(3) [OF this] show "heap_ok (mset (live_pmodules s) + (block a n + P)) c"
    by (simp add: ac_simps)
qed

lemma tables_free:
  assumes inv: "tables_ok E (add_mset (b, n) P) Q s"
  shows "tables_ok E P Q (free_pmodule E b n s)"
  unfolding free_pmodule_def
proof (rule tables_update [OF inv call_free_rw_only call_free_rw_pinned])
  have "heap_ok (add_mset (b, n) (mset (live_pmodules s) + P)) (core s)"
    using inv by (simp add: tables_ok_def)
  then show "heap_ok (mset (live_pmodules s) + P) (call_free_rw E b n (core s))"
    by (rule call_free_rw_heap)
qed

section \<open>A file is registered and stored\<close>

lemma files_grow:
  assumes "env_ok E" and "vmm_inv E c" and "common_add_module E a n c = (rc E BF_SUCCESS, d)"
  shows "core_files d = core_files c @ [(a, n)]"
  using conjunct1 [OF add_module_extends [OF assms]] by (simp add: core_files_def)

lemma tables_add:
  assumes inv: "tables_ok E P Q s" and env: "env_ok E"
    and run: "common_add_module E b n (core s) = (ret, c)"
  shows "if ret = rc E BF_SUCCESS then tables_ok E P (add_mset (b, n) Q) (s\<lparr>core := c\<rparr>) else c = core s"
proof (cases "ret = rc E BF_SUCCESS")
  case True
  have vmm: "vmm_inv E (core s)" and st: "g_vmm_status (core s) = VMM_UNLOADED"
    using inv by (simp_all add: tables_ok_def)
  have "vmm_inv E c" by (rule common_add_module_inv [OF run vmm env])
  moreover have "g_vmm_status c = VMM_UNLOADED"
    using run st by (cases rule: common_add_module_cases) simp_all
  moreover have "core_files c = core_files (core s) @ [(b, n)]"
    using files_grow [OF env vmm] run True by simp
  ultimately show ?thesis
    using True inv common_add_module_heap(1) [OF run] by (simp add: tables_ok_def live_pmodules_def)
next
  case False
  have "c = core s" using run False by (cases rule: common_add_module_cases) simp_all
  then show ?thesis using False by simp
qed

lemma tables_store:
  assumes inv: "tables_ok E (add_mset (b, n) P) (add_mset (b, n) Q) s" and env: "env_ok E"
  shows "tables_ok E P Q (s\<lparr>pmodules := (pmodules s)
      [unat (g_num_pmodules s) := \<lparr>pm_data = b, pm_size = n\<rparr>], g_num_pmodules := g_num_pmodules s + 1\<rparr>)"
    (is "tables_ok E P Q ?s")
proof -
  have room: "unat (g_num_pmodules s) < MAX_NUM_MODULES E" by (rule tables_room [OF inv])
  have k: "unat (g_num_pmodules s + 1) = Suc (unat (g_num_pmodules s))"
    by (rule unat_incr [OF room env_okD(3) [OF env]])
  then have "live_pmodules ?s = live_pmodules s @ [(b, n)]"
    using room inv by (simp add: live_pmodules_def tables_ok_def take_update_Suc)
  then show ?thesis using inv k room by (simp add: tables_ok_def)
qed

text \<open>Everything freed so far was live, and every live block has an owner.\<close>

lemma tables_heap: "tables_ok E P Q s \<Longrightarrow> live_blocks (core s) = Some (held (core s) + (mset (live_pmodules s) + P))"
  by (simp add: tables_ok_def heap_ok_def)

section \<open>Requests that leave the tables alone\<close>

text \<open>Such a request changes the machine and the log of the core, and the VCPU.\<close>

definition other_request :: "'h linux_state \<Rightarrow> 'h linux_state \<Rightarrow> bool" where
  "other_request s s' \<longleftrightarrow> (\<exists>c v. s' = s\<lparr>core := c, g_vcpuid := v\<rparr> \<and> vmm_calls (core s) c)"

lemma other_requestI: "vmm_calls (core s) c \<Longrightarrow> other_request s (s\<lparr>core := c\<rparr>)"
  unfolding other_request_def by (intro exI [of _ c] exI [of _ "g_vcpuid s"]) simp

lemma other_refl: "other_request s s"
  using other_requestI [of s "core s"] by simp

lemma other_trans: "other_request s t \<Longrightarrow> other_request t u \<Longrightarrow> other_request s u"
  unfolding other_request_def
proof (elim exE conjE)
  fix c v d w
  assume "t = s\<lparr>core := c, g_vcpuid := v\<rparr>" "vmm_calls (core s) c" "u = t\<lparr>core := d, g_vcpuid := w\<rparr>"
    "vmm_calls (core t) d"
  then show "\<exists>c v. u = s\<lparr>core := c, g_vcpuid := v\<rparr> \<and> vmm_calls (core s) c"
    using vmm_calls_trans by (intro exI [of _ d] exI [of _ w]) auto
qed

lemma machine_other: "with_machine f s = (r, s') \<Longrightarrow> other_request s s'"
  by (erule with_machine_calls) (simp add: other_requestI)

lemma update_machine_other: "other_request s (update_machine f s)"
  unfolding update_machine_def
  by (rule other_requestI) (simp add: vmm_calls_def vmm_only_def on_machine_def cong: pinned_cong live_cong exec_cong)

lemma dump_other:
  assumes "ioctl_dump_vmm U E x s = (r, s')"
  shows "other_request s s'"
proof -
  define t where "t = update_machine (\<lambda>m. m\<lparr>mem := store_u64 (addr_of_drr U) 0 (mem m)\<rparr>) s"
  obtain ret c where c: "common_dump_vmm E (addr_of_drr U) (g_vcpuid t) (core t) = (ret, c)" by force
  obtain left u where u: "with_machine (copy_to_user U x
      (load_u64 (addr_of_drr U) (mem (machine c))) (sizeof_drr U)) (t\<lparr>core := c\<rparr>) = (left, u)" by force
  have "other_request s t" unfolding t_def by (rule update_machine_other)
  then have "other_request s (t\<lparr>core := c\<rparr>)"
    by (rule other_trans [OF _ other_requestI [OF common_dump_calls [OF c]]])
  moreover have "other_request s u" by (rule other_trans [OF calculation machine_other [OF u]])
  ultimately show ?thesis
    using assms c u by (auto simp: ioctl_dump_vmm_def with_core_def Let_def t_def [symmetric] split: if_splits)
qed

lemma tables_other:
  assumes "other_request s s'" and "tables_ok E P Q s"
  shows "tables_ok E P Q s'"
  using assms tables_calls [OF assms(2)] by (auto simp: other_request_def)

end
