(* ===== verification/Linux_Parallel.thy ===== *)
theory Linux_Parallel
  imports Shared_Tables
begin

text \<open>
  Ioctls that run at the same time. The kernel calls \<open>dev_unlocked_ioctl\<close> without a lock, and
  the driver takes none: here \<open>ioctl_add_module\<close> is a state machine whose steps end where it
  calls out, and any number of threads take such steps in any order, between other
  ioctls. A step itself is not interrupted, as on one CPU without preemption, so the runs here are
  some of the runs of the code; \<open>Linux_Races\<close> takes the last step apart.
\<close>

section \<open>\<open>ioctl_add_module\<close> step by step\<close>

text \<open>
  Where a thread is: before the test of the table, with a block that is not filled yet, with
  its copy of the file, registered in \<open>common.c\<close>, or back in user space.
\<close>

datatype adding =
    Entered (user_file: uint64)
  | Allocated (user_file: uint64) (buf_of: uint64)
  | Copied (buf_of: uint64)
  | Added (buf_of: uint64)
  | Returned (answer: int64)

fun add_step ::
  "'h linux_services \<Rightarrow> ('h, 'z) env_scheme \<Rightarrow> adding \<Rightarrow> 'h linux_state \<Rightarrow> adding \<times> 'h linux_state" where
  "add_step U E (Entered f) s =
     (if MAX_NUM_MODULES E \<le> unat (g_num_pmodules s) then (Returned (BF_IOCTL_FAILURE U), s)
      else
        let (buf, s) = with_core (call_alloc_rw E (g_module_length s)) s
        in if buf = 0 then (Returned (BF_IOCTL_FAILURE U), s) else (Allocated f buf, s))"
| "add_step U E (Allocated f buf) s =
     (let (left, s) = with_machine (copy_from_user U buf f (g_module_length s)) s
      in if left \<noteq> 0
         then (Returned (BF_IOCTL_FAILURE U), free_pmodule E buf (g_module_length s) s)
         else (Copied buf, s))"
| "add_step U E (Copied buf) s =
     (let (ret, s) = with_core (common_add_module E buf (g_module_length s)) s
      in if ret \<noteq> rc E BF_SUCCESS
         then (Returned (BF_IOCTL_FAILURE U), free_pmodule E buf (g_module_length s) s)
         else (Added buf, s))"
| "add_step U E (Added buf) s =
     (Returned (BF_IOCTL_SUCCESS U),
      s\<lparr>pmodules := (pmodules s)
           [unat (g_num_pmodules s) := \<lparr>pm_data = buf, pm_size = g_module_length s\<rparr>],
        g_num_pmodules := g_num_pmodules s + 1\<rparr>)"
| "add_step U E (Returned r) s = (Returned r, s)"

text \<open>
  A thread that is alone takes the steps of \<open>ioctl_add_module\<close>: after four of them it has
  returned what the handler returns, in the state the handler leaves.
\<close>

lemma add_steps_handler:
  "thread_steps (add_step U E) 4 (Entered f) s = map_prod Returned id (ioctl_add_module U E f s)"
  by (simp add: ioctl_add_module_def eval_nat_numeral Let_def split: prod.splits)

section \<open>Threads\<close>

text \<open>
  The threads that add modules share the state of the device; \<open>R\<close> are the other requests
  that may come at any moment.
\<close>

definition requests ::
  "'h linux_services \<Rightarrow> ('h, 'z) env_scheme \<Rightarrow> (uint32 \<times> uint64) set
    \<Rightarrow> 'h linux_state \<Rightarrow> 'h linux_state \<Rightarrow> bool" where
  "requests U E R s s' \<longleftrightarrow> (\<exists>req \<in> R. \<exists>r. linux_step U E req s = Some (r, s'))"

abbreviation add_run where
  "add_run U E R \<equiv> unlocked_run (add_step U E) (requests U E R)"

lemma request_in: "req \<in> R \<Longrightarrow> linux_step U E req s = Some (r, s') \<Longrightarrow> requests U E R s s'"
  by (auto simp: requests_def)

text \<open>The blocks that a thread owns, and those \<open>common.c\<close> knows but the device does not yet.\<close>

fun pending :: "uint64 \<Rightarrow> adding \<Rightarrow> blocks" where
  "pending n (Entered f) = {#}"
| "pending n (Allocated f buf) = {#(buf, n)#}"
| "pending n (Copied buf) = {#(buf, n)#}"
| "pending n (Added buf) = {#(buf, n)#}"
| "pending n (Returned r) = {#}"

fun registered :: "uint64 \<Rightarrow> adding \<Rightarrow> blocks" where
  "registered n (Added buf) = {#(buf, n)#}"
| "registered n t = {#}"

text \<open>What the threads keep together, while the length of modules is \<open>n\<close>.\<close>

definition shared_inv ::
  "('h, 'z) env_scheme \<Rightarrow> uint64 \<Rightarrow> blocks \<Rightarrow> adding list \<Rightarrow> 'h linux_state \<Rightarrow> bool" where
  "shared_inv E n R ts s \<longleftrightarrow>
     g_module_length s = n \<and> tables_ok E (all_of (pending n) ts + R) (all_of (registered n) ts) s"

section \<open>Every step keeps the shared invariant\<close>

text \<open>
  One step, with the blocks \<open>M\<close> and the files \<open>N\<close> of the other threads.
\<close>

lemma add_step_keeps:
  assumes run: "add_step U E t s = (t', s')" and env: "env_ok E" and len: "g_module_length s = n"
    and inv: "tables_ok E (pending n t + P) (registered n t + Q) s"
  shows "g_module_length s' = n \<and> tables_ok E (pending n t' + P) (registered n t' + Q) s'"
proof (cases t)
  case (Entered f)
  obtain a c where a: "call_alloc_rw E n (core s) = (a, c)" by force
  have "tables_ok E (block a n + P) Q (s\<lparr>core := c\<rparr>)"
    using tables_alloc [OF _ a] inv Entered by simp
  then show ?thesis
    using run Entered a len inv by (auto simp: with_core_def block_def split: if_splits)
next
  case (Allocated f buf)
  obtain left u where u: "with_machine (copy_from_user U buf f n) s = (left, u)" by force
  have "tables_ok E (add_mset (buf, n) P) Q u" using tables_with_machine [OF _ u] inv Allocated by simp
  moreover have "g_module_length u = n"
    using u len by (auto simp: with_machine_def with_core_def split: prod.splits)
  ultimately show ?thesis
    using run Allocated u len tables_free [of E buf n P Q u]
    by (auto simp: free_pmodule_def split: if_splits)
next
  case (Copied buf)
  obtain ret c where c: "common_add_module E buf n (core s) = (ret, c)" by force
  have inv': "tables_ok E (add_mset (buf, n) P) Q s" using inv Copied by simp
  show ?thesis
    using run Copied c len tables_add [OF inv' env c] tables_free [OF inv']
    by (auto simp: with_core_def free_pmodule_def split: if_splits)
next
  case (Added buf)
  have "tables_ok E (add_mset (buf, n) P) (add_mset (buf, n) Q) s" using inv Added by simp
  from tables_store [OF this env] show ?thesis using run Added len by auto
next
  case (Returned r)
  then show ?thesis using run len inv by simp
qed

lemma thread_keeps:
  assumes inv: "shared_inv E n R ts s" and env: "env_ok E" and i: "i < length ts"
    and run: "add_step U E (ts ! i) s = (t', s')"
  shows "shared_inv E n R (ts[i := t']) s'"
proof -
  obtain M N where M: "all_of (pending n) ts = pending n (ts ! i) + M"
      "\<And>t. all_of (pending n) (ts[i := t]) = pending n t + M"
    and N: "all_of (registered n) ts = registered n (ts ! i) + N"
      "\<And>t. all_of (registered n) (ts[i := t]) = registered n t + N"
    using both_at [OF i, where p = "pending n" and q = "registered n"] by metis
  have "g_module_length s = n" "tables_ok E (pending n (ts ! i) + (M + R)) (registered n (ts ! i) + N) s"
    using inv M(1) N(1) by (simp_all add: shared_inv_def ac_simps)
  from add_step_keeps [OF run env this] show ?thesis
    by (simp add: shared_inv_def M(2) N(2) ac_simps)
qed

section \<open>Runs\<close>

text \<open>The requests that leave the tables and the length of modules alone.\<close>

definition quiet_requests :: "'h linux_services \<Rightarrow> (uint32 \<times> uint64) set" where
  "quiet_requests U = {(c, x). c \<notin> {IOCTL_ADD_MODULE U, IOCTL_ADD_MODULE_LENGTH U, IOCTL_LOAD_VMM U,
     IOCTL_UNLOAD_VMM U, IOCTL_START_VMM U, IOCTL_STOP_VMM U}}"

lemma set_vcpuid_other: "ioctl_set_vcpuid U x s = (r, s') \<Longrightarrow> other_request s s'"
proof -
  have v: "other_request s t \<Longrightarrow> other_request s (t\<lparr>g_vcpuid := v\<rparr>)" for t v
    unfolding other_request_def by (elim exE, rule_tac x = c in exI) auto
  show "ioctl_set_vcpuid U x s = (r, s') \<Longrightarrow> other_request s s'"
    by (auto simp: ioctl_set_vcpuid_def copy_u64_from_user_def Let_def
        split: prod.splits if_splits intro!: v other_refl dest: machine_other)
qed

lemma vmm_status_other: "ioctl_vmm_status U x s = (r, s') \<Longrightarrow> other_request s s'"
  by (auto simp: ioctl_vmm_status_def Let_def other_refl split: prod.splits if_splits dest: machine_other)

lemma quiet_other:
  assumes "req \<in> quiet_requests U" and "linux_step U E req s = Some (r, s')"
  shows "other_request s s'"
  using assms dump_other vmm_status_other set_vcpuid_other other_refl
  by (auto simp: quiet_requests_def linux_step_def dev_unlocked_ioctl_def split: if_splits)

lemma other_keeps:
  assumes other: "other_request s s'" and inv: "shared_inv E n R ts s"
  shows "shared_inv E n R ts s'"
  using inv tables_other [OF other] other by (auto simp: shared_inv_def other_request_def)

interpretation adds: shared_invariant "add_step U E" "requests U E (quiet_requests U)"
    "\<lambda>ts s. env_ok E \<and> shared_inv E n R ts s" for U E n R
  by unfold_locales
    (auto simp: requests_def intro: thread_keeps other_keeps [OF quiet_other])

lemma shared_start:
  assumes "linux_inv E s" and "linux_owns R s" and "g_vmm_status (core s) = VMM_UNLOADED"
  shows "shared_inv E (g_module_length s) R (map Entered fs) s"
proof -
  have none: "all_of (registered n) (map Entered fs) = {#}" "all_of (pending n) (map Entered fs) = {#}" for n
    by (rule all_of_none; auto)+
  show ?thesis using tables_start [OF assms] by (simp add: shared_inv_def none)
qed

lemma added_has_room:
  assumes inv: "shared_inv E n R ts s" and i: "i < length ts" and t: "ts ! i = Added buf"
  shows "unat (g_num_pmodules s) < MAX_NUM_MODULES E"
proof -
  obtain M where "all_of (registered n) ts = registered n (ts ! i) + M" by (rule all_of_at [OF i])
  then have "tables_ok E (all_of (pending n) ts + R) (add_mset (buf, n) M) s"
    using inv t by (simp add: shared_inv_def)
  then show ?thesis by (rule tables_room)
qed

text \<open>
  C10. Any number of threads add modules at the same time, each one switched only where its
  handler calls out (the allocation, the copy from user space, the calls of \<open>common.c\<close>; the last
  three assignments are one step), in any order, while other requests ask for the status, dump
  the VMM or set the VCPU, and none changes the length of a module. Of these interleavings: the tables of the
  device and of \<open>common.c\<close> stay within their bounds, and a thread that is about to write
  to the table has room; every block has exactly one owner, the core, the table of the
  device or a thread; and when all threads have returned, the files that \<open>common.c\<close> will
  load are those of the table of the device, possibly in another order. Without these
  restrictions it fails: see the length that
  changes, below, and the assignments taken one by one, in \<open>Linux_Races\<close>.
\<close>

theorem concurrent_adds_are_safe:
  assumes run: "add_run U E (quiet_requests U) (map Entered fs, s) (ts, s')" and env: "env_ok E"
    and inv: "linux_inv E s" "linux_owns R s" "g_vmm_status (core s) = VMM_UNLOADED"
  shows "vmm_inv E (core s') \<and> unat (g_num_pmodules s') \<le> MAX_NUM_MODULES E \<and>
    (\<forall>i < length ts. \<forall>buf. ts ! i = Added buf \<longrightarrow> unat (g_num_pmodules s') < MAX_NUM_MODULES E) \<and>
    live_blocks (core s') = Some (held (core s') + (mset (live_pmodules s') +
      all_of (pending (g_module_length s)) ts + R)) \<and>
    ((\<forall>t \<in> set ts. \<exists>r. t = Returned r) \<longrightarrow> mset (core_files (core s')) = mset (live_pmodules s'))"
proof -
  have shared: "shared_inv E (g_module_length s) R ts s'"
    using adds.run_keeps [OF run, of "g_module_length s" R] env shared_start [OF inv] by blast
  moreover have "all_of (registered (g_module_length s)) ts = {#}" if "\<forall>t \<in> set ts. \<exists>r. t = Returned r"
    using that by (intro all_of_none) auto
  ultimately show ?thesis
    using added_has_room [OF shared] by (auto simp: shared_inv_def tables_ok_def heap_ok_def ac_simps)
qed

definition demo_shared :: "demo linux_host linux_state" where
  "demo_shared = (linux_initial demo_env (demo_machine [] []))\<lparr>g_module_length := 16\<rparr>"

lemma demo_shared_ok: "linux_inv demo_env demo_shared" "linux_owns {#} demo_shared"
  "g_vmm_status (core demo_shared) = VMM_UNLOADED"
  using linux_initial_ok [of demo_env "demo_machine [] []"]
  by (simp_all add: demo_shared_def) (simp add: linux_initial_def initial_state_def)

lemma demo_schedule:
  "\<exists>s'. schedule (add_step demo_user demo_env) [0, 1, 0, 1, 0, 1, 1, 0] ([Entered 0x7100, Entered 0x7200], demo_shared) =
      ([Returned 0, Returned 0], s') \<and>
    core_files (core s') = rev (live_pmodules s') \<and> g_num_pmodules s' = 2"
  by (simp add: demo_shared_def linux_defs demo_eval core_files_def live_pmodules_def numeral_3_eq_3
      cong: prod.case_cong_weak)

theorem concurrent_adds_are_safe_witness:
  "\<exists>s'. add_run demo_user demo_env (quiet_requests demo_user) ([Entered 0x7100, Entered 0x7200], demo_shared)
      ([Returned 0, Returned 0], s') \<and>
    core_files (core s') = rev (live_pmodules s') \<and> mset (core_files (core s')) = mset (live_pmodules s') \<and>
    g_num_pmodules s' = 2"
proof -
  obtain s' where s': "schedule (add_step demo_user demo_env) [0, 1, 0, 1, 0, 1, 1, 0]
      ([Entered 0x7100, Entered 0x7200], demo_shared) = ([Returned 0, Returned 0], s')"
    "core_files (core s') = rev (live_pmodules s')" "g_num_pmodules s' = 2"
    using demo_schedule by blast
  have run: "add_run demo_user demo_env (quiet_requests demo_user)
      (map Entered [0x7100, 0x7200], demo_shared) ([Returned 0, Returned 0], s')"
    using schedule_run [of "[0, 1, 0, 1, 0, 1, 1, 0]" "[Entered 0x7100, Entered 0x7200]" "add_step demo_user demo_env"
        "requests demo_user demo_env (quiet_requests demo_user)" demo_shared] s'(1) by simp
  have "mset (core_files (core s')) = mset (live_pmodules s')"
    using concurrent_adds_are_safe [OF run demo_env_ok demo_shared_ok] by auto
  then show ?thesis using run s'(2,3) by (intro exI [of _ s']) simp
qed

section \<open>The length of modules is shared too\<close>

lemma length_request_frame:
  assumes "ioctl_add_module_length U l s = (r, s')"
  shows "\<exists>m v. s' = s\<lparr>core := (core s)\<lparr>machine := m\<rparr>, g_module_length := v\<rparr>"
proof (cases "l = 0")
  case True
  then have "s' = s" using assms by (simp add: ioctl_add_module_length_def)
  then show ?thesis
    by (intro exI [of _ "machine (core s)"] exI [of _ "g_module_length s"]) simp
next
  case False
  let ?a = "addr_of_g_module_length U"
  obtain left m where "copy_from_user U ?a l 8 ((machine (core s))
      \<lparr>mem := store_u64 ?a (g_module_length s) (mem (machine (core s)))\<rparr>) = (left, m)" by force
  then have "s' = s\<lparr>core := (core s)\<lparr>machine := m\<rparr>, g_module_length := load_u64 ?a (mem m)\<rparr>"
    using assms False
    by (auto simp: ioctl_add_module_length_def copy_u64_from_user_def with_machine_def with_core_def Let_def
        split: if_splits)
  then show ?thesis by blast
qed

text \<open>
  C28. The length is read again for each use. A thread that has allocated a block of \<open>n\<close>
  bytes is overtaken by an ioctl that sets a larger length: the thread then copies that
  many bytes from user space, so the caller writes past the end of the block in the memory
  of the kernel.
\<close>

theorem length_change_overflows_block:
  assumes room: "unat (g_num_pmodules s) < MAX_NUM_MODULES E"
    and alloc: "call_alloc_rw E n (core s) = (buf, c)" "n = g_module_length s" "buf \<noteq> 0"
    and cmd: "linux_step U E (IOCTL_ADD_MODULE_LENGTH U, l) (s\<lparr>core := c\<rparr>) = Some (r, t)"
      "IOCTL_ADD_MODULE_LENGTH U \<noteq> IOCTL_ADD_MODULE U"
    and user: "copy_from_user U buf f (g_module_length t) (machine (core t)) = (0, m)"
      "mem m = mem_copy buf f (g_module_length t) (mem (machine (core t)))"
  shows "\<exists>u. add_run U E {(IOCTL_ADD_MODULE_LENGTH U, l)} ([Entered f], s) ([Copied buf], u) \<and>
    trace (core u) = trace (core s) @ [AllocRw n buf] \<and>
    (\<forall>i. n \<le> i \<and> i < g_module_length t \<longrightarrow>
      mem (machine (core u)) (buf + i) = mem (machine (core t)) (f + i))"
proof -
  let ?R = "{(IOCTL_ADD_MODULE_LENGTH U, l)}"
  let ?s1 = "s\<lparr>core := c\<rparr>" and ?u = "t\<lparr>core := (core t)\<lparr>machine := m\<rparr>\<rparr>"
  have "add_step U E (Entered f) s = (Allocated f buf, ?s1)"
    using room alloc by (simp add: with_core_def)
  then have 1: "unlocked_step (add_step U E) (requests U E ?R) ([Entered f], s) ([Allocated f buf], ?s1)"
    using unlocked_step.thread [of 0 "[Entered f]" "add_step U E" s] by simp
  have 2: "unlocked_step (add_step U E) (requests U E ?R) ([Allocated f buf], ?s1) ([Allocated f buf], t)"
    using cmd(1) by (intro unlocked_step.request request_in) simp_all
  have "add_step U E (Allocated f buf) t = (Copied buf, ?u)"
    using user(1) by (simp add: with_machine_def with_core_def)
  then have 3: "unlocked_step (add_step U E) (requests U E ?R) ([Allocated f buf], t) ([Copied buf], ?u)"
    using unlocked_step.thread [of 0 "[Allocated f buf]" "add_step U E" t] by simp
  have "ioctl_add_module_length U l ?s1 = (r, t)"
    using cmd by (simp add: linux_step_def dev_unlocked_ioctl_def)
  then have "trace (core t) = trace c" using length_request_frame by fastforce
  moreover have "trace c = trace (core s) @ [AllocRw n buf]"
    using alloc(1) by (auto simp: call_alloc_rw_def log_def split: prod.splits)
  moreover have "mem m (buf + i) = mem (machine (core t)) (f + i)" if "i < g_module_length t" for i
    using user(2) that by (simp add: mem_copy_def)
  moreover have "add_run U E ?R ([Entered f], s) ([Copied buf], ?u)"
    using 1 2 3 by (meson converse_rtranclp_into_rtranclp rtranclp.rtrancl_refl)
  ultimately show ?thesis by (intro exI [of _ ?u]) simp
qed

text \<open>User space holds 0x41 in every byte, kernel memory 0; the block has 16 bytes.\<close>

definition copying_user :: "demo linux_host linux_services" where
  "copying_user = demo_user\<lparr>copy_from_user := (\<lambda>dst src k m. (0, m\<lparr>mem := mem_copy dst src k (mem m)\<rparr>))\<rparr>"

definition user_bytes :: "demo linux_host linux_state" where
  "user_bytes = demo_shared\<lparr>core := (core demo_shared)\<lparr>machine :=
     (machine (core demo_shared))\<lparr>mem := (\<lambda>x. if x < 0x8000 then 0x41 else 0)\<rparr>\<rparr>\<rparr>"

theorem length_change_overflows_block_witness:
  "\<exists>u. add_run copying_user demo_env {(2, 0x7000)} ([Entered 0x7100], user_bytes) ([Copied 0x100000], u) \<and>
     trace (core u) = [AllocRw 16 0x100000] \<and>
     mem (machine (core user_bytes)) 0x100014 = 0 \<and> mem (machine (core u)) 0x100014 = 0x41"
proof -
  obtain c where c: "call_alloc_rw demo_env 16 (core user_bytes) = (0x100000, c)"
    and m: "mem (machine c) = mem (machine (core user_bytes))"
    by (auto simp: user_bytes_def demo_shared_def linux_defs demo_eval)
  obtain r t where t: "linux_step copying_user demo_env (2, 0x7000) (user_bytes\<lparr>core := c\<rparr>) = Some (r, t)"
    "g_module_length t = 0x4141414141414141" "mem (machine (core t)) 0x7114 = 0x41"
    using m
    by (auto simp: copying_user_def linux_defs user_bytes_def demo_shared_def demo_start mem_copy_def store_u64_def
        load_u64_def load_bytes_def u64_of_bytes_def upt_rec store_bytes_def Let_def)
  have codes: "IOCTL_ADD_MODULE_LENGTH copying_user = 2" "IOCTL_ADD_MODULE copying_user = 1"
    by (simp_all add: copying_user_def demo_user_def)
  have state: "g_module_length user_bytes = 16" "g_num_pmodules user_bytes = 0" "trace (core user_bytes) = []"
    "mem (machine (core user_bytes)) 0x100014 = 0"
    by (simp_all add: user_bytes_def demo_shared_def linux_initial_def demo_start)
  have "\<exists>u. add_run copying_user demo_env {(IOCTL_ADD_MODULE_LENGTH copying_user, 0x7000)}
      ([Entered 0x7100], user_bytes) ([Copied 0x100000], u) \<and>
    trace (core u) = trace (core user_bytes) @ [AllocRw 16 0x100000] \<and>
    (\<forall>i. 16 \<le> i \<and> i < g_module_length t \<longrightarrow>
      mem (machine (core u)) (0x100000 + i) = mem (machine (core t)) (0x7100 + i))"
  proof (rule length_change_overflows_block [OF _ c])
    show "linux_step copying_user demo_env (IOCTL_ADD_MODULE_LENGTH copying_user, 0x7000) (user_bytes\<lparr>core := c\<rparr>) = Some (r, t)"
      using t(1) codes by simp
    show "copy_from_user copying_user 0x100000 0x7100 (g_module_length t) (machine (core t)) =
        (0, (machine (core t))\<lparr>mem := mem_copy 0x100000 0x7100 (g_module_length t) (mem (machine (core t)))\<rparr>)"
      by (simp add: copying_user_def)
  qed (simp_all add: state codes demo_consts)
  then obtain u where u: "add_run copying_user demo_env {(2, 0x7000)} ([Entered 0x7100], user_bytes)
      ([Copied 0x100000], u)" "trace (core u) = [AllocRw 16 0x100000]"
    "\<forall>i. 16 \<le> i \<and> i < g_module_length t \<longrightarrow>
      mem (machine (core u)) (0x100000 + i) = mem (machine (core t)) (0x7100 + i)"
    unfolding codes state(3) append_Nil by blast
  have "mem (machine (core u)) 0x100014 = 0x41"
    using spec [OF u(3), of "0x14"] t(2,3) by simp
  then show ?thesis using u(1,2) state(4) by blast
qed

end
