(* ===== verification/Linux_Races.thy ===== *)
theory Linux_Races
  imports Linux_Parallel
begin

text \<open>
  Unload ioctls that run at the same time as other ioctls. \<open>ioctl_unload_vmm\<close> is a state
  machine whose steps end where it calls out, like \<open>ioctl_add_module\<close> in
  \<open>Linux_Parallel\<close>. Among requests that only look at the driver it is safe; with
  another unload it frees the copies twice, and with a thread that adds a module it frees a
  copy that \<open>common.c\<close> will load.
\<close>

section \<open>\<open>ioctl_unload_vmm\<close> step by step\<close>

text \<open>
  Where a thread is: before \<open>common_unload_vmm\<close>, in the loop with the answer it will give
  and its index, or back in user space. The loop reads \<open>g_num_pmodules\<close> and the table again
  in every round.
\<close>

datatype unloading =
    Requested
  | Freeing (status_so_far: int64) (index: nat)
  | Unloaded (unload_answer: int64)

fun unload_step ::
  "'h linux_services \<Rightarrow> ('h, 'z) env_scheme \<Rightarrow> unloading \<Rightarrow> 'h linux_state \<Rightarrow> unloading \<times> 'h linux_state" where
  "unload_step U E Requested s =
     (let (ret, s) = with_core (common_unload_vmm E) s
      in (Freeing (if ret \<noteq> rc E BF_SUCCESS then BF_IOCTL_FAILURE U else BF_IOCTL_SUCCESS U) 0, s))"
| "unload_step U E (Freeing status i) s =
     (if i < unat (g_num_pmodules s)
      then (Freeing status (Suc i),
            free_pmodule E (pm_data (pmodules s ! i)) (pm_size (pmodules s ! i)) s)
      else (Unloaded status, s\<lparr>g_num_pmodules := 0, pmodules := zero_pmodules E\<rparr>))"
| "unload_step U E (Unloaded r) s = (Unloaded r, s)"

lemma free_pmodule_tables [simp]:
  "g_num_pmodules (free_pmodule E a n s) = g_num_pmodules s" "pmodules (free_pmodule E a n s) = pmodules s"
  by (simp_all add: free_pmodule_def)

lemma freeing_steps:
  "i + k \<le> unat (g_num_pmodules s) \<Longrightarrow> unat (g_num_pmodules s) \<le> length (pmodules s) \<Longrightarrow>
   thread_steps (unload_step U E) k (Freeing r i) s =
     (Freeing r (i + k), free_pmodules E (take k (drop i (pmodules s))) s)"
proof (induction k arbitrary: i s)
  case (Suc k)
  then have i: "i < length (pmodules s)" "i < unat (g_num_pmodules s)" by simp_all
  let ?p = "pmodules s ! i"
  have "take (Suc k) (drop i (pmodules s)) = ?p # take k (drop (Suc i) (pmodules s))"
    using i(1) by (simp add: Cons_nth_drop_Suc [symmetric])
  then show ?case
    using i(2) Suc.prems Suc.IH [of "Suc i" "free_pmodule E (pm_data ?p) (pm_size ?p) s"] by simp
qed simp

lemma unloading_rest:
  assumes "unat (g_num_pmodules s) \<le> length (pmodules s)"
  shows "thread_steps (unload_step U E) (unat (g_num_pmodules s) + 1) (Freeing r 0) s =
    (Unloaded r, (free_pmodules E (take (unat (g_num_pmodules s)) (pmodules s)) s)
      \<lparr>g_num_pmodules := 0, pmodules := zero_pmodules E\<rparr>)"
proof -
  have "g_num_pmodules (free_pmodules E ps s) = g_num_pmodules s" for ps
    using free_pmodules_frame [of E ps s] by auto
  then show ?thesis
    unfolding thread_steps_add using freeing_steps [of 0 "unat (g_num_pmodules s)" s U E r] assms by simp
qed

lemma unload_steps_handler:
  assumes "unat (g_num_pmodules s) \<le> length (pmodules s)"
  shows "thread_steps (unload_step U E) (unat (g_num_pmodules s) + 2) Requested s =
    map_prod Unloaded id (ioctl_unload_vmm U E s)"
proof -
  obtain ret c where c: "common_unload_vmm E (core s) = (ret, c)" by force
  show ?thesis
    using unloading_rest [of "s\<lparr>core := c\<rparr>" U E] assms c
    by (simp add: ioctl_unload_vmm_def with_core_def Let_def)
qed

text \<open>A device with one module that is not loaded yet.\<close>

definition demo_one :: "demo linux_host linux_state" where
  "demo_one = demo_device ((demo_added [])\<lparr>trace := [AllocRw 16 0x2000]\<rparr>)"

lemma demo_one_owns: "linux_owns {#} demo_one" "live_pmodules demo_one = [(0x2000, 16)]"
  "held (core demo_one) = {#}" "pmodules demo_one ! 0 = \<lparr>pm_data = 0x2000, pm_size = 16\<rparr>"
  "unat (g_num_pmodules demo_one) = 1" "length (pmodules demo_one) = 3"
  "g_vmm_status (core demo_one) = VMM_UNLOADED" "g_module_length demo_one = 16"
  by (simp_all add: demo_one_def linux_owns_def live_pmodules_def demo_device_def heap_ok_def
      live_blocks_def held_def block_def demo_eval)

lemma demo_one_inv: "linux_inv demo_env demo_one"
proof -
  have "vmm_inv demo_env ((demo_added [])\<lparr>trace := [AllocRw 16 0x2000]\<rparr>)"
    by (simp add: vmm_inv_def table_ok_def stack_ok_def demo_eval pinned_def)
  then show ?thesis
    by (simp add: linux_inv_def demo_one_def demo_device_def modules_match_def core_files_def live_pmodules_def
        demo_consts demo_eval numeral_3_eq_3)
qed

section \<open>An unload among requests that only look\<close>

definition unload_ok :: "('h, 'z) env_scheme \<Rightarrow> blocks \<Rightarrow> unloading \<Rightarrow> 'h linux_state \<Rightarrow> bool" where
  "unload_ok E R t s \<longleftrightarrow>
     (case t of
        Requested \<Rightarrow> linux_inv E s \<and> linux_owns R s
      | Freeing r i \<Rightarrow>
          vmm_inv E (core s) \<and> length (pmodules s) = MAX_NUM_MODULES E \<and>
          unat (g_num_pmodules s) \<le> MAX_NUM_MODULES E \<and> i \<le> unat (g_num_pmodules s) \<and>
          (g_vmm_status (core s) = VMM_UNLOADED \<longrightarrow> g_num_modules (core s) = 0) \<and>
          heap_ok (mset (drop i (live_pmodules s)) + R) (core s)
      | Unloaded r \<Rightarrow> linux_inv E s \<and> linux_owns R s \<and> g_num_pmodules s = 0)"

lemma freeing_keeps:
  assumes inv: "unload_ok E R (Freeing r i) s" and run: "unload_step U E (Freeing r i) s = (t', s')"
  shows "unload_ok E R t' s'"
proof (cases "i < unat (g_num_pmodules s)")
  case True
  let ?p = "pmodules s ! i"
  let ?c = "call_free_rw E (pm_data ?p) (pm_size ?p) (core s)"
  have t': "t' = Freeing r (Suc i)" "s' = s\<lparr>core := ?c\<rparr>"
    using run True by (simp_all add: free_pmodule_def)
  have "drop i (live_pmodules s) = (pm_data ?p, pm_size ?p) # drop (Suc i) (live_pmodules s)"
    using True inv by (simp add: unload_ok_def live_pmodules_def Cons_nth_drop_Suc [symmetric])
  then have "heap_ok (add_mset (pm_data ?p, pm_size ?p) (mset (drop (Suc i) (live_pmodules s)) + R)) (core s)"
    using inv by (simp add: unload_ok_def)
  then have heap: "heap_ok (mset (drop (Suc i) (live_pmodules s)) + R) ?c" by (rule call_free_rw_heap)
  have "vmm_inv E ?c"
    using inv vmm_only_inv [OF call_free_rw_only, of E] call_free_rw_pinned vmm_inv_pinned
    unfolding unload_ok_def by fastforce
  then show ?thesis
    using inv True heap vmm_onlyD(1,6) [OF call_free_rw_only, of E "pm_data ?p" "pm_size ?p" "core s"]
    by (simp add: t' unload_ok_def live_pmodules_def)
next
  case False
  then have "t' = Unloaded r" "s' = s\<lparr>g_num_pmodules := 0, pmodules := zero_pmodules E\<rparr>"
    using run by simp_all
  then show ?thesis
    using inv False by (auto simp: unload_ok_def linux_inv_def linux_owns_def modules_match_def core_files_def
        live_pmodules_def zero_pmodules_def)
qed

lemma requested_keeps:
  assumes inv: "unload_ok E R Requested s" and run: "unload_step U E Requested s = (t', s')"
  shows "unload_ok E R t' s'"
proof -
  obtain ret c where c: "common_unload_vmm E (core s) = (ret, c)" by force
  have "\<exists>r. t' = Freeing r 0" "s' = s\<lparr>core := c\<rparr>" using run c by (auto simp: with_core_def)
  moreover have "vmm_inv E c"
    using common_unload_inv [OF c] inv by (simp add: unload_ok_def linux_inv_def)
  moreover have "heap_ok (mset (live_pmodules s) + R) c"
    using common_unload_heap [OF c] inv by (simp add: unload_ok_def linux_owns_def)
  ultimately show ?thesis
    using inv unload_core_empty [OF c] by (auto simp: unload_ok_def linux_inv_def live_pmodules_def)
qed

lemma unload_ok_other:
  assumes other: "other_request s s'" and inv: "unload_ok E R t s"
  shows "unload_ok E R t s'"
proof -
  obtain c v where s': "s' = s\<lparr>core := c, g_vcpuid := v\<rparr>" and calls: "vmm_calls (core s) c"
    using other by (auto simp: other_request_def)
  have "linux_inv E s \<Longrightarrow> linux_inv E s'" "linux_owns R s \<Longrightarrow> linux_owns R s'"
    using calls_keeps [OF calls, of E] by (simp_all add: s' keeps_def)
  then show ?thesis
    using inv vmm_calls_inv [OF calls, of E] vmm_callsD(1,6) [OF calls] vmm_calls_heap [OF calls]
    by (cases t) (simp_all add: unload_ok_def s' live_pmodules_def)
qed

lemma unload_step_keeps:
  assumes "unload_ok E R t s" and "unload_step U E t s = (t', s')"
  shows "unload_ok E R t' s'"
proof (cases t)
  case Requested
  then show ?thesis using assms requested_keeps by metis
next
  case (Freeing r i)
  then show ?thesis using assms freeing_keeps by metis
next
  case (Unloaded r)
  then show ?thesis using assms by simp
qed

text \<open>
  What an unload does to \<open>common.c\<close>, from a status \<open>v\<close> and the files \<open>fs\<close> in its table: the
  status and the files at the end, and whether it answers success.
\<close>

definition unload_outcome ::
  "vmm_status \<Rightarrow> (uint64 \<times> uint64) list \<Rightarrow> bool \<Rightarrow> vmm_status \<times> (uint64 \<times> uint64) list \<Rightarrow> bool" where
  "unload_outcome v fs success z \<longleftrightarrow>
     (case v of
        VMM_UNLOADED \<Rightarrow> success \<and> z = (VMM_UNLOADED, [])
      | VMM_LOADED \<Rightarrow> z = (if success then (VMM_UNLOADED, []) else (VMM_CORRUPT, fs))
      | _ \<Rightarrow> \<not> success \<and> z = (v, fs))"

definition unload_core ::
  "'h linux_services \<Rightarrow> vmm_status \<Rightarrow> (uint64 \<times> uint64) list \<Rightarrow> unloading \<Rightarrow> 'h linux_state \<Rightarrow> bool" where
  "unload_core U v fs t s \<longleftrightarrow>
     (let z = (g_vmm_status (core s), core_files (core s))
      in case t of
           Requested \<Rightarrow> z = (v, fs)
         | Freeing r i \<Rightarrow> \<exists>b. r = (if b then BF_IOCTL_SUCCESS U else BF_IOCTL_FAILURE U) \<and> unload_outcome v fs b z
         | Unloaded r \<Rightarrow> \<exists>b. r = (if b then BF_IOCTL_SUCCESS U else BF_IOCTL_FAILURE U) \<and> unload_outcome v fs b z)"

lemma common_unload_outcome:
  assumes run: "common_unload_vmm E c = (ret, c')" and ok: "codes_ok E"
  shows "unload_outcome (g_vmm_status c) (core_files c) (ret = rc E BF_SUCCESS) (g_vmm_status c', core_files c')"
  using run
proof (cases rule: common_unload_cases)
  case (fini_failed r t)
  have "core_files t = core_files c"
    using vmm_callsD(1,2) [OF call_vmm_calls [OF fini_failed(2)]] by (rule files_cong)
  then show ?thesis using fini_failed codes [OF ok] by (simp add: unload_outcome_def core_files_def)
next
  case unloaded
  then show ?thesis by (simp add: unload_outcome_def core_files_def reset_fields [OF unloaded(3)])
next
  case (fini t)
  then show ?thesis by (simp add: unload_outcome_def core_files_def reset_fields [OF fini(4)])
qed (use codes [OF ok] in \<open>simp_all add: unload_outcome_def\<close>)

lemma unload_core_step:
  assumes inv: "unload_core U v fs t s" and run: "unload_step U E t s = (t', s')" and ok: "codes_ok E"
  shows "unload_core U v fs t' s'"
proof (cases t)
  case Requested
  obtain ret c where c: "common_unload_vmm E (core s) = (ret, c)" by force
  have "t' = Freeing (if ret = rc E BF_SUCCESS then BF_IOCTL_SUCCESS U else BF_IOCTL_FAILURE U) 0" "s' = s\<lparr>core := c\<rparr>"
    using run c Requested by (auto simp: with_core_def)
  then show ?thesis
    using common_unload_outcome [OF c ok] inv Requested
    by (auto simp: unload_core_def intro!: exI [of _ "ret = rc E BF_SUCCESS"])
next
  case (Freeing r i)
  have same: "core_files (core (free_pmodule E a n s)) = core_files (core s)"
    "g_vmm_status (core (free_pmodule E a n s)) = g_vmm_status (core s)" for a n
    using vmm_onlyD [OF call_free_rw_only, of E a n "core s"] by (simp_all add: free_pmodule_def core_files_def)
  show ?thesis
    using run inv Freeing same by (auto simp: unload_core_def split: if_splits)
next
  case (Unloaded r)
  then show ?thesis using run inv by simp
qed

lemma unload_core_other:
  assumes other: "other_request s s'" and inv: "unload_core U v fs t s"
  shows "unload_core U v fs t s'"
proof -
  obtain c k where s': "s' = s\<lparr>core := c, g_vcpuid := k\<rparr>" and calls: "vmm_calls (core s) c"
    using other by (auto simp: other_request_def)
  have "core_files c = core_files (core s)" using vmm_callsD(1,2) [OF calls] by (rule files_cong)
  then show ?thesis using inv vmm_callsD(6) [OF calls] by (simp add: unload_core_def s')
qed

interpretation lone_unload: shared_invariant "unload_step U E" "requests U E (quiet_requests U)"
    "\<lambda>ts s. codes_ok E \<and> (\<exists>t. ts = [t] \<and> unload_ok E R t s \<and> unload_core U v fs t s)" for U E R v fs
  by unfold_locales
    (auto simp: requests_def intro: unload_step_keeps unload_ok_other [OF quiet_other]
      unload_core_step unload_core_other [OF quiet_other])

text \<open>
  C24. An unload ioctl that is interrupted at its calls by any requests for the status, the log
  or the VCPU frees only what is live, and when it returns the table of the device is empty and
  the copies are freed. What that means for \<open>common.c\<close> depends on the answer. An unload that
  finds no VMM succeeds; one that finds a loaded VMM succeeds or leaves it corrupt; one that finds
  a running or corrupt VMM fails. After a success the table of \<open>common.c\<close> is empty too; after a failure
  \<open>common.c\<close> keeps every entry of its table, although the copies are freed all the same.
\<close>

theorem unload_among_requests_is_safe:
  assumes run: "unlocked_run (unload_step U E) (requests U E (quiet_requests U)) ([Requested], s) (ts, s')"
    and inv: "linux_inv E s" "linux_owns R s" and ok: "codes_ok E"
  shows "\<exists>t. ts = [t] \<and> live_blocks (core s') \<noteq> None \<and>
    (\<forall>r. t = Unloaded r \<longrightarrow>
      g_num_pmodules s' = 0 \<and> live_blocks (core s') = Some (held (core s') + R) \<and>
      (\<exists>b. r = (if b then BF_IOCTL_SUCCESS U else BF_IOCTL_FAILURE U) \<and>
        unload_outcome (g_vmm_status (core s)) (core_files (core s)) b
          (g_vmm_status (core s'), core_files (core s'))))"
proof -
  let ?v = "g_vmm_status (core s)" and ?fs = "core_files (core s)"
  have "unload_ok E R Requested s" "unload_core U ?v ?fs Requested s"
    using inv by (simp_all add: unload_ok_def unload_core_def)
  then obtain t where t: "ts = [t]" "unload_ok E R t s'" "unload_core U ?v ?fs t s'"
    using lone_unload.run_keeps [OF run, of R ?v ?fs] ok by blast
  have "live_blocks (core s') \<noteq> None"
    using t(2) by (auto simp: unload_ok_def linux_owns_def heap_ok_def split: unloading.splits)
  moreover have "g_num_pmodules s' = 0 \<and> live_blocks (core s') = Some (held (core s') + R)" if "t = Unloaded r" for r
    using t(2) that by (simp add: unload_ok_def linux_owns_def heap_ok_def live_pmodules_def)
  moreover have "\<exists>b. r = (if b then BF_IOCTL_SUCCESS U else BF_IOCTL_FAILURE U) \<and>
      unload_outcome ?v ?fs b (g_vmm_status (core s'), core_files (core s'))" if "t = Unloaded r" for r
    using t(3) that by (simp add: unload_core_def Let_def)
  ultimately show ?thesis using t(1) by blast
qed

theorem unload_among_requests_is_safe_witness:
  "\<exists>s'. unlocked_run (unload_step demo_user demo_env) (requests demo_user demo_env (quiet_requests demo_user))
      ([Requested], demo_one) ([Unloaded 0], s') \<and>
    g_num_pmodules s' = 0 \<and> live_blocks (core s') = Some (held (core s')) \<and>
    g_vmm_status (core s') = VMM_UNLOADED \<and> core_files (core s') = []"
proof -
  have le: "unat (g_num_pmodules demo_one) \<le> length (pmodules demo_one)" by (simp add: demo_one_owns)
  obtain r s' where r: "ioctl_unload_vmm demo_user demo_env demo_one = (r, s')" by force
  have "r = 0"
    using r by (rule unload_state)
      (use demo_one_owns(7) in \<open>auto elim!: common_unload_cases simp: demo_user_def\<close>)
  then have steps: "thread_steps (unload_step demo_user demo_env) (unat (g_num_pmodules demo_one) + 2) Requested demo_one =
      (Unloaded 0, s')"
    unfolding unload_steps_handler [OF le] r by simp
  have run: "unlocked_run (unload_step demo_user demo_env) (requests demo_user demo_env (quiet_requests demo_user))
      ([Requested], demo_one) ([Unloaded 0], s')"
    using thread_run [where ts = "[Requested]" and i = 0, unfolded nth_Cons_0, OF steps] by simp
  show ?thesis
    using unload_among_requests_is_safe [OF run demo_one_inv demo_one_owns(1) demo_codes] run demo_one_owns(7)
    by (auto simp: unload_outcome_def)
qed

section \<open>Two unloads free a copy twice\<close>

lemma unload_held:
  assumes "common_unload_vmm E s = (ret, s')"
  shows "held s' = held s \<or> held s' = {#}"
  using assms
proof (cases rule: common_unload_cases)
  case (fini_failed r t)
  have "held t = held s" by (rule vmm_only_held [OF call_vmm_only [OF fini_failed(2)]])
  then show ?thesis using fini_failed(5) by (simp add: held_def)
next
  case unloaded
  then show ?thesis using reset_fields(2,3) [OF unloaded(3)] by (simp add: held_def block_def)
next
  case (fini t)
  then show ?thesis using reset_fields(2,3) [OF fini(4)] by (simp add: held_def block_def)
qed simp_all

text \<open>
  C25. Two unload ioctls at the same time, on a device with at least one copy of a module,
  whatever the status of the VMM: there is a run in which both are in their loop, and the
  first copy has been freed twice in a row.
\<close>

theorem concurrent_unloads_free_twice:
  assumes owns: "linux_owns R s" and num: "0 < unat (g_num_pmodules s)"
    and len: "unat (g_num_pmodules s) \<le> length (pmodules s)"
    and once: "count (held (core s) + mset (live_pmodules s) + R)
      (pm_data (pmodules s ! 0), pm_size (pmodules s ! 0)) = 1"
  shows "\<exists>t r q l. unlocked_run (unload_step U E) (requests U E {}) ([Requested, Requested], s)
      ([Freeing r 1, Freeing q 1], t) \<and>
    trace (core t) = l @ [FreeRw (pm_data (pmodules s ! 0)) (pm_size (pmodules s ! 0)),
      FreeRw (pm_data (pmodules s ! 0)) (pm_size (pmodules s ! 0))] \<and>
    run heap_step l {#} \<noteq> None \<and> live_blocks (core t) = None"
proof -
  define b n where "b = pm_data (pmodules s ! 0)" and "n = pm_size (pmodules s ! 0)"
  obtain x c where c: "common_unload_vmm E (core s) = (x, c)" by force
  obtain y d where d: "common_unload_vmm E c = (y, d)" by force
  define r q where "r = (if x \<noteq> rc E BF_SUCCESS then BF_IOCTL_FAILURE U else BF_IOCTL_SUCCESS U)"
    and "q = (if y \<noteq> rc E BF_SUCCESS then BF_IOCTL_FAILURE U else BF_IOCTL_SUCCESS U)"
  let ?e = "call_free_rw E b n d"
  let ?t = "s\<lparr>core := call_free_rw E b n ?e\<rparr>"
  have "schedule (unload_step U E) [0, 1, 0, 1] ([Requested, Requested], s) = ([Freeing r 1, Freeing q 1], ?t)"
    using c d num by (simp add: with_core_def free_pmodule_def b_def n_def r_def q_def)
  then have run: "unlocked_run (unload_step U E) (requests U E {}) ([Requested, Requested], s)
      ([Freeing r 1, Freeing q 1], ?t)"
    using schedule_run [of "[0, 1, 0, 1]" "[Requested, Requested]" "unload_step U E" _ s] by simp
  have in_live: "(b, n) \<in># mset (live_pmodules s)"
  proof -
    have "live_pmodules s ! 0 = (b, n)" "0 < length (live_pmodules s)"
      using num len by (simp_all add: live_pmodules_def b_def n_def)
    then show ?thesis by (metis nth_mem set_mset_mset)
  qed
  have heap: "live_blocks d = Some (held d + (mset (live_pmodules s) + R))"
    using common_unload_heap [OF d] common_unload_heap [OF c] owns by (simp add: linux_owns_def heap_ok_def)
  have "(b, n) \<notin># held d + (mset (live_pmodules s) + R) - {#(b, n)#}"
  proof -
    have "held d = held (core s) \<or> held d = {#}" using unload_held [OF c] unload_held [OF d] by auto
    moreover have "count (held (core s)) (b, n) = 0" "count (mset (live_pmodules s)) (b, n) = 1" "count R (b, n) = 0"
    proof -
      have pos: "0 < count (mset (live_pmodules s)) (b, n)" using in_live unfolding count_greater_zero_iff .
      have "count (held (core s)) (b, n) + count (mset (live_pmodules s)) (b, n) + count R (b, n) = 1"
        using once unfolding b_def n_def count_union .
      then show "count (held (core s)) (b, n) = 0" "count (mset (live_pmodules s)) (b, n) = 1" "count R (b, n) = 0"
        using pos by linarith+
    qed
    ultimately show ?thesis by (auto simp: not_in_iff)
  qed
  then have "live_blocks ?e = Some (held d + (mset (live_pmodules s) + R) - {#(b, n)#})"
    "live_blocks (call_free_rw E b n ?e) = None"
    using heap in_live by (simp_all add: call_free_rw_def on_machine_def)
  moreover have "trace (call_free_rw E b n ?e) = trace d @ [FreeRw b n, FreeRw b n]"
    by (simp add: call_free_rw_def on_machine_def log_def)
  moreover have "run heap_step (trace d) {#} \<noteq> None" using heap by (simp add: live_blocks_def)
  ultimately show ?thesis
    unfolding b_def [symmetric] n_def [symmetric]
    by - (rule exI [of _ ?t], rule exI [of _ r], rule exI [of _ q], rule exI [of _ "trace d"],
      simp add: run [unfolded One_nat_def])
qed

theorem concurrent_unloads_free_twice_witness:
  "\<exists>t r q. unlocked_run (unload_step demo_user demo_env) (requests demo_user demo_env {})
      ([Requested, Requested], demo_one) ([Freeing r 1, Freeing q 1], t) \<and>
    (\<exists>l. trace (core t) = l @ [FreeRw 0x2000 16, FreeRw 0x2000 16]) \<and> live_blocks (core t) = None"
  using concurrent_unloads_free_twice [OF demo_one_owns(1), of demo_user demo_env]
  by (simp add: demo_one_owns) blast

section \<open>An unload frees a copy that \<open>common.c\<close> will load\<close>

text \<open>Threads of both kinds.\<close>

datatype handler = Adding adding | Unloading unloading

fun handler_step ::
  "'h linux_services \<Rightarrow> ('h, 'z) env_scheme \<Rightarrow> handler \<Rightarrow> 'h linux_state \<Rightarrow> handler \<times> 'h linux_state" where
  "handler_step U E (Adding t) s = map_prod Adding id (add_step U E t s)"
| "handler_step U E (Unloading t) s = map_prod Unloading id (unload_step U E t s)"

lemma handler_steps:
  "thread_steps (handler_step U E) n (Adding t) s = map_prod Adding id (thread_steps (add_step U E) n t s)"
  "thread_steps (handler_step U E) n (Unloading u) s = map_prod Unloading id (thread_steps (unload_step U E) n u s)"
  by (induction n arbitrary: t u s) (simp_all add: case_prod_beta)

lemma adding_run:
  assumes "thread_steps (add_step U E) n t s = (t', s')" and "i < length ts" and "ts ! i = Adding t"
  shows "unlocked_run (handler_step U E) g (ts, s) (ts[i := Adding t'], s')"
  by (rule thread_run [of _ n]) (simp_all add: assms handler_steps)

lemma unloading_run:
  assumes "thread_steps (unload_step U E) n t s = (t', s')" and "i < length ts" and "ts ! i = Unloading t"
  shows "unlocked_run (handler_step U E) g (ts, s) (ts[i := Unloading t'], s')"
  by (rule thread_run [of _ n]) (simp_all add: assms handler_steps)

lemma unload_unloaded_core:
  assumes "linux_owns R s" and "g_vmm_status (core s) = VMM_UNLOADED" and "codes_ok E"
  obtains c where "common_unload_vmm E (core s) = (rc E BF_SUCCESS, c)" and "g_vmm_status c = VMM_UNLOADED"
    and "g_num_modules c = 0" and "g_modules c = zero_modules E" and "held c = {#}"
    and "heap_ok (mset (live_pmodules s) + R) c"
proof -
  obtain ret c where c: "common_unload_vmm E (core s) = (ret, c)" by force
  have reset: "common_reset E (core s) = (rc E BF_SUCCESS, c)"
    by (rule unload_unloaded_driver [OF assms(2) c])
  have ret: "ret = rc E BF_SUCCESS" using c assms(2) by (cases rule: common_unload_cases) simp_all
  have "held c = {#}" using reset_fields(2,3) [OF reset] by (simp add: held_def block_def)
  moreover have "heap_ok (mset (live_pmodules s) + R) c"
    using common_unload_heap [OF c] assms(1) by (simp add: linux_owns_def)
  ultimately show thesis
    using that c ret reset_fields(1,4,7) [OF reset] by blast
qed

text \<open>
  C26. A thread adds a module while another one unloads an unloaded driver: there is a run
  in which both report success, \<open>common.c\<close> has registered the file of the new module and
  will load it, but the loop of the unload has freed the block of that file, and
  the table of the device is empty.
\<close>

theorem unload_frees_registered_module:
  assumes owns: "linux_owns R s" and st: "g_vmm_status (core s) = VMM_UNLOADED"
    and env: "env_ok E" and room: "unat (g_num_pmodules s) < MAX_NUM_MODULES E"
    and len: "length (pmodules s) = MAX_NUM_MODULES E"
    and c: "common_unload_vmm E (core s) = (ret, c)"
    and alloc: "call_alloc_rw E n c = (buf, d)" "n = g_module_length s" "buf \<noteq> 0" "n \<noteq> 0"
    and copy: "copy_from_user U buf f n (machine d) = (0, m)"
  shows "\<exists>t. unlocked_run (handler_step U E) (requests U E {})
      ([Unloading Requested, Adding (Entered f)], s)
      ([Unloading (Unloaded (BF_IOCTL_SUCCESS U)), Adding (Returned (BF_IOCTL_SUCCESS U))], t) \<and>
    g_vmm_status (core t) = VMM_UNLOADED \<and> core_files (core t) = [(buf, n)] \<and>
    g_num_pmodules t = 0 \<and> live_blocks (core t) = Some R"
proof -
  obtain c' where "common_unload_vmm E (core s) = (rc E BF_SUCCESS, c')"
    and c': "g_vmm_status c' = VMM_UNLOADED" "g_num_modules c' = 0" "g_modules c' = zero_modules E"
      "held c' = {#}" "heap_ok (mset (live_pmodules s) + R) c'"
    by (rule unload_unloaded_core [OF owns st env_okD(1) [OF env]])
  then have ret: "ret = rc E BF_SUCCESS" and cc: "c' = c" using c by simp_all
  let ?k = "unat (g_num_pmodules s)"
  let ?s1 = "s\<lparr>core := c\<rparr>"
  note only = call_alloc_rw_facts [OF alloc(1)]
  define e where "e = d\<lparr>machine := m, g_modules := (g_modules d)
      [0 := (g_modules d ! 0)\<lparr>bin_file := buf, bin_file_size := n\<rparr>], g_num_modules := 1\<rparr>"
  define s2 where "s2 = s\<lparr>core := e, pmodules := (pmodules s)[?k := \<lparr>pm_data = buf, pm_size = n\<rparr>],
      g_num_pmodules := g_num_pmodules s + 1\<rparr>"
  have add: "common_add_module E buf n (d\<lparr>machine := m\<rparr>) = (rc E BF_SUCCESS, e)"
    using alloc(3,4) c' vmm_onlyD(1,6) [OF only(1)] room unfolding cc e_def
    by (simp add: common_add_module_def common_vmm_status_def)
  have "ioctl_add_module U E f ?s1 = (BF_IOCTL_SUCCESS U, s2)"
    using room alloc copy add
    by (simp add: ioctl_add_module_def with_core_def with_machine_def s2_def)
  then have step2: "thread_steps (add_step U E) 4 (Entered f) ?s1 = (Returned (BF_IOCTL_SUCCESS U), s2)"
    by (simp add: add_steps_handler)
  have step1: "thread_steps (unload_step U E) 1 Requested s = (Freeing (BF_IOCTL_SUCCESS U) 0, ?s1)"
    using c ret by (simp add: with_core_def)
  have k: "unat (g_num_pmodules s2) = Suc ?k"
    using unat_incr [OF room env_okD(3) [OF env]] by (simp add: s2_def)
  obtain g where g: "free_pmodules E (take (unat (g_num_pmodules s2)) (pmodules s2)) s2 = s2\<lparr>core := g\<rparr>"
    "vmm_only e g"
    using free_pmodules_frame [of E "take (unat (g_num_pmodules s2)) (pmodules s2)" s2] by (auto simp: s2_def)
  define t where "t = s2\<lparr>core := g, g_num_pmodules := 0, pmodules := zero_pmodules E\<rparr>"
  have step3: "thread_steps (unload_step U E) (Suc ?k + 1) (Freeing (BF_IOCTL_SUCCESS U) 0) s2 =
      (Unloaded (BF_IOCTL_SUCCESS U), t)"
    using unloading_rest [of s2 U E "BF_IOCTL_SUCCESS U"] k g room len by (simp add: t_def s2_def)
  have run: "unlocked_run (handler_step U E) (requests U E {}) ([Unloading Requested, Adding (Entered f)], s)
      ([Unloading (Unloaded (BF_IOCTL_SUCCESS U)), Adding (Returned (BF_IOCTL_SUCCESS U))], t)"
  proof -
    let ?f = "handler_step U E" and ?g = "requests U E {}" and ?ok = "BF_IOCTL_SUCCESS U"
    have "unlocked_run ?f ?g ([Unloading Requested, Adding (Entered f)], s)
        ([Unloading (Freeing ?ok 0), Adding (Entered f)], ?s1)"
      using unloading_run [OF step1, of 0 "[Unloading Requested, Adding (Entered f)]"] by simp
    also have "unlocked_run ?f ?g ([Unloading (Freeing ?ok 0), Adding (Entered f)], ?s1)
        ([Unloading (Freeing ?ok 0), Adding (Returned ?ok)], s2)"
      using adding_run [OF step2, of 1 "[Unloading (Freeing ?ok 0), Adding (Entered f)]"] by simp
    also have "unlocked_run ?f ?g ([Unloading (Freeing ?ok 0), Adding (Returned ?ok)], s2)
        ([Unloading (Unloaded ?ok), Adding (Returned ?ok)], t)"
      using unloading_run [OF step3, of 0 "[Unloading (Freeing ?ok 0), Adding (Returned ?ok)]"] by simp
    finally show ?thesis .
  qed
  have live2: "live_pmodules s2 = live_pmodules s @ [(buf, n)]"
    using k room len by (simp add: live_pmodules_def s2_def take_update_Suc)
  have "heap_ok (add_mset (buf, n) (mset (live_pmodules s) + R)) d"
    using only(3) [OF c'(5) [unfolded cc]] alloc(3) by (simp add: block_def)
  then have "heap_ok (mset (live_pmodules s2) + R) e"
    unfolding live2 e_def by (simp add: heap_ok_def held_def)
  then have "heap_ok R g"
    using free_pmodules_heap [of "take (unat (g_num_pmodules s2)) (pmodules s2)" R s2 E] g(1)
    by (simp add: live_pmodules_def) (simp add: s2_def)
  moreover have "held g = {#}"
    using vmm_only_held [OF g(2)] vmm_only_held [OF only(1)] c'(4) cc by (simp add: e_def held_def)
  ultimately have "live_blocks (core t) = Some R" by (simp add: heap_ok_def t_def)
  moreover have "core_files e = [(buf, n)]"
    using vmm_onlyD(2) [OF only(1)] c'(3) cc room
    by (simp add: core_files_def e_def zero_modules_def take_Suc_conv_app_nth)
  then have "core_files (core t) = [(buf, n)]"
    using files_cong [OF vmm_onlyD(1,2) [OF g(2)]] by (simp add: t_def)
  moreover have "g_vmm_status (core t) = VMM_UNLOADED"
    using vmm_onlyD(6) [OF g(2)] vmm_onlyD(6) [OF only(1)] c'(1) cc by (simp add: t_def e_def)
  ultimately show ?thesis using run by (intro exI [of _ t]) (simp add: t_def)
qed

lemma demo_unload_alloc:
  "\<exists>ret c d. common_unload_vmm demo_env (core demo_one) = (ret, c) \<and>
    call_alloc_rw demo_env 16 c = (0x100000, d)"
  by (simp add: demo_one_def demo_device_def demo_eval numeral_3_eq_3)

theorem unload_frees_registered_module_witness:
  "\<exists>t. unlocked_run (handler_step demo_user demo_env) (requests demo_user demo_env {})
      ([Unloading Requested, Adding (Entered 0x7100)], demo_one)
      ([Unloading (Unloaded 0), Adding (Returned 0)], t) \<and>
    core_files (core t) = [(0x100000, 16)] \<and> live_blocks (core t) = Some {#}"
proof -
  obtain ret c d where c: "common_unload_vmm demo_env (core demo_one) = (ret, c)"
    and d: "call_alloc_rw demo_env 16 c = (0x100000, d)"
    using demo_unload_alloc by (elim exE conjE) (rule that)
  obtain m where m: "copy_from_user demo_user 0x100000 0x7100 16 (machine d) = (0, m)"
    by (simp add: demo_user_def)
  have codes: "BF_IOCTL_SUCCESS demo_user = 0" by (simp add: demo_user_def)
  from unload_frees_registered_module [OF demo_one_owns(1,7) demo_env_ok _ _ c d _ _ _ m] show ?thesis
    unfolding codes by (auto simp: demo_one_owns demo_consts)
qed

section \<open>Two threads store at once\<close>

text \<open>
  The last step of \<open>ioctl_add_module\<close> is three assignments, and each reads
  \<open>g_num_pmodules\<close> again. Here they are three steps, as on two CPUs.
\<close>

datatype storing =
    Store_data (buf_to_store: uint64)
  | Store_size
  | Count
  | Stored

fun store_step :: "storing \<Rightarrow> 'h linux_state \<Rightarrow> storing \<times> 'h linux_state" where
  "store_step (Store_data buf) s =
     (Store_size, s\<lparr>pmodules := (pmodules s)[unat (g_num_pmodules s) :=
        (pmodules s ! unat (g_num_pmodules s))\<lparr>pm_data := buf\<rparr>]\<rparr>)"
| "store_step Store_size s =
     (Count, s\<lparr>pmodules := (pmodules s)[unat (g_num_pmodules s) :=
        (pmodules s ! unat (g_num_pmodules s))\<lparr>pm_size := g_module_length s\<rparr>]\<rparr>)"
| "store_step Count s = (Stored, s\<lparr>g_num_pmodules := g_num_pmodules s + 1\<rparr>)"
| "store_step Stored s = (Stored, s)"

lemma written_pmodule [simp]:
  "(p :: pmodule)\<lparr>pm_data := a, pm_size := n\<rparr> = \<lparr>pm_data = a, pm_size = n\<rparr>"
  by (cases p) simp

text \<open>One thread alone: the last step of \<open>add_step\<close>.\<close>

lemma store_steps_alone:
  assumes "unat (g_num_pmodules s) < length (pmodules s)"
  shows "thread_steps store_step 3 (Store_data buf) s = (Stored, snd (add_step U E (Added buf) s))"
  using assms by (simp add: numeral_3_eq_3)

text \<open>
  C27. Two threads have registered their files, and store them in the table of the device at the
  same time: there is a run after which the table counts two more copies, but holds the
  block of the second thread only, and an entry that was not written. The block of the
  first is live and \<open>common.c\<close> will load it, but the unload ioctl, which frees what the table
  names, will not free it.
\<close>

theorem concurrent_stores_lose_a_copy:
  assumes inv: "tables_ok E ({#(a, n), (b, n)#} + R) {#(a, n), (b, n)#} s" and env: "env_ok E"
    and len: "g_module_length s = n" and ne: "a \<noteq> b" and new: "(a, n) \<notin> set (live_pmodules s)"
    and rest: "drop (unat (g_num_pmodules s)) (pmodules s) = replicate k \<lparr>pm_data = 0, pm_size = 0\<rparr>" and "a \<noteq> 0"
  shows "\<exists>t. unlocked_run store_step (\<lambda>s s'. False) ([Store_data a, Store_data b], s) ([Stored, Stored], t) \<and>
    live_pmodules t = live_pmodules s @ [(b, n), (0, 0)] \<and> (a, n) \<notin> set (live_pmodules t) \<and>
    (a, n) \<in> set (core_files (core t)) \<and> (\<exists>l. live_blocks (core t) = Some l \<and> (a, n) \<in># l)"
proof -
  let ?k = "unat (g_num_pmodules s)"
  let ?t = "s\<lparr>pmodules := (pmodules s)[?k := \<lparr>pm_data = b, pm_size = n\<rparr>], g_num_pmodules := g_num_pmodules s + 1 + 1\<rparr>"
  have "size (mset (core_files (core s))) = ?k + 2"
    using inv by (simp add: tables_ok_def live_pmodules_def)
  then have "length (core_files (core s)) = ?k + 2" by simp
  moreover have "vmm_inv E (core s)" using inv by (simp add: tables_ok_def)
  ultimately have room: "Suc ?k < MAX_NUM_MODULES E" using core_files_bound [of E "core s"] by simp
  then have k: "?k < length (pmodules s)" "Suc ?k < length (pmodules s)" using inv by (simp_all add: tables_ok_def)
  have num1: "unat (g_num_pmodules s + 1) = Suc ?k"
    by (rule unat_incr [OF Suc_lessD [OF room] env_okD(3) [OF env]])
  have "unat (g_num_pmodules s + 1) < MAX_NUM_MODULES E" using num1 room by simp
  from unat_incr [OF this env_okD(3) [OF env]]
  have num: "unat (g_num_pmodules s + 1 + 1) = Suc (Suc ?k)" using num1 by (simp del: add.assoc)
  have old: "pmodules s ! ?k = \<lparr>pm_data = 0, pm_size = 0\<rparr>" "pmodules s ! Suc ?k = \<lparr>pm_data = 0, pm_size = 0\<rparr>"
  proof -
    have "length (drop ?k (pmodules s)) = k" using rest by simp
    then have kk: "0 < k" "1 < k" using k by simp_all
    show "pmodules s ! ?k = \<lparr>pm_data = 0, pm_size = 0\<rparr>" "pmodules s ! Suc ?k = \<lparr>pm_data = 0, pm_size = 0\<rparr>"
      using arg_cong [OF rest, of "\<lambda>xs. xs ! 0"] arg_cong [OF rest, of "\<lambda>xs. xs ! 1"] k kk by simp_all
  qed
  have "schedule store_step [0, 1, 0, 1, 0, 1] ([Store_data a, Store_data b], s) = ([Stored, Stored], ?t)"
    using k len by simp
  then have run: "unlocked_run store_step (\<lambda>s s'. False) ([Store_data a, Store_data b], s) ([Stored, Stored], ?t)"
    using schedule_run [of "[0, 1, 0, 1, 0, 1]" "[Store_data a, Store_data b]" store_step _ s] by simp
  have live: "live_pmodules ?t = live_pmodules s @ [(b, n), (0, 0)]"
    using k num old by (simp add: live_pmodules_def take_Suc_conv_app_nth)
  have "set_mset (mset (core_files (core s))) = set_mset (mset (live_pmodules s) + {#(a, n), (b, n)#})"
    using inv by (simp only: tables_ok_def)
  then have known: "(a, n) \<in> set (core_files (core ?t))" by simp
  have heap: "\<exists>l. live_blocks (core ?t) = Some l \<and> (a, n) \<in># l" using tables_heap [OF inv] by simp
  show ?thesis
    using run live known heap ne new \<open>a \<noteq> 0\<close> by (intro exI [of _ ?t]) simp
qed

lemma demo_two_added:
  "\<exists>s'. schedule (add_step demo_user demo_env) [0, 0, 0, 1, 1, 1] ([Entered 0x7100, Entered 0x7200], demo_shared) =
      ([Added 0x100000, Added 0x101000], s') \<and> live_pmodules s' = [] \<and> g_module_length s' = 16 \<and>
    drop (unat (g_num_pmodules s')) (pmodules s') = replicate 3 \<lparr>pm_data = 0, pm_size = 0\<rparr>"
  by (simp add: demo_shared_def linux_defs demo_eval live_pmodules_def numeral_3_eq_3 align_down_def
      cong: prod.case_cong_weak)

theorem concurrent_stores_lose_a_copy_witness:
  "\<exists>s t. unlocked_run (add_step demo_user demo_env) (requests demo_user demo_env {})
      ([Entered 0x7100, Entered 0x7200], demo_shared) ([Added 0x100000, Added 0x101000], s) \<and>
    unlocked_run store_step (\<lambda>s s'. False) ([Store_data 0x100000, Store_data 0x101000], s) ([Stored, Stored], t) \<and>
    live_pmodules t = [(0x101000, 16), (0, 0)] \<and> (0x100000, 16) \<in> set (core_files (core t))"
proof -
  obtain s where s: "schedule (add_step demo_user demo_env) [0, 0, 0, 1, 1, 1] ([Entered 0x7100, Entered 0x7200], demo_shared) =
      ([Added 0x100000, Added 0x101000], s)" and live: "live_pmodules s = []" and len: "g_module_length s = 16"
    and rest: "drop (unat (g_num_pmodules s)) (pmodules s) = replicate 3 \<lparr>pm_data = 0, pm_size = 0\<rparr>"
    using demo_two_added by (elim exE conjE) (rule that)
  have run: "unlocked_run (add_step demo_user demo_env) (requests demo_user demo_env R)
      (map Entered [0x7100, 0x7200], demo_shared) ([Added 0x100000, Added 0x101000], s)" for R
    using schedule_run [of "[0, 0, 0, 1, 1, 1]" "[Entered 0x7100, Entered 0x7200]" "add_step demo_user demo_env" _ demo_shared] s
    by simp
  have "shared_inv demo_env 16 {#} (map Entered [0x7100, 0x7200]) demo_shared"
  proof -
    have "g_module_length demo_shared = 16" by (simp add: demo_shared_def)
    then show ?thesis using shared_start [OF demo_shared_ok, of "[0x7100, 0x7200]"] by simp
  qed
  then have "shared_inv demo_env 16 {#} [Added 0x100000, Added 0x101000] s"
    using adds.run_keeps [OF run, of 16 "{#}"] demo_env_ok by blast
  then have tables: "tables_ok demo_env ({#(0x100000, 16), (0x101000, 16)#} + {#}) {#(0x100000, 16), (0x101000, 16)#} s"
    by (simp add: shared_inv_def all_of_def add_mset_commute)
  have "(0x100000, 16) \<notin> set (live_pmodules s)" by (simp add: live)
  from concurrent_stores_lose_a_copy [OF tables demo_env_ok len _ this rest] show ?thesis
    using run [of "{}"] by (auto simp: live)
qed

end
