(* ===== verification/Windows_Device.thy ===== *)
theory Windows_Device
  imports Linux_Operations
begin

text \<open>
  The Windows driver: the ioctl handlers and the dispatch of \<open>src/src/arch/windows/queue.c\<close>,
  and the callbacks of \<open>driver.c\<close> and \<open>device.c\<close>. The framework (\<open>Wdf*\<close>) is a record of
  functions; a request is what the framework hands to the dispatch callback.
\<close>

section \<open>The framework\<close>

text \<open>
  \<open>retrieve_input n\<close> is \<open>WdfRequestRetrieveInputBuffer\<close> for at least \<open>n\<close> bytes: a status,
  the address and the size of the buffer. A status succeeds when it is not negative.
\<close>

record 'h windows_services =
  retrieve_input :: "uint64 \<Rightarrow> 'h machine \<Rightarrow> uint32 \<times> uint64 \<times> uint64"
  retrieve_output :: "uint64 \<Rightarrow> 'h machine \<Rightarrow> uint32 \<times> uint64 \<times> uint64"
  WdfDriverCreate :: "'h machine \<Rightarrow> uint32 \<times> 'h machine"
  WdfDeviceCreate :: "'h machine \<Rightarrow> uint32 \<times> 'h machine"
  WdfDeviceCreateDeviceInterface :: "'h machine \<Rightarrow> uint32 \<times> 'h machine"
  WdfIoQueueCreate :: "'h machine \<Rightarrow> uint32 \<times> 'h machine"
  STATUS_SUCCESS :: uint32
  STATUS_ACCESS_DENIED :: uint32
  win_addr_of_drr :: uint64
  win_sizeof_drr :: uint64
  win_status_code :: "vmm_status \<Rightarrow> int64"
  WIN_IOCTL_SUCCESS :: int64
  WIN_IOCTL_FAILURE :: int64
  WIN_ADD_MODULE :: uint32
  WIN_LOAD_VMM :: uint32
  WIN_UNLOAD_VMM :: uint32
  WIN_START_VMM :: uint32
  WIN_STOP_VMM :: uint32
  WIN_DUMP_VMM :: uint32
  WIN_VMM_STATUS :: uint32
  WIN_SET_VCPUID :: uint32

definition NT_SUCCESS :: "uint32 \<Rightarrow> bool" where
  "NT_SUCCESS status \<longleftrightarrow> 0 \<le> sint status"

record windows_request =
  OutputBufferLength :: uint64
  InputBufferLength :: uint64
  IoControlCode :: uint32

text \<open>What the framework is told of a request: the bytes of output, if set, and its status.\<close>

record completion =
  information :: "uint64 option"
  completed_with :: uint32

section \<open>Globals\<close>

record 'h windows_state =
  win_core :: "'h common_state"
  win_vcpuid :: uint64
  win_num_pmodules :: uint64
  win_pmodules :: "pmodule list"

definition windows_initial :: "('h, 'z) env_scheme \<Rightarrow> 'h machine \<Rightarrow> 'h windows_state" where
  "windows_initial E m =
     \<lparr>win_core = initial_state E m, win_vcpuid = 0, win_num_pmodules = 0,
      win_pmodules = zero_pmodules E\<rparr>"

definition win_call ::
  "('h common_state \<Rightarrow> 'r \<times> 'h common_state) \<Rightarrow> 'h windows_state \<Rightarrow> 'r \<times> 'h windows_state" where
  "win_call f s = (case f (win_core s) of (r, c) \<Rightarrow> (r, s\<lparr>win_core := c\<rparr>))"

definition win_update ::
  "('h machine \<Rightarrow> 'h machine) \<Rightarrow> 'h windows_state \<Rightarrow> 'h windows_state" where
  "win_update f s = s\<lparr>win_core := on_machine f (win_core s)\<rparr>"

section \<open>The handlers of \<open>queue.c\<close>\<close>

definition windows_ioctl_add_module ::
  "'h windows_services \<Rightarrow> ('h, 'z) env_scheme \<Rightarrow> uint64 \<Rightarrow> int64 \<Rightarrow> 'h windows_state
    \<Rightarrow> int64 \<times> 'h windows_state" where
  "windows_ioctl_add_module W E file len s =
     (if MAX_NUM_MODULES E \<le> unat (win_num_pmodules s) then (WIN_IOCTL_FAILURE W, s)
      else
        let (buf, s) = win_call (call_alloc_rw E len) s
        in if buf = 0 then (WIN_IOCTL_FAILURE W, s)
           else
             let s = win_update (platform_memcpy E buf file len) s;
                 (ret, s) = win_call (common_add_module E buf len) s
             in if ret \<noteq> rc E BF_SUCCESS
                then (WIN_IOCTL_FAILURE W, s\<lparr>win_core := call_free_rw E buf len (win_core s)\<rparr>)
                else
                  (WIN_IOCTL_SUCCESS W,
                   s\<lparr>win_pmodules := (win_pmodules s)
                        [unat (win_num_pmodules s) := \<lparr>pm_data = buf, pm_size = len\<rparr>],
                     win_num_pmodules := win_num_pmodules s + 1\<rparr>))"

text \<open>The loop over the copies of the modules, which it returns with \<open>platform_free_rwe\<close>.\<close>

fun windows_free_pmodules ::
  "('h, 'z) env_scheme \<Rightarrow> pmodule list \<Rightarrow> 'h windows_state \<Rightarrow> 'h windows_state" where
  "windows_free_pmodules E [] s = s"
| "windows_free_pmodules E (p # ps) s =
     windows_free_pmodules E ps
       (s\<lparr>win_core := call_free_rwe E (pm_data p) (pm_size p) (win_core s)\<rparr>)"

definition windows_ioctl_unload_vmm ::
  "'h windows_services \<Rightarrow> ('h, 'z) env_scheme \<Rightarrow> 'h windows_state \<Rightarrow> int64 \<times> 'h windows_state" where
  "windows_ioctl_unload_vmm W E s =
     (let (ret, s) = win_call (common_unload_vmm E) s;
          status = (if ret \<noteq> rc E BF_SUCCESS then WIN_IOCTL_FAILURE W else WIN_IOCTL_SUCCESS W);
          s = windows_free_pmodules E (take (unat (win_num_pmodules s)) (win_pmodules s)) s
      in (status, s\<lparr>win_num_pmodules := 0, win_pmodules := zero_pmodules E\<rparr>))"

definition windows_ioctl_load_vmm ::
  "'h windows_services \<Rightarrow> ('h, 'z) env_scheme \<Rightarrow> 'h windows_state
    \<Rightarrow> (int64 \<times> 'h windows_state) option" where
  "windows_ioctl_load_vmm W E s =
     (case common_load_vmm E (win_core s) of
        None \<Rightarrow> None
      | Some (ret, c) \<Rightarrow>
          let s = s\<lparr>win_core := c\<rparr>
          in if ret \<noteq> rc E BF_SUCCESS
             then (let (_, s) = windows_ioctl_unload_vmm W E s in Some (WIN_IOCTL_FAILURE W, s))
             else Some (WIN_IOCTL_SUCCESS W, s))"

definition windows_ioctl_stop_vmm ::
  "'h windows_services \<Rightarrow> ('h, 'z) env_scheme \<Rightarrow> 'h windows_state \<Rightarrow> int64 \<times> 'h windows_state" where
  "windows_ioctl_stop_vmm W E s =
     (let (ret, s) = win_call (common_stop_vmm E) s
      in (if ret \<noteq> rc E BF_SUCCESS then WIN_IOCTL_FAILURE W else WIN_IOCTL_SUCCESS W, s))"

definition windows_ioctl_start_vmm ::
  "'h windows_services \<Rightarrow> ('h, 'z) env_scheme \<Rightarrow> 'h windows_state \<Rightarrow> int64 \<times> 'h windows_state" where
  "windows_ioctl_start_vmm W E s =
     (let (ret, s) = win_call (common_start_vmm E) s
      in if ret \<noteq> rc E BF_SUCCESS
         then (let (_, s) = windows_ioctl_stop_vmm W E s in (WIN_IOCTL_FAILURE W, s))
         else (WIN_IOCTL_SUCCESS W, s))"

definition windows_ioctl_dump_vmm ::
  "'h windows_services \<Rightarrow> ('h, 'z) env_scheme \<Rightarrow> uint64 \<Rightarrow> 'h windows_state
    \<Rightarrow> int64 \<times> 'h windows_state" where
  "windows_ioctl_dump_vmm W E user_drr s =
     (let s = win_update (\<lambda>m. m\<lparr>mem := store_u64 (win_addr_of_drr W) 0 (mem m)\<rparr>) s;
          (ret, s) = win_call (common_dump_vmm E (win_addr_of_drr W) (win_vcpuid s)) s
      in if ret \<noteq> rc E BF_SUCCESS then (WIN_IOCTL_FAILURE W, s)
         else
           let drr = load_u64 (win_addr_of_drr W) (mem (machine (win_core s)));
               s = win_update (platform_memcpy E user_drr drr (win_sizeof_drr W)) s
           in (WIN_IOCTL_SUCCESS W, s))"

definition windows_ioctl_vmm_status ::
  "'h windows_services \<Rightarrow> uint64 \<Rightarrow> 'h windows_state \<Rightarrow> int64 \<times> 'h windows_state" where
  "windows_ioctl_vmm_status W status s =
     (let vmm_status = win_status_code W (common_vmm_status (win_core s))
      in if status = 0 then (WIN_IOCTL_FAILURE W, s)
         else (WIN_IOCTL_SUCCESS W,
               win_update (\<lambda>m. m\<lparr>mem := store_u64 status vmm_status (mem m)\<rparr>) s))"

definition windows_ioctl_set_vcpuid ::
  "'h windows_services \<Rightarrow> uint64 \<Rightarrow> 'h windows_state \<Rightarrow> int64 \<times> 'h windows_state" where
  "windows_ioctl_set_vcpuid W vcpuid s =
     (if vcpuid = 0 then (WIN_IOCTL_FAILURE W, s)
      else (WIN_IOCTL_SUCCESS W, s\<lparr>win_vcpuid := load_u64 vcpuid (mem (machine (win_core s)))\<rparr>))"

section \<open>Dispatch\<close>

text \<open>
  The \<open>switch\<close> of \<open>bareflankEvtIoDeviceControl\<close>: what the handler returns, or \<open>Inl ()\<close> for
  the default case; the outer \<open>option\<close> is \<open>None\<close> when the handler does not return.
\<close>

definition windows_switch ::
  "'h windows_services \<Rightarrow> ('h, 'z) env_scheme \<Rightarrow> uint32 \<Rightarrow> uint64 \<times> uint64 \<Rightarrow> uint64
    \<Rightarrow> 'h windows_state \<Rightarrow> ((unit + int64) \<times> 'h windows_state) option" where
  "windows_switch W E code input out s =
     (let answer = (\<lambda>(r, s). Some (Inr r, s)) in
      if code = WIN_ADD_MODULE W then answer (windows_ioctl_add_module W E (fst input) (snd input) s)
      else if code = WIN_LOAD_VMM W then
        (case windows_ioctl_load_vmm W E s of None \<Rightarrow> None | Some a \<Rightarrow> answer a)
      else if code = WIN_UNLOAD_VMM W then answer (windows_ioctl_unload_vmm W E s)
      else if code = WIN_START_VMM W then answer (windows_ioctl_start_vmm W E s)
      else if code = WIN_STOP_VMM W then answer (windows_ioctl_stop_vmm W E s)
      else if code = WIN_DUMP_VMM W then answer (windows_ioctl_dump_vmm W E out s)
      else if code = WIN_VMM_STATUS W then answer (windows_ioctl_vmm_status W out s)
      else if code = WIN_SET_VCPUID W then answer (windows_ioctl_set_vcpuid W (fst input) s)
      else Some (Inl (), s))"

definition bareflankEvtIoDeviceControl ::
  "'h windows_services \<Rightarrow> ('h, 'z) env_scheme \<Rightarrow> windows_request \<Rightarrow> 'h windows_state
    \<Rightarrow> (completion \<times> 'h windows_state) option" where
  "bareflankEvtIoDeviceControl W E req s =
     (let failure = \<lparr>information = None, completed_with = STATUS_ACCESS_DENIED W\<rparr>;
          (in_status, input) =
            (if InputBufferLength req \<noteq> 0
             then retrieve_input W (InputBufferLength req) (machine (win_core s))
             else (STATUS_SUCCESS W, 0, 0))
      in if InputBufferLength req \<noteq> 0 \<and> \<not> NT_SUCCESS in_status then Some (failure, s)
         else
           let (out_status, out, out_size) =
                 (if OutputBufferLength req \<noteq> 0
                  then retrieve_output W (OutputBufferLength req) (machine (win_core s))
                  else (STATUS_SUCCESS W, 0, 0))
           in if OutputBufferLength req \<noteq> 0 \<and> \<not> NT_SUCCESS out_status then Some (failure, s)
              else
                (case windows_switch W E (IoControlCode req) input out s of
                   None \<Rightarrow> None
                 | Some (Inl _, s) \<Rightarrow> Some (failure, s)
                 | Some (Inr ret, s) \<Rightarrow>
                     let info = (if OutputBufferLength req \<noteq> 0 then Some out_size else None)
                     in if ret \<noteq> WIN_IOCTL_SUCCESS W
                        then Some (failure\<lparr>information := info\<rparr>, s)
                        else Some (\<lparr>information = info, completed_with = STATUS_SUCCESS W\<rparr>, s)))"

definition bareflankEvtIoStop :: "'h windows_services \<Rightarrow> 'h windows_state \<Rightarrow> completion \<times> 'h windows_state" where
  "bareflankEvtIoStop W s = (\<lparr>information = None, completed_with = STATUS_SUCCESS W\<rparr>, s)"

section \<open>Creation and removal of the device\<close>

definition bareflankQueueInitialize ::
  "'h windows_services \<Rightarrow> ('h, 'z) env_scheme \<Rightarrow> 'h windows_state \<Rightarrow> uint32 \<times> 'h windows_state" where
  "bareflankQueueInitialize W E s =
     (let (status, m) = WdfIoQueueCreate W (machine (win_core s));
          s = win_update (\<lambda>_. m) s
      in if \<not> NT_SUCCESS status then (status, s)
         else
           let (ret, s) = win_call (common_init E) s
           in if ret \<noteq> rc E BF_SUCCESS then (STATUS_ACCESS_DENIED W, s) else (STATUS_SUCCESS W, s))"

definition bareflankCreateDevice ::
  "'h windows_services \<Rightarrow> ('h, 'z) env_scheme \<Rightarrow> 'h windows_state \<Rightarrow> uint32 \<times> 'h windows_state" where
  "bareflankCreateDevice W E s =
     (let (status, m) = WdfDeviceCreate W (machine (win_core s));
          s = win_update (\<lambda>_. m) s
      in if \<not> NT_SUCCESS status then (status, s)
         else
           let (status, m) = WdfDeviceCreateDeviceInterface W (machine (win_core s));
               s = win_update (\<lambda>_. m) s
           in if \<not> NT_SUCCESS status then (status, s)
              else bareflankQueueInitialize W E s)"

text \<open>
  The callbacks of \<open>driver.c\<close>. \<open>bareflankEvtDeviceAdd\<close> registers the two power callbacks
  and creates the device; \<open>DriverEntry\<close> registers \<open>bareflankEvtDeviceAdd\<close> and the clean-up.
\<close>

definition bareflankEvtDeviceAdd ::
  "'h windows_services \<Rightarrow> ('h, 'z) env_scheme \<Rightarrow> 'h windows_state \<Rightarrow> uint32 \<times> 'h windows_state" where
  "bareflankEvtDeviceAdd W E s =
     (let (status, s) = bareflankCreateDevice W E s
      in if \<not> NT_SUCCESS status then (status, s) else (STATUS_SUCCESS W, s))"

definition DriverEntry ::
  "'h windows_services \<Rightarrow> 'h windows_state \<Rightarrow> uint32 \<times> 'h windows_state" where
  "DriverEntry W s =
     (let (status, m) = WdfDriverCreate W (machine (win_core s));
          s = win_update (\<lambda>_. m) s
      in if \<not> NT_SUCCESS status then (status, s) else (STATUS_SUCCESS W, s))"

definition bareflankEvtDriverContextCleanup ::
  "('h, 'z) env_scheme \<Rightarrow> 'h windows_state \<Rightarrow> 'h windows_state" where
  "bareflankEvtDriverContextCleanup E s = snd (win_call (common_fini E) s)"

definition bareflankEvtDeviceD0Entry ::
  "'h windows_services \<Rightarrow> 'h windows_state \<Rightarrow> uint32 \<times> 'h windows_state" where
  "bareflankEvtDeviceD0Entry W s = (STATUS_SUCCESS W, s)"

definition bareflankEvtDeviceD0Exit ::
  "'h windows_services \<Rightarrow> ('h, 'z) env_scheme \<Rightarrow> 'h windows_state \<Rightarrow> uint32 \<times> 'h windows_state" where
  "bareflankEvtDeviceD0Exit W E s =
     (let (_, s) = win_call (common_fini E) s in (STATUS_SUCCESS W, s))"

end
