(* ===== verification/Windows_Operations.thy ===== *)
theory Windows_Operations
  imports Windows_Device
begin

text \<open>
  The Windows handlers compared with the Linux ones: adding a module, starting, stopping
  and dumping are the same functions on the state both devices share, with a copy that
  cannot fail. From there come the invariant of the Windows device and its effect on the
  status of the VMM; unloading, which frees the copies in another way, has its own lemmas.
\<close>

section \<open>The state both devices share\<close>

definition as_linux :: "uint64 \<Rightarrow> 'h windows_state \<Rightarrow> 'h linux_state" where
  "as_linux len s =
     \<lparr>core = win_core s, g_vcpuid = win_vcpuid s, g_module_length = len,
      g_num_pmodules = win_num_pmodules s, pmodules = win_pmodules s,
      notifier_registered = True, device_registered = True\<rparr>"

definition as_linux_services ::
  "'h windows_services \<Rightarrow> ('h, 'z) env_scheme \<Rightarrow> 'h linux_services" where
  "as_linux_services W E =
     \<lparr>copy_from_user = (\<lambda>dst src n m. (0, platform_memcpy E dst src n m)),
      copy_to_user = (\<lambda>dst src n m. (0, platform_memcpy E dst src n m)),
      misc_register = (\<lambda>m. (0, m)), misc_deregister = (\<lambda>m. m), addr_of_g_module_length = 0,
      addr_of_g_vcpuid = 0, addr_of_drr = win_addr_of_drr W, addr_of_vmm_status = 0,
      sizeof_drr = win_sizeof_drr W, vmm_status_code = win_status_code W,
      BF_IOCTL_SUCCESS = WIN_IOCTL_SUCCESS W, BF_IOCTL_FAILURE = WIN_IOCTL_FAILURE W,
      EINVAL = 0, EPERM = 0, NOTIFY_DONE = 0, IOCTL_ADD_MODULE = WIN_ADD_MODULE W,
      IOCTL_ADD_MODULE_LENGTH = 0, IOCTL_LOAD_VMM = WIN_LOAD_VMM W,
      IOCTL_UNLOAD_VMM = WIN_UNLOAD_VMM W, IOCTL_START_VMM = WIN_START_VMM W,
      IOCTL_STOP_VMM = WIN_STOP_VMM W, IOCTL_DUMP_VMM = WIN_DUMP_VMM W,
      IOCTL_VMM_STATUS = WIN_VMM_STATUS W, IOCTL_SET_VCPUID = WIN_SET_VCPUID W\<rparr>"

lemma as_linux_answers [simp]:
  "BF_IOCTL_SUCCESS (as_linux_services W E) = WIN_IOCTL_SUCCESS W"
  "BF_IOCTL_FAILURE (as_linux_services W E) = WIN_IOCTL_FAILURE W"
  by (simp_all add: as_linux_services_def)

lemma as_linux_core [simp]:
  "core (as_linux len s) = win_core s" "g_module_length (as_linux len s) = len"
  "g_num_pmodules (as_linux len s) = win_num_pmodules s" "pmodules (as_linux len s) = win_pmodules s"
  "g_vcpuid (as_linux len s) = win_vcpuid s"
  by (simp_all add: as_linux_def)

lemma as_linux_update:
  "as_linux len (s\<lparr>win_core := c\<rparr>) = (as_linux len s)\<lparr>core := c\<rparr>"
  by (simp add: as_linux_def)

lemmas win_defs = win_call_def win_update_def with_core_def with_machine_def update_machine_def Let_def

lemma windows_add_module_eq:
  "ioctl_add_module (as_linux_services W E) E file (as_linux len s) =
   map_prod id (as_linux len) (windows_ioctl_add_module W E file len s)"
  by (simp add: ioctl_add_module_def windows_ioctl_add_module_def win_defs free_pmodule_def
      as_linux_services_def as_linux_def on_machine_def case_prod_beta)

lemma windows_stop_eq:
  "ioctl_stop_vmm (as_linux_services W E) E (as_linux len s) =
   map_prod id (as_linux len) (windows_ioctl_stop_vmm W E s)"
  by (simp add: ioctl_stop_vmm_def windows_ioctl_stop_vmm_def win_defs as_linux_update split: prod.splits)

lemma windows_start_eq:
  "ioctl_start_vmm (as_linux_services W E) E (as_linux len s) =
   map_prod id (as_linux len) (windows_ioctl_start_vmm W E s)"
proof -
  obtain r c where c: "common_start_vmm E (win_core s) = (r, c)" by force
  show ?thesis
    using c windows_stop_eq [of W E len "s\<lparr>win_core := c\<rparr>"]
    by (simp add: ioctl_start_vmm_def windows_ioctl_start_vmm_def win_defs as_linux_update split: prod.splits)
qed

lemma windows_dump_eq:
  "ioctl_dump_vmm (as_linux_services W E) E user_drr (as_linux len s) =
   map_prod id (as_linux len) (windows_ioctl_dump_vmm W E user_drr s)"
  by (simp add: ioctl_dump_vmm_def windows_ioctl_dump_vmm_def win_defs as_linux_services_def
      as_linux_def on_machine_def case_prod_beta)

section \<open>The invariant\<close>

definition windows_inv :: "('h, 'z) env_scheme \<Rightarrow> 'h windows_state \<Rightarrow> bool" where
  "windows_inv E s \<longleftrightarrow> linux_inv E (as_linux 0 s)"

lemma inv_any_length: "linux_inv E (as_linux len s) = windows_inv E s"
proof -
  have "as_linux len s = (as_linux 0 s)\<lparr>g_module_length := len\<rparr>" by (simp add: as_linux_def)
  then show ?thesis by (simp add: windows_inv_def)
qed

lemma windows_inv_core: "windows_inv E s \<Longrightarrow> vmm_inv E (win_core s)"
  by (simp add: windows_inv_def linux_inv_def)

lemma windows_only_inv:
  assumes "windows_inv E s" and "vmm_calls (win_core s) c"
  shows "windows_inv E (s\<lparr>win_core := c\<rparr>)"
  using calls_inv [of "as_linux 0 s" c E] assms by (simp add: windows_inv_def as_linux_update)

lemma machine_calls: "vmm_calls c (on_machine f c)"
  by (simp add: vmm_calls_def vmm_only_def on_machine_def cong: pinned_cong live_cong exec_cong)

text \<open>Freeing the copies changes the machine and the trace only.\<close>

lemma call_free_rwe_calls: "vmm_only c (call_free_rwe E a n c)"
  by (simp add: vmm_only_def call_free_rwe_def on_machine_def log_def)

lemma windows_free_frame:
  "\<exists>c. windows_free_pmodules E ps s = s\<lparr>win_core := c\<rparr> \<and> vmm_only (win_core s) c \<and>
     (pinned (win_core s) = Some False \<longrightarrow> pinned c = Some False) \<and>
     live_blocks c = live_blocks (win_core s) \<and>
     trace c = trace (win_core s) @ map (\<lambda>p. FreeRwe (pm_data p) (pm_size p)) ps"
proof (induction ps arbitrary: s)
  case Nil
  show ?case by (intro exI [of _ "win_core s"]) simp
next
  case (Cons p ps)
  let ?c = "call_free_rwe E (pm_data p) (pm_size p) (win_core s)"
  let ?t = "s\<lparr>win_core := ?c\<rparr>"
  obtain c where c: "windows_free_pmodules E ps ?t = ?t\<lparr>win_core := c\<rparr>" "vmm_only ?c c"
    "pinned ?c = Some False \<longrightarrow> pinned c = Some False" "live_blocks c = live_blocks ?c"
    "trace c = trace ?c @ map (\<lambda>p. FreeRwe (pm_data p) (pm_size p)) ps"
    using Cons.IH [of ?t] by auto
  have "pinned (win_core s) = Some False \<longrightarrow> pinned ?c = Some False"
    "live_blocks ?c = live_blocks (win_core s)"
    by (auto simp: call_free_rwe_def on_machine_def split: option.splits)
  moreover have "trace ?c = trace (win_core s) @ [FreeRwe (pm_data p) (pm_size p)]"
    by (simp add: call_free_rwe_def on_machine_def log_def)
  ultimately show ?case
    using c vmm_only_trans [OF call_free_rwe_calls c(2)] by (intro exI [of _ c]) auto
qed

lemma windows_unload_state:
  assumes "windows_ioctl_unload_vmm W E s = (r, s')"
  obtains ret c d where "common_unload_vmm E (win_core s) = (ret, c)" and "vmm_only c d"
    and "pinned c = Some False \<longrightarrow> pinned d = Some False" and "live_blocks d = live_blocks c"
    and "trace d = trace c @ map (\<lambda>p. FreeRwe (pm_data p) (pm_size p))
           (take (unat (win_num_pmodules s)) (win_pmodules s))"
    and "s' = s\<lparr>win_core := d, win_num_pmodules := 0, win_pmodules := zero_pmodules E\<rparr>"
    and "r = (if ret = rc E BF_SUCCESS then WIN_IOCTL_SUCCESS W else WIN_IOCTL_FAILURE W)"
proof -
  obtain ret c where c: "common_unload_vmm E (win_core s) = (ret, c)" by force
  let ?t = "s\<lparr>win_core := c\<rparr>"
  let ?ps = "take (unat (win_num_pmodules s)) (win_pmodules s)"
  obtain d where d: "windows_free_pmodules E ?ps ?t = ?t\<lparr>win_core := d\<rparr>" "vmm_only c d"
    "pinned c = Some False \<longrightarrow> pinned d = Some False" "live_blocks d = live_blocks c"
    "trace d = trace c @ map (\<lambda>p. FreeRwe (pm_data p) (pm_size p)) ?ps"
    using windows_free_frame [of E ?ps ?t] by auto
  show thesis
    using assms c d(1)
    by (intro that [OF c d(2,3,4,5)]) (auto simp: windows_ioctl_unload_vmm_def win_call_def Let_def)
qed

lemma windows_unload_inv:
  assumes "windows_ioctl_unload_vmm W E s = (r, s')" and inv: "vmm_inv E (win_core s)"
  shows "windows_inv E s'"
  using assms(1)
proof (cases rule: windows_unload_state)
  case (1 ret c d)
  have c: "vmm_inv E c" by (rule common_unload_inv [OF 1(1) inv])
  have d: "vmm_inv E d"
    using vmm_only_inv [OF 1(2) _ c] 1(3) vmm_inv_pinned [OF c] by simp
  have "g_num_modules d = 0" if "g_vmm_status d = VMM_UNLOADED"
    using that unload_core_empty [OF 1(1)] vmm_onlyD(1,6) [OF 1(2)] by simp
  then show ?thesis
    using d 1(6) by (auto simp: windows_inv_def linux_inv_def modules_match_def live_pmodules_def
        core_files_def zero_pmodules_def)
qed

lemma windows_load_cases:
  assumes "windows_ioctl_load_vmm W E s = Some (r, s')"
  obtains (loaded) c where "common_load_vmm E (win_core s) = Some (rc E BF_SUCCESS, c)"
      and "s' = s\<lparr>win_core := c\<rparr>" and "r = WIN_IOCTL_SUCCESS W"
  | (failed) ret c q where "common_load_vmm E (win_core s) = Some (ret, c)" and "ret \<noteq> rc E BF_SUCCESS"
      and "windows_ioctl_unload_vmm W E (s\<lparr>win_core := c\<rparr>) = (q, s')" and "r = WIN_IOCTL_FAILURE W"
proof -
  obtain ret c where c: "common_load_vmm E (win_core s) = Some (ret, c)"
    using assms by (auto simp: windows_ioctl_load_vmm_def split: option.splits)
  obtain q t where t: "windows_ioctl_unload_vmm W E (s\<lparr>win_core := c\<rparr>) = (q, t)" by force
  show thesis
    using assms c t loaded [of c] failed [of ret c q]
    by (cases "ret = rc E BF_SUCCESS") (simp_all add: windows_ioctl_load_vmm_def)
qed

lemma windows_load_inv:
  assumes run: "windows_ioctl_load_vmm W E s = Some (r, s')" and env: "env_ok E" and inv: "windows_inv E s"
  shows "windows_inv E s'"
  using run
proof (cases rule: windows_load_cases)
  case (loaded c)
  have "g_vmm_status c = VMM_LOADED"
    using common_load_success_status(1) [OF loaded(1) env_okD(1) [OF env]] by simp
  then show ?thesis
    using common_load_inv [OF loaded(1) env windows_inv_core [OF inv]] inv loaded(2)
    by (simp add: windows_inv_def linux_inv_def)
next
  case (failed ret c q)
  have "vmm_inv E c" by (rule common_load_inv [OF failed(1) env windows_inv_core [OF inv]])
  then show ?thesis using windows_unload_inv [OF failed(3)] by simp
qed

text \<open>The handlers that are the Linux ones.\<close>

lemma windows_shared_inv:
  assumes env: "env_ok E" and inv: "windows_inv E s"
  shows "windows_ioctl_add_module W E addr len s = (r, s') \<Longrightarrow> windows_inv E s'"
    and "windows_ioctl_start_vmm W E s = (r, s') \<Longrightarrow> windows_inv E s'"
    and "windows_ioctl_stop_vmm W E s = (r, s') \<Longrightarrow> windows_inv E s'"
    and "windows_ioctl_dump_vmm W E drr s = (r, s') \<Longrightarrow> windows_inv E s'"
    and "windows_ioctl_vmm_status W status s = (r, s') \<Longrightarrow> windows_inv E s'"
    and "windows_ioctl_set_vcpuid W vcpuid s = (r, s') \<Longrightarrow> windows_inv E s'"
proof -
  let ?U = "as_linux_services W E"
  show "windows_inv E s'" if "windows_ioctl_add_module W E addr len s = (r, s')"
  proof -
    have "ioctl_add_module ?U E addr (as_linux len s) = (r, as_linux len s')"
      using that by (simp add: windows_add_module_eq)
    from ioctl_add_module_safe [OF this env] show ?thesis
      using inv by (simp add: linux_safe_def inv_any_length)
  qed
  show "windows_inv E s'" if "windows_ioctl_start_vmm W E s = (r, s')"
  proof -
    have "ioctl_start_vmm ?U E (as_linux 0 s) = (r, as_linux 0 s')"
      using that by (simp add: windows_start_eq)
    from ioctl_start_safe [OF this env] show ?thesis
      using inv by (simp add: linux_safe_def inv_any_length)
  qed
  show "windows_inv E s'" if "windows_ioctl_stop_vmm W E s = (r, s')"
  proof -
    have "ioctl_stop_vmm ?U E (as_linux 0 s) = (r, as_linux 0 s')"
      using that by (simp add: windows_stop_eq)
    from ioctl_stop_safe [OF this env] show ?thesis
      using inv by (simp add: linux_safe_def inv_any_length)
  qed
  show "windows_inv E s'" if "windows_ioctl_dump_vmm W E drr s = (r, s')"
  proof -
    have "ioctl_dump_vmm ?U E drr (as_linux 0 s) = (r, as_linux 0 s')"
      using that by (simp add: windows_dump_eq)
    from ioctl_dump_vmm_keeps [OF this] show ?thesis
      using inv by (simp add: keeps_def inv_any_length)
  qed
  show "windows_inv E s'" if "windows_ioctl_vmm_status W status s = (r, s')"
    using that inv windows_only_inv [OF inv machine_calls]
    by (auto simp: windows_ioctl_vmm_status_def win_update_def Let_def split: if_splits)
  show "windows_inv E s'" if "windows_ioctl_set_vcpuid W vcpuid s = (r, s')"
    using that inv
    by (auto simp: windows_ioctl_set_vcpuid_def windows_inv_def linux_inv_def modules_match_def
        live_pmodules_def split: if_splits)
qed

section \<open>The status of the VMM\<close>

definition win_services_ok :: "'h windows_services \<Rightarrow> bool" where
  "win_services_ok W \<longleftrightarrow> WIN_IOCTL_SUCCESS W \<noteq> WIN_IOCTL_FAILURE W \<and>
     STATUS_SUCCESS W \<noteq> STATUS_ACCESS_DENIED W"

lemma as_linux_services_ok: "win_services_ok W \<Longrightarrow> services_ok (as_linux_services W E)"
  by (simp add: win_services_ok_def services_ok_def)

lemma windows_unload_status:
  assumes run: "windows_ioctl_unload_vmm W E s = (r, s')" and ok: "codes_ok E" and w: "win_services_ok W"
  shows "lifecycle (g_vmm_status (win_core s)) Common_Unload (r = WIN_IOCTL_SUCCESS W)
    (g_vmm_status (win_core s'))"
  using run
proof (cases rule: windows_unload_state)
  case (1 ret c d)
  have "(r = WIN_IOCTL_SUCCESS W) = (ret = rc E BF_SUCCESS)"
    using 1(7) w by (auto simp: win_services_ok_def)
  then show ?thesis
    using unload_refines [OF 1(1) ok] vmm_onlyD(6) [OF 1(2)] 1(6) by simp
qed

lemma windows_load_status:
  assumes run: "windows_ioctl_load_vmm W E s = Some (r, s')" and ok: "codes_ok E" and w: "win_services_ok W"
  shows "if r = WIN_IOCTL_SUCCESS W
    then lifecycle (g_vmm_status (win_core s)) Common_Load True (g_vmm_status (win_core s'))
    else \<exists>st1 ok1. lifecycle (g_vmm_status (win_core s)) Common_Load False st1 \<and>
      lifecycle st1 Common_Unload ok1 (g_vmm_status (win_core s'))"
  using run
proof (cases rule: windows_load_cases)
  case (loaded c)
  then show ?thesis using load_refines [OF loaded(1) ok] by simp
next
  case (failed ret c q)
  have "lifecycle (g_vmm_status (win_core s)) Common_Load False (g_vmm_status c)"
    using load_refines [OF failed(1) ok] failed(2) by simp
  then show ?thesis
    using windows_unload_status [OF failed(3) ok w] failed(4) w by (auto simp: win_services_ok_def)
qed

text \<open>
  What a request does to the status: nothing when it fails before its handler runs,
  otherwise the step of the handler.
\<close>

definition windows_lifecycle ::
  "'h windows_services \<Rightarrow> vmm_status \<Rightarrow> windows_request \<Rightarrow> bool \<Rightarrow> vmm_status \<Rightarrow> bool" where
  "windows_lifecycle W st req ok st' =
     ((\<not> ok \<and> st' = st) \<or>
      (if IoControlCode req = WIN_ADD_MODULE W then st' = st \<and> (ok \<longrightarrow> st = VMM_UNLOADED)
       else if IoControlCode req = WIN_LOAD_VMM W then
         (if ok then lifecycle st Common_Load True st'
          else \<exists>st1 ok1. lifecycle st Common_Load False st1 \<and> lifecycle st1 Common_Unload ok1 st')
       else if IoControlCode req = WIN_UNLOAD_VMM W then lifecycle st Common_Unload ok st'
       else if IoControlCode req = WIN_START_VMM W then
         (if ok then lifecycle st Common_Start True st'
          else \<exists>st1 ok1. lifecycle st Common_Start False st1 \<and> lifecycle st1 Common_Stop ok1 st')
       else if IoControlCode req = WIN_STOP_VMM W then lifecycle st Common_Stop ok st'
       else st' = st))"

lemma windows_switch_safe:
  assumes run: "windows_switch W E code input out s = Some (a, s')" and env: "env_ok E"
    and w: "win_services_ok W" and inv: "windows_inv E s" and code: "code = IoControlCode req"
  shows "windows_inv E s'" and "windows_lifecycle W (g_vmm_status (win_core s)) req
    (a = Inr (WIN_IOCTL_SUCCESS W)) (g_vmm_status (win_core s'))"
proof -
  note ok = env_okD(1) [OF env] and core = windows_inv_core [OF inv]
  note shared = windows_shared_inv [OF env inv]
  note u = as_linux_services_ok [OF w, of E]
  have "windows_inv E s' \<and> windows_lifecycle W (g_vmm_status (win_core s)) req
    (a = Inr (WIN_IOCTL_SUCCESS W)) (g_vmm_status (win_core s'))"
  proof -
    consider (add) r where "code = WIN_ADD_MODULE W" "a = Inr r"
        "windows_ioctl_add_module W E (fst input) (snd input) s = (r, s')"
      | (load) r where "code \<noteq> WIN_ADD_MODULE W" "code = WIN_LOAD_VMM W" "a = Inr r"
        "windows_ioctl_load_vmm W E s = Some (r, s')"
      | (unload) r where "code \<notin> {WIN_ADD_MODULE W, WIN_LOAD_VMM W}" "code = WIN_UNLOAD_VMM W" "a = Inr r"
        "windows_ioctl_unload_vmm W E s = (r, s')"
      | (start) r where "code \<notin> {WIN_ADD_MODULE W, WIN_LOAD_VMM W, WIN_UNLOAD_VMM W}"
        "code = WIN_START_VMM W" "a = Inr r" "windows_ioctl_start_vmm W E s = (r, s')"
      | (stop) r where "code \<notin> {WIN_ADD_MODULE W, WIN_LOAD_VMM W, WIN_UNLOAD_VMM W, WIN_START_VMM W}"
        "code = WIN_STOP_VMM W" "a = Inr r" "windows_ioctl_stop_vmm W E s = (r, s')"
      | (rest) "code \<notin> {WIN_ADD_MODULE W, WIN_LOAD_VMM W, WIN_UNLOAD_VMM W, WIN_START_VMM W, WIN_STOP_VMM W}"
        "(\<exists>r. windows_ioctl_dump_vmm W E out s = (r, s')) \<or> (\<exists>r. windows_ioctl_vmm_status W out s = (r, s')) \<or>
         (\<exists>r. windows_ioctl_set_vcpuid W (fst input) s = (r, s')) \<or> s' = s"
      using run
      by (auto simp: windows_switch_def Let_def split: if_splits prod.splits option.splits)
    then show ?thesis
    proof cases
      case add
      have "ioctl_add_module (as_linux_services W E) E (fst input) (as_linux (snd input) s) =
          (r, as_linux (snd input) s')"
        using add(3) by (simp add: windows_add_module_eq)
      from add_module_status [OF this ok u] show ?thesis
        using add shared(1) code by (auto simp: windows_lifecycle_def)
    next
      case load
      show ?thesis
        using windows_load_status [OF load(4) ok w] windows_load_inv [OF load(4) env inv] load code
        by (auto simp: windows_lifecycle_def split: if_splits)
    next
      case unload
      show ?thesis
        using windows_unload_status [OF unload(4) ok w] windows_unload_inv [OF unload(4) core] unload code
        by (auto simp: windows_lifecycle_def)
    next
      case start
      have "ioctl_start_vmm (as_linux_services W E) E (as_linux 0 s) = (r, as_linux 0 s')"
        using start(4) by (simp add: windows_start_eq)
      from start_status [OF this env u] show ?thesis
        using start shared(2) core code by (auto simp: windows_lifecycle_def split: if_splits)
    next
      case stop
      have "ioctl_stop_vmm (as_linux_services W E) E (as_linux 0 s) = (r, as_linux 0 s')"
        using stop(4) by (simp add: windows_stop_eq)
      from stop_status [OF this ok u] show ?thesis
        using stop shared(3) core code by (auto simp: windows_lifecycle_def)
    next
      case rest
      have "g_vmm_status (win_core s') = g_vmm_status (win_core s)"
        if d: "windows_ioctl_dump_vmm W E out s = (r, s')" for r
        using keeps_status [OF ioctl_dump_vmm_keeps [of "as_linux_services W E" E out "as_linux 0 s" r
            "as_linux 0 s'"]] d by (simp add: windows_dump_eq)
      moreover have "g_vmm_status (win_core s') = g_vmm_status (win_core s)"
        if "windows_ioctl_vmm_status W out s = (r, s') \<or> windows_ioctl_set_vcpuid W (fst input) s = (r, s')" for r
        using that by (auto simp: windows_ioctl_vmm_status_def windows_ioctl_set_vcpuid_def win_update_def
            on_machine_def Let_def split: if_splits)
      ultimately have "g_vmm_status (win_core s') = g_vmm_status (win_core s)" using rest(2) by blast
      moreover have "windows_inv E s'" using rest(2) shared(4-6) inv by blast
      ultimately show ?thesis using rest(1) code by (simp add: windows_lifecycle_def)
    qed
  qed
  then show "windows_inv E s'" and "windows_lifecycle W (g_vmm_status (win_core s)) req
    (a = Inr (WIN_IOCTL_SUCCESS W)) (g_vmm_status (win_core s'))" by simp_all
qed

lemma windows_lifecycle_stays: "windows_lifecycle W st req False st"
  by (simp add: windows_lifecycle_def)

text \<open>A request: its handler, or nothing.\<close>

lemma device_control_cases:
  assumes "bareflankEvtIoDeviceControl W E req s = Some (fin, s')" and "win_services_ok W"
  obtains (refused) "s' = s" and "completed_with fin \<noteq> STATUS_SUCCESS W"
  | (handled) a input out where "windows_switch W E (IoControlCode req) input out s = Some (a, s')"
      and "(completed_with fin = STATUS_SUCCESS W) = (a = Inr (WIN_IOCTL_SUCCESS W))"
  using assms
  by (fastforce simp: bareflankEvtIoDeviceControl_def win_services_ok_def Let_def
      split: prod.splits if_splits option.splits sum.splits)

lemma device_control_safe:
  assumes run: "bareflankEvtIoDeviceControl W E req s = Some (fin, s')" and env: "env_ok E"
    and w: "win_services_ok W" and inv: "windows_inv E s"
  shows "windows_inv E s' \<and> windows_lifecycle W (g_vmm_status (win_core s)) req
    (completed_with fin = STATUS_SUCCESS W) (g_vmm_status (win_core s'))"
  using run w
proof (cases rule: device_control_cases)
  case refused
  then show ?thesis using inv windows_lifecycle_stays by simp
next
  case (handled a input out)
  show ?thesis
    using windows_switch_safe [OF handled(1) env w inv refl] handled(2) by simp
qed

interpretation windows: guarded_machine
  "bareflankEvtIoDeviceControl W E" "\<lambda>s. env_ok E \<and> win_services_ok W \<and> windows_inv E s"
  "\<lambda>s. g_vmm_status (win_core s)" "\<lambda>c. completed_with c = STATUS_SUCCESS W" "windows_lifecycle W"
  for W :: "'h windows_services" and E :: "('h, 'z) env_scheme"
  by unfold_locales (use device_control_safe in blast)+

end
