(* ===== verification/Windows_Platform.thy ===== *)
theory Windows_Platform
  imports Platform_Contract
begin

text \<open>
  The Windows port of the platform layer, \<open>src/src/arch/windows/platform.c\<close>, over a record
  of the kernel's routines. The port has no globals. It does not define
  \<open>platform_get_current_cpu_num\<close> and \<open>platform_restore_preemption\<close>, which \<open>common.c\<close>
  calls: the environment of the driver takes them from outside the port.
\<close>

section \<open>The kernel\<close>

datatype pool_type = NonPagedPool | NonPagedPoolExecute

text \<open>
  \<open>undefined_shift\<close> stands for \<open>1ULL << affinity\<close> with an amount that is not below 64,
  which C leaves undefined.
\<close>

record 'k windows_kernel =
  ExAllocatePoolWithTag :: "pool_type \<Rightarrow> uint64 \<Rightarrow> uint32 \<Rightarrow> 'k machine \<Rightarrow> uint64 \<times> 'k machine"
  ExFreePoolWithTag :: "uint64 \<Rightarrow> uint32 \<Rightarrow> 'k machine \<Rightarrow> 'k machine"
  MmGetPhysicalAddress :: "uint64 \<Rightarrow> 'k machine \<Rightarrow> uint64"
  KeQueryActiveProcessorCount :: "'k machine \<Rightarrow> uint32"
  KeSetSystemAffinityThreadEx :: "uint64 \<Rightarrow> 'k machine \<Rightarrow> uint64 \<times> 'k machine"
  KeRevertToUserAffinityThreadEx :: "uint64 \<Rightarrow> 'k machine \<Rightarrow> 'k machine"
  undefined_shift :: "int64 \<Rightarrow> uint64"

text \<open>The character constant \<open>'BFLK'\<close>.\<close>

definition BF_TAG :: uint32 where
  "BF_TAG = 0x42464C4B"

section \<open>The functions of \<open>platform.c\<close>\<close>

definition windows_platform_alloc_rw ::
  "'k windows_kernel \<Rightarrow> uint64 \<Rightarrow> 'k machine \<Rightarrow> uint64 \<times> 'k machine" where
  "windows_platform_alloc_rw K len m =
     (if len = 0 then (0, m) else ExAllocatePoolWithTag K NonPagedPool len BF_TAG m)"

definition windows_platform_alloc_rwe ::
  "'k windows_kernel \<Rightarrow> uint64 \<Rightarrow> 'k machine \<Rightarrow> uint64 \<times> 'k machine" where
  "windows_platform_alloc_rwe K len m =
     (if len = 0 then (0, m) else ExAllocatePoolWithTag K NonPagedPoolExecute len BF_TAG m)"

definition windows_platform_virt_to_phys :: "'k windows_kernel \<Rightarrow> uint64 \<Rightarrow> 'k machine \<Rightarrow> uint64" where
  "windows_platform_virt_to_phys K virt m = MmGetPhysicalAddress K virt m"

definition windows_platform_free_rw ::
  "'k windows_kernel \<Rightarrow> uint64 \<Rightarrow> uint64 \<Rightarrow> 'k machine \<Rightarrow> 'k machine" where
  "windows_platform_free_rw K addr len m = (if addr = 0 then m else ExFreePoolWithTag K addr BF_TAG m)"

definition windows_platform_free_rwe ::
  "'k windows_kernel \<Rightarrow> uint64 \<Rightarrow> uint64 \<Rightarrow> 'k machine \<Rightarrow> 'k machine" where
  "windows_platform_free_rwe K addr len m = (if addr = 0 then m else ExFreePoolWithTag K addr BF_TAG m)"

definition windows_platform_memset :: "uint64 \<Rightarrow> byte \<Rightarrow> uint64 \<Rightarrow> 'k machine \<Rightarrow> 'k machine" where
  "windows_platform_memset p v n m = (if p = 0 then m else m\<lparr>mem := mem_set p v n (mem m)\<rparr>)"

definition windows_platform_memcpy :: "uint64 \<Rightarrow> uint64 \<Rightarrow> uint64 \<Rightarrow> 'k machine \<Rightarrow> 'k machine" where
  "windows_platform_memcpy dst src n m =
     (if dst = 0 \<or> src = 0 then m else m\<lparr>mem := mem_copy dst src n (mem m)\<rparr>)"

definition windows_platform_start :: "'k machine \<Rightarrow> 'k machine" where
  "windows_platform_start m = m"

definition windows_platform_stop :: "'k machine \<Rightarrow> 'k machine" where
  "windows_platform_stop m = m"

definition windows_platform_num_cpus :: "'k windows_kernel \<Rightarrow> 'k machine \<Rightarrow> int64 \<times> 'k machine" where
  "windows_platform_num_cpus K m = (ucast (KeQueryActiveProcessorCount K m), m)"

definition windows_platform_set_affinity ::
  "'k windows_kernel \<Rightarrow> int64 \<Rightarrow> 'k machine \<Rightarrow> int64 \<times> 'k machine" where
  "windows_platform_set_affinity K affinity m =
     (let new_affinity = (if unat affinity < 64 then push_bit (unat affinity) 1
                          else undefined_shift K affinity)
      in KeSetSystemAffinityThreadEx K new_affinity m)"

definition windows_platform_restore_affinity ::
  "'k windows_kernel \<Rightarrow> int64 \<Rightarrow> 'k machine \<Rightarrow> 'k machine" where
  "windows_platform_restore_affinity K affinity m = KeRevertToUserAffinityThreadEx K affinity m"

definition windows_env :: "'k windows_kernel \<Rightarrow> 'k env \<Rightarrow> 'k env" where
  "windows_env K B =
     B\<lparr>platform_alloc_rw := windows_platform_alloc_rw K,
       platform_alloc_rwe := windows_platform_alloc_rwe K,
       platform_free_rw := windows_platform_free_rw K,
       platform_free_rwe := windows_platform_free_rwe K,
       platform_virt_to_phys := windows_platform_virt_to_phys K,
       platform_memset := windows_platform_memset,
       platform_memcpy := windows_platform_memcpy,
       platform_start := windows_platform_start,
       platform_stop := windows_platform_stop,
       platform_num_cpus := windows_platform_num_cpus K,
       platform_set_affinity := windows_platform_set_affinity K,
       platform_restore_affinity := windows_platform_restore_affinity K\<rparr>"

lemma windows_env_ok [simp]: "env_ok (windows_env K B) = env_ok B"
  by (simp add: windows_env_def env_ok_def codes_ok_def loader_ok_def)

lemma windows_env_consts [simp]:
  "rc (windows_env K B) = rc B" "MAX_NUM_MODULES (windows_env K B) = MAX_NUM_MODULES B"
  "STACK_SIZE (windows_env K B) = STACK_SIZE B"
  "THREAD_LOCAL_STORAGE_SIZE (windows_env K B) = THREAD_LOCAL_STORAGE_SIZE B"
  by (simp_all add: windows_env_def)

lemma windows_env_platform:
  "platform_alloc_rw (windows_env K B) = windows_platform_alloc_rw K"
  "platform_free_rw (windows_env K B) = windows_platform_free_rw K"
  "platform_free_rwe (windows_env K B) = windows_platform_free_rwe K"
  "platform_memset (windows_env K B) = windows_platform_memset"
  "platform_memcpy (windows_env K B) = windows_platform_memcpy"
  "platform_num_cpus (windows_env K B) = windows_platform_num_cpus K"
  "platform_set_affinity (windows_env K B) = windows_platform_set_affinity K"
  "platform_restore_affinity (windows_env K B) = windows_platform_restore_affinity K"
  by (simp_all add: windows_env_def)

text \<open>Both kinds of memory are returned to the pool by the same call.\<close>

lemma windows_free_same: "windows_platform_free_rwe K = windows_platform_free_rw K"
  by (simp add: fun_eq_iff windows_platform_free_rwe_def windows_platform_free_rw_def)

text \<open>
  The answer of \<open>platform_set_affinity\<close> is the affinity mask of the thread, which the
  core reads as an error when the mask has its highest bit set: on CPU 63.
\<close>

lemma windows_affinity_mask:
  assumes "unat cpu < 64"
  shows "windows_platform_set_affinity K cpu m =
      KeSetSystemAffinityThreadEx K (push_bit (unat cpu) 1) m"
    and "bit (push_bit (unat cpu) 1 :: uint64) i \<longleftrightarrow> i = unat cpu"
  using assms
  by (auto simp: windows_platform_set_affinity_def bit_exp_iff)

lemma mask_read_as_error: "sint (aff :: int64) < 0 \<longleftrightarrow> bit aff 63"
  using bit_last_iff [of aff] by simp

interpretation windows_layer: platform_layer "windows_env K B"
  for K :: "'k windows_kernel" and B :: "'k env"
proof unfold_locales
  show "0 \<le> sint (fst (platform_num_cpus (windows_env K B) m))" for m
    using ucast_nonneg by (simp add: windows_env_platform windows_platform_num_cpus_def)
  show "mem (platform_memset (windows_env K B) p v n m) = mem_set p v n (mem m)" if "p \<noteq> 0" for p v n m
    using that by (simp add: windows_env_platform windows_platform_memset_def)
qed

end
