(* ===== verification/Windows_Properties.thy ===== *)
theory Windows_Properties
  imports Windows_Operations Windows_Platform Demo
begin

text \<open>
  Properties of the Windows driver, and a machine for their witnesses: the pool hands out
  the pages of the concrete machine of \<open>Demo\<close>, and every request has its input at 0x7000
  and its output at 0x6000.
\<close>

section \<open>A concrete machine\<close>

definition demo_pool :: "demo linux_host windows_kernel" where
  "demo_pool =
     \<lparr>ExAllocatePoolWithTag = (\<lambda>ty len tag. ask_kernel (demo_vmalloc len)),
      ExFreePoolWithTag = (\<lambda>a tag m. m), MmGetPhysicalAddress = (\<lambda>a m. a),
      KeQueryActiveProcessorCount = (\<lambda>m. 2), KeSetSystemAffinityThreadEx = (\<lambda>mk m. (3, m)),
      KeRevertToUserAffinityThreadEx = (\<lambda>mk m. m), undefined_shift = (\<lambda>n. 0)\<rparr>"

definition demo_win_env :: "demo linux_host env" where
  "demo_win_env = windows_env demo_pool demo_bfsdk"

definition demo_wdf :: "demo linux_host windows_services" where
  "demo_wdf =
     \<lparr>retrieve_input = (\<lambda>n m. (0, 0x7000, n)), retrieve_output = (\<lambda>n m. (0, 0x6000, n)),
      WdfDriverCreate = (\<lambda>m. (0, m)), WdfDeviceCreate = (\<lambda>m. (0, m)),
      WdfDeviceCreateDeviceInterface = (\<lambda>m. (0, m)), WdfIoQueueCreate = (\<lambda>m. (0, m)),
      STATUS_SUCCESS = 0, STATUS_ACCESS_DENIED = 0xC0000022, win_addr_of_drr = 0x9110,
      win_sizeof_drr = 0x100,
      win_status_code = (\<lambda>v. case v of VMM_UNLOADED \<Rightarrow> 10 | VMM_LOADED \<Rightarrow> 20 | VMM_RUNNING \<Rightarrow> 30
        | VMM_CORRUPT \<Rightarrow> 99),
      WIN_IOCTL_SUCCESS = 0, WIN_IOCTL_FAILURE = -1, WIN_ADD_MODULE = 1, WIN_LOAD_VMM = 3,
      WIN_UNLOAD_VMM = 4, WIN_START_VMM = 5, WIN_STOP_VMM = 6, WIN_DUMP_VMM = 7,
      WIN_VMM_STATUS = 8, WIN_SET_VCPUID = 9\<rparr>"

definition demo_request :: "uint32 \<Rightarrow> uint64 \<Rightarrow> uint64 \<Rightarrow> windows_request" where
  "demo_request code n k = \<lparr>OutputBufferLength = k, InputBufferLength = n, IoControlCode = code\<rparr>"

lemma demo_win_env_ok: "env_ok demo_win_env"
  using demo_env_ok by (simp add: demo_win_env_def demo_env_def)

lemma demo_wdf_ok: "win_services_ok demo_wdf"
  by (simp add: win_services_ok_def demo_wdf_def)

lemma demo_win_consts:
  "rc demo_win_env = demo_rc" "MAX_NUM_MODULES demo_win_env = 3"
  "sizeof_bfelf_file demo_win_env = 2" "sizeof_bfelf_loader demo_win_env = 2"
  "sizeof_crt_info demo_win_env = 2"
  "platform_alloc_rw demo_win_env = windows_platform_alloc_rw demo_pool"
  "platform_memcpy demo_win_env = windows_platform_memcpy"
  "ExAllocatePoolWithTag demo_pool ty len tag = ask_kernel (demo_vmalloc len)"
  by (simp_all add: demo_win_env_def windows_env_def demo_bfsdk_def demo_pool_def)

definition demo_windows :: "demo linux_host windows_state" where
  "demo_windows = windows_initial demo_win_env (demo_machine [] [])"

lemmas windows_eval =
  bareflankEvtIoDeviceControl_def windows_switch_def windows_ioctl_add_module_def
  windows_ioctl_vmm_status_def win_call_def win_update_def demo_wdf_def demo_request_def NT_SUCCESS_def
  windows_initial_def zero_pmodules_def demo_win_consts windows_platform_alloc_rw_def
  windows_platform_memcpy_def demo_vmalloc_def ask_kernel_def from_kernel_def kernel_view_def
  common_add_module_def common_vmm_status_def demo_start call_defs Let_def

lemma demo_windows_add:
  "\<exists>s'. op_run (bareflankEvtIoDeviceControl demo_wdf demo_win_env) [demo_request 1 16 0] demo_windows
      = Some s' \<and> core_files (win_core s') = [(0x100000, 16)] \<and> g_vmm_status (win_core s') = VMM_UNLOADED"
  by (simp add: op_run_def demo_windows_def windows_eval core_files_def numeral_3_eq_3)

section \<open>Equivalence with the Linux device\<close>

text \<open>
  C32. On the state both drivers share, the Windows handlers that add a module, start, stop
  and dump the VMM are the Linux handlers, with the length of the module taken from the
  request and a copy that cannot fail: same answer, same calls, same state.
\<close>

theorem windows_handlers_are_linux_handlers:
  "ioctl_add_module (as_linux_services W E) E addr (as_linux len s) =
     map_prod id (as_linux len) (windows_ioctl_add_module W E addr len s) \<and>
   ioctl_start_vmm (as_linux_services W E) E (as_linux len s) =
     map_prod id (as_linux len) (windows_ioctl_start_vmm W E s) \<and>
   ioctl_stop_vmm (as_linux_services W E) E (as_linux len s) =
     map_prod id (as_linux len) (windows_ioctl_stop_vmm W E s) \<and>
   ioctl_dump_vmm (as_linux_services W E) E drr (as_linux len s) =
     map_prod id (as_linux len) (windows_ioctl_dump_vmm W E drr s)"
  by (intro conjI windows_add_module_eq windows_start_eq windows_stop_eq windows_dump_eq)

section \<open>Runs of requests\<close>

text \<open>
  C21. Whatever requests the framework delivers, one at a time, the tables of the device and
  of \<open>common.c\<close> keep their bounds, and while no VMM is loaded the files the next load reads
  are the copies in the table of the device; and the status of the VMM moves along the
  automaton of the device.
\<close>

theorem windows_requests_are_safe:
  assumes run: "op_run (bareflankEvtIoDeviceControl W E) reqs (windows_initial E m) = Some s'"
    and "env_ok E" and "win_services_ok W"
  shows "unat (win_num_pmodules s') \<le> MAX_NUM_MODULES E \<and> vmm_inv E (win_core s') \<and>
    (g_vmm_status (win_core s') = VMM_UNLOADED \<longrightarrow>
      core_files (win_core s') = map (\<lambda>p. (pm_data p, pm_size p))
        (take (unat (win_num_pmodules s')) (win_pmodules s'))) \<and>
    automaton_run (windows_lifecycle W) VMM_UNLOADED reqs (g_vmm_status (win_core s'))"
proof -
  have init: "windows_inv E (windows_initial E m)" "g_vmm_status (win_core (windows_initial E m)) = VMM_UNLOADED"
    using linux_initial_inv [OF initial_inv, of E m]
    by (simp_all add: windows_inv_def windows_initial_def linux_initial_def as_linux_def linux_inv_def
        modules_match_def live_pmodules_def initial_state_def)
  have "windows_inv E s'" using windows.run_inv [OF run] assms(2,3) init(1) by blast
  moreover have "automaton_run (windows_lifecycle W) VMM_UNLOADED reqs (g_vmm_status (win_core s'))"
    using windows.run_allowed [OF run] assms(2,3) init by metis
  ultimately show ?thesis
    by (simp add: windows_inv_def linux_inv_def modules_match_def live_pmodules_def)
qed

theorem windows_requests_are_safe_witness:
  "\<exists>s'. op_run (bareflankEvtIoDeviceControl demo_wdf demo_win_env) [demo_request 1 16 0] demo_windows
      = Some s' \<and> vmm_inv demo_win_env (win_core s')"
  using demo_windows_add windows_requests_are_safe [OF _ demo_win_env_ok demo_wdf_ok]
  unfolding demo_windows_def by blast

section \<open>Memory\<close>

text \<open>
  An unload request returns every copy of a module, once and in order, with
  \<open>platform_free_rwe\<close>, although it was allocated with \<open>platform_alloc_rw\<close>: by the
  contract of the platform layer the copies stay allocated, while the device has
  forgotten them. (On this port both functions return memory to the same pool.)
\<close>

theorem windows_unload_frees_as_executable:
  assumes run: "windows_ioctl_unload_vmm W E s = (r, s')"
    and heap: "heap_ok (mset (map (\<lambda>p. (pm_data p, pm_size p)) ps) + R) (win_core s)"
    and ps: "ps = take (unat (win_num_pmodules s)) (win_pmodules s)"
  shows "win_num_pmodules s' = 0 \<and>
    (\<exists>before. trace (win_core s') = before @ map (\<lambda>p. FreeRwe (pm_data p) (pm_size p)) ps) \<and>
    heap_ok (mset (map (\<lambda>p. (pm_data p, pm_size p)) ps) + R) (win_core s')"
  using run
proof (cases rule: windows_unload_state)
  case (1 ret c d)
  have "heap_ok (mset (map (\<lambda>p. (pm_data p, pm_size p)) ps) + R) c"
    by (rule common_unload_heap [OF 1(1) heap])
  then have "heap_ok (mset (map (\<lambda>p. (pm_data p, pm_size p)) ps) + R) d"
    using 1(4) vmm_only_held [OF 1(2)] by (simp add: heap_ok_def)
  then show ?thesis using 1(5,6) ps by auto
qed

theorem windows_unload_frees_as_executable_witness:
  "\<exists>s'. windows_ioctl_unload_vmm demo_wdf demo_win_env (demo_windows\<lparr>win_core := (win_core demo_windows)
        \<lparr>trace := [AllocRw 16 0x100000]\<rparr>, win_num_pmodules := 1,
        win_pmodules := [\<lparr>pm_data = 0x100000, pm_size = 16\<rparr>]\<rparr>) = (0, s') \<and>
      live_blocks (win_core s') = Some (held (win_core s') + {#(0x100000, 16)#})"
proof -
  let ?c = "(win_core demo_windows)\<lparr>trace := [AllocRw 16 0x100000]\<rparr>"
  let ?s = "demo_windows\<lparr>win_core := ?c, win_num_pmodules := 1,
        win_pmodules := [\<lparr>pm_data = 0x100000, pm_size = 16\<rparr>]\<rparr>"
  obtain r s' where run: "windows_ioctl_unload_vmm demo_wdf demo_win_env ?s = (r, s')" by force
  have heap: "heap_ok (mset (map (\<lambda>p. (pm_data p, pm_size p)) [\<lparr>pm_data = 0x100000, pm_size = 16\<rparr>]) + {#})
      (win_core ?s)"
    by (simp add: heap_ok_def live_blocks_def held_def block_def demo_windows_def windows_initial_def
        initial_state_def)
  have "r = 0"
    using run by (auto simp: windows_ioctl_unload_vmm_def win_call_def common_unload_vmm_def
        common_vmm_status_def demo_windows_def windows_initial_def unload_unloaded_def demo_wdf_def
        demo_win_consts demo_start Let_def split: prod.splits)
  then show ?thesis
    using windows_unload_frees_as_executable [OF run heap] run by (auto simp: heap_ok_def)
qed

text \<open>
  The status request succeeds and writes all eight bytes of the status at the start
  of the output buffer, however short a buffer the caller announced.
\<close>

theorem windows_status_ignores_buffer_size:
  assumes code: "IoControlCode req = WIN_VMM_STATUS W"
    and codes: "distinct [WIN_VMM_STATUS W, WIN_ADD_MODULE W, WIN_LOAD_VMM W, WIN_UNLOAD_VMM W,
      WIN_START_VMM W, WIN_STOP_VMM W, WIN_DUMP_VMM W]"
    and "InputBufferLength req = 0" and "OutputBufferLength req \<noteq> 0"
    and out: "retrieve_output W (OutputBufferLength req) (machine (win_core s)) = (st, addr, n)"
    and "NT_SUCCESS st" and "addr \<noteq> 0"
  shows "\<exists>s'. bareflankEvtIoDeviceControl W E req s =
      Some (\<lparr>information = Some n, completed_with = STATUS_SUCCESS W\<rparr>, s') \<and>
    load_u64 addr (mem (machine (win_core s'))) = win_status_code W (g_vmm_status (win_core s)) \<and>
    (\<forall>x. mem (machine (win_core s')) x \<noteq> mem (machine (win_core s)) x \<longrightarrow> x - addr < 8)"
  using assms
  by (auto simp: bareflankEvtIoDeviceControl_def windows_switch_def windows_ioctl_vmm_status_def
      win_update_def on_machine_def common_vmm_status_def Let_def store_u64_outside)

theorem windows_status_ignores_buffer_size_witness:
  "\<exists>s'. bareflankEvtIoDeviceControl demo_wdf demo_win_env (demo_request 8 0 1) demo_windows =
      Some (\<lparr>information = Some 1, completed_with = 0\<rparr>, s') \<and>
    load_u64 0x6000 (mem (machine (win_core s'))) = 10"
proof -
  have "retrieve_output demo_wdf (OutputBufferLength (demo_request 8 0 1)) m = (0, 0x6000, 1)" for m
    by (simp add: demo_wdf_def demo_request_def)
  from windows_status_ignores_buffer_size [OF _ _ _ _ this [of "machine (win_core demo_windows)"],
      where E = demo_win_env]
  show ?thesis
    by (auto simp: demo_wdf_def demo_request_def NT_SUCCESS_def demo_windows_def windows_initial_def
        initial_state_def)
qed

end
