(* ===== verification/Windows_Parallel.thy ===== *)
theory Windows_Parallel
  imports Linux_Parallel Windows_Properties
begin

text \<open>
  The queue of the Windows driver hands its requests out in parallel
  (\<open>WdfIoQueueDispatchParallel\<close>): the handler \<open>ioctl_add_module\<close> of \<open>queue.c\<close> step by step,
  and any number of such requests, each with a length of its own.
\<close>

section \<open>\<open>ioctl_add_module\<close> step by step\<close>

datatype win_adding =
    Win_Entered (win_file: uint64) (win_len: int64)
  | Win_Allocated (win_file: uint64) (win_buf: uint64) (win_len: int64)
  | Win_Copied (win_buf: uint64) (win_len: int64)
  | Win_Added (win_buf: uint64) (win_len: int64)
  | Win_Returned (win_answer: int64)

fun win_add_step ::
  "'h windows_services \<Rightarrow> ('h, 'z) env_scheme \<Rightarrow> win_adding \<Rightarrow> 'h windows_state
    \<Rightarrow> win_adding \<times> 'h windows_state" where
  "win_add_step W E (Win_Entered f len) s =
     (if MAX_NUM_MODULES E \<le> unat (win_num_pmodules s) then (Win_Returned (WIN_IOCTL_FAILURE W), s)
      else
        let (buf, s) = win_call (call_alloc_rw E len) s
        in if buf = 0 then (Win_Returned (WIN_IOCTL_FAILURE W), s) else (Win_Allocated f buf len, s))"
| "win_add_step W E (Win_Allocated f buf len) s =
     (Win_Copied buf len, win_update (platform_memcpy E buf f len) s)"
| "win_add_step W E (Win_Copied buf len) s =
     (let (ret, s) = win_call (common_add_module E buf len) s
      in if ret \<noteq> rc E BF_SUCCESS
         then (Win_Returned (WIN_IOCTL_FAILURE W), s\<lparr>win_core := call_free_rw E buf len (win_core s)\<rparr>)
         else (Win_Added buf len, s))"
| "win_add_step W E (Win_Added buf len) s =
     (Win_Returned (WIN_IOCTL_SUCCESS W),
      s\<lparr>win_pmodules := (win_pmodules s)
           [unat (win_num_pmodules s) := \<lparr>pm_data = buf, pm_size = len\<rparr>],
        win_num_pmodules := win_num_pmodules s + 1\<rparr>)"
| "win_add_step W E (Win_Returned r) s = (Win_Returned r, s)"

text \<open>A request that is alone takes the steps of the handler.\<close>

theorem win_add_steps_are_the_handler:
  "thread_steps (win_add_step W E) 4 (Win_Entered f len) s =
   map_prod Win_Returned id (windows_ioctl_add_module W E f len s)"
  by (simp add: windows_ioctl_add_module_def eval_nat_numeral Let_def split: prod.splits)

section \<open>The shared invariant\<close>

fun win_pending :: "win_adding \<Rightarrow> blocks" where
  "win_pending (Win_Entered f len) = {#}"
| "win_pending (Win_Allocated f buf len) = {#(buf, len)#}"
| "win_pending (Win_Copied buf len) = {#(buf, len)#}"
| "win_pending (Win_Added buf len) = {#(buf, len)#}"
| "win_pending (Win_Returned r) = {#}"

fun win_registered :: "win_adding \<Rightarrow> blocks" where
  "win_registered (Win_Added buf len) = {#(buf, len)#}"
| "win_registered t = {#}"

definition win_shared :: "('h, 'z) env_scheme \<Rightarrow> blocks \<Rightarrow> win_adding list \<Rightarrow> 'h windows_state \<Rightarrow> bool" where
  "win_shared E R ts s \<longleftrightarrow>
     tables_ok E (all_of win_pending ts + R) (all_of win_registered ts) (as_linux 0 s)"

lemma as_linux_free:
  "as_linux n (s\<lparr>win_core := call_free_rw E b len (win_core s)\<rparr>) = free_pmodule E b len (as_linux n s)"
  by (simp add: as_linux_def free_pmodule_def)

lemma as_linux_store:
  "as_linux n (s\<lparr>win_pmodules := ps, win_num_pmodules := k\<rparr>) = (as_linux n s)\<lparr>pmodules := ps, g_num_pmodules := k\<rparr>"
  by (simp add: as_linux_def)

lemma win_add_step_keeps:
  assumes run: "win_add_step W E t s = (t', s')" and env: "env_ok E"
    and inv: "tables_ok E (win_pending t + P) (win_registered t + Q) (as_linux 0 s)"
  shows "tables_ok E (win_pending t' + P) (win_registered t' + Q) (as_linux 0 s')"
proof (cases t)
  case (Win_Entered f n)
  obtain a c where a: "call_alloc_rw E n (win_core s) = (a, c)" by force
  have "tables_ok E (block a n + P) Q (as_linux 0 (s\<lparr>win_core := c\<rparr>))"
    unfolding as_linux_update by (rule tables_alloc) (use inv Win_Entered a in simp_all)
  then show ?thesis
    using run Win_Entered a inv by (auto simp: win_call_def block_def split: if_splits)
next
  case (Win_Allocated f buf n)
  have "vmm_calls (core (as_linux 0 s)) (on_machine (platform_memcpy E buf f n) (win_core s))"
    by (simp add: machine_calls)
  from tables_calls [OF inv this] show ?thesis
    using run Win_Allocated by (auto simp: win_update_def as_linux_update)
next
  case (Win_Copied buf n)
  obtain ret c where c: "common_add_module E buf n (win_core s) = (ret, c)" by force
  have inv': "tables_ok E (add_mset (buf, n) P) Q (as_linux 0 s)" using inv Win_Copied by simp
  show ?thesis
    using run Win_Copied c tables_add [OF inv' env, of buf n ret c] tables_free [OF inv']
    by (auto simp: win_call_def as_linux_free as_linux_update split: if_splits)
next
  case (Win_Added buf n)
  have "tables_ok E (add_mset (buf, n) P) (add_mset (buf, n) Q) (as_linux 0 s)"
    using inv Win_Added by simp
  from tables_store [OF this env] show ?thesis using run Win_Added by (auto simp: as_linux_store)
next
  case (Win_Returned r)
  then show ?thesis using run inv by simp
qed

lemma win_thread_keeps:
  assumes inv: "win_shared E R ts s" and env: "env_ok E" and i: "i < length ts"
    and run: "win_add_step W E (ts ! i) s = (t', s')"
  shows "win_shared E R (ts[i := t']) s'"
proof -
  obtain M N where M: "all_of win_pending ts = win_pending (ts ! i) + M"
      "\<And>t. all_of win_pending (ts[i := t]) = win_pending t + M"
    and N: "all_of win_registered ts = win_registered (ts ! i) + N"
      "\<And>t. all_of win_registered (ts[i := t]) = win_registered t + N"
    using both_at [OF i, where p = win_pending and q = win_registered] by metis
  have "tables_ok E (win_pending (ts ! i) + (M + R)) (win_registered (ts ! i) + N) (as_linux 0 s)"
    using inv M(1) N(1) by (simp add: win_shared_def ac_simps)
  from win_add_step_keeps [OF run env this] show ?thesis
    by (simp add: win_shared_def M(2) N(2) ac_simps)
qed

text \<open>The other requests that leave the tables alone.\<close>

definition win_quiet_requests ::
  "'h windows_services \<Rightarrow> ('h, 'z) env_scheme \<Rightarrow> 'h windows_state \<Rightarrow> 'h windows_state \<Rightarrow> bool" where
  "win_quiet_requests W E s s' \<longleftrightarrow>
     (\<exists>req c. bareflankEvtIoDeviceControl W E req s = Some (c, s') \<and>
       IoControlCode req \<notin> {WIN_ADD_MODULE W, WIN_LOAD_VMM W, WIN_UNLOAD_VMM W, WIN_START_VMM W, WIN_STOP_VMM W})"

lemma device_control_switch:
  assumes "bareflankEvtIoDeviceControl W E req s = Some (c, s')"
  obtains (unanswered) "s' = s"
  | (switched) a input out where "windows_switch W E (IoControlCode req) input out s = Some (a, s')"
  using assms
  by (fastforce simp: bareflankEvtIoDeviceControl_def Let_def split: prod.splits if_splits option.splits sum.splits)

lemma win_quiet_keeps:
  assumes quiet: "win_quiet_requests W E s s'" and inv: "win_shared E R ts s"
  shows "win_shared E R ts s'"
proof -
  obtain req c where run: "bareflankEvtIoDeviceControl W E req s = Some (c, s')"
    and code: "IoControlCode req \<notin> {WIN_ADD_MODULE W, WIN_LOAD_VMM W, WIN_UNLOAD_VMM W, WIN_START_VMM W, WIN_STOP_VMM W}"
    using quiet by (auto simp: win_quiet_requests_def)
  have other: "other_request (as_linux 0 s) (as_linux 0 s')"
    using run
  proof (cases rule: device_control_switch)
    case unanswered
    then show ?thesis by (simp add: other_refl)
  next
    case (switched a input out)
    consider r where "windows_ioctl_dump_vmm W E out s = (r, s')"
      | r where "windows_ioctl_vmm_status W out s = (r, s')"
      | r where "windows_ioctl_set_vcpuid W (fst input) s = (r, s')" | "s' = s"
      using switched code by (auto simp: windows_switch_def Let_def split: if_splits prod.splits)
    then show ?thesis
    proof cases
      case 1
      then have "ioctl_dump_vmm (as_linux_services W E) E out (as_linux 0 s) = (r, as_linux 0 s')"
        by (simp add: windows_dump_eq)
      then show ?thesis by (rule dump_other)
    next
      case 2
      then show ?thesis
        using other_requestI [of "as_linux 0 s"] machine_calls [of "win_core s"]
        by (auto simp: windows_ioctl_vmm_status_def win_update_def as_linux_update other_refl Let_def split: if_splits)
    next
      case 3
      have "as_linux 0 s' = (as_linux 0 s)\<lparr>core := core (as_linux 0 s), g_vcpuid := win_vcpuid s'\<rparr>"
        using 3 by (auto simp: windows_ioctl_set_vcpuid_def as_linux_def split: if_splits)
      moreover have "vmm_calls (core (as_linux 0 s)) (core (as_linux 0 s))" by simp
      ultimately show ?thesis unfolding other_request_def by blast
    qed (simp add: other_refl)
  qed
  show ?thesis using tables_other [OF other] inv by (simp add: win_shared_def)
qed

interpretation win_adds: shared_invariant "win_add_step W E" "win_quiet_requests W E"
    "\<lambda>ts s. env_ok E \<and> win_shared E R ts s" for W E R
  by unfold_locales (auto intro: win_thread_keeps win_quiet_keeps)

lemma windows_initial_ok:
  "windows_inv E (windows_initial E m)" "g_vmm_status (win_core (windows_initial E m)) = VMM_UNLOADED"
  "heap_ok (mset (live_pmodules (as_linux 0 (windows_initial E m)))) (win_core (windows_initial E m))"
  using linux_initial_inv [OF initial_inv, of E m] initial_heap(1) [of E m]
  by (simp_all add: windows_inv_def windows_initial_def linux_initial_def as_linux_def linux_inv_def
      modules_match_def live_pmodules_def initial_state_def)

lemma win_shared_start:
  assumes "windows_inv E s" and "heap_ok (mset (live_pmodules (as_linux 0 s)) + R) (win_core s)"
    and "g_vmm_status (win_core s) = VMM_UNLOADED"
  shows "win_shared E R (map (\<lambda>(f, n). Win_Entered f n) fs) s"
proof -
  have "all_of win_registered (map (\<lambda>(f, n). Win_Entered f n) fs) = {#}"
    "all_of win_pending (map (\<lambda>(f, n). Win_Entered f n) fs) = {#}"
    by (rule all_of_none; auto)+
  then show ?thesis
    using tables_start [of E "as_linux 0 s" R] assms by (simp add: win_shared_def windows_inv_def linux_owns_def)
qed

text \<open>
  C23. Any number of requests that add modules, of any lengths, are dispatched in parallel
  and switched at their calls, with requests for the status, the log or the VCPU in
  between: the tables stay within their bounds, and a request that is about to write to
  the table has room; every block has exactly one owner, with the length of its own
  request; and when all are answered, the files that \<open>common.c\<close> will load are those of the
  table of the device.
\<close>

theorem parallel_requests_are_safe:
  assumes run: "unlocked_run (win_add_step W E) (win_quiet_requests W E)
      (map (\<lambda>(f, n). Win_Entered f n) fs, s) (ts, s')" and env: "env_ok E"
    and inv: "windows_inv E s" "heap_ok (mset (live_pmodules (as_linux 0 s)) + R) (win_core s)"
      "g_vmm_status (win_core s) = VMM_UNLOADED"
  shows "vmm_inv E (win_core s') \<and> unat (win_num_pmodules s') \<le> MAX_NUM_MODULES E \<and>
    (\<forall>i < length ts. \<forall>buf n. ts ! i = Win_Added buf n \<longrightarrow> unat (win_num_pmodules s') < MAX_NUM_MODULES E) \<and>
    live_blocks (win_core s') = Some (held (win_core s') + (mset (live_pmodules (as_linux 0 s')) +
      all_of win_pending ts + R)) \<and>
    ((\<forall>t \<in> set ts. \<exists>r. t = Win_Returned r) \<longrightarrow>
      mset (core_files (win_core s')) = mset (live_pmodules (as_linux 0 s')))"
proof -
  have "win_shared E R ts s'"
    using win_adds.run_keeps [OF run, of R] env win_shared_start [OF inv] by blast
  then have shared: "tables_ok E (all_of win_pending ts + R) (all_of win_registered ts) (as_linux 0 s')"
    by (simp add: win_shared_def)
  have "unat (win_num_pmodules s') < MAX_NUM_MODULES E"
    if i: "i < length ts" and t: "ts ! i = Win_Added buf n" for i buf n
  proof -
    obtain M where "all_of win_registered ts = win_registered (ts ! i) + M" by (rule all_of_at [OF i])
    then have "tables_ok E (all_of win_pending ts + R) (add_mset (buf, n) M) (as_linux 0 s')"
      using shared t by simp
    from tables_room [OF this] show ?thesis by simp
  qed
  moreover have "all_of win_registered ts = {#}" if "\<forall>t \<in> set ts. \<exists>r. t = Win_Returned r"
    using that by (intro all_of_none) auto
  ultimately show ?thesis
    using shared by (auto simp: tables_ok_def heap_ok_def ac_simps)
qed

lemma demo_parallel:
  "\<exists>s'. schedule (win_add_step demo_wdf demo_win_env) [0, 1, 0, 1, 1, 0, 0, 1]
      ([Win_Entered 0x7000 16, Win_Entered 0x7100 32], demo_windows) = ([Win_Returned 0, Win_Returned 0], s') \<and>
    map snd (core_files (win_core s')) = [32, 16] \<and> map snd (live_pmodules (as_linux 0 s')) = [16, 32]"
  by (simp add: demo_windows_def windows_eval core_files_def live_pmodules_def numeral_3_eq_3
      align_down_def cong: prod.case_cong_weak)

theorem parallel_requests_are_safe_witness:
  "\<exists>s'. unlocked_run (win_add_step demo_wdf demo_win_env) (win_quiet_requests demo_wdf demo_win_env)
      ([Win_Entered 0x7000 16, Win_Entered 0x7100 32], demo_windows) ([Win_Returned 0, Win_Returned 0], s') \<and>
    map snd (core_files (win_core s')) = [32, 16] \<and>
    mset (core_files (win_core s')) = mset (live_pmodules (as_linux 0 s'))"
proof -
  obtain s' where s': "schedule (win_add_step demo_wdf demo_win_env) [0, 1, 0, 1, 1, 0, 0, 1]
      ([Win_Entered 0x7000 16, Win_Entered 0x7100 32], demo_windows) = ([Win_Returned 0, Win_Returned 0], s')"
    "map snd (core_files (win_core s')) = [32, 16]"
    using demo_parallel by (elim exE conjE) (rule that)
  have run: "unlocked_run (win_add_step demo_wdf demo_win_env) (win_quiet_requests demo_wdf demo_win_env)
      (map (\<lambda>(f, n). Win_Entered f n) [(0x7000, 16), (0x7100, 32)], demo_windows) ([Win_Returned 0, Win_Returned 0], s')"
    using schedule_run [of "[0, 1, 0, 1, 1, 0, 0, 1]" "[Win_Entered 0x7000 16, Win_Entered 0x7100 32]"
        "win_add_step demo_wdf demo_win_env" "win_quiet_requests demo_wdf demo_win_env" demo_windows] s'(1) by simp
  have start: "windows_inv demo_win_env demo_windows"
    "heap_ok (mset (live_pmodules (as_linux 0 demo_windows)) + {#}) (win_core demo_windows)"
    "g_vmm_status (win_core demo_windows) = VMM_UNLOADED"
    using windows_initial_ok [of demo_win_env "demo_machine [] []"] by (simp_all add: demo_windows_def)
  have "mset (core_files (win_core s')) = mset (live_pmodules (as_linux 0 s'))"
    using parallel_requests_are_safe [OF run demo_win_env_ok start] by auto
  then show ?thesis using run s'(2) by (intro exI [of _ s']) simp
qed

end
