(* ===== verification/Windows_Session.thy ===== *)
theory Windows_Session
  imports Windows_Properties Linux_Life
begin

text \<open>
  A whole session of requests on the Windows device, when the pool, the loader and the VMM do
  not fail and the framework delivers the buffers of the requests. The handlers that both
  devices share succeed by \<open>Device_Session\<close>.
\<close>

section \<open>A machine that does not fail\<close>

definition pool_good :: "'k windows_kernel \<Rightarrow> 'k env \<Rightarrow> int64 \<Rightarrow> ('k machine \<Rightarrow> bool) \<Rightarrow> bool" where
  "pool_good K B N G \<longleftrightarrow>
     (\<forall>m x. G m \<longrightarrow> G (m\<lparr>mem := x\<rparr>)) \<and>
     (\<forall>m n a m'. G m \<longrightarrow> n \<noteq> 0 \<longrightarrow> ExAllocatePoolWithTag K NonPagedPool n BF_TAG m = (a, m') \<longrightarrow>
        a \<noteq> 0 \<and> G m') \<and>
     (\<forall>m. G m \<longrightarrow> ucast (KeQueryActiveProcessorCount K m) = N) \<and>
     (\<forall>m mk r m'. G m \<longrightarrow> KeSetSystemAffinityThreadEx K mk m = (r, m') \<longrightarrow> 0 \<le> sint (r :: int64) \<and> G m') \<and>
     (\<forall>m k. G m \<longrightarrow> G (KeRevertToUserAffinityThreadEx K k m)) \<and>
     (\<forall>m k m'. G m \<longrightarrow> platform_get_current_cpu_num B m = (k, m') \<longrightarrow> G m') \<and>
     (\<forall>m. G m \<longrightarrow> G (platform_restore_preemption B m))"

definition windows_good :: "'k windows_kernel \<Rightarrow> 'k env \<Rightarrow> int64 \<Rightarrow> ('k machine \<Rightarrow> bool) \<Rightarrow> bool" where
  "windows_good K B N G \<longleftrightarrow> env_ok B \<and> STACK_SIZE B * 2 \<noteq> 0 \<and>
     THREAD_LOCAL_STORAGE_SIZE B * N \<noteq> 0 \<and> pool_good K B N G \<and> vmm_good B G"

lemma pool_goodD:
  assumes "pool_good K B N G" and "G m"
  shows "G (m\<lparr>mem := x\<rparr>)"
    and "n \<noteq> 0 \<Longrightarrow> ExAllocatePoolWithTag K NonPagedPool n BF_TAG m = (a, m') \<Longrightarrow> a \<noteq> 0 \<and> G m'"
    and "ucast (KeQueryActiveProcessorCount K m) = N"
    and "KeSetSystemAffinityThreadEx K mk m = (r, m') \<Longrightarrow> 0 \<le> sint (r :: int64) \<and> G m'"
    and "G (KeRevertToUserAffinityThreadEx K k m)"
    and "platform_get_current_cpu_num B m = (k, m') \<Longrightarrow> G m'"
    and "G (platform_restore_preemption B m)"
  using assms unfolding pool_good_def by - (elim conjE, metis)+

lemma windows_env_library:
  "bfelf_load (windows_env K B) = bfelf_load B"
  "bfelf_set_integer_args (windows_env K B) = bfelf_set_integer_args B"
  "bfelf_file_get_load_instr (windows_env K B) = bfelf_file_get_load_instr B"
  "vmm_entry (windows_env K B) = vmm_entry B" "vmcall (windows_env K B) = vmcall B"
  "platform_get_current_cpu_num (windows_env K B) = platform_get_current_cpu_num B"
  "platform_restore_preemption (windows_env K B) = platform_restore_preemption B"
  "platform_start (windows_env K B) = windows_platform_start"
  "platform_stop (windows_env K B) = windows_platform_stop"
  by (simp_all add: windows_env_def)

lemmas windows_fields = windows_env_library windows_env_platform

interpretation windows_coop: cooperative_world "windows_env K B" "\<lambda>m. windows_good K B N G \<and> G m" N
  for K :: "'k windows_kernel" and B :: "'k env" and N :: int64 and G :: "'k machine \<Rightarrow> bool"
proof unfold_locales
  fix m :: "'k machine"
  assume g: "windows_good K B N G \<and> G m"
  then have good: "windows_good K B N G" and pg: "pool_good K B N G" and vg: "vmm_good B G" and gm: "G m"
    by (simp_all add: windows_good_def)
  note d = pool_goodD [OF pg gm] and v = vmm_goodD [OF vg]
  show "env_ok (windows_env K B)" and "STACK_SIZE (windows_env K B) * 2 \<noteq> 0"
    using good by (simp_all add: windows_good_def)
  show "windows_good K B N G \<and> G (m\<lparr>mem := x\<rparr>)" for x using good d(1) by simp
  show "a \<noteq> 0 \<and> windows_good K B N G \<and> G m'" if "n \<noteq> 0" "platform_alloc_rw (windows_env K B) n m = (a, m')" for n a m'
    using good d(2) that by (simp add: windows_fields windows_platform_alloc_rw_def)
  show "windows_good K B N G \<and> G (platform_memset (windows_env K B) p b n m)" for p b n
    using g d(1) by (simp add: windows_fields windows_platform_memset_def)
  show "THREAD_LOCAL_STORAGE_SIZE (windows_env K B) * N \<noteq> 0" using good by (simp add: windows_good_def)
  then have "N \<noteq> 0" by auto
  then have "sint N \<noteq> sint (0 :: int64)" by (metis signed_word_eqI)
  then show "0 < sint N" using ucast_nonneg [of "KeQueryActiveProcessorCount K m"] d(3) by simp
  show "k = N \<and> windows_good K B N G \<and> G m'" if "platform_num_cpus (windows_env K B) m = (k, m')" for k m'
    using that g d(3) by (auto simp: windows_fields windows_platform_num_cpus_def)
  show "ret = rc (windows_env K B) BF_SUCCESS \<and> st' \<noteq> 0 \<and> windows_good K B N G \<and> G m'"
    if "bfelf_load (windows_env K B) ms n st info loader m = (ret, ms', st', info', loader', m')"
    for ms n st info loader ret ms' st' info' loader' m'
    using that good v(1) [OF gm] by (simp add: windows_fields)
  show "fst (bfelf_set_integer_args (windows_env K B) info r a1 a2 a3) = rc (windows_env K B) BF_SUCCESS"
    for info r a1 a2 a3 using v(2) by (simp add: windows_fields)
  show "fst (bfelf_file_get_load_instr (windows_env K B) ef i) = rc (windows_env K B) BFELF_SUCCESS" for ef i
    using v(3) by (simp add: windows_fields)
  show "windows_good K B N G \<and> G m'" if "platform_get_current_cpu_num (windows_env K B) m = (k, m')" for k m'
    using that good d(6) by (simp add: windows_fields)
  show "windows_good K B N G \<and> G (platform_restore_preemption (windows_env K B) m)"
    using good d(7) by (simp add: windows_fields)
  show "ret = rc (windows_env K B) BF_SUCCESS \<and> windows_good K B N G \<and> G m'"
    if "vmm_entry (windows_env K B) start rsp info m = (ret, info', m')" for start rsp info ret info' m'
    using that good v(4) [OF gm] by (simp add: windows_fields)
  show "0 \<le> sint k \<and> windows_good K B N G \<and> G m'"
    if "0 \<le> sint cpu" "sint cpu < sint N" "platform_set_affinity (windows_env K B) cpu m = (k, m')" for cpu k m'
    using that good d(4) by (auto simp: windows_fields windows_platform_set_affinity_def)
  show "windows_good K B N G \<and> G (platform_restore_affinity (windows_env K B) k m)" for k
    using good d(5) by (simp add: windows_fields windows_platform_restore_affinity_def)
  show "windows_good K B N G \<and> G (platform_start (windows_env K B) m)"
    "windows_good K B N G \<and> G (platform_stop (windows_env K B) m)"
    using g by (simp_all add: windows_fields windows_platform_start_def windows_platform_stop_def)
  show "r01 regs' = 0 \<and> windows_good K B N G \<and> G m'"
    if "vmcall (windows_env K B) regs m = (regs', m')" for regs regs' m'
    using that good v(5) [OF gm] by (simp add: windows_fields)
qed

section \<open>Requests\<close>

definition requests_distinct :: "'h windows_services \<Rightarrow> bool" where
  "requests_distinct W \<longleftrightarrow>
     distinct [WIN_ADD_MODULE W, WIN_LOAD_VMM W, WIN_UNLOAD_VMM W, WIN_START_VMM W, WIN_STOP_VMM W]"

text \<open>A request without buffers, and one whose input is a module.\<close>

definition plain_request :: "uint32 \<Rightarrow> windows_request" where
  "plain_request code = \<lparr>OutputBufferLength = 0, InputBufferLength = 0, IoControlCode = code\<rparr>"

definition module_request :: "'h windows_services \<Rightarrow> uint64 \<Rightarrow> windows_request" where
  "module_request W n = \<lparr>OutputBufferLength = 0, InputBufferLength = n, IoControlCode = WIN_ADD_MODULE W\<rparr>"

definition delivers :: "'h windows_services \<Rightarrow> ('h machine \<Rightarrow> bool) \<Rightarrow> uint64 \<Rightarrow> bool" where
  "delivers W G n \<longleftrightarrow> n \<noteq> 0 \<and>
     (\<forall>m st a k. G m \<longrightarrow> retrieve_input W n m = (st, a, k) \<longrightarrow> NT_SUCCESS st \<and> k \<noteq> 0)"

definition completes :: "'h windows_services \<Rightarrow> completion \<Rightarrow> bool" where
  "completes W c \<longleftrightarrow> completed_with c = STATUS_SUCCESS W"

lemma plain_request_step:
  assumes "windows_switch W E code (0, 0) 0 s = Some (Inr (WIN_IOCTL_SUCCESS W), s')"
  shows "\<exists>c. bareflankEvtIoDeviceControl W E (plain_request code) s = Some (c, s') \<and> completes W c"
  using assms by (simp add: bareflankEvtIoDeviceControl_def plain_request_def completes_def Let_def)


section \<open>The requests of a session\<close>

lemma memcpy_good:
  assumes "windows_good K B N G \<and> G m"
  shows "\<exists>m'. copy_from_user (as_linux_services W (windows_env K B)) dst file k m = (0, m') \<and>
    windows_good K B N G \<and> G m'"
  using assms windows_coop.coop_mem [of K B N G m]
  by (simp add: as_linux_services_def windows_fields windows_platform_memcpy_def)

text \<open>The Linux conditions on the device do not mention the length of the next module.\<close>

lemma any_length:
  "ready E G n (as_linux len s) = ready E G n (as_linux 0 s)"
  "serving E G N st (as_linux len s) = serving E G N st (as_linux 0 s)"
  by (simp_all add: ready_def serving_def inv_any_length linux_owns_def linux_clean_def live_pmodules_def)

lemma windows_initial_ready:
  assumes "windows_good K B N G" and "G m"
  shows "ready (windows_env K B) (\<lambda>m. windows_good K B N G \<and> G m) 0 (as_linux 0 (windows_initial (windows_env K B) m))"
proof -
  have "as_linux 0 (windows_initial E m) =
      (linux_initial E m)\<lparr>notifier_registered := True, device_registered := True\<rparr>" for E :: "'a env"
    by (simp add: as_linux_def windows_initial_def linux_initial_def)
  then show ?thesis
    using assms linux_initial_ok [of "windows_env K B" m]
    by (simp add: ready_def linux_inv_def modules_match_def linux_owns_def linux_clean_def live_pmodules_def)
      (simp add: linux_initial_def initial_state_def)
qed

abbreviation windows_session where
  "windows_session W E \<equiv> session (bareflankEvtIoDeviceControl W E) (completes W)"

lemma module_request_succeeds:
  assumes ready: "ready (windows_env K B) (\<lambda>m. windows_good K B N G \<and> G m) n (as_linux 0 s)"
    and "n < MAX_NUM_MODULES B" and "delivers W G k"
  shows "\<exists>s'. windows_session W (windows_env K B) [module_request W k] s = Some s' \<and>
    ready (windows_env K B) (\<lambda>m. windows_good K B N G \<and> G m) (n + 1) (as_linux 0 s')"
proof -
  let ?E = "windows_env K B"
  obtain st a len where input: "retrieve_input W k (machine (win_core s)) = (st, a, len)"
    using prod_cases3 by blast
  have nt: "NT_SUCCESS st" "len \<noteq> 0" "k \<noteq> 0"
    using assms(3) input ready by (auto simp: delivers_def ready_def)
  have "ready ?E (\<lambda>m. windows_good K B N G \<and> G m) n (as_linux len s)"
    using ready by (simp only: any_length(1) [of _ _ _ len])
  from windows_coop.add_module_succeeds [OF this _ _ memcpy_good, of W a]
  obtain t where t: "ioctl_add_module (as_linux_services W ?E) ?E a (as_linux len s) = (WIN_IOCTL_SUCCESS W, t)"
    "ready ?E (\<lambda>m. windows_good K B N G \<and> G m) (n + 1) t"
    using assms(2) nt(2) by auto
  then obtain s' where s': "windows_ioctl_add_module W ?E a len s = (WIN_IOCTL_SUCCESS W, s')" "t = as_linux len s'"
    unfolding windows_add_module_eq by (cases "windows_ioctl_add_module W ?E a len s") auto
  moreover have "ready ?E (\<lambda>m. windows_good K B N G \<and> G m) (n + 1) (as_linux 0 s')"
    using t(2) s'(2) by (simp add: any_length(1) [of _ _ _ len])
  ultimately show ?thesis
    using input nt
    by (simp add: bareflankEvtIoDeviceControl_def module_request_def windows_switch_def
        completes_def Let_def)
qed

lemma module_requests_succeed:
  assumes "ready (windows_env K B) (\<lambda>m. windows_good K B N G \<and> G m) n (as_linux 0 s)"
    and "n + length ks \<le> MAX_NUM_MODULES B" and "\<forall>k \<in> set ks. delivers W G k"
  shows "\<exists>s'. windows_session W (windows_env K B) (map (module_request W) ks) s = Some s' \<and>
    ready (windows_env K B) (\<lambda>m. windows_good K B N G \<and> G m) (n + length ks) (as_linux 0 s')"
  using assms
proof (induction ks arbitrary: n s)
  case Nil
  then show ?case by simp
next
  case (Cons k ks)
  obtain t where t: "windows_session W (windows_env K B) [module_request W k] s = Some t"
    "ready (windows_env K B) (\<lambda>m. windows_good K B N G \<and> G m) (n + 1) (as_linux 0 t)"
    using module_request_succeeds [OF Cons.prems(1)] Cons.prems(2,3) by force
  obtain s' where "windows_session W (windows_env K B) (map (module_request W) ks) t = Some s'"
    "ready (windows_env K B) (\<lambda>m. windows_good K B N G \<and> G m) (n + 1 + length ks) (as_linux 0 s')"
    using Cons.IH [OF t(2)] Cons.prems(2,3) by auto
  then show ?case using session_cons [OF t(1), of "map (module_request W) ks"] by auto
qed

lemma load_request_succeeds:
  assumes "requests_distinct W" and "ready (windows_env K B) (\<lambda>m. windows_good K B N G \<and> G m) n (as_linux 0 s)"
    and "0 < n" and "load_fits (windows_env K B) (snd (load_setup (windows_env K B) (win_core s)))"
  shows "\<exists>s'. windows_session W (windows_env K B) [plain_request (WIN_LOAD_VMM W)] s = Some s' \<and>
    serving (windows_env K B) (\<lambda>m. windows_good K B N G \<and> G m) N VMM_LOADED (as_linux 0 s') \<and>
    win_num_pmodules s' = win_num_pmodules s"
proof -
  let ?E = "windows_env K B"
  obtain c where c: "common_load_vmm ?E (win_core s) = Some (rc ?E BF_SUCCESS, c)"
    "serving ?E (\<lambda>m. windows_good K B N G \<and> G m) N VMM_LOADED ((as_linux 0 s)\<lparr>core := c\<rparr>)"
    using windows_coop.load_ioctl_succeeds [OF assms(2,3)] assms(4) by auto
  then have "windows_ioctl_load_vmm W ?E s = Some (WIN_IOCTL_SUCCESS W, s\<lparr>win_core := c\<rparr>)"
    by (simp add: windows_ioctl_load_vmm_def)
  then have "windows_switch W ?E (WIN_LOAD_VMM W) (0, 0) 0 s = Some (Inr (WIN_IOCTL_SUCCESS W), s\<lparr>win_core := c\<rparr>)"
    using assms(1) by (auto simp: windows_switch_def requests_distinct_def)
  then show ?thesis
    using plain_request_step [of W ?E "WIN_LOAD_VMM W"] c(2) by (fastforce simp: as_linux_update)
qed

lemma start_request_succeeds:
  assumes "requests_distinct W"
    and "serving (windows_env K B) (\<lambda>m. windows_good K B N G \<and> G m) N VMM_LOADED (as_linux 0 s)"
  shows "\<exists>s'. windows_session W (windows_env K B) [plain_request (WIN_START_VMM W)] s = Some s' \<and>
    serving (windows_env K B) (\<lambda>m. windows_good K B N G \<and> G m) N VMM_RUNNING (as_linux 0 s') \<and>
    win_num_pmodules s' = win_num_pmodules s"
proof -
  let ?E = "windows_env K B"
  obtain s' where s': "windows_ioctl_start_vmm W ?E s = (WIN_IOCTL_SUCCESS W, s')"
    "serving ?E (\<lambda>m. windows_good K B N G \<and> G m) N VMM_RUNNING (as_linux 0 s')"
    using windows_coop.start_ioctl_succeeds [OF assms(2), of "as_linux_services W ?E"]
    unfolding windows_start_eq by (cases "windows_ioctl_start_vmm W ?E s") auto
  then have "windows_switch W ?E (WIN_START_VMM W) (0, 0) 0 s = Some (Inr (WIN_IOCTL_SUCCESS W), s')"
    using assms(1) by (auto simp: windows_switch_def requests_distinct_def)
  moreover have "win_num_pmodules s' = win_num_pmodules s"
    using s'(1) by (auto simp: windows_ioctl_start_vmm_def windows_ioctl_stop_vmm_def win_call_def Let_def
        split: prod.splits if_splits)
  ultimately show ?thesis using plain_request_step [of W ?E "WIN_START_VMM W"] s'(2) by fastforce
qed

lemma stop_request_succeeds:
  assumes "requests_distinct W"
    and "serving (windows_env K B) (\<lambda>m. windows_good K B N G \<and> G m) N VMM_RUNNING (as_linux 0 s)"
  shows "\<exists>s'. windows_session W (windows_env K B) [plain_request (WIN_STOP_VMM W)] s = Some s' \<and>
    serving (windows_env K B) (\<lambda>m. windows_good K B N G \<and> G m) N VMM_LOADED (as_linux 0 s') \<and>
    win_num_pmodules s' = win_num_pmodules s"
proof -
  let ?E = "windows_env K B"
  obtain s' where s': "windows_ioctl_stop_vmm W ?E s = (WIN_IOCTL_SUCCESS W, s')"
    "serving ?E (\<lambda>m. windows_good K B N G \<and> G m) N VMM_LOADED (as_linux 0 s')"
    using windows_coop.stop_ioctl_succeeds [OF assms(2), of "as_linux_services W ?E"]
    unfolding windows_stop_eq by (cases "windows_ioctl_stop_vmm W ?E s") auto
  then have "windows_switch W ?E (WIN_STOP_VMM W) (0, 0) 0 s = Some (Inr (WIN_IOCTL_SUCCESS W), s')"
    using assms(1) by (auto simp: windows_switch_def requests_distinct_def)
  moreover have "win_num_pmodules s' = win_num_pmodules s"
    using s'(1) by (auto simp: windows_ioctl_stop_vmm_def win_call_def Let_def split: prod.splits if_splits)
  ultimately show ?thesis using plain_request_step [of W ?E "WIN_STOP_VMM W"] s'(2) by fastforce
qed

lemma unload_request_succeeds:
  assumes "requests_distinct W"
    and serve: "serving (windows_env K B) (\<lambda>m. windows_good K B N G \<and> G m) N VMM_LOADED (as_linux 0 s)"
  shows "\<exists>s' (copies :: pmodule list) before. windows_session W (windows_env K B) [plain_request (WIN_UNLOAD_VMM W)] s = Some s' \<and>
    g_vmm_status (win_core s') = VMM_UNLOADED \<and> win_num_pmodules s' = 0 \<and>
    length copies = unat (win_num_pmodules s) \<and>
    trace (win_core s') = before @ map (\<lambda>p. FreeRwe (pm_data p) (pm_size p)) copies \<and>
    live_blocks (win_core s') = Some (mset (map (\<lambda>p. (pm_data p, pm_size p)) copies))"
proof -
  let ?E = "windows_env K B"
  let ?copies = "take (unat (win_num_pmodules s)) (win_pmodules s)"
  obtain c where c: "common_unload_vmm ?E (win_core s) = (rc ?E BF_SUCCESS, c)"
    "g_vmm_status c = VMM_UNLOADED" "live_blocks c = Some (mset (live_pmodules (as_linux 0 s)))"
    using windows_coop.unload_core_succeeds [OF serve] by auto
  obtain r s' where run: "windows_ioctl_unload_vmm W ?E s = (r, s')" by force
  have len: "length ?copies = unat (win_num_pmodules s)"
    using serve by (simp add: serving_def linux_inv_def)
  from run show ?thesis
  proof (cases rule: windows_unload_state)
    case (1 ret c' d)
    have r: "r = WIN_IOCTL_SUCCESS W" "c' = c" using 1(1,7) c(1) by simp_all
    have "windows_switch W ?E (WIN_UNLOAD_VMM W) (0, 0) 0 s = Some (Inr (WIN_IOCTL_SUCCESS W), s')"
      using run r(1) assms(1) by (auto simp: windows_switch_def requests_distinct_def)
    then obtain a where "bareflankEvtIoDeviceControl W ?E (plain_request (WIN_UNLOAD_VMM W)) s = Some (a, s')"
      "completes W a"
      using plain_request_step by blast
    then have "windows_session W ?E [plain_request (WIN_UNLOAD_VMM W)] s = Some s' \<and>
      g_vmm_status (win_core s') = VMM_UNLOADED \<and> win_num_pmodules s' = 0 \<and>
      length ?copies = unat (win_num_pmodules s) \<and>
      trace (win_core s') = trace c @ map (\<lambda>p. FreeRwe (pm_data p) (pm_size p)) ?copies \<and>
      live_blocks (win_core s') = Some (mset (map (\<lambda>p. (pm_data p, pm_size p)) ?copies))"
      using c(2,3) r(2) 1(4,5,6) vmm_onlyD(6) [OF 1(2)] len by (simp add: live_pmodules_def)
    then show ?thesis by blast
  qed
qed

section \<open>The session\<close>

text \<open>
  C11. On Windows, with a pool, a loader and a VMM that do not fail, and a framework that
  delivers the buffers: every request of a session is completed with success, for any number
  of modules that the table can hold. The VMM is loaded after the load request, running
  on every CPU after the start request, loaded again after the stop request and unloaded at the
  end. The device then has forgotten the copies of the modules: each was returned, once and in
  order, but with \<open>platform_free_rwe\<close> although \<open>platform_alloc_rw\<close> allocated it, so by the
  contract of the platform layer they are what is left allocated.
\<close>

theorem windows_session_succeeds:
  assumes good: "windows_good K B N G" "G m" and cmds: "requests_distinct W"
    and ks: "ks \<noteq> []" "length ks \<le> MAX_NUM_MODULES B" "\<forall>k \<in> set ks. delivers W G k"
    and fits: "\<And>s0. op_run (bareflankEvtIoDeviceControl W (windows_env K B)) (map (module_request W) ks)
        (windows_initial (windows_env K B) m) = Some s0 \<Longrightarrow>
      load_fits (windows_env K B) (snd (load_setup (windows_env K B) (win_core s0)))"
  shows "\<exists>s1 s2 s3 s4 (copies :: pmodule list) before.
    windows_session W (windows_env K B) (map (module_request W) ks @ [plain_request (WIN_LOAD_VMM W)])
      (windows_initial (windows_env K B) m) = Some s1 \<and> g_vmm_status (win_core s1) = VMM_LOADED \<and>
    windows_session W (windows_env K B) [plain_request (WIN_START_VMM W)] s1 = Some s2 \<and>
    g_vmm_status (win_core s2) = VMM_RUNNING \<and> g_num_cpus_started (win_core s2) = N \<and>
    windows_session W (windows_env K B) [plain_request (WIN_STOP_VMM W)] s2 = Some s3 \<and>
    g_vmm_status (win_core s3) = VMM_LOADED \<and>
    windows_session W (windows_env K B) [plain_request (WIN_UNLOAD_VMM W)] s3 = Some s4 \<and>
    g_vmm_status (win_core s4) = VMM_UNLOADED \<and> win_num_pmodules s4 = 0 \<and>
    length copies = length ks \<and>
    trace (win_core s4) = before @ map (\<lambda>p. FreeRwe (pm_data p) (pm_size p)) copies \<and>
    live_blocks (win_core s4) = Some (mset (map (\<lambda>p. (pm_data p, pm_size p)) copies))"
proof -
  let ?E = "windows_env K B" and ?G = "\<lambda>m. windows_good K B N G \<and> G m"
  obtain s0 where s0: "windows_session W ?E (map (module_request W) ks) (windows_initial ?E m) = Some s0"
    "ready ?E ?G (length ks) (as_linux 0 s0)"
    using module_requests_succeed [OF windows_initial_ready [OF good], of ks] ks by auto
  obtain s1 where s1: "windows_session W ?E [plain_request (WIN_LOAD_VMM W)] s0 = Some s1"
    "serving ?E ?G N VMM_LOADED (as_linux 0 s1)" "win_num_pmodules s1 = win_num_pmodules s0"
    using load_request_succeeds [OF cmds s0(2) _ fits [OF session_run [OF s0(1)]]] ks(1) by auto
  obtain s2 where s2: "windows_session W ?E [plain_request (WIN_START_VMM W)] s1 = Some s2"
    "serving ?E ?G N VMM_RUNNING (as_linux 0 s2)" "win_num_pmodules s2 = win_num_pmodules s1"
    using start_request_succeeds [OF cmds s1(2)] by blast
  obtain s3 where s3: "windows_session W ?E [plain_request (WIN_STOP_VMM W)] s2 = Some s3"
    "serving ?E ?G N VMM_LOADED (as_linux 0 s3)" "win_num_pmodules s3 = win_num_pmodules s2"
    using stop_request_succeeds [OF cmds s2(2)] by blast
  obtain s4 before and copies :: "pmodule list"
    where s4: "windows_session W ?E [plain_request (WIN_UNLOAD_VMM W)] s3 = Some s4"
    "g_vmm_status (win_core s4) = VMM_UNLOADED" "win_num_pmodules s4 = 0"
    "length copies = unat (win_num_pmodules s3)"
    "trace (win_core s4) = before @ map (\<lambda>p. FreeRwe (pm_data p) (pm_size p)) copies"
    "live_blocks (win_core s4) = Some (mset (map (\<lambda>p. (pm_data p, pm_size p)) copies))"
    using unload_request_succeeds [OF cmds s3(2)] by blast
  have "length copies = length ks"
    using s0(2) s1(3) s2(3) s3(3) s4(4) by (simp add: ready_def)
  moreover have "windows_session W ?E (map (module_request W) ks @ [plain_request (WIN_LOAD_VMM W)])
      (windows_initial ?E m) = Some s1"
    using s0(1) s1(1) by (simp only: session_append option.case)
  moreover have "g_vmm_status (win_core s1) = VMM_LOADED" "g_vmm_status (win_core s2) = VMM_RUNNING"
    "g_num_cpus_started (win_core s2) = N" "g_vmm_status (win_core s3) = VMM_LOADED"
    using s1(2) s2(2) s3(2) by (simp_all add: serving_def)
  ultimately show ?thesis using s2(1) s3(1) s4(1,2,3,5,6) by (intro exI conjI)
qed

lemma demo_windows_good: "windows_good demo_pool demo_bfsdk 2 demo_good"
proof -
  have "pool_good demo_pool demo_bfsdk 2 demo_good"
    by (auto simp: pool_good_def demo_good_def demo_pool_def demo_vmalloc_def ask_kernel_def
        from_kernel_def kernel_view_def or_bit_nonzero Let_def) (auto simp: demo_bfsdk_def)
  moreover have "STACK_SIZE demo_bfsdk * 2 \<noteq> 0" "THREAD_LOCAL_STORAGE_SIZE demo_bfsdk * 2 \<noteq> 0"
    by (simp_all add: demo_bfsdk_def)
  ultimately show ?thesis using demo_vmm_good demo_env_ok by (simp add: windows_good_def demo_env_def)
qed

lemma demo_win_fields:
  "STACK_SIZE demo_win_env = 0x8000" "THREAD_LOCAL_STORAGE_SIZE demo_win_env = 0x1000"
  "MAX_PAGE_SIZE demo_win_env = 0x1000" "MEMORY_TYPE_R demo_win_env = 1" "MEMORY_TYPE_W demo_win_env = 2"
  "MEMORY_TYPE_E demo_win_env = 4" "bfpf_x demo_win_env = 1" "sizeof_thread_context demo_win_env = 16"
  "tc_cpuid_offset demo_win_env = 0" "tc_tlsptr_offset demo_win_env = 8" "rq demo_win_env = demo_rq"
  "platform_memset demo_win_env = windows_platform_memset"
  "platform_num_cpus demo_win_env = windows_platform_num_cpus demo_pool"
  "KeQueryActiveProcessorCount demo_pool m = 2"
  "bfelf_load demo_win_env = demo_bfelf_load" "bfelf_file_get_num_load_instrs demo_win_env ef = 1"
  "bfelf_set_integer_args demo_win_env info a b c d = (0, info)"
  "bfelf_file_get_load_instr demo_win_env ef i =
     (0, \<lparr>instr_mem_offset = 0, instr_memsz = 0x100, instr_perm = 5\<rparr>)"
  "vmm_entry demo_win_env = demo_vmm_entry"
  "platform_get_current_cpu_num demo_win_env m = (0, m)" "platform_restore_preemption demo_win_env m = m"
  by (simp_all add: demo_win_env_def windows_env_def demo_bfsdk_def demo_pool_def)

lemma demo_windows_fits:
  assumes "op_run (bareflankEvtIoDeviceControl demo_wdf demo_win_env) [demo_request 1 16 0] demo_windows = Some s1"
  shows "load_fits demo_win_env (snd (load_setup demo_win_env (win_core s1)))"
  using assms
  by (auto simp: op_run_def demo_windows_def windows_eval load_fits_def module_fits_def segment_fits_def
      load_instr_at_def no_wrap_def demo_win_fields driver_defs demo_bfelf_load_def demo_vmm_entry_def
      demo_on_host_def windows_platform_num_cpus_def windows_platform_memset_def
      align_down_def numeral_3_eq_3 cong: prod.case_cong_weak)

theorem windows_session_succeeds_witness:
  "\<exists>s1 s2. windows_session demo_wdf demo_win_env [demo_request 1 16 0, demo_request 3 0 0]
      demo_windows = Some s1 \<and>
    windows_session demo_wdf demo_win_env [demo_request 5 0 0] s1 = Some s2 \<and>
    g_vmm_status (win_core s2) = VMM_RUNNING \<and> g_num_cpus_started (win_core s2) = 2"
proof -
  have "demo_good (demo_machine [] [])" by (simp add: demo_good_def demo_eval)
  moreover have "requests_distinct demo_wdf" by (simp add: requests_distinct_def demo_wdf_def)
  moreover have "delivers demo_wdf demo_good 16" by (simp add: delivers_def demo_wdf_def NT_SUCCESS_def)
  moreover have "load_fits demo_win_env (snd (load_setup demo_win_env (win_core s1)))"
    if "op_run (bareflankEvtIoDeviceControl demo_wdf demo_win_env) [demo_request 1 16 0] demo_windows = Some s1"
    for s1 by (rule demo_windows_fits [OF that])
  moreover have "length [16] \<le> MAX_NUM_MODULES demo_bfsdk" by (simp add: demo_bfsdk_def)
  ultimately show ?thesis
    using windows_session_succeeds [of demo_pool demo_bfsdk 2 demo_good "demo_machine [] []" demo_wdf "[16]"]
      demo_windows_good
    unfolding demo_win_env_def demo_windows_def
    by (force simp: module_request_def plain_request_def demo_request_def demo_wdf_def)
qed

end
