(* ===== verification/Uefi_Platform.thy ===== *)
theory Uefi_Platform
  imports Platform_Contract
begin

text \<open>
  The UEFI port of the platform layer, \<open>src/src/arch/uefi/Platform.c\<close>, over a record of
  the firmware's services. The globals of \<open>Driver.c\<close> are the handle of the image and the
  pointer to the multi-processor services, which is null until \<open>UefiMain\<close> has located them.
\<close>

section \<open>The firmware\<close>

text \<open>
  An \<open>EFI_STATUS\<close> is a 64-bit number, an error when its highest bit is set (the macro
  \<open>EFI_ERROR\<close>); \<open>EFI_SUCCESS\<close> is 0 in the UEFI specification. A service that fills in
  variables returns their values beside the status.
\<close>

type_synonym efi_status = uint64

definition EFI_ERROR :: "efi_status \<Rightarrow> bool" where
  "EFI_ERROR status \<longleftrightarrow> sint status < 0"

record 'k uefi_host =
  gImage :: uint64
  gMpServices :: uint64
  firmware :: 'k

datatype efi_memory = EfiLoaderData | EfiLoaderCode

record 'k uefi_boot =
  EFI_PAGE_SIZE :: uint64
  AllocatePages :: "efi_memory \<Rightarrow> uint64 \<Rightarrow> 'k uefi_host machine \<Rightarrow> efi_status \<times> uint64 \<times> 'k uefi_host machine"
  FreePages :: "uint64 \<Rightarrow> uint64 \<Rightarrow> 'k uefi_host machine \<Rightarrow> efi_status \<times> 'k uefi_host machine"
  SetMem :: "uint64 \<Rightarrow> uint64 \<Rightarrow> byte \<Rightarrow> 'k uefi_host machine \<Rightarrow> 'k uefi_host machine"
  CopyMem :: "uint64 \<Rightarrow> uint64 \<Rightarrow> uint64 \<Rightarrow> 'k uefi_host machine \<Rightarrow> 'k uefi_host machine"
  GetNumberOfProcessors :: "uint64 \<Rightarrow> 'k uefi_host machine \<Rightarrow> efi_status \<times> uint64 \<times> uint64"
  WhoAmI :: "uint64 \<Rightarrow> 'k uefi_host machine \<Rightarrow> efi_status \<times> uint64"
  EnableDisableAP :: "uint64 \<Rightarrow> uint64 \<Rightarrow> bool \<Rightarrow> 'k uefi_host machine \<Rightarrow> efi_status \<times> 'k uefi_host machine"
  SwitchBSP :: "uint64 \<Rightarrow> uint64 \<Rightarrow> bool \<Rightarrow> 'k uefi_host machine \<Rightarrow> efi_status \<times> 'k uefi_host machine"

section \<open>The functions of \<open>Platform.c\<close>\<close>

definition uefi_alloc ::
  "('k, 'z) uefi_boot_scheme \<Rightarrow> efi_memory \<Rightarrow> uint64 \<Rightarrow> 'k uefi_host machine \<Rightarrow> uint64 \<times> 'k uefi_host machine" where
  "uefi_alloc F ty len m =
     (case AllocatePages F ty (len div EFI_PAGE_SIZE F + 1) m of
        (status, ret, m) \<Rightarrow> if EFI_ERROR status then (0, m) else (ret, m))"

definition uefi_platform_alloc_rw ::
  "('k, 'z) uefi_boot_scheme \<Rightarrow> uint64 \<Rightarrow> 'k uefi_host machine \<Rightarrow> uint64 \<times> 'k uefi_host machine" where
  "uefi_platform_alloc_rw F len m = uefi_alloc F EfiLoaderData len m"

definition uefi_platform_alloc_rwe ::
  "('k, 'z) uefi_boot_scheme \<Rightarrow> uint64 \<Rightarrow> 'k uefi_host machine \<Rightarrow> uint64 \<times> 'k uefi_host machine" where
  "uefi_platform_alloc_rwe F len m = uefi_alloc F EfiLoaderCode len m"

definition uefi_platform_free_rw ::
  "('k, 'z) uefi_boot_scheme \<Rightarrow> uint64 \<Rightarrow> uint64 \<Rightarrow> 'k uefi_host machine \<Rightarrow> 'k uefi_host machine" where
  "uefi_platform_free_rw F addr len m = snd (FreePages F addr (len div EFI_PAGE_SIZE F + 1) m)"

definition uefi_platform_free_rwe ::
  "('k, 'z) uefi_boot_scheme \<Rightarrow> uint64 \<Rightarrow> uint64 \<Rightarrow> 'k uefi_host machine \<Rightarrow> 'k uefi_host machine" where
  "uefi_platform_free_rwe F addr len m = snd (FreePages F addr (len div EFI_PAGE_SIZE F + 1) m)"

definition uefi_platform_virt_to_phys :: "uint64 \<Rightarrow> 'k uefi_host machine \<Rightarrow> uint64" where
  "uefi_platform_virt_to_phys virt m = virt"

definition uefi_platform_memset ::
  "('k, 'z) uefi_boot_scheme \<Rightarrow> uint64 \<Rightarrow> byte \<Rightarrow> uint64 \<Rightarrow> 'k uefi_host machine \<Rightarrow> 'k uefi_host machine" where
  "uefi_platform_memset F p v n m = SetMem F p n v m"

definition uefi_platform_memcpy ::
  "('k, 'z) uefi_boot_scheme \<Rightarrow> uint64 \<Rightarrow> uint64 \<Rightarrow> uint64 \<Rightarrow> 'k uefi_host machine \<Rightarrow> 'k uefi_host machine" where
  "uefi_platform_memcpy F dst src n m = CopyMem F dst src n m"

definition uefi_platform_start :: "'k uefi_host machine \<Rightarrow> 'k uefi_host machine" where
  "uefi_platform_start m = m"

definition uefi_platform_stop :: "'k uefi_host machine \<Rightarrow> 'k uefi_host machine" where
  "uefi_platform_stop m = m"

text \<open>\<open>EFI_ABORTED\<close> is an error: without the services the number of CPUs is 0.\<close>

definition uefi_platform_num_cpus ::
  "('k, 'z) uefi_boot_scheme \<Rightarrow> 'k uefi_host machine \<Rightarrow> int64 \<times> 'k uefi_host machine" where
  "uefi_platform_num_cpus F m =
     (let mp = gMpServices (host m)
      in if mp = 0 then (0, m)
         else
           (case GetNumberOfProcessors F mp m of
              (status, n, enabled) \<Rightarrow> if \<not> EFI_ERROR status then (n, m) else (0, m)))"

definition uefi_platform_set_affinity ::
  "('k, 'z) uefi_boot_scheme \<Rightarrow> int64 \<Rightarrow> 'k uefi_host machine \<Rightarrow> int64 \<times> 'k uefi_host machine" where
  "uefi_platform_set_affinity F affinity m =
     (let mp = gMpServices (host m);
          (status, ret) = WhoAmI F mp m
      in if status \<noteq> 0 then (-1, m)
         else if ret = affinity then (ret, m)
         else
           let (status, m) = EnableDisableAP F mp affinity True m
           in if status \<noteq> 0 then (-1, m)
              else
                let (status, m) = SwitchBSP F mp affinity True m
                in if status \<noteq> 0 then (-1, m) else (ret, m))"

definition uefi_platform_restore_affinity ::
  "('k, 'z) uefi_boot_scheme \<Rightarrow> int64 \<Rightarrow> 'k uefi_host machine \<Rightarrow> 'k uefi_host machine" where
  "uefi_platform_restore_affinity F affinity m = snd (uefi_platform_set_affinity F affinity m)"

definition uefi_platform_get_current_cpu_num ::
  "('k, 'z) uefi_boot_scheme \<Rightarrow> 'k uefi_host machine \<Rightarrow> int64 \<times> 'k uefi_host machine" where
  "uefi_platform_get_current_cpu_num F m =
     (case WhoAmI F (gMpServices (host m)) m of
        (status, ret) \<Rightarrow> if EFI_ERROR status then (-1, m) else (ret, m))"

definition uefi_platform_restore_preemption :: "'k uefi_host machine \<Rightarrow> 'k uefi_host machine" where
  "uefi_platform_restore_preemption m = m"

definition uefi_env :: "('k, 'z) uefi_boot_scheme \<Rightarrow> 'k uefi_host env \<Rightarrow> 'k uefi_host env" where
  "uefi_env F B =
     B\<lparr>platform_alloc_rw := uefi_platform_alloc_rw F,
       platform_alloc_rwe := uefi_platform_alloc_rwe F,
       platform_free_rw := uefi_platform_free_rw F,
       platform_free_rwe := uefi_platform_free_rwe F,
       platform_virt_to_phys := uefi_platform_virt_to_phys,
       platform_memset := uefi_platform_memset F,
       platform_memcpy := uefi_platform_memcpy F,
       platform_start := uefi_platform_start,
       platform_stop := uefi_platform_stop,
       platform_num_cpus := uefi_platform_num_cpus F,
       platform_set_affinity := uefi_platform_set_affinity F,
       platform_restore_affinity := uefi_platform_restore_affinity F,
       platform_get_current_cpu_num := uefi_platform_get_current_cpu_num F,
       platform_restore_preemption := uefi_platform_restore_preemption\<rparr>"

lemma uefi_env_ok [simp]: "env_ok (uefi_env F B) = env_ok B"
  by (simp add: uefi_env_def env_ok_def codes_ok_def loader_ok_def)

lemma uefi_env_platform:
  "rc (uefi_env F B) = rc B"
  "platform_alloc_rw (uefi_env F B) = uefi_platform_alloc_rw F"
  "platform_free_rw (uefi_env F B) = uefi_platform_free_rw F"
  "platform_free_rwe (uefi_env F B) = uefi_platform_free_rwe F"
  "platform_memset (uefi_env F B) = uefi_platform_memset F"
  "platform_num_cpus (uefi_env F B) = uefi_platform_num_cpus F"
  "platform_set_affinity (uefi_env F B) = uefi_platform_set_affinity F"
  "platform_restore_affinity (uefi_env F B) = uefi_platform_restore_affinity F"
  "platform_get_current_cpu_num (uefi_env F B) = uefi_platform_get_current_cpu_num F"
  by (simp_all add: uefi_env_def)

section \<open>What the port relies on\<close>

text \<open>
  The documented behaviour of the services: fewer than \<open>2 ^ 63\<close> processors, and
  \<open>SetMem\<close> fills the buffer. The contract of the platform layer then holds.
\<close>

definition boot_ok :: "('k, 'z) uefi_boot_scheme \<Rightarrow> bool" where
  "boot_ok F \<longleftrightarrow>
     (\<forall>mp m. 0 \<le> sint (fst (snd (GetNumberOfProcessors F mp m)))) \<and>
     (\<forall>p n v m. p \<noteq> 0 \<longrightarrow> mem (SetMem F p n v m) = mem_set p v n (mem m))"

lemma uefi_layer:
  assumes "boot_ok F"
  shows "platform_layer (uefi_env F B)"
proof
  show "0 \<le> sint (fst (platform_num_cpus (uefi_env F B) m))" for m
  proof -
    obtain st n e where "GetNumberOfProcessors F (gMpServices (host m)) m = (st, n, e)"
      by (cases "GetNumberOfProcessors F (gMpServices (host m)) m")
    moreover from this have "0 \<le> sint n" using assms by (metis boot_ok_def fst_conv snd_conv)
    ultimately show ?thesis by (simp add: uefi_env_platform uefi_platform_num_cpus_def Let_def)
  qed
  show "mem (platform_memset (uefi_env F B) p v n m) = mem_set p v n (mem m)" if "p \<noteq> 0" for p v n m
    using assms that by (simp add: boot_ok_def uefi_env_platform uefi_platform_memset_def)
qed

text \<open>The pages asked for cover the length, with at most one to spare.\<close>

lemma pages_cover:
  assumes "EFI_PAGE_SIZE F \<noteq> 0" and "unat len < 2 ^ 63"
  shows "unat len < unat (len div EFI_PAGE_SIZE F + 1) * unat (EFI_PAGE_SIZE F)"
    and "unat (len div EFI_PAGE_SIZE F + 1) * unat (EFI_PAGE_SIZE F) \<le> unat len + unat (EFI_PAGE_SIZE F)"
proof -
  let ?p = "unat (EFI_PAGE_SIZE F)"
  have p: "0 < ?p" using assms(1) by (simp add: unat_gt_0)
  have n: "unat (len div EFI_PAGE_SIZE F + 1) = unat len div ?p + 1"
  proof -
    have "unat len div ?p < 2 ^ 63" by (rule le_less_trans [OF div_le_dividend assms(2)])
    then show ?thesis by (simp add: unat_word_ariths unat_div)
  qed
  show "unat len < unat (len div EFI_PAGE_SIZE F + 1) * ?p"
    unfolding n using p by (metis add.commute dividend_less_times_div mult.commute mult_Suc_right Suc_eq_plus1)
  show "unat (len div EFI_PAGE_SIZE F + 1) * ?p \<le> unat len + ?p"
    unfolding n by (simp add: algebra_simps)
qed

text \<open>
  What the documentation promises of the processor services: \<open>cpu\<close> reads the CPU the
  thread runs on, enabling a processor leaves it there, and a switch that succeeds moves
  it to the processor asked for.
\<close>

definition mp_ok :: "('k, 'z) uefi_boot_scheme \<Rightarrow> ('k uefi_host machine \<Rightarrow> uint64) \<Rightarrow> bool" where
  "mp_ok F cpu \<longleftrightarrow>
     (\<forall>mp m. WhoAmI F mp m = (0, cpu m)) \<and>
     (\<forall>mp n m st m'. EnableDisableAP F mp n True m = (st, m') \<longrightarrow> cpu m' = cpu m) \<and>
     (\<forall>mp n m m'. SwitchBSP F mp n True m = (0, m') \<longrightarrow> cpu m' = n) \<and>
     (\<forall>mp n m st m'. SwitchBSP F mp n True m = (st, m') \<longrightarrow> st \<noteq> 0 \<longrightarrow> cpu m' = cpu m)"

lemma mp_okD:
  assumes "mp_ok F cpu"
  shows "WhoAmI F mp m = (0, cpu m)"
    and "EnableDisableAP F mp n True m = (st, m') \<Longrightarrow> cpu m' = cpu m"
    and "SwitchBSP F mp n True m = (0, m') \<Longrightarrow> cpu m' = n"
    and "SwitchBSP F mp n True m = (st, m') \<Longrightarrow> st \<noteq> 0 \<Longrightarrow> cpu m' = cpu m"
  using assms unfolding mp_ok_def by blast+

text \<open>The services agree to move the thread to the processor \<open>n\<close>: it can be enabled, and switched to.\<close>

definition mp_accepts :: "('k, 'z) uefi_boot_scheme \<Rightarrow> uint64 \<Rightarrow> 'k uefi_host machine \<Rightarrow> bool" where
  "mp_accepts F n m \<longleftrightarrow>
     (case EnableDisableAP F (gMpServices (host m)) n True m of
        (status, m') \<Rightarrow> status = 0 \<and> fst (SwitchBSP F (gMpServices (host m)) n True m') = 0)"

lemma uefi_set_affinity_result:
  assumes mp: "mp_ok F cpu" and run: "uefi_platform_set_affinity F c m = (r, m')"
  shows "if cpu m = c \<or> mp_accepts F c m then r = cpu m \<and> cpu m' = c else r = -1 \<and> cpu m' = cpu m"
proof -
  obtain st m1 where e: "EnableDisableAP F (gMpServices (host m)) c True m = (st, m1)" by force
  obtain st' m2 where b: "SwitchBSP F (gMpServices (host m)) c True m1 = (st', m2)" by force
  have "cpu m1 = cpu m" by (rule mp_okD(2) [OF mp e])
  moreover have "cpu m2 = (if st' = 0 then c else cpu m1)"
    using mp_okD(3,4) [OF mp] b by auto
  ultimately show ?thesis
    using run e b
    by (auto simp: uefi_platform_set_affinity_def mp_accepts_def mp_okD(1) [OF mp] Let_def split: if_splits)
qed

end
