(* ===== verification/Uefi_Processor.thy ===== *)
theory Uefi_Processor
  imports Uefi_Platform
begin

text \<open>
  \<open>src/src/arch/uefi/PrepareProcessor.c\<close> and the layout of \<open>x86_64.h\<close>: a copy of the
  global descriptor table with a task segment in it is installed on the processor. The
  bit fields of a descriptor are ranges of bits of its two 64-bit halves.
\<close>

section \<open>Bit ranges of a word\<close>

definition get_bits :: "nat \<Rightarrow> nat \<Rightarrow> uint64 \<Rightarrow> uint64" where
  "get_bits off n w = take_bit n (drop_bit off w)"

definition put_bits :: "nat \<Rightarrow> nat \<Rightarrow> uint64 \<Rightarrow> uint64 \<Rightarrow> uint64" where
  "put_bits off n v w = (w AND NOT (push_bit off (mask n))) OR push_bit off (take_bit n v)"

lemma get_put_bits: "off + n \<le> 64 \<Longrightarrow> get_bits off n (put_bits off n v w) = take_bit n v"
  by (rule bit_word_eqI) (auto simp: get_bits_def put_bits_def bit_simps)

lemma get_put_bits_other:
  assumes "off + n \<le> off' \<or> off' + n' \<le> off" and "off' + n' \<le> 64"
  shows "get_bits off' n' (put_bits off n v w) = get_bits off' n' w"
  using assms by (intro bit_word_eqI) (auto simp: get_bits_def put_bits_def bit_simps)

section \<open>Descriptors\<close>

record kgdtentry64 =
  DataLow :: int64
  DataHigh :: int64

datatype gdt_field =
    LimitLow | BaseLow | BaseMiddle | Type | Dpl | Present | LimitHigh | System | LongMode
  | DefaultBig | Granularity | BaseHigh | BaseUpper | MustBeZero

text \<open>Whether a field is in the high half, its first bit there and its width.\<close>

fun field_at :: "gdt_field \<Rightarrow> bool \<times> nat \<times> nat" where
  "field_at LimitLow = (False, 0, 16)"
| "field_at BaseLow = (False, 16, 16)"
| "field_at BaseMiddle = (False, 32, 8)"
| "field_at Type = (False, 40, 5)"
| "field_at Dpl = (False, 45, 2)"
| "field_at Present = (False, 47, 1)"
| "field_at LimitHigh = (False, 48, 4)"
| "field_at System = (False, 52, 1)"
| "field_at LongMode = (False, 53, 1)"
| "field_at DefaultBig = (False, 54, 1)"
| "field_at Granularity = (False, 55, 1)"
| "field_at BaseHigh = (False, 56, 8)"
| "field_at BaseUpper = (True, 0, 32)"
| "field_at MustBeZero = (True, 32, 32)"

definition gdt_get :: "gdt_field \<Rightarrow> kgdtentry64 \<Rightarrow> uint64" where
  "gdt_get f e = (case field_at f of (high, off, n) \<Rightarrow>
     get_bits off n (if high then DataHigh e else DataLow e))"

definition gdt_put :: "gdt_field \<Rightarrow> uint64 \<Rightarrow> kgdtentry64 \<Rightarrow> kgdtentry64" where
  "gdt_put f v e = (case field_at f of (high, off, n) \<Rightarrow>
     if high then e\<lparr>DataHigh := put_bits off n v (DataHigh e)\<rparr>
     else e\<lparr>DataLow := put_bits off n v (DataLow e)\<rparr>)"

definition field_width :: "gdt_field \<Rightarrow> nat" where
  "field_width f = snd (snd (field_at f))"

lemma gdt_get_put_same: "gdt_get f (gdt_put f v e) = take_bit (field_width f) v"
  by (cases f) (simp_all add: gdt_get_def gdt_put_def field_width_def get_put_bits)

lemma gdt_get_put_other: "f \<noteq> g \<Longrightarrow> gdt_get g (gdt_put f v e) = gdt_get g e"
  by (cases f; cases g) (simp_all add: gdt_get_def gdt_put_def get_put_bits_other)

lemma gdt_get_put [simp]:
  "gdt_get g (gdt_put f v e) = (if f = g then take_bit (field_width f) v else gdt_get g e)"
  by (simp add: gdt_get_put_same gdt_get_put_other)

text \<open>How the processor reads the base and the limit of a segment.\<close>

definition descriptor_base :: "kgdtentry64 \<Rightarrow> uint64" where
  "descriptor_base e =
     gdt_get BaseLow e OR push_bit 16 (gdt_get BaseMiddle e) OR push_bit 24 (gdt_get BaseHigh e) OR
     push_bit 32 (gdt_get BaseUpper e)"

definition descriptor_limit :: "kgdtentry64 \<Rightarrow> uint64" where
  "descriptor_limit e = gdt_get LimitLow e OR push_bit 16 (gdt_get LimitHigh e)"

section \<open>The task segment\<close>

text \<open>
  \<open>KTSS64\<close> is packed to four bytes: \<open>Reserved0\<close>, \<open>Rsp0\<close> to \<open>Rsp2\<close>, eight entries of
  \<open>Ist\<close>, \<open>Reserved1\<close>, \<open>Reserved2\<close> and \<open>IoMapBase\<close>.
\<close>

definition sizeof_KTSS64 :: uint64 where
  "sizeof_KTSS64 = 4 + 3 * 8 + 8 * 8 + 8 + 2 + 2"

definition KGDT64_SYS_TSS :: uint64 where
  "KGDT64_SYS_TSS = 0x60"

definition AMD64_TSS :: uint64 where
  "AMD64_TSS = 9"

text \<open>The assignments to the fields of \<open>TssEntry\<close>, in order; \<open>LimitHigh\<close> is not assigned.\<close>

definition tss_descriptor :: "uint64 \<Rightarrow> kgdtentry64 \<Rightarrow> kgdtentry64" where
  "tss_descriptor tss e =
     (let e = gdt_put BaseLow (tss AND 0xffff) e;
          e = gdt_put BaseMiddle (drop_bit 16 tss AND 0xff) e;
          e = gdt_put BaseHigh (drop_bit 24 tss AND 0xff) e;
          e = gdt_put BaseUpper (drop_bit 32 tss) e;
          e = gdt_put LimitLow (sizeof_KTSS64 - 1) e;
          e = gdt_put Type AMD64_TSS e;
          e = gdt_put Dpl 0 e;
          e = gdt_put Present 1 e;
          e = gdt_put System 0 e;
          e = gdt_put LongMode 0 e;
          e = gdt_put DefaultBig 0 e;
          e = gdt_put Granularity 0 e
      in gdt_put MustBeZero 0 e)"

lemma base_parts:
  "take_bit 16 (tss AND 0xffff) OR push_bit 16 (take_bit 8 (drop_bit 16 tss AND 0xff)) OR
   push_bit 24 (take_bit 8 (drop_bit 24 tss AND 0xff)) OR push_bit 32 (take_bit 32 (drop_bit 32 tss)) =
   (tss :: uint64)"
proof -
  have m: "(0xffff :: uint64) = mask 16" "(0xff :: uint64) = mask 8"
    by (simp_all add: mask_eq_exp_minus_1)
  show ?thesis
  proof (rule bit_word_eqI)
    fix i
    assume i: "i < LENGTH(64)"
    consider "i < 16" | "16 \<le> i" "i < 24" | "24 \<le> i" "i < 32" | "32 \<le> i" by linarith
    then show "bit (take_bit 16 (tss AND 0xffff) OR push_bit 16 (take_bit 8 (drop_bit 16 tss AND 0xff)) OR
        push_bit 24 (take_bit 8 (drop_bit 24 tss AND 0xff)) OR push_bit 32 (take_bit 32 (drop_bit 32 tss))) i
      = bit tss i"
      unfolding m using i by cases (auto simp: bit_simps)
  qed
qed

lemma tss_descriptor_base: "descriptor_base (tss_descriptor tss e) = tss"
  using base_parts [of tss]
  by (simp add: descriptor_base_def tss_descriptor_def Let_def field_width_def)

lemma tss_descriptor_fields:
  "gdt_get Type (tss_descriptor tss e) = 9" "gdt_get Present (tss_descriptor tss e) = 1"
  "gdt_get Dpl (tss_descriptor tss e) = 0" "gdt_get Granularity (tss_descriptor tss e) = 0"
  "gdt_get MustBeZero (tss_descriptor tss e) = 0"
  "gdt_get LimitLow (tss_descriptor tss e) = 103"
  "gdt_get LimitHigh (tss_descriptor tss e) = gdt_get LimitHigh e"
  by (simp_all add: tss_descriptor_def Let_def field_width_def AMD64_TSS_def sizeof_KTSS64_def
      take_bit_eq_mask mask_eq_exp_minus_1)

section \<open>Installing the table\<close>

text \<open>
  The routines of \<open>x86_64.nasm\<close> are single instructions: parameters of the model. \<open>sgdt\<close>
  reads the limit and the base that the packed end of \<open>KDESCRIPTOR\<close> receives, \<open>lgdt\<close> takes
  them.
\<close>

record 'k uefi_processor = "'k uefi_boot" +
  rd_eflags :: "'k uefi_host machine \<Rightarrow> uint64"
  wr_eflags :: "uint64 \<Rightarrow> 'k uefi_host machine \<Rightarrow> 'k uefi_host machine"
  sgdt :: "'k uefi_host machine \<Rightarrow> 16 word \<times> uint64"
  lgdt :: "16 word \<Rightarrow> uint64 \<Rightarrow> 'k uefi_host machine \<Rightarrow> 'k uefi_host machine"
  ltr :: "16 word \<Rightarrow> 'k uefi_host machine \<Rightarrow> 'k uefi_host machine"
  AllocateRuntimeZeroPool :: "uint64 \<Rightarrow> 'k uefi_host machine \<Rightarrow> uint64 \<times> 'k uefi_host machine"
  FreePool :: "uint64 \<Rightarrow> 'k uefi_host machine \<Rightarrow> 'k uefi_host machine"
  EFI_OUT_OF_RESOURCES :: efi_status

definition sizeof_KGDTENTRY64 :: uint64 where
  "sizeof_KGDTENTRY64 = 16"

definition read_entry :: "uint64 \<Rightarrow> memory \<Rightarrow> kgdtentry64" where
  "read_entry a m = \<lparr>DataLow = load_u64 a m, DataHigh = load_u64 (a + 8) m\<rparr>"

definition write_entry :: "uint64 \<Rightarrow> kgdtentry64 \<Rightarrow> memory \<Rightarrow> memory" where
  "write_entry a e m = store_u64 (a + 8) (DataHigh e) (store_u64 a (DataLow e) m)"

text \<open>\<open>CheckProcessor\<close> clears the alignment check flag; the rest of it prints.\<close>

definition clear_alignment_check ::
  "('k, 'z) uefi_processor_scheme \<Rightarrow> 'k uefi_host machine \<Rightarrow> 'k uefi_host machine" where
  "clear_alignment_check P m = wr_eflags P (rd_eflags P m AND NOT (push_bit 18 1)) m"

definition CheckProcessor ::
  "('k, 'z) uefi_processor_scheme \<Rightarrow> 'k uefi_host machine \<Rightarrow> efi_status \<times> 'k uefi_host machine" where
  "CheckProcessor P m = (0, clear_alignment_check P m)"

definition PrepareProcessor ::
  "('k, 'z) uefi_processor_scheme \<Rightarrow> 'k uefi_host machine \<Rightarrow> efi_status \<times> 'k uefi_host machine" where
  "PrepareProcessor P m =
     (let m = clear_alignment_check P m;
          (limit, base) = sgdt P m;
          (NewGdt, m) = AllocateRuntimeZeroPool P
            (max (ucast limit + 1) (KGDT64_SYS_TSS + sizeof_KGDTENTRY64)) m
      in if NewGdt = 0 then (EFI_OUT_OF_RESOURCES P, m)
         else
           let m = CopyMem P NewGdt base (ucast limit + 1) m;
               (Tss, m) = AllocateRuntimeZeroPool P (sizeof_KTSS64 * 2) m
           in if Tss = 0 then (EFI_OUT_OF_RESOURCES P, FreePool P NewGdt m)
              else
                let TssEntry = NewGdt + KGDT64_SYS_TSS;
                    m = m\<lparr>mem := write_entry TssEntry
                          (tss_descriptor Tss (read_entry TssEntry (mem m))) (mem m)\<rparr>;
                    m = lgdt P (ucast (KGDT64_SYS_TSS + sizeof_KGDTENTRY64)) NewGdt m;
                    m = ltr P (ucast KGDT64_SYS_TSS) m
                in (0, m))"

text \<open>A descriptor is read back as it was written.\<close>

lemma read_write_entry: "read_entry a (write_entry a e m) = e"
proof -
  have "disjoint_blocks a 8 (a + 8) 8" by (rule disjoint_blocksI) simp_all
  then show ?thesis by (simp add: read_entry_def write_entry_def load_store_u64_disjoint)
qed

text \<open>The size of the new table's block, for a table whose limit fits 16 bits.\<close>

lemma table_size:
  fixes limit :: "16 word"
  shows "limit < 0x70 \<longrightarrow> max (ucast limit + 1) 0x70 = (0x70 :: uint64)"
    and "0x70 \<le> limit \<longrightarrow> max (ucast limit + 1) 0x70 = (ucast limit + 1 :: uint64)"
proof -
  have "unat limit < 2 ^ 16" using unsigned_less [of limit, where ?'a = nat] by simp
  then have n: "unat (ucast limit + 1 :: uint64) = unat limit + 1"
    by (simp add: unat_word_ariths unsigned_ucast_eq take_bit_nat_eq_self)
  show "limit < 0x70 \<longrightarrow> max (ucast limit + 1) 0x70 = (0x70 :: uint64)"
    and "0x70 \<le> limit \<longrightarrow> max (ucast limit + 1) 0x70 = (ucast limit + 1 :: uint64)"
    using n by (auto simp: max_def word_le_nat_alt word_less_nat_alt word_unat_eq_iff)
qed

end
