(* ===== verification/Uefi_Files.thy ===== *)
theory Uefi_Files
  imports Uefi_Processor
begin

text \<open>
  \<open>src/src/arch/uefi/FileAccess.c\<close> and \<open>Util.c\<close>: walking and building device paths,
  reading a file of the volume the image was loaded from, waiting for a key. A service that
  fills in a variable gets the value the variable had and returns the one it leaves.
\<close>

section \<open>The services\<close>

datatype efi_guid =
    gEfiLoadedImageProtocolGuid
  | gEfiDevicePathProtocolGuid
  | gEfiSimpleFileSystemProtocolGuid
  | gEfiDevicePathUtilitiesProtocolGuid
  | gEfiMpServiceProtocolGuid

text \<open>
  \<open>off_DeviceHandle\<close> and \<open>off_FileSize\<close> are offsets in structures of the specification;
  \<open>GetInfo f size info\<close> and \<open>FileRead f size buffer\<close> get the address of the size variable;
  \<open>uninit_DPU\<close> is the indeterminate value of the variable \<open>DPU\<close> of \<open>GenerateFileDP\<close>.
\<close>

record 'k uefi_files = "'k uefi_processor" +
  EFI_INVALID_PARAMETER :: efi_status
  EFI_NOT_FOUND :: efi_status
  EFI_BUFFER_TOO_SMALL :: efi_status
  EFI_ABORTED :: efi_status
  EFI_NOT_READY :: efi_status
  off_DeviceHandle :: uint64
  off_FileSize :: uint64
  HandleProtocol :: "uint64 \<Rightarrow> efi_guid \<Rightarrow> 'k uefi_host machine \<Rightarrow> efi_status \<times> uint64"
  LocateProtocol :: "efi_guid \<Rightarrow> uint64 \<Rightarrow> 'k uefi_host machine \<Rightarrow> efi_status \<times> uint64"
  AllocatePool :: "efi_memory \<Rightarrow> uint64 \<Rightarrow> uint64 \<Rightarrow> 'k uefi_host machine
    \<Rightarrow> efi_status \<times> uint64 \<times> 'k uefi_host machine"
  OpenVolume :: "uint64 \<Rightarrow> 'k uefi_host machine \<Rightarrow> efi_status \<times> uint64 \<times> 'k uefi_host machine"
  FileOpen :: "uint64 \<Rightarrow> uint64 \<Rightarrow> 'k uefi_host machine \<Rightarrow> efi_status \<times> uint64 \<times> 'k uefi_host machine"
  GetInfo :: "uint64 \<Rightarrow> uint64 \<Rightarrow> uint64 \<Rightarrow> 'k uefi_host machine \<Rightarrow> efi_status \<times> 'k uefi_host machine"
  FileRead :: "uint64 \<Rightarrow> uint64 \<Rightarrow> uint64 \<Rightarrow> 'k uefi_host machine \<Rightarrow> efi_status \<times> 'k uefi_host machine"
  StrLen :: "uint64 \<Rightarrow> memory \<Rightarrow> uint64"
  StrSize :: "uint64 \<Rightarrow> memory \<Rightarrow> uint64"
  StrCpy :: "uint64 \<Rightarrow> uint64 \<Rightarrow> memory \<Rightarrow> memory"
  AppendDeviceNode :: "uint64 \<Rightarrow> uint64 \<Rightarrow> uint64 \<Rightarrow> 'k uefi_host machine \<Rightarrow> uint64 \<times> 'k uefi_host machine"
  uninit_DPU :: uint64
  WaitForKey :: "'k uefi_host machine \<Rightarrow> 'k uefi_host machine"
  ReadKeyStroke :: "uint64 \<Rightarrow> 'k uefi_host machine \<Rightarrow> efi_status \<times> 'k uefi_host machine"

text \<open>The macro \<open>SASSERT\<close>, where the label \<open>Abort\<close> returns the status.\<close>

definition SASSERT :: "efi_status \<Rightarrow> 'm \<Rightarrow> efi_status \<times> 'm \<Rightarrow> efi_status \<times> 'm" where
  "SASSERT status m continue = (if EFI_ERROR status then (status, m) else continue)"

section \<open>Device paths\<close>

text \<open>A node: its type, its subtype and its length, a 16-bit number that need not be aligned.\<close>

definition load_u16 :: "uint64 \<Rightarrow> memory \<Rightarrow> 16 word" where
  "load_u16 a m = ucast (m a) OR push_bit 8 (ucast (m (a + 1)))"

definition store_u16 :: "uint64 \<Rightarrow> 16 word \<Rightarrow> memory \<Rightarrow> memory" where
  "store_u16 a v m = m(a := ucast v, a + 1 := ucast (drop_bit 8 v))"

lemma load_store_u16 [simp]: "load_u16 a (store_u16 a v m) = v"
  by (rule bit_word_eqI) (auto simp: load_u16_def store_u16_def bit_simps)

text \<open>The loop of \<open>PrintDevicePath\<close>; printing is not modelled.\<close>

partial_function (option) device_path_loop :: "memory \<Rightarrow> uint64 \<Rightarrow> unit option" where
  "device_path_loop m traveler =
     (if m traveler = 0x7F then Some ()
      else device_path_loop m (traveler + ucast (load_u16 (traveler + 2) m)))"

definition PrintDevicePath ::
  "('k, 'z) uefi_files_scheme \<Rightarrow> uint64 \<Rightarrow> 'k uefi_host machine \<Rightarrow> efi_status option" where
  "PrintDevicePath X DPIn m =
     (if DPIn = 0 then Some (EFI_NOT_FOUND X)
      else (case device_path_loop (mem m) DPIn of None \<Rightarrow> None | Some _ \<Rightarrow> Some 0))"

definition GenerateFileDP ::
  "('k, 'z) uefi_files_scheme \<Rightarrow> uint64 \<Rightarrow> uint64 \<Rightarrow> 'k uefi_host machine
    \<Rightarrow> efi_status \<times> 'k uefi_host machine" where
  "GenerateFileDP X TargetPath FileDP m =
     (if FileDP = 0 \<or> TargetPath = 0 \<or> StrLen X TargetPath (mem m) = 0
      then (EFI_INVALID_PARAMETER X, m)
      else
        let (status, LoadedImage) = HandleProtocol X (gImage (host m)) gEfiLoadedImageProtocolGuid m
        in SASSERT status m (
        let (status, TargetDevice) =
              HandleProtocol X (load_u64 (LoadedImage + off_DeviceHandle X) (mem m))
                gEfiDevicePathProtocolGuid m
        in SASSERT status m (
        let TargetPathNodeSize = StrSize X TargetPath (mem m) + 4;
            (status, TargetPathNode, m) = AllocatePool X EfiLoaderData TargetPathNodeSize 0 m
        in SASSERT status m (
        let m = m\<lparr>mem := (mem m)(TargetPathNode := 0x04, TargetPathNode + 1 := 0x04)\<rparr>;
            m = m\<lparr>mem := store_u16 (TargetPathNode + 2) (ucast TargetPathNodeSize) (mem m)\<rparr>;
            m = m\<lparr>mem := StrCpy X (TargetPathNode + 4) TargetPath (mem m)\<rparr>;
            (_, DPU) = LocateProtocol X gEfiDevicePathUtilitiesProtocolGuid (uninit_DPU X) m
        in SASSERT status m (
        let (path, m) = AppendDeviceNode X DPU TargetDevice TargetPathNode m
        in (status, m\<lparr>mem := store_u64 FileDP path (mem m)\<rparr>))))))"

section \<open>Files\<close>

text \<open>
  \<open>ReadFile\<close> in three parts: the file is opened, its size is read into \<open>*BufferSize\<close>, and
  its contents into a new block. Each part is an early return of the function when its
  status is an error.
\<close>

definition ReadFile_open ::
  "('k, 'z) uefi_files_scheme \<Rightarrow> uint64 \<Rightarrow> 'k uefi_host machine
    \<Rightarrow> efi_status \<times> uint64 \<times> 'k uefi_host machine" where
  "ReadFile_open X TargetPath m =
     (let (status, LoadedImage) = HandleProtocol X (gImage (host m)) gEfiLoadedImageProtocolGuid m
      in if EFI_ERROR status then (status, 0, m) else
      let CurrentDevice = load_u64 (LoadedImage + off_DeviceHandle X) (mem m)
      in if CurrentDevice = 0 \<and> EFI_ERROR (EFI_NOT_FOUND X) then (EFI_NOT_FOUND X, 0, m) else
      let (status, FS) = HandleProtocol X CurrentDevice gEfiSimpleFileSystemProtocolGuid m
      in if EFI_ERROR status then (status, 0, m) else
      let (status, FileRoot, m) = OpenVolume X FS m
      in if EFI_ERROR status then (status, 0, m) else FileOpen X FileRoot TargetPath m)"

definition ReadFile_size ::
  "('k, 'z) uefi_files_scheme \<Rightarrow> uint64 \<Rightarrow> uint64 \<Rightarrow> 'k uefi_host machine
    \<Rightarrow> efi_status \<times> 'k uefi_host machine" where
  "ReadFile_size X FileTarget BufferSize m =
     (let m = m\<lparr>mem := store_u64 BufferSize 0 (mem m)\<rparr>;
          (status, m) = GetInfo X FileTarget BufferSize 0 m;
          status = (if status \<noteq> EFI_BUFFER_TOO_SMALL X
                    then (if status = 0 then EFI_ABORTED X else status) else 0)
      in SASSERT status m (
      let (status, TargetFileInfo, m) =
            AllocatePool X EfiLoaderData (load_u64 BufferSize (mem m)) 0 m
      in SASSERT status m (
      let (status, m) = GetInfo X FileTarget BufferSize TargetFileInfo m
      in SASSERT status m (
      let size = load_u64 (TargetFileInfo + off_FileSize X) (mem m);
          m = m\<lparr>mem := store_u64 BufferSize size (mem m)\<rparr>
      in (status, FreePool X TargetFileInfo m)))))"

definition ReadFile ::
  "('k, 'z) uefi_files_scheme \<Rightarrow> uint64 \<Rightarrow> uint64 \<Rightarrow> uint64 \<Rightarrow> 'k uefi_host machine
    \<Rightarrow> efi_status \<times> 'k uefi_host machine" where
  "ReadFile X TargetPath Buffer BufferSize m =
     (if Buffer = 0 \<or> BufferSize = 0 \<or> TargetPath = 0 \<or> StrLen X TargetPath (mem m) = 0
      then (EFI_INVALID_PARAMETER X, m)
      else
        let (status, FileTarget, m) = ReadFile_open X TargetPath m
        in SASSERT status m (
        let (status, m) = ReadFile_size X FileTarget BufferSize m
        in SASSERT status m (
        let (status, buffer, m) =
              AllocatePool X EfiLoaderData (load_u64 BufferSize (mem m)) (load_u64 Buffer (mem m)) m;
            m = m\<lparr>mem := store_u64 Buffer buffer (mem m)\<rparr>
        in SASSERT status m (
        FileRead X FileTarget BufferSize (load_u64 Buffer (mem m)) m))))"

section \<open>Keys\<close>

text \<open>The loop of \<open>GetKeystroke\<close>; \<open>Key\<close> is where the key goes, or null.\<close>

partial_function (option) GetKeystroke ::
  "('k, 'z) uefi_files_scheme \<Rightarrow> uint64 \<Rightarrow> 'k uefi_host machine
    \<Rightarrow> (efi_status \<times> 'k uefi_host machine) option" where
  "GetKeystroke X Key m =
     (let (status, m) = ReadKeyStroke X Key (WaitForKey X m)
      in if status = EFI_NOT_READY X then GetKeystroke X Key m else Some (status, m))"

end
