(* ===== verification/Uefi_Main.thy ===== *)
theory Uefi_Main
  imports Uefi_Files Driver_Lifecycle
begin

text \<open>
  The UEFI application, \<open>src/src/arch/uefi/Driver.c\<close> and \<open>Modules.h\<close>: it prepares every
  processor, gives the core the modules that are linked into the image, loads and starts
  the VMM and then starts the next boot image. It may wait for a key for ever, and the
  load may not return, so it returns an \<open>option\<close>.
\<close>

record 'k uefi_app = "'k uefi_files" +
  GetProcessorInfo :: "uint64 \<Rightarrow> uint64 \<Rightarrow> 'k uefi_host machine \<Rightarrow> efi_status"
  native_path :: uint64
  addr_of_TargetDP :: uint64
  LoadImage :: "uint64 \<Rightarrow> uint64 \<Rightarrow> 'k uefi_host machine \<Rightarrow> efi_status \<times> uint64 \<times> 'k uefi_host machine"
  StartImage :: "uint64 \<Rightarrow> 'k uefi_host machine \<Rightarrow> efi_status \<times> 'k uefi_host machine"

text \<open>
  \<open>native_path\<close> is the address of the literal \<open>L"\\EFI\\Boot\\native.efi"\<close>. A service, on the
  state of the driver.
\<close>

definition firm ::
  "('h machine \<Rightarrow> 'r \<times> 'h machine) \<Rightarrow> 'h common_state \<Rightarrow> 'r \<times> 'h common_state" where
  "firm f s = (case f (machine s) of (r, m) \<Rightarrow> (r, s\<lparr>machine := m\<rparr>))"

section \<open>Modules\<close>

text \<open>
  \<open>add_hypervisor_modules\<close>: one block per module of the generated list, each an array and
  its length, an \<open>unsigned int\<close>. \<open>ret\<close> has an indeterminate value when the list is empty.
\<close>

fun add_hypervisor_modules ::
  "('h, 'z) env_scheme \<Rightarrow> (uint64 \<times> uint32) list \<Rightarrow> int64 \<Rightarrow> 'h common_state
    \<Rightarrow> int64 \<times> 'h common_state" where
  "add_hypervisor_modules E [] ret s = (ret, s)"
| "add_hypervisor_modules E ((module, len) # rest) ret s =
     (let (ret, s) = common_add_module E module (ucast len) s
      in if sint ret < 0 then (ret, s) else add_hypervisor_modules E rest ret s)"

section \<open>The processors\<close>

text \<open>
  The two loops of \<open>UefiMain\<close>: with \<open>n\<close> processors left, the next is \<open>i\<close>. A thread that
  cannot be moved to a processor, or a table that cannot be installed, is not noticed. The
  result is the status and whether the loop ended normally.
\<close>

definition visit_processor ::
  "('k, 'z) uefi_app_scheme \<Rightarrow> nat \<Rightarrow> 'k uefi_host common_state
    \<Rightarrow> efi_status \<times> 'k uefi_host common_state" where
  "visit_processor X i s =
     (let (_, s) = firm (uefi_platform_set_affinity X (of_nat i)) s
      in (GetProcessorInfo X (gMpServices (host (machine s))) (of_nat i) (machine s), s))"

fun prepare_processors ::
  "('k, 'z) uefi_app_scheme \<Rightarrow> nat \<Rightarrow> nat \<Rightarrow> efi_status \<Rightarrow> 'k uefi_host common_state
    \<Rightarrow> efi_status \<times> 'k uefi_host common_state" where
  "prepare_processors X 0 i status s = (status, s)"
| "prepare_processors X (Suc n) i status s =
     (let (status, s) = visit_processor X i s
      in if EFI_ERROR status then (status, s)
         else
           let (_, s) = firm (PrepareProcessor X) s;
               (_, s) = firm (CheckProcessor X) s
           in prepare_processors X n (i + 1) status s)"

fun check_processors ::
  "('k, 'z) uefi_app_scheme \<Rightarrow> nat \<Rightarrow> nat \<Rightarrow> efi_status \<Rightarrow> 'k uefi_host common_state
    \<Rightarrow> efi_status \<times> 'k uefi_host common_state" where
  "check_processors X 0 i status s = (status, s)"
| "check_processors X (Suc n) i status s =
     (let (status, s) = visit_processor X i s
      in if EFI_ERROR status then (status, s)
         else
           let (_, s) = firm (CheckProcessor X) s
           in check_processors X n (i + 1) status s)"

text \<open>From the start of \<open>UefiMain\<close> to the first wait for a key.\<close>

definition uefi_processors ::
  "('k, 'z) uefi_app_scheme \<Rightarrow> 'k uefi_host env \<Rightarrow> uint64 \<Rightarrow> 'k uefi_host common_state
    \<Rightarrow> efi_status \<times> 'k uefi_host common_state" where
  "uefi_processors X E ImageHandle s =
     (let (_, s) = common_init E s;
          (_, s) = firm (\<lambda>m. ((), m\<lparr>host := (host m)\<lparr>gImage := ImageHandle\<rparr>\<rparr>)) s;
          (status, mp) = LocateProtocol X gEfiMpServiceProtocolGuid (gMpServices (host (machine s))) (machine s);
          (_, s) = firm (\<lambda>m. ((), m\<lparr>host := (host m)\<lparr>gMpServices := mp\<rparr>\<rparr>)) s
      in if EFI_ERROR status then (status, s)
         else
           let (status, cpus, ecpus) = GetNumberOfProcessors X (gMpServices (host (machine s))) (machine s)
           in if EFI_ERROR status then (status, s)
              else
                let (status, s) = prepare_processors X (unat cpus) 0 status s
                in if EFI_ERROR status then (status, s)
                   else
                     let (status, s) = check_processors X (unat cpus) 0 status s
                     in if EFI_ERROR status then (status, s)
                        else (status, snd (firm (uefi_platform_set_affinity X 0) s)))"

section \<open>The VMM\<close>

definition keystroke ::
  "('k, 'z) uefi_app_scheme \<Rightarrow> 'k uefi_host common_state \<Rightarrow> 'k uefi_host common_state option" where
  "keystroke X s = map_option (\<lambda>(_, m). s\<lparr>machine := m\<rparr>) (GetKeystroke X 0 (machine s))"

text \<open>Adding the modules, loading and starting; the result is whether it went on.\<close>

definition uefi_start_vmm ::
  "('k, 'z) uefi_app_scheme \<Rightarrow> 'k uefi_host env \<Rightarrow> (uint64 \<times> uint32) list \<Rightarrow> int64
    \<Rightarrow> 'k uefi_host common_state \<Rightarrow> (bool \<times> 'k uefi_host common_state) option" where
  "uefi_start_vmm X E modules ret s =
     (let (_, s) = add_hypervisor_modules E modules ret s in
      case keystroke X s of None \<Rightarrow> None | Some s \<Rightarrow>
      (case common_load_vmm E s of None \<Rightarrow> None | Some (ret, s) \<Rightarrow>
         if sint ret < 0 then Some (False, s)
         else
           let (_, s) = firm (PrepareProcessor X) s;
               (ret, s) = common_start_vmm E s
           in Some (\<not> sint ret < 0, s)))"

text \<open>The next boot step: its path, its image.\<close>

definition uefi_next_image ::
  "('k, 'z) uefi_app_scheme \<Rightarrow> uint64 \<Rightarrow> 'k uefi_host machine \<Rightarrow> efi_status \<times> 'k uefi_host machine" where
  "uefi_next_image X ImageHandle m =
     (let (status, m) = GenerateFileDP X (native_path X) (addr_of_TargetDP X) m
      in SASSERT status m (
      let (status, TargetHandle, m) = LoadImage X ImageHandle (load_u64 (addr_of_TargetDP X) (mem m)) m
      in SASSERT status m (StartImage X TargetHandle m)))"

definition uefi_abort ::
  "('k, 'z) uefi_app_scheme \<Rightarrow> efi_status \<Rightarrow> 'k uefi_host common_state
    \<Rightarrow> (efi_status \<times> 'k uefi_host common_state) option" where
  "uefi_abort X status s = map_option (\<lambda>s. (status, s)) (keystroke X s)"

definition UefiMain ::
  "('k, 'z) uefi_app_scheme \<Rightarrow> 'k uefi_host env \<Rightarrow> (uint64 \<times> uint32) list \<Rightarrow> int64 \<Rightarrow> uint64
    \<Rightarrow> 'k uefi_host common_state \<Rightarrow> (efi_status \<times> 'k uefi_host common_state) option" where
  "UefiMain X E modules ret ImageHandle s =
     (case uefi_processors X E ImageHandle s of (status, s) \<Rightarrow>
        if EFI_ERROR status then uefi_abort X status s
        else
          (case keystroke X s of None \<Rightarrow> None | Some s \<Rightarrow>
           (case uefi_start_vmm X E modules ret s of None \<Rightarrow> None | Some (started, s) \<Rightarrow>
              if \<not> started then uefi_abort X status s
              else
                (case keystroke X s of None \<Rightarrow> None | Some s \<Rightarrow>
                 (case firm (uefi_next_image X ImageHandle) s of
                    (status, s) \<Rightarrow> uefi_abort X status s)))))"

end
