(* ===== verification/Uefi_Firmware.thy ===== *)
theory Uefi_Firmware
  imports Uefi_Main Demo
begin

text \<open>
  Facts about the UEFI files that the properties share, and a concrete firmware for their
  witnesses: two processors, an allocator that moves through eight megabytes, a console that
  is ready after a number of attempts, one file.
\<close>

section \<open>Loops\<close>

text \<open>
  A well-formed device path at \<open>a\<close> with nodes of the given lengths, up to its end node.
\<close>

fun device_path :: "memory \<Rightarrow> uint64 \<Rightarrow> 16 word list \<Rightarrow> bool" where
  "device_path m a [] \<longleftrightarrow> m a = 0x7F"
| "device_path m a (l # ls) \<longleftrightarrow>
     m a \<noteq> 0x7F \<and> load_u16 (a + 2) m = l \<and> device_path m (a + ucast l) ls"

lemma device_path_returns: "device_path m a ls \<Longrightarrow> device_path_loop m a = Some ()"
  by (induction ls arbitrary: a) (simp_all add: device_path_loop.simps)

lemma device_path_stuck:
  assumes "device_path_loop m a = Some u"
  shows "m a = 0x7F \<or> load_u16 (a + 2) m \<noteq> 0"
  by (rule device_path_loop.raw_induct
      [where P = "\<lambda>m a _. m a = 0x7F \<or> load_u16 (a + 2) m \<noteq> 0", OF _ assms])
    (metis add.right_neutral unsigned_0)

text \<open>The state of the console after \<open>n\<close> more attempts that found no key.\<close>

fun not_ready :: "('k, 'z) uefi_files_scheme \<Rightarrow> uint64 \<Rightarrow> nat \<Rightarrow> 'k uefi_host machine
    \<Rightarrow> 'k uefi_host machine option" where
  "not_ready X Key 0 m = Some m"
| "not_ready X Key (Suc n) m =
     (case ReadKeyStroke X Key (WaitForKey X m) of
        (status, m) \<Rightarrow> if status = EFI_NOT_READY X then not_ready X Key n m else None)"

lemma keystroke_returns:
  "not_ready X Key n m = Some m1 \<Longrightarrow> ReadKeyStroke X Key (WaitForKey X m1) = (status, m2) \<Longrightarrow>
   status \<noteq> EFI_NOT_READY X \<Longrightarrow> GetKeystroke X Key m = Some (status, m2)"
proof (induction n arbitrary: m)
  case 0
  then show ?case by (simp add: GetKeystroke.simps)
next
  case (Suc n)
  obtain st m' where st: "ReadKeyStroke X Key (WaitForKey X m) = (st, m')" by force
  then have "st = EFI_NOT_READY X" "not_ready X Key n m' = Some m1"
    using Suc.prems(1) by (auto split: if_splits)
  then show ?case using Suc.IH Suc.prems(2,3) st by (simp add: GetKeystroke.simps [of X Key m])
qed

lemma keystroke_ready:
  assumes "GetKeystroke X Key m = Some r"
  shows "\<exists>n m1. not_ready X Key n m = Some m1 \<and> ReadKeyStroke X Key (WaitForKey X m1) = r \<and>
    fst r \<noteq> EFI_NOT_READY X"
proof (rule GetKeystroke.raw_induct [where P = "\<lambda>X Key m r. \<exists>n m1. not_ready X Key n m = Some m1 \<and>
    ReadKeyStroke X Key (WaitForKey X m1) = r \<and> fst r \<noteq> EFI_NOT_READY X", OF _ assms])
  fix f X Key m r
  assume IH: "\<And>X Key m r. f X Key m = Some r \<Longrightarrow> \<exists>n m1. not_ready X Key n m = Some m1 \<and>
      ReadKeyStroke X Key (WaitForKey X m1) = r \<and> fst r \<noteq> EFI_NOT_READY X"
    and run: "(let (status, m) = ReadKeyStroke X Key (WaitForKey X m)
      in if status = EFI_NOT_READY X then f X Key m else Some (status, m)) = Some r"
  obtain st m' where st: "ReadKeyStroke X Key (WaitForKey X m) = (st, m')" by force
  show "\<exists>n m1. not_ready X Key n m = Some m1 \<and> ReadKeyStroke X Key (WaitForKey X m1) = r \<and>
      fst r \<noteq> EFI_NOT_READY X"
  proof (cases "st = EFI_NOT_READY X")
    case True
    then have "f X Key m' = Some r" using run st by simp
    from IH [OF this] obtain n m1 where "not_ready X Key n m' = Some m1"
      "ReadKeyStroke X Key (WaitForKey X m1) = r" "fst r \<noteq> EFI_NOT_READY X" by blast
    then show ?thesis using st True by (intro exI [of _ "Suc n"] exI [of _ m1]) simp
  next
    case False
    then show ?thesis using run st by (intro exI [of _ 0] exI [of _ m]) auto
  qed
qed

section \<open>Results that are not errors\<close>

lemma SASSERT_ok:
  assumes "SASSERT st m k = (r, m')" and "\<not> EFI_ERROR r"
  obtains "\<not> EFI_ERROR st" and "k = (r, m')"
  using assms by (auto simp: SASSERT_def split: if_splits)

text \<open>The status codes of the specification that are errors.\<close>

definition efi_codes_ok :: "('k, 'z) uefi_files_scheme \<Rightarrow> bool" where
  "efi_codes_ok X \<longleftrightarrow> EFI_ERROR (EFI_INVALID_PARAMETER X) \<and> EFI_ERROR (EFI_NOT_FOUND X) \<and>
     EFI_ERROR (EFI_ABORTED X) \<and> EFI_ERROR (EFI_OUT_OF_RESOURCES X)"

text \<open>The pool services leave a variable of the caller alone.\<close>

definition pool_keeps :: "('k, 'z) uefi_files_scheme \<Rightarrow> uint64 \<Rightarrow> bool" where
  "pool_keeps X a \<longleftrightarrow>
     (\<forall>p m. load_u64 a (mem (FreePool X p m)) = load_u64 a (mem m)) \<and>
     (\<forall>ty n old m. load_u64 a (mem (snd (snd (AllocatePool X ty n old m)))) = load_u64 a (mem m))"

text \<open>The size that \<open>ReadFile\<close> stores is the one in the information about the file.\<close>

lemma ReadFile_size_success:
  assumes run: "ReadFile_size X target S m = (r, m')" and ok: "\<not> EFI_ERROR r" and codes: "efi_codes_ok X"
    and keeps: "pool_keeps X S"
  obtains info m1 m2 st where "GetInfo X target S info m1 = (st, m2)" and "\<not> EFI_ERROR st"
    and "load_u64 S (mem m') = load_u64 (info + off_FileSize X) (mem m2)"
    and "\<exists>n. m' = FreePool X info (m2\<lparr>mem := store_u64 S n (mem m2)\<rparr>)"
proof -
  obtain st5 mc where mc: "GetInfo X target S 0 (m\<lparr>mem := store_u64 S 0 (mem m)\<rparr>) = (st5, mc)" by force
  obtain st6 info md where info: "AllocatePool X EfiLoaderData (load_u64 S (mem mc)) 0 mc = (st6, info, md)"
    by (metis prod_cases3)
  obtain st7 me where me: "GetInfo X target S info md = (st7, me)" by force
  define n where "n = load_u64 (info + off_FileSize X) (mem me)"
  have "\<not> EFI_ERROR st7 \<and> m' = FreePool X info (me\<lparr>mem := store_u64 S n (mem me)\<rparr>)"
    using run ok by (auto simp: ReadFile_size_def Let_def mc info me n_def elim!: SASSERT_ok)
  moreover from this have "load_u64 S (mem m') = n" using keeps by (simp add: pool_keeps_def)
  ultimately show thesis using that [OF me] by (auto simp: n_def)
qed

text \<open>The end of a \<open>ReadFile\<close> that succeeds.\<close>

lemma ReadFile_success:
  assumes run: "ReadFile X path B S m = (r, m')" and ok: "\<not> EFI_ERROR r" and codes: "efi_codes_ok X"
    and keeps: "pool_keeps X S" and apart: "disjoint_blocks S 8 B 8"
  obtains target m0 m1 st old buf m2 where "ReadFile_size X target S m0 = (st, m1)" and "\<not> EFI_ERROR st"
    and "\<exists>st2. AllocatePool X EfiLoaderData (load_u64 S (mem m1)) old m1 = (st2, buf, m2) \<and> \<not> EFI_ERROR st2"
    and "FileRead X target S buf (m2\<lparr>mem := store_u64 B buf (mem m2)\<rparr>) = (r, m')"
    and "load_u64 S (mem (m2\<lparr>mem := store_u64 B buf (mem m2)\<rparr>)) = load_u64 S (mem m1)"
proof -
  obtain st0 target m0 where o: "ReadFile_open X path m = (st0, target, m0)" by (metis prod_cases3)
  obtain st m1 where z: "ReadFile_size X target S m0 = (st, m1)" by force
  obtain st2 buf m2 where a: "AllocatePool X EfiLoaderData (load_u64 S (mem m1)) (load_u64 B (mem m1)) m1 =
      (st2, buf, m2)" by (metis prod_cases3)
  have r: "\<not> EFI_ERROR st \<and> \<not> EFI_ERROR st2 \<and>
      FileRead X target S buf (m2\<lparr>mem := store_u64 B buf (mem m2)\<rparr>) = (r, m')"
    using run ok codes
    by (auto simp: ReadFile_def Let_def o z a efi_codes_ok_def SASSERT_def split: if_splits)
  have "load_u64 S (mem (snd (snd (AllocatePool X EfiLoaderData (load_u64 S (mem m1))
      (load_u64 B (mem m1)) m1)))) = load_u64 S (mem m1)"
    using keeps unfolding pool_keeps_def by blast
  then show thesis
    using r z a load_store_u64_disjoint [OF apart] by (intro that [of target m0 st m1 "load_u64 B (mem m1)" buf m2]) auto
qed

section \<open>A concrete firmware\<close>

record fw =
  fw_next :: uint64
  fw_cpu :: uint64
  fw_wait :: nat
  fw_gdtr :: "16 word \<times> uint64"
  fw_tr :: "16 word"
  fw_has_utilities :: bool

type_synonym fw_machine = "fw uefi_host machine"

definition on_fw :: "(fw \<Rightarrow> fw) \<Rightarrow> fw_machine \<Rightarrow> fw_machine" where
  "on_fw f m = m\<lparr>host := (host m)\<lparr>firmware := f (firmware (host m))\<rparr>\<rparr>"

definition fw_of :: "fw_machine \<Rightarrow> fw" where
  "fw_of m = firmware (host m)"

definition fw_alloc :: "uint64 \<Rightarrow> fw_machine \<Rightarrow> uint64 \<times> fw_machine" where
  "fw_alloc n m = (fw_next (fw_of m), on_fw (\<lambda>f. f\<lparr>fw_next := (fw_next f + n) mod 0x800000 + 0x100000\<rparr>) m)"

text \<open>
  The processor services refuse the processor that the thread runs on
  (\<open>EFI_INVALID_PARAMETER\<close>) and numbers that are no processor's (\<open>EFI_NOT_FOUND\<close>).
\<close>

definition fw_refuses :: "uint64 \<Rightarrow> fw_machine \<Rightarrow> efi_status" where
  "fw_refuses n m =
     (if n = fw_cpu (fw_of m) then 0x8000000000000002 else if n < 2 then 0 else 0x800000000000000E)"

definition demo_uefi :: "fw uefi_app" where
  "demo_uefi =
     \<lparr>EFI_PAGE_SIZE = 0x1000, AllocatePages = (\<lambda>ty n m. (0, fw_alloc (n * 0x1000) m)),
      FreePages = (\<lambda>a n m. (0, m)), SetMem = (\<lambda>p n v m. m\<lparr>mem := mem_set p v n (mem m)\<rparr>),
      CopyMem = (\<lambda>d s n m. m\<lparr>mem := mem_copy d s n (mem m)\<rparr>),
      GetNumberOfProcessors = (\<lambda>mp m. (0, 2, 2)), WhoAmI = (\<lambda>mp m. (0, fw_cpu (fw_of m))),
      EnableDisableAP = (\<lambda>mp n on m. (fw_refuses n m, m)),
      SwitchBSP = (\<lambda>mp n on m. if fw_refuses n m = 0 then (0, on_fw (\<lambda>f. f\<lparr>fw_cpu := n\<rparr>) m)
        else (fw_refuses n m, m)),
      rd_eflags = (\<lambda>m. 0x40202), wr_eflags = (\<lambda>v m. m), sgdt = (\<lambda>m. fw_gdtr (fw_of m)),
      lgdt = (\<lambda>limit base. on_fw (\<lambda>f. f\<lparr>fw_gdtr := (limit, base)\<rparr>)),
      ltr = (\<lambda>sel. on_fw (\<lambda>f. f\<lparr>fw_tr := sel\<rparr>)),
      AllocateRuntimeZeroPool = fw_alloc, FreePool = (\<lambda>a m. m),
      EFI_OUT_OF_RESOURCES = 0x8000000000000009, EFI_INVALID_PARAMETER = 0x8000000000000002,
      EFI_NOT_FOUND = 0x800000000000000E, EFI_BUFFER_TOO_SMALL = 0x8000000000000005,
      EFI_ABORTED = 0x8000000000000015, EFI_NOT_READY = 0x8000000000000006,
      off_DeviceHandle = 0x18, off_FileSize = 8, HandleProtocol = (\<lambda>h g m. (0, 0x5000)),
      LocateProtocol = (\<lambda>g old m. if g = gEfiMpServiceProtocolGuid then (0, 0x5100)
        else if fw_has_utilities (fw_of m) then (0, 0x5200) else (0x800000000000000E, old)),
      AllocatePool = (\<lambda>ty n old m. (0, fw_alloc n m)),
      OpenVolume = (\<lambda>fs m. (0, 0x5600, m)), FileOpen = (\<lambda>root path m. (0, 0x5700, m)),
      GetInfo = (\<lambda>target size info m. if info = 0
        then (0x8000000000000005, m\<lparr>mem := store_u64 size 0x50 (mem m)\<rparr>)
        else (0, m\<lparr>mem := store_u64 (info + 8) 3 (mem m)\<rparr>)),
      FileRead = (\<lambda>target size buf m. (0, m\<lparr>mem := store_bytes buf [1, 2, 3] (mem m)\<rparr>)),
      StrLen = (\<lambda>a m. 3), StrSize = (\<lambda>a m. 8), StrCpy = (\<lambda>d s. mem_copy d s 8),
      AppendDeviceNode = (\<lambda>dpu dev node m. (0x5300, m)), uninit_DPU = 0xDEAD,
      WaitForKey = (\<lambda>m. m),
      ReadKeyStroke = (\<lambda>key m. if fw_wait (fw_of m) = 0 then (0, m)
        else (0x8000000000000006, on_fw (\<lambda>f. f\<lparr>fw_wait := fw_wait f - 1\<rparr>) m)),
      GetProcessorInfo = (\<lambda>mp n m. 0), native_path = 0x5400, addr_of_TargetDP = 0x5500,
      LoadImage = (\<lambda>parent path m. (0, 0x5800, m)), StartImage = (\<lambda>image m. (0, m))\<rparr>"

definition demo_fw :: "nat \<Rightarrow> bool \<Rightarrow> fw_machine" where
  "demo_fw wait utilities =
     \<lparr>mem = (\<lambda>x. 0x7F),
      host = \<lparr>gImage = 0x4000, gMpServices = 0x5100,
              firmware = \<lparr>fw_next = 0x100000, fw_cpu = 0, fw_wait = wait, fw_gdtr = (0x2F, 0x3000),
                          fw_tr = 0, fw_has_utilities = utilities\<rparr>\<rparr>\<rparr>"

lemmas fw_defs = on_fw_def fw_of_def fw_alloc_def fw_refuses_def demo_fw_def

lemma demo_uefi_codes: "efi_codes_ok demo_uefi"
  by (simp add: efi_codes_ok_def EFI_ERROR_def demo_uefi_def)

lemma demo_pool_keeps: "pool_keeps demo_uefi a"
  by (simp add: pool_keeps_def demo_uefi_def fw_defs)

lemma demo_mp_ok: "mp_ok demo_uefi (\<lambda>m. fw_cpu (fw_of m))"
  by (simp add: mp_ok_def demo_uefi_def fw_defs)

text \<open>The preparation of the processors changes the machine alone; a console that always answers.\<close>

lemma firm_frame: "firm f s = (r, s') \<Longrightarrow> s' = s\<lparr>machine := machine s'\<rparr>"
  by (auto simp: firm_def split: prod.splits)

lemma snd_firm: "\<exists>m. snd (firm f s) = s\<lparr>machine := m\<rparr>"
  by (auto simp: firm_def split: prod.splits)

lemma snd_firm_machine: "\<exists>m'. snd (firm f (s\<lparr>machine := m\<rparr>)) = s\<lparr>machine := m'\<rparr>"
  using snd_firm [of f "s\<lparr>machine := m\<rparr>"] by simp

lemma visit_frame: "\<exists>st m. visit_processor X i s = (st, s\<lparr>machine := m\<rparr>)"
  using snd_firm [of "uefi_platform_set_affinity X (of_nat i)" s]
  by (auto simp: visit_processor_def case_prod_beta Let_def)

lemma prepare_frame: "\<exists>m. snd (prepare_processors X n i st s) = s\<lparr>machine := m\<rparr>"
proof (induction n arbitrary: i st s)
  case 0
  show ?case by (intro exI [of _ "machine s"]) simp
next
  case (Suc n)
  obtain st1 m where v: "visit_processor X i s = (st1, s\<lparr>machine := m\<rparr>)" using visit_frame by metis
  obtain m1 where p: "snd (firm (PrepareProcessor X) (s\<lparr>machine := m\<rparr>)) = s\<lparr>machine := m1\<rparr>"
    using snd_firm_machine by blast
  obtain m2 where c: "snd (firm (CheckProcessor X) (s\<lparr>machine := m1\<rparr>)) = s\<lparr>machine := m2\<rparr>"
    using snd_firm_machine by blast
  show ?case
    using Suc.IH [of "i + 1" st1 "s\<lparr>machine := m2\<rparr>"] v p c
    by (auto simp: case_prod_beta Let_def)
qed

lemma check_frame: "\<exists>m. snd (check_processors X n i st s) = s\<lparr>machine := m\<rparr>"
proof (induction n arbitrary: i st s)
  case 0
  show ?case by (intro exI [of _ "machine s"]) simp
next
  case (Suc n)
  obtain st1 m where v: "visit_processor X i s = (st1, s\<lparr>machine := m\<rparr>)" using visit_frame by metis
  obtain m2 where c: "snd (firm (CheckProcessor X) (s\<lparr>machine := m\<rparr>)) = s\<lparr>machine := m2\<rparr>"
    using snd_firm_machine by blast
  show ?case
    using Suc.IH [of "i + 1" st1 "s\<lparr>machine := m2\<rparr>"] v c
    by (auto simp: case_prod_beta Let_def)
qed

lemma demo_visits: "fst (visit_processor demo_uefi i s) = 0"
  by (simp add: visit_processor_def demo_uefi_def case_prod_beta Let_def)

lemma demo_loops:
  "fst (prepare_processors demo_uefi n i 0 s) = 0" "fst (check_processors demo_uefi n i 0 s) = 0"
  using demo_visits
  by (induction n arbitrary: i s) (simp_all add: case_prod_beta Let_def EFI_ERROR_def)

lemma demo_keys:
  "WaitForKey demo_uefi m = m" "EFI_NOT_READY demo_uefi = 0x8000000000000006"
  "ReadKeyStroke demo_uefi k m = (if fw_wait (fw_of m) = 0 then (0, m)
     else (0x8000000000000006, on_fw (\<lambda>f. f\<lparr>fw_wait := fw_wait f - 1\<rparr>) m))"
  by (simp_all add: demo_uefi_def)

lemma demo_console: "\<exists>m'. GetKeystroke demo_uefi k m = Some (0, m')"
proof (induction "fw_wait (fw_of m)" arbitrary: m)
  case 0
  then show ?case by (simp add: GetKeystroke.simps demo_keys)
next
  case (Suc n)
  let ?m = "on_fw (\<lambda>f. f\<lparr>fw_wait := fw_wait f - 1\<rparr>) m"
  have "n = fw_wait (fw_of ?m)" unfolding on_fw_def fw_of_def using Suc.hyps(2) by (simp add: fw_of_def)
  from Suc.hyps(1) [OF this] show ?case
    using Suc.hyps(2) [symmetric] by (simp add: GetKeystroke.simps [of demo_uefi k m] demo_keys)
qed

lemma demo_keystroke:
  "\<exists>s'. keystroke demo_uefi s = Some s' \<and> g_vmm_status s' = g_vmm_status s \<and> g_num_modules s' = g_num_modules s"
  using demo_console [of 0 "machine s"] by (auto simp: keystroke_def)

text \<open>An environment on this firmware, for runs that stop before the VMM is entered.\<close>

definition fw_bfsdk :: "fw uefi_host env" where
  "fw_bfsdk = bf_consts.extend (bf_consts.truncate demo_bfsdk)
     \<lparr>platform_alloc_rw = (\<lambda>n m. (0, m)), platform_alloc_rwe = (\<lambda>n m. (0, m)),
      platform_free_rw = (\<lambda>a n m. m), platform_free_rwe = (\<lambda>a n m. m),
      platform_virt_to_phys = (\<lambda>a m. a), platform_memset = (\<lambda>p v n m. m),
      platform_memcpy = (\<lambda>d s n m. m), platform_start = (\<lambda>m. m), platform_stop = (\<lambda>m. m),
      platform_num_cpus = (\<lambda>m. (0, m)), platform_set_affinity = (\<lambda>c m. (c, m)),
      platform_restore_affinity = (\<lambda>c m. m), platform_get_current_cpu_num = (\<lambda>m. (0, m)),
      platform_restore_preemption = (\<lambda>m. m),
      bfelf_load = (\<lambda>ms n start info loader m. (0, ms, start, info, loader, m)),
      bfelf_set_integer_args = (\<lambda>info a b c d. (0, info)),
      bfelf_file_get_num_load_instrs = (\<lambda>ef. 0),
      bfelf_file_get_load_instr = (\<lambda>ef i. (0, \<lparr>instr_mem_offset = 0, instr_memsz = 0, instr_perm = 0\<rparr>)),
      vmm_entry = (\<lambda>start rsp info m. (0, info, m)), vmcall = (\<lambda>regs m. (regs, m))\<rparr>"

definition fw_env :: "fw uefi_host env" where
  "fw_env = uefi_env demo_uefi fw_bfsdk"

lemma fw_env_codes: "rc fw_env = demo_rc"
  by (simp add: fw_env_def uefi_env_def fw_bfsdk_def demo_bfsdk_def bf_consts.defs)

lemma demo_processors:
  assumes "uefi_processors demo_uefi E h (initial_state E m) = (st, s')"
  shows "\<not> EFI_ERROR st" and "g_vmm_status s' = VMM_UNLOADED" and "g_num_modules s' = 0"
proof -
  define s0 where "s0 = snd (firm (\<lambda>m. ((), m\<lparr>host := (host m)\<lparr>gMpServices := 0x5100\<rparr>\<rparr>))
    (snd (firm (\<lambda>m. ((), m\<lparr>host := (host m)\<lparr>gImage := h\<rparr>\<rparr>)) (snd (common_init E (initial_state E m))))))"
  have r: "common_reset E (initial_state E m) = (rc E BF_SUCCESS, snd (common_init E (initial_state E m)))"
    using common_reset_state(1) by (metis common_init_def prod.collapse)
  have s0: "g_vmm_status s0 = VMM_UNLOADED" "g_num_modules s0 = 0"
    using reset_fields(1,4) [OF r] by (simp_all add: s0_def firm_def)
  obtain p where p: "prepare_processors demo_uefi 2 0 0 s0 = (0, p)" "g_vmm_status p = VMM_UNLOADED" "g_num_modules p = 0"
    using prepare_frame [of demo_uefi 2 0 0 s0] demo_loops(1) [of 2 0 s0] s0
    by (cases "prepare_processors demo_uefi 2 0 0 s0") auto
  obtain q where q: "check_processors demo_uefi 2 0 0 p = (0, q)" "g_vmm_status q = VMM_UNLOADED" "g_num_modules q = 0"
    using check_frame [of demo_uefi 2 0 0 p] demo_loops(2) [of 2 0 p] p
    by (cases "check_processors demo_uefi 2 0 0 p") auto
  obtain n where n: "snd (firm (uefi_platform_set_affinity demo_uefi 0) q) = q\<lparr>machine := n\<rparr>"
    using snd_firm by blast
  have "LocateProtocol demo_uefi gEfiMpServiceProtocolGuid old m = (0, 0x5100)"
    "GetNumberOfProcessors demo_uefi a m = (0, 2, 2)" for old a m
    by (simp_all add: demo_uefi_def)
  then have "st = 0 \<and> s' = q\<lparr>machine := n\<rparr>"
    using assms p(1) q(1) n
    by (simp add: uefi_processors_def case_prod_beta Let_def EFI_ERROR_def s0_def [symmetric])
  then show "\<not> EFI_ERROR st" and "g_vmm_status s' = VMM_UNLOADED" and "g_num_modules s' = 0"
    using q(2,3) by (simp_all add: EFI_ERROR_def)
qed

end
