(* ===== verification/Uefi_Properties.thy ===== *)
theory Uefi_Properties
  imports Uefi_Firmware Common_Safety Linux_Invariant
begin

text \<open>Properties of the UEFI port, with witnesses on the firmware of \<open>Uefi_Firmware\<close>.\<close>

section \<open>Platform layer\<close>

text \<open>
  The number of pages that an allocation asks for covers the length with at most one
  page to spare, and freeing the block with the same length returns the same number.
\<close>

theorem uefi_pages_match:
  assumes "EFI_PAGE_SIZE F \<noteq> 0" and "unat len < 2 ^ 63"
  shows "\<exists>n. uefi_platform_alloc_rw F len m =
      (case AllocatePages F EfiLoaderData n m of (st, a, m') \<Rightarrow> (if EFI_ERROR st then 0 else a, m')) \<and>
    uefi_platform_free_rw F a len m2 = snd (FreePages F a n m2) \<and>
    unat len < unat n * unat (EFI_PAGE_SIZE F) \<and>
    unat n * unat (EFI_PAGE_SIZE F) \<le> unat len + unat (EFI_PAGE_SIZE F)"
  using pages_cover [OF assms]
  by (intro exI [of _ "len div EFI_PAGE_SIZE F + 1"])
    (auto simp: uefi_platform_alloc_rw_def uefi_alloc_def uefi_platform_free_rw_def split: prod.splits)

theorem uefi_pages_match_witness:
  "\<exists>n. uefi_platform_free_rw demo_uefi 0x100000 0x10000 (demo_fw 0 True) =
      snd (FreePages demo_uefi 0x100000 n (demo_fw 0 True)) \<and> 0x10000 < unat n * 0x1000"
  using uefi_pages_match [of demo_uefi "0x10000"] by (force simp: demo_uefi_def)

text \<open>
  C40. Moving the thread to a CPU and restoring it. A move to a CPU on which the thread already is, or
  to which the processor services agree to switch, leaves the thread on that CPU and answers
  the CPU it came from; any other move answers -1 and leaves it where it was. Restoring an
  answer, from wherever the thread is then, brings it back to the CPU it came from if the
  services agree to that switch, and leaves it where it is if they do not.
\<close>

theorem uefi_affinity_round_trip:
  assumes "mp_ok F cpu" and "uefi_platform_set_affinity F c m = (a, m1)"
  shows "(if cpu m = c \<or> mp_accepts F c m then a = cpu m \<and> cpu m1 = c else a = -1 \<and> cpu m1 = cpu m) \<and>
    (\<forall>m2. cpu (uefi_platform_restore_affinity F (cpu m) m2) =
      (if mp_accepts F (cpu m) m2 then cpu m else cpu m2))"
proof -
  have "cpu (uefi_platform_restore_affinity F (cpu m) m2) = (if mp_accepts F (cpu m) m2 then cpu m else cpu m2)" for m2
  proof -
    obtain r m3 where "uefi_platform_set_affinity F (cpu m) m2 = (r, m3)" by force
    from uefi_set_affinity_result [OF assms(1) this] this show ?thesis
      by (auto simp: uefi_platform_restore_affinity_def split: if_splits)
  qed
  then show ?thesis using uefi_set_affinity_result [OF assms] by blast
qed

text \<open>To the other processor and back.\<close>

theorem uefi_affinity_round_trip_witness:
  "\<exists>m1. uefi_platform_set_affinity demo_uefi 1 (demo_fw 0 True) = (0, m1) \<and> fw_cpu (fw_of m1) = 1 \<and>
    fw_cpu (fw_of (uefi_platform_restore_affinity demo_uefi 0 m1)) = 0"
proof -
  obtain m1 where run: "uefi_platform_set_affinity demo_uefi 1 (demo_fw 0 True) = (0, m1)"
    and back_ok: "mp_accepts demo_uefi 0 m1"
    by (simp add: uefi_platform_set_affinity_def mp_accepts_def demo_uefi_def fw_defs Let_def)
  have "mp_accepts demo_uefi 1 (demo_fw 0 True)" by (simp add: mp_accepts_def demo_uefi_def fw_defs)
  then show ?thesis
    using uefi_affinity_round_trip [OF demo_mp_ok run] run back_ok by (auto simp: fw_defs split: if_splits)
qed

section \<open>The processor\<close>

text \<open>
  C34. The descriptor that \<open>PrepareProcessor\<close> builds, read back as the processor reads it: its
  base is the address of the task segment, for every address; it is a present 64-bit task
  segment of privilege 0 with byte granularity; bits 0 to 15 of its limit are the size of
  the segment less one, and bits 16 to 19 are those of the entry it replaces.
\<close>

theorem tss_descriptor_round_trip:
  "descriptor_base (tss_descriptor tss e) = tss \<and>
   map (\<lambda>f. gdt_get f (tss_descriptor tss e)) [Type, Dpl, Present, Granularity, MustBeZero] = [9, 0, 1, 0, 0] \<and>
   descriptor_limit (tss_descriptor tss e) = (sizeof_KTSS64 - 1) OR push_bit 16 (gdt_get LimitHigh e)"
  by (simp add: tss_descriptor_base tss_descriptor_fields descriptor_limit_def sizeof_KTSS64_def)

text \<open>
  C35. \<open>PrepareProcessor\<close> on a processor whose table has the limit \<open>limit\<close>: it succeeds when
  both allocations do, loads the new table and its task register, and the entry at 0x60 of
  the new table describes the task segment. The limit it loads is 0x70, so the table the
  processor uses has 0x71 bytes: one more than the block when the old table was no longer
  than 0x70 bytes, and less than the old table when that was longer than 0x71.
\<close>

theorem prepare_processor_installs_tss:
  assumes run: "PrepareProcessor P m = (0, m')" and oor: "EFI_OUT_OF_RESOURCES P \<noteq> 0"
    and old: "sgdt P (clear_alignment_check P m) = (limit, base)"
  shows "\<exists>gdt size tss m1 m2 m3.
    AllocateRuntimeZeroPool P size (clear_alignment_check P m) = (gdt, m1) \<and> gdt \<noteq> 0 \<and>
    AllocateRuntimeZeroPool P (sizeof_KTSS64 * 2) (CopyMem P gdt base (ucast limit + 1) m1) = (tss, m2) \<and>
    tss \<noteq> 0 \<and> m' = ltr P 0x60 (lgdt P 0x70 gdt m3) \<and>
    descriptor_base (read_entry (gdt + 0x60) (mem m3)) = tss \<and>
    (limit < 0x70 \<longrightarrow> size = 0x70) \<and> (0x70 \<le> limit \<longrightarrow> size = ucast limit + 1)"
proof -
  let ?m = "clear_alignment_check P m" and ?size = "max (ucast limit + 1) 0x70 :: uint64"
  obtain gdt m1 where gdt: "AllocateRuntimeZeroPool P ?size ?m = (gdt, m1)" by force
  obtain tss m2 where tss: "AllocateRuntimeZeroPool P (sizeof_KTSS64 * 2)
      (CopyMem P gdt base (ucast limit + 1) m1) = (tss, m2)" by force
  define m3 where "m3 = m2\<lparr>mem := write_entry (gdt + 0x60)
      (tss_descriptor tss (read_entry (gdt + 0x60) (mem m2))) (mem m2)\<rparr>"
  have "gdt \<noteq> 0 \<and> tss \<noteq> 0 \<and> m' = ltr P 0x60 (lgdt P 0x70 gdt m3)"
    using run oor
    by (simp add: PrepareProcessor_def old gdt tss m3_def Let_def KGDT64_SYS_TSS_def
        sizeof_KGDTENTRY64_def split: if_splits)
  moreover have "descriptor_base (read_entry (gdt + 0x60) (mem m3)) = tss"
    by (simp add: m3_def read_write_entry tss_descriptor_base)
  moreover have "(limit < 0x70 \<longrightarrow> ?size = 0x70) \<and> (0x70 \<le> limit \<longrightarrow> ?size = ucast limit + 1)"
    using table_size [of limit] by blast
  ultimately show ?thesis using gdt tss by blast
qed

theorem prepare_processor_installs_tss_witness:
  "\<exists>m'. PrepareProcessor demo_uefi (demo_fw 0 True) = (0, m') \<and>
     (\<exists>gdt size. size = (0x70 :: uint64) \<and> fw_gdtr (fw_of m') = (0x70, gdt))"
proof -
  have run: "\<exists>m'. PrepareProcessor demo_uefi (demo_fw 0 True) = (0, m')"
    by (simp add: PrepareProcessor_def clear_alignment_check_def demo_uefi_def fw_defs Let_def
        KGDT64_SYS_TSS_def sizeof_KGDTENTRY64_def)
  have old: "sgdt demo_uefi (clear_alignment_check demo_uefi (demo_fw 0 True)) = (0x2F, 0x3000)"
    by (simp add: clear_alignment_check_def demo_uefi_def fw_defs)
  have "EFI_OUT_OF_RESOURCES demo_uefi \<noteq> 0" by (simp add: demo_uefi_def)
  from prepare_processor_installs_tss [OF _ this old] run show ?thesis
    by (fastforce simp: demo_uefi_def on_fw_def fw_of_def)
qed

section \<open>Files and device paths\<close>

text \<open>
  Printing a device path returns when the path is well formed, whatever its nodes; it
  does not return on a path that starts with a node of length 0.
\<close>

theorem print_device_path_returns:
  assumes "p \<noteq> 0"
  shows "(device_path (mem m) p ls \<longrightarrow> PrintDevicePath X p m = Some 0) \<and>
    (mem m p \<noteq> 0x7F \<and> load_u16 (p + 2) (mem m) = 0 \<longrightarrow> PrintDevicePath X p m = None)"
  using assms device_path_returns [of "mem m" p ls] device_path_stuck [of "mem m" p]
  by (cases "device_path_loop (mem m) p") (auto simp: PrintDevicePath_def)

definition demo_path :: fw_machine where
  "demo_path = (demo_fw 0 True)\<lparr>mem := (\<lambda>x. 0x7F)(0x6000 := 4, 0x6001 := 4, 0x6002 := 12, 0x6003 := 0)\<rparr>"

theorem print_device_path_returns_witness:
  "PrintDevicePath demo_uefi 0x6000 demo_path = Some 0 \<and>
   PrintDevicePath demo_uefi 0x6000 (demo_path\<lparr>mem := (mem demo_path)(0x6002 := 0)\<rparr>) = None"
  using print_device_path_returns [of "0x6000" demo_path "[12]" demo_uefi]
    print_device_path_returns [of "0x6000" "demo_path\<lparr>mem := (mem demo_path)(0x6002 := 0)\<rparr>" "[]" demo_uefi]
  by (simp add: demo_path_def load_u16_def)

text \<open>
  C39. A \<open>ReadFile\<close> that succeeds stores in \<open>*BufferSize\<close> the size that the information about
  the file gives, allocates a block of exactly that size, stores its address in \<open>*Buffer\<close>,
  and its last step reads the file into that block.
\<close>

theorem read_file_fills_block_of_file_size:
  assumes run: "ReadFile X path B S m = (r, m')" and ok: "\<not> EFI_ERROR r" and codes: "efi_codes_ok X"
    and keeps: "pool_keeps X S" and apart: "disjoint_blocks S 8 B 8"
  shows "\<exists>target info size buf m1 m2 st m3 m4.
    GetInfo X target S info m1 = (st, m2) \<and> \<not> EFI_ERROR st \<and>
    size = load_u64 (info + off_FileSize X) (mem m2) \<and>
    (\<exists>old st. AllocatePool X EfiLoaderData size old m3 = (st, buf, m4) \<and> \<not> EFI_ERROR st) \<and>
    load_u64 S (mem (m4\<lparr>mem := store_u64 B buf (mem m4)\<rparr>)) = size \<and>
    load_u64 B (mem (m4\<lparr>mem := store_u64 B buf (mem m4)\<rparr>)) = buf \<and>
    FileRead X target S buf (m4\<lparr>mem := store_u64 B buf (mem m4)\<rparr>) = (r, m')"
proof -
  obtain target m0 st m1 old buf m4 where z: "ReadFile_size X target S m0 = (st, m1)" "\<not> EFI_ERROR st"
    and a: "\<exists>st2. AllocatePool X EfiLoaderData (load_u64 S (mem m1)) old m1 = (st2, buf, m4) \<and> \<not> EFI_ERROR st2"
    and rd: "FileRead X target S buf (m4\<lparr>mem := store_u64 B buf (mem m4)\<rparr>) = (r, m')"
    and S: "load_u64 S (mem (m4\<lparr>mem := store_u64 B buf (mem m4)\<rparr>)) = load_u64 S (mem m1)"
    by (rule ReadFile_success [OF run ok codes keeps apart])
  obtain info ma mb st' where i: "GetInfo X target S info ma = (st', mb)" "\<not> EFI_ERROR st'"
    "load_u64 S (mem m1) = load_u64 (info + off_FileSize X) (mem mb)"
    by (rule ReadFile_size_success [OF z codes keeps])
  show ?thesis
    by (rule exI [of _ target], rule exI [of _ info], rule exI [of _ "load_u64 S (mem m1)"],
        rule exI [of _ buf], rule exI [of _ ma], rule exI [of _ mb], rule exI [of _ st'],
        rule exI [of _ m1], rule exI [of _ m4])
      (use i a rd S in auto)
qed

theorem read_file_fills_block_of_file_size_witness:
  "\<exists>m'. ReadFile demo_uefi 0x5400 0x6000 0x6100 (demo_fw 0 True) = (0, m') \<and>
    (\<exists>target buf m4. FileRead demo_uefi target 0x6100 buf (m4\<lparr>mem := store_u64 0x6000 buf (mem m4)\<rparr>) = (0, m'))"
proof -
  have apart: "disjoint_blocks 0x6100 8 0x6000 8"
    by (rule disjoint_blocksI) simp_all
  have "\<exists>m'. ReadFile demo_uefi 0x5400 0x6000 0x6100 (demo_fw 0 True) = (0, m')"
    by (simp add: ReadFile_def ReadFile_open_def ReadFile_size_def SASSERT_def EFI_ERROR_def
        demo_uefi_def Let_def fw_defs load_u64_def load_bytes_def u64_of_bytes_def upt_rec)
  then show ?thesis
    using read_file_fills_block_of_file_size [OF _ _ demo_uefi_codes demo_pool_keeps apart]
    by (fastforce simp: EFI_ERROR_def)
qed

text \<open>
  \<open>GenerateFileDP\<close> drops the status of the last service it looks up. When that service
  is missing, so that \<open>DPU\<close> keeps its indeterminate value, the function calls through it and
  returns success.
\<close>

theorem generate_file_path_ignores_missing_service:
  assumes "P \<noteq> 0" and "T \<noteq> 0" and "StrLen X T (mem m) \<noteq> 0"
    and "HandleProtocol X (gImage (host m)) gEfiLoadedImageProtocolGuid m = (0, li)"
    and "HandleProtocol X (load_u64 (li + off_DeviceHandle X) (mem m)) gEfiDevicePathProtocolGuid m = (0, dev)"
    and "AllocatePool X EfiLoaderData (StrSize X T (mem m) + 4) 0 m = (0, node, m1)"
    and missing: "\<And>m. LocateProtocol X gEfiDevicePathUtilitiesProtocolGuid (uninit_DPU X) m = (e, uninit_DPU X)"
  shows "\<exists>m2 path m3. AppendDeviceNode X (uninit_DPU X) dev node m2 = (path, m3) \<and>
    GenerateFileDP X T P m = (0, m3\<lparr>mem := store_u64 P path (mem m3)\<rparr>)"
  using assms
  by (simp add: GenerateFileDP_def SASSERT_def EFI_ERROR_def Let_def case_prod_beta)
    (metis prod.collapse)

definition bare_uefi :: "fw uefi_app" where
  "bare_uefi = demo_uefi\<lparr>LocateProtocol := (\<lambda>g old m. (0x800000000000000E, old))\<rparr>"

theorem generate_file_path_ignores_missing_service_witness:
  "\<exists>m'. GenerateFileDP bare_uefi 0x5400 0x5500 (demo_fw 0 True) = (0, m')"
proof -
  have a: "AllocatePool bare_uefi EfiLoaderData (StrSize bare_uefi 0x5400 (mem (demo_fw 0 True)) + 4) 0
      (demo_fw 0 True) = (0, fw_alloc 12 (demo_fw 0 True))"
    by (simp add: bare_uefi_def demo_uefi_def)
  have "HandleProtocol bare_uefi (gImage (host (demo_fw 0 True))) gEfiLoadedImageProtocolGuid (demo_fw 0 True)
      = (0, 0x5000)"
    by (simp add: bare_uefi_def demo_uefi_def)
  from generate_file_path_ignores_missing_service [OF _ _ _ this _ a [unfolded fw_alloc_def],
      where P = "0x5500" and dev = "0x5000" and e = "0x800000000000000E"]
  show ?thesis by (auto simp: bare_uefi_def demo_uefi_def)
qed

section \<open>The application\<close>

text \<open>Adding a list of modules to an unloaded driver: the table grows, nothing else changes.\<close>

lemma hypervisor_modules_added:
  assumes "env_ok E" and "vmm_inv E s" and "g_vmm_status s = VMM_UNLOADED" and "modules \<noteq> []"
    and "\<forall>(a, n) \<in> set modules. a \<noteq> 0 \<and> (ucast n :: uint64) \<noteq> 0"
    and "sint (g_num_modules s) + int (length modules) \<le> int (MAX_NUM_MODULES E)"
    and "add_hypervisor_modules E modules ret s = (r, s')"
  shows "r = rc E BF_SUCCESS \<and> vmm_inv E s' \<and> g_vmm_status s' = VMM_UNLOADED \<and> machine s' = machine s \<and>
    sint (g_num_modules s') = sint (g_num_modules s) + int (length modules) \<and>
    core_files s' = core_files s @ map (\<lambda>(a, n). (a, ucast n)) modules"
  using assms(2-7)
proof (induction modules arbitrary: ret s)
  case (Cons m rest)
  obtain a n where m: "m = (a, n)" by force
  obtain q t where t: "common_add_module E a (ucast n) s = (q, t)" by force
  note b = add_module_branches [OF assms(1) Cons.prems(1) t]
  have added: "q = rc E BF_SUCCESS" "sint (g_num_modules t) = sint (g_num_modules s) + 1"
    "core_files t = core_files s @ [(a, ucast n)]"
    using b Cons.prems(2,4,5) m by (auto simp: core_files_def)
  have inv: "vmm_inv E t" using common_add_module_inv [OF t Cons.prems(1) assms(1)] .
  have st: "g_vmm_status t = VMM_UNLOADED"
    using add_refines [OF t env_okD(1) [OF assms(1)]] Cons.prems(2) by (simp add: lifecycle_add_simps)
  have mt: "machine t = machine s"
    using t by (cases rule: common_add_module_cases) simp_all
  have run: "add_hypervisor_modules E rest q t = (r, s')"
    using Cons.prems(6) m t added(1) codes_ok_success(1) [OF env_okD(1) [OF assms(1)]] by simp
  show ?case
  proof (cases rest)
    case Nil
    then show ?thesis using run added inv m mt st by simp
  next
    case more: (Cons m' rest')
    then show ?thesis
      using Cons.IH [OF inv st _ _ _ run] Cons.prems(4,5) added(2,3) m mt by simp
  qed
qed simp

text \<open>
  \<open>add_hypervisor_modules\<close> gives the core every module of the list, in order, when the
  driver is unloaded and the table has room for them.
\<close>

theorem uefi_modules_are_added:
  assumes "env_ok E" and "vmm_inv E s" and "g_vmm_status s = VMM_UNLOADED" and "modules \<noteq> []"
    and "\<forall>(a, n) \<in> set modules. a \<noteq> 0 \<and> (ucast n :: uint64) \<noteq> 0"
    and "sint (g_num_modules s) + int (length modules) \<le> int (MAX_NUM_MODULES E)"
    and "add_hypervisor_modules E modules ret s = (r, s')"
  shows "r = rc E BF_SUCCESS \<and> vmm_inv E s' \<and>
    core_files s' = core_files s @ map (\<lambda>(a, n). (a, ucast n)) modules"
  using hypervisor_modules_added [OF assms] by blast

theorem uefi_modules_are_added_witness:
  "\<exists>s'. add_hypervisor_modules demo_env [(0x2000, 16), (0x3000, 8)] 7 (demo_state [] []) = (0, s') \<and>
     core_files s' = [(0x2000, 16), (0x3000, 8)]"
proof -
  obtain r s' where run: "add_hypervisor_modules demo_env [(0x2000, 16), (0x3000, 8)] 7 (demo_state [] []) = (r, s')"
    by force
  from uefi_modules_are_added [OF demo_env_ok demo_state_inv _ _ _ _ run] run show ?thesis
    by (simp add: demo_consts demo_states core_files_def)
qed

text \<open>
  When the VMM could not be loaded or started, \<open>UefiMain\<close> waits for a key and returns the
  status of the preparation of the processors, which is not an error.
\<close>

theorem uefi_main_hides_failed_start:
  assumes "uefi_processors X E h s = (st, s1)" and "\<not> EFI_ERROR st" and "keystroke X s1 = Some s2"
    and "uefi_start_vmm X E modules ret s2 = Some (False, s3)" and "keystroke X s3 = Some s'"
  shows "\<exists>status. UefiMain X E modules ret h s = Some (status, s') \<and> \<not> EFI_ERROR status"
  using assms by (simp add: UefiMain_def uefi_abort_def)

theorem uefi_main_hides_failed_start_witness:
  "\<exists>status s'. UefiMain demo_uefi fw_env [] 7 0x4000 (initial_state fw_env (demo_fw 1 True)) = Some (status, s') \<and>
     \<not> EFI_ERROR status"
proof -
  let ?s = "initial_state fw_env (demo_fw 1 True)"
  obtain st s1 where p: "uefi_processors demo_uefi fw_env 0x4000 ?s = (st, s1)" by force
  note st = demo_processors [OF p]
  obtain s2 where k: "keystroke demo_uefi s1 = Some s2" "g_vmm_status s2 = g_vmm_status s1"
    "g_num_modules s2 = g_num_modules s1"
    using demo_keystroke by metis
  obtain s2' where k': "keystroke demo_uefi s2 = Some s2'" "g_vmm_status s2' = g_vmm_status s2"
    "g_num_modules s2' = g_num_modules s2"
    using demo_keystroke by metis
  have "uefi_start_vmm demo_uefi fw_env [] 7 s2 = Some (False, s2')"
    using k k' st fw_env_codes
    by (simp add: uefi_start_vmm_def common_load_vmm_def common_vmm_status_def)
  moreover obtain s3 where "keystroke demo_uefi s2' = Some s3" using demo_keystroke by metis
  ultimately show ?thesis
    using uefi_main_hides_failed_start [OF p _ k(1)] st(1) by blast
qed

end
