(* ===== verification/Uefi_Boot.thy ===== *)
theory Uefi_Boot
  imports Uefi_Properties Cooperation
begin

text \<open>
  The boot of a machine by the UEFI application when nothing fails: the firmware, the
  loader and the VMM keep a set \<open>G\<close> of good states, and the console always has a key in
  the end. Then \<open>UefiMain\<close> reaches the next boot image with the VMM running on every CPU.
\<close>

section \<open>A firmware that does not fail\<close>

text \<open>
  The processor services have \<open>N\<close> processors, numbered from 0. Nothing is asked of
  \<open>AllocateRuntimeZeroPool\<close>, whose failure \<open>UefiMain\<close> does not notice. The services that move
  the thread enable and switch to every processor but the one it runs on: that one, and numbers
  that are no processor's, they may refuse, as the MP services specification has it
  (\<open>EFI_INVALID_PARAMETER\<close>, \<open>EFI_NOT_FOUND\<close>).
\<close>

definition firmware_good ::
  "('k, 'z) uefi_app_scheme \<Rightarrow> int64 \<Rightarrow> ('k uefi_host machine \<Rightarrow> bool) \<Rightarrow> bool" where
  "firmware_good X N G \<longleftrightarrow>
     0 < sint N \<and> (\<forall>m x. G m \<longrightarrow> G (m\<lparr>mem := x\<rparr>)) \<and>
     (\<forall>m ty k st a m'. G m \<longrightarrow> AllocatePages X ty k m = (st, a, m') \<longrightarrow> \<not> EFI_ERROR st \<and> a \<noteq> 0 \<and> G m') \<and>
     (\<forall>m p k v. G m \<longrightarrow> G (SetMem X p k v m)) \<and> (\<forall>m d s k. G m \<longrightarrow> G (CopyMem X d s k m)) \<and>
     (\<forall>m. G m \<longrightarrow> gMpServices (host m) \<noteq> 0) \<and>
     (\<forall>m. G m \<longrightarrow> (\<exists>st e. GetNumberOfProcessors X (gMpServices (host m)) m = (st, N, e) \<and> \<not> EFI_ERROR st)) \<and>
     (\<forall>m. G m \<longrightarrow> (\<exists>c. WhoAmI X (gMpServices (host m)) m = (0, c) \<and> 0 \<le> sint c)) \<and>
     (\<forall>m mp k st m'. G m \<longrightarrow> EnableDisableAP X mp k True m = (st, m') \<longrightarrow>
        G m' \<and> WhoAmI X mp m' = WhoAmI X mp m \<and> (unat k < unat N \<and> k \<noteq> snd (WhoAmI X mp m) \<longrightarrow> st = 0)) \<and>
     (\<forall>m mp k st m'. G m \<longrightarrow> SwitchBSP X mp k True m = (st, m') \<longrightarrow>
        G m' \<and> (unat k < unat N \<and> k \<noteq> snd (WhoAmI X mp m) \<longrightarrow> st = 0)) \<and>
     (\<forall>m k. G m \<longrightarrow> unat k < unat N \<longrightarrow> \<not> EFI_ERROR (GetProcessorInfo X (gMpServices (host m)) k m)) \<and>
     (\<forall>m v. G m \<longrightarrow> G (wr_eflags X v m)) \<and>
     (\<forall>m k a m'. G m \<longrightarrow> AllocateRuntimeZeroPool X k m = (a, m') \<longrightarrow> G m') \<and>
     (\<forall>m a. G m \<longrightarrow> G (FreePool X a m)) \<and> (\<forall>m l b. G m \<longrightarrow> G (lgdt X l b m)) \<and>
     (\<forall>m sel. G m \<longrightarrow> G (ltr X sel m)) \<and>
     (\<forall>m. G m \<longrightarrow> (\<exists>k m1 st m2. not_ready X 0 k m = Some m1 \<and>
        ReadKeyStroke X 0 (WaitForKey X m1) = (st, m2) \<and> st \<noteq> EFI_NOT_READY X \<and> G m2))"

lemma firmware_goodD:
  assumes "firmware_good X N G" and "G m"
  shows "0 < sint N" and "G (m\<lparr>mem := x\<rparr>)"
    and "AllocatePages X ty k m = (st, a, m') \<Longrightarrow> \<not> EFI_ERROR st \<and> a \<noteq> 0 \<and> G m'"
    and "G (SetMem X p k v m)" and "G (CopyMem X p q k m)" and "gMpServices (host m) \<noteq> 0"
    and "\<exists>st e. GetNumberOfProcessors X (gMpServices (host m)) m = (st, N, e) \<and> \<not> EFI_ERROR st"
    and "\<exists>c. WhoAmI X (gMpServices (host m)) m = (0, c) \<and> 0 \<le> sint c"
    and "EnableDisableAP X mp k True m = (st, m') \<Longrightarrow>
      G m' \<and> WhoAmI X mp m' = WhoAmI X mp m \<and> (unat k < unat N \<and> k \<noteq> snd (WhoAmI X mp m) \<longrightarrow> st = 0)"
    and "SwitchBSP X mp k True m = (st, m') \<Longrightarrow> G m' \<and> (unat k < unat N \<and> k \<noteq> snd (WhoAmI X mp m) \<longrightarrow> st = 0)"
    and "unat k < unat N \<Longrightarrow> \<not> EFI_ERROR (GetProcessorInfo X (gMpServices (host m)) k m)"
    and "G (wr_eflags X w m)" and "AllocateRuntimeZeroPool X k m = (a, m') \<Longrightarrow> G m'"
    and "G (FreePool X p m)" and "G (lgdt X l q m)" and "G (ltr X sel m)"
    and "\<exists>k m1 st m2. not_ready X 0 k m = Some m1 \<and>
      ReadKeyStroke X 0 (WaitForKey X m1) = (st, m2) \<and> st \<noteq> EFI_NOT_READY X \<and> G m2"
  using assms unfolding firmware_good_def by - (elim conjE, metis)+

definition uefi_good ::
  "('k, 'z) uefi_app_scheme \<Rightarrow> 'k uefi_host env \<Rightarrow> int64 \<Rightarrow> ('k uefi_host machine \<Rightarrow> bool) \<Rightarrow> bool" where
  "uefi_good X B N G \<longleftrightarrow>
     env_ok B \<and> STACK_SIZE B * 2 \<noteq> 0 \<and> THREAD_LOCAL_STORAGE_SIZE B * N \<noteq> 0 \<and>
     firmware_good X N G \<and> vmm_good B G"

lemma uefi_env_library:
  "bfelf_load (uefi_env F B) = bfelf_load B"
  "bfelf_set_integer_args (uefi_env F B) = bfelf_set_integer_args B"
  "bfelf_file_get_load_instr (uefi_env F B) = bfelf_file_get_load_instr B"
  "vmm_entry (uefi_env F B) = vmm_entry B" "vmcall (uefi_env F B) = vmcall B"
  "STACK_SIZE (uefi_env F B) = STACK_SIZE B" "MAX_NUM_MODULES (uefi_env F B) = MAX_NUM_MODULES B"
  "THREAD_LOCAL_STORAGE_SIZE (uefi_env F B) = THREAD_LOCAL_STORAGE_SIZE B"
  "platform_restore_preemption (uefi_env F B) = uefi_platform_restore_preemption"
  "platform_start (uefi_env F B) = uefi_platform_start" "platform_stop (uefi_env F B) = uefi_platform_stop"
  by (simp_all add: uefi_env_def)

lemmas uefi_fields = uefi_env_library uefi_env_platform

lemma unat_less_of_sint:
  assumes "0 \<le> sint (c :: int64)" and "sint c < sint (N :: int64)"
  shows "unat c < unat N"
proof -
  have "uint c = sint c" "uint N = sint N"
    using assms sint_less_max [of c] sint_less_max [of N] by (simp_all add: uint_sint take_bit_int_eq_self)
  then show ?thesis using assms by (simp add: unat_eq_nat_uint nat_less_eq_zless)
qed

lemma uefi_affinity_good:
  assumes good: "firmware_good X N G" "G m" and run: "uefi_platform_set_affinity X c m = (r, m')"
  shows "G m'" and "0 \<le> sint c \<Longrightarrow> sint c < sint N \<Longrightarrow> 0 \<le> sint r"
proof -
  obtain cpu where who: "WhoAmI X (gMpServices (host m)) m = (0, cpu)" "0 \<le> sint cpu"
    using firmware_goodD(8) [OF good] by blast
  obtain st m1 where e: "EnableDisableAP X (gMpServices (host m)) c True m = (st, m1)" by force
  obtain st' m2 where b: "SwitchBSP X (gMpServices (host m)) c True m1 = (st', m2)" by force
  note e' = firmware_goodD(9) [OF good e]
  note b' = firmware_goodD(10) [OF good(1) _ b]
  show "G m'" using run who e e' b b' good(2)
    by (auto simp: uefi_platform_set_affinity_def Let_def split: if_splits)
  show "0 \<le> sint r" if "0 \<le> sint c" "sint c < sint N"
    using run who e e' b b' unat_less_of_sint [OF that]
    by (auto simp: uefi_platform_set_affinity_def Let_def split: if_splits)
qed

interpretation uefi_coop: cooperative_world "uefi_env X B" "\<lambda>m. uefi_good X B N G \<and> G m" N
  for X :: "('k, 'z) uefi_app_scheme" and B :: "'k uefi_host env" and N :: int64
    and G :: "'k uefi_host machine \<Rightarrow> bool"
proof unfold_locales
  fix m :: "'k uefi_host machine"
  assume g: "uefi_good X B N G \<and> G m"
  then have good: "uefi_good X B N G" and fg: "firmware_good X N G" and vg: "vmm_good B G" and gm: "G m"
    by (simp_all add: uefi_good_def)
  note d = firmware_goodD [OF fg gm] and v = vmm_goodD [OF vg]
  show "env_ok (uefi_env X B)" and "STACK_SIZE (uefi_env X B) * 2 \<noteq> 0"
    and "THREAD_LOCAL_STORAGE_SIZE (uefi_env X B) * N \<noteq> 0"
    using good by (simp_all add: uefi_good_def uefi_fields)
  show "0 < sint N" by (rule d(1))
  show "uefi_good X B N G \<and> G (m\<lparr>mem := x\<rparr>)" for x using good d(2) by simp
  show "a \<noteq> 0 \<and> uefi_good X B N G \<and> G m'" if "n \<noteq> 0" "platform_alloc_rw (uefi_env X B) n m = (a, m')" for n a m'
    using good d(3) that by (auto simp: uefi_fields uefi_platform_alloc_rw_def uefi_alloc_def split: prod.splits if_splits)
  show "uefi_good X B N G \<and> G (platform_memset (uefi_env X B) p b n m)" for p b n
    using good d(4) by (simp add: uefi_fields uefi_platform_memset_def)
  show "k = N \<and> uefi_good X B N G \<and> G m'" if "platform_num_cpus (uefi_env X B) m = (k, m')" for k m'
    using that g d(6,7) by (auto simp: uefi_fields uefi_platform_num_cpus_def Let_def)
  show "ret = rc (uefi_env X B) BF_SUCCESS \<and> st' \<noteq> 0 \<and> uefi_good X B N G \<and> G m'"
    if "bfelf_load (uefi_env X B) ms n st info loader m = (ret, ms', st', info', loader', m')"
    for ms n st info loader ret ms' st' info' loader' m'
    using that good v(1) [OF gm] by (simp add: uefi_fields)
  show "fst (bfelf_set_integer_args (uefi_env X B) info r a1 a2 a3) = rc (uefi_env X B) BF_SUCCESS"
    for info r a1 a2 a3 using v(2) by (simp add: uefi_fields)
  show "fst (bfelf_file_get_load_instr (uefi_env X B) ef i) = rc (uefi_env X B) BFELF_SUCCESS" for ef i
    using v(3) by (simp add: uefi_fields)
  show "uefi_good X B N G \<and> G m'" if "platform_get_current_cpu_num (uefi_env X B) m = (k, m')" for k m'
    using that g by (auto simp: uefi_fields uefi_platform_get_current_cpu_num_def split: prod.splits if_splits)
  show "uefi_good X B N G \<and> G (platform_restore_preemption (uefi_env X B) m)"
    using g by (simp add: uefi_fields uefi_platform_restore_preemption_def)
  show "ret = rc (uefi_env X B) BF_SUCCESS \<and> uefi_good X B N G \<and> G m'"
    if "vmm_entry (uefi_env X B) start rsp info m = (ret, info', m')" for start rsp info ret info' m'
    using that good v(4) [OF gm] by (simp add: uefi_fields)
  show "0 \<le> sint k \<and> uefi_good X B N G \<and> G m'"
    if "0 \<le> sint cpu" "sint cpu < sint N" "platform_set_affinity (uefi_env X B) cpu m = (k, m')" for cpu k m'
    using uefi_affinity_good [OF fg gm] that good by (simp add: uefi_fields)
  show "uefi_good X B N G \<and> G (platform_restore_affinity (uefi_env X B) k m)" for k
    using uefi_affinity_good(1) [OF fg gm, of k] good
    by (cases "uefi_platform_set_affinity X k m") (simp add: uefi_fields uefi_platform_restore_affinity_def)
  show "uefi_good X B N G \<and> G (platform_start (uefi_env X B) m)"
    "uefi_good X B N G \<and> G (platform_stop (uefi_env X B) m)"
    using g by (simp_all add: uefi_fields uefi_platform_start_def uefi_platform_stop_def)
  show "r01 regs' = 0 \<and> uefi_good X B N G \<and> G m'"
    if "vmcall (uefi_env X B) regs m = (regs', m')" for regs regs' m'
    using that good v(5) [OF gm] by (simp add: uefi_fields)
qed

section \<open>The parts of \<open>UefiMain\<close>\<close>

text \<open>A state of the driver that differs from \<open>s\<close> in the machine alone, which is good.\<close>

definition still_good :: "('h machine \<Rightarrow> bool) \<Rightarrow> 'h common_state \<Rightarrow> 'h common_state \<Rightarrow> bool" where
  "still_good G s s' \<longleftrightarrow> s' = s\<lparr>machine := machine s'\<rparr> \<and> G (machine s')"

lemma still_good_trans: "still_good G s t \<Longrightarrow> still_good G t u \<Longrightarrow> still_good G s u"
  by (cases s; cases t; cases u) (simp add: still_good_def)

lemma still_good_fields:
  assumes "still_good G s t"
  shows "G (machine t)" and "g_vmm_status t = g_vmm_status s" and "g_num_modules t = g_num_modules s"
    and "core_files t = core_files s" and "g_start t = g_start s" and "vmm_calls s t"
    and "g_num_cpus_started t = g_num_cpus_started s"
proof -
  obtain m where t: "t = s\<lparr>machine := m\<rparr>" "G m" using assms by (metis still_good_def)
  show "G (machine t)" and "g_vmm_status t = g_vmm_status s" and "g_num_modules t = g_num_modules s"
    and "core_files t = core_files s" and "g_start t = g_start s" and "vmm_calls s t"
    and "g_num_cpus_started t = g_num_cpus_started s"
    using t by (simp_all add: core_files_def vmm_calls_def vmm_only_def cong: pinned_cong live_cong exec_cong)
qed

lemma firm_good:
  assumes "firm f s = (r, s')" and "\<And>r m'. f (machine s) = (r, m') \<Longrightarrow> G m'"
  shows "still_good G s s'"
  using assms by (auto simp: firm_def still_good_def split: prod.splits)

lemma eflags_good: "firmware_good X N G \<Longrightarrow> G m \<Longrightarrow> G (clear_alignment_check X m)"
  by (simp add: clear_alignment_check_def firmware_goodD(12))

lemma prepare_good:
  assumes good: "firmware_good X N G" and run: "firm (PrepareProcessor X) s = (r, s')" and m: "G (machine s)"
  shows "still_good G s s'"
proof (rule firm_good [OF run])
  fix r m'
  assume p: "PrepareProcessor X (machine s) = (r, m')"
  let ?m = "clear_alignment_check X (machine s)"
  have m0: "G ?m" by (rule eflags_good [OF good m])
  obtain limit base where old: "sgdt X ?m = (limit, base)" by force
  obtain gdt m1 where a: "AllocateRuntimeZeroPool X (max (ucast limit + 1) (KGDT64_SYS_TSS + sizeof_KGDTENTRY64)) ?m
      = (gdt, m1)" by force
  have m1: "G m1" "G (CopyMem X gdt base (ucast limit + 1) m1)"
    using firmware_goodD(13) [OF good m0 a] firmware_goodD(5) [OF good] by blast+
  obtain tss m2 where t: "AllocateRuntimeZeroPool X (sizeof_KTSS64 * 2) (CopyMem X gdt base (ucast limit + 1) m1)
      = (tss, m2)" by force
  have m2: "G m2" by (rule firmware_goodD(13) [OF good m1(2) t])
  show "G m'"
    using p old a t m1 m2 firmware_goodD(2,14,15,16) [OF good]
    by (auto simp: PrepareProcessor_def Let_def split: if_splits)
qed

lemma check_good:
  "firmware_good X N G \<Longrightarrow> firm (CheckProcessor X) s = (r, s') \<Longrightarrow> G (machine s) \<Longrightarrow> still_good G s s'"
  by (rule firm_good) (auto simp: CheckProcessor_def intro: eflags_good)

lemma visit_good:
  assumes good: "firmware_good X N G" and run: "visit_processor X i s = (st, s')"
    and m: "G (machine s)" and i: "i < unat N"
  shows "\<not> EFI_ERROR st" and "still_good G s s'"
proof -
  obtain r t where t: "firm (uefi_platform_set_affinity X (of_nat i)) s = (r, t)" by force
  have g: "still_good G s t" using firm_good [OF t, of G] uefi_affinity_good(1) [OF good m] by blast
  have i': "unat (of_nat i :: uint64) = i"
    using i unsigned_less [of N, where ?'a = nat] by (simp add: unsigned_of_nat take_bit_nat_eq_self)
  have r: "st = GetProcessorInfo X (gMpServices (host (machine t))) (of_nat i) (machine t)" "s' = t"
    using run t by (auto simp: visit_processor_def)
  show "still_good G s s'" using g r(2) by simp
  show "\<not> EFI_ERROR st" using firmware_goodD(11) [OF good] g i i' r(1) by (simp add: still_good_def)
qed

lemma prepare_processors_good:
  assumes "firmware_good X N G" and "prepare_processors X n i st s = (st', s')"
    and "G (machine s)" and "i + n \<le> unat N" and "\<not> EFI_ERROR st"
  shows "\<not> EFI_ERROR st' \<and> still_good G s s'"
  using assms(2-)
proof (induction n arbitrary: i st s)
  case 0
  then show ?case by (auto simp: still_good_def)
next
  case (Suc n)
  obtain st1 t where v: "visit_processor X i s = (st1, t)" by force
  note g1 = visit_good [OF assms(1) v Suc.prems(2)]
  obtain r u where p: "firm (PrepareProcessor X) t = (r, u)" by force
  obtain r' w where c: "firm (CheckProcessor X) u = (r', w)" by force
  have "\<not> EFI_ERROR st1" and t: "still_good G s t" using g1 Suc.prems(3) by simp_all
  moreover have u: "still_good G t u" using prepare_good [OF assms(1) p] t by (simp add: still_good_def)
  moreover have w: "still_good G u w" using check_good [OF assms(1) c] u by (simp add: still_good_def)
  moreover have "still_good G s w" by (rule still_good_trans [OF t still_good_trans [OF u w]])
  ultimately show ?case
    using Suc.IH [of "i + 1" st1 w] Suc.prems(1,3) v p c still_good_trans [of G s w s']
    by (simp add: still_good_def)
qed

lemma check_processors_good:
  assumes "firmware_good X N G" and "check_processors X n i st s = (st', s')"
    and "G (machine s)" and "i + n \<le> unat N" and "\<not> EFI_ERROR st"
  shows "\<not> EFI_ERROR st' \<and> still_good G s s'"
  using assms(2-)
proof (induction n arbitrary: i st s)
  case 0
  then show ?case by (auto simp: still_good_def)
next
  case (Suc n)
  obtain st1 t where v: "visit_processor X i s = (st1, t)" by force
  note g1 = visit_good [OF assms(1) v Suc.prems(2)]
  obtain r w where c: "firm (CheckProcessor X) t = (r, w)" by force
  have "\<not> EFI_ERROR st1" and t: "still_good G s t" using g1 Suc.prems(3) by simp_all
  moreover have w: "still_good G t w" using check_good [OF assms(1) c] t by (simp add: still_good_def)
  moreover have "still_good G s w" by (rule still_good_trans [OF t w])
  ultimately show ?case
    using Suc.IH [of "i + 1" st1 w] Suc.prems(1,3) v c still_good_trans [of G s w s']
    by (simp add: still_good_def)
qed

lemma keystroke_good:
  assumes "firmware_good X N G" and "G (machine s)"
  shows "\<exists>s'. keystroke X s = Some s' \<and> still_good G s s'"
proof -
  obtain k m1 st m2 where key: "not_ready X 0 k (machine s) = Some m1"
    "ReadKeyStroke X 0 (WaitForKey X m1) = (st, m2)" "st \<noteq> EFI_NOT_READY X" and m2: "G m2"
    using firmware_goodD(17) [OF assms] by blast
  have "GetKeystroke X 0 (machine s) = Some (st, m2)" by (rule keystroke_returns [OF key])
  then show ?thesis using m2 by (simp add: keystroke_def still_good_def)
qed

lemma init_initial: "common_init E (initial_state E m) = (rc E BF_SUCCESS, initial_state E m)"
  by (simp add: common_init_def common_reset_def initial_state_def)

lemma initial_machine [simp]:
  "machine (initial_state E m) = m" "(initial_state E m)\<lparr>machine := m'\<rparr> = initial_state E m'"
  by (simp_all add: initial_state_def)

text \<open>The processor services are found, and the machine is good from there on.\<close>

definition services_found ::
  "('k, 'z) uefi_app_scheme \<Rightarrow> ('k uefi_host machine \<Rightarrow> bool) \<Rightarrow> uint64 \<Rightarrow> 'k uefi_host machine \<Rightarrow> bool" where
  "services_found X G h m \<longleftrightarrow>
     (case LocateProtocol X gEfiMpServiceProtocolGuid (gMpServices (host m)) (m\<lparr>host := (host m)\<lparr>gImage := h\<rparr>\<rparr>) of
        (st, mp) \<Rightarrow> \<not> EFI_ERROR st \<and> G (m\<lparr>host := (host m)\<lparr>gImage := h, gMpServices := mp\<rparr>\<rparr>))"

lemma uefi_processors_good:
  assumes good: "firmware_good X N G" and found: "services_found X G h m"
    and run: "uefi_processors X E h (initial_state E m) = (st, s')"
  shows "\<not> EFI_ERROR st" and "s' = initial_state E (machine s')" and "G (machine s')"
proof -
  obtain q mp where mp: "LocateProtocol X gEfiMpServiceProtocolGuid (gMpServices (host m))
      (m\<lparr>host := (host m)\<lparr>gImage := h\<rparr>\<rparr>) = (q, mp)" by force
  let ?m = "m\<lparr>host := (host m)\<lparr>gImage := h, gMpServices := mp\<rparr>\<rparr>"
  let ?s = "initial_state E ?m"
  have q: "\<not> EFI_ERROR q" and g: "G ?m" using found mp by (simp_all add: services_found_def)
  obtain r e where n: "GetNumberOfProcessors X mp ?m = (r, N, e)" "\<not> EFI_ERROR r"
    using firmware_goodD(7) [OF good g] by auto
  obtain st1 s1 where p: "prepare_processors X (unat N) 0 r ?s = (st1, s1)" by force
  have 1: "\<not> EFI_ERROR st1" "still_good G ?s s1"
    using prepare_processors_good [OF good p] g n(2) by simp_all
  obtain st2 s2 where c: "check_processors X (unat N) 0 st1 s1 = (st2, s2)" by force
  have 2: "\<not> EFI_ERROR st2" "still_good G s1 s2"
    using check_processors_good [OF good c] 1 by (simp_all add: still_good_def)
  obtain r' s3 where a: "firm (uefi_platform_set_affinity X 0) s2 = (r', s3)" by force
  have 3: "still_good G s2 s3"
    using firm_good [OF a, of G] uefi_affinity_good(1) [OF good] 2(2) by (auto simp: still_good_def)
  have "still_good G ?s s3" by (rule still_good_trans [OF 1(2) still_good_trans [OF 2(2) 3]])
  moreover have "st = st2 \<and> s' = s3"
    using run mp q n p c a 1(1) 2(1)
    by (simp add: uefi_processors_def init_initial firm_def [of "\<lambda>m. ((), _ m)"] Let_def)
  ultimately show "\<not> EFI_ERROR st" and "s' = initial_state E (machine s')" and "G (machine s')"
    using 2(1) by (simp_all add: still_good_def)
qed

section \<open>The boot\<close>

text \<open>What the load finds: the modules that \<open>UefiMain\<close> has added when it calls \<open>common_load_vmm\<close>.\<close>

definition before_load ::
  "('k, 'z) uefi_app_scheme \<Rightarrow> 'k uefi_host env \<Rightarrow> (uint64 \<times> uint32) list \<Rightarrow> int64 \<Rightarrow> uint64
    \<Rightarrow> 'k uefi_host machine \<Rightarrow> 'k uefi_host common_state option" where
  "before_load X E modules ret h m =
     (case keystroke X (snd (uefi_processors X E h (initial_state E m))) of None \<Rightarrow> None
      | Some s \<Rightarrow> keystroke X (snd (add_hypervisor_modules E modules ret s)))"

lemma before_load_good:
  assumes good: "uefi_good X B N G" and found: "services_found X G h m"
    and mods: "modules \<noteq> []" "length modules \<le> MAX_NUM_MODULES B"
      "\<forall>(a, n) \<in> set modules. a \<noteq> 0 \<and> (ucast n :: uint64) \<noteq> 0"
  obtains st a b q c d where "uefi_processors X (uefi_env X B) h (initial_state (uefi_env X B) m) = (st, a)"
    and "\<not> EFI_ERROR st" and "keystroke X a = Some b"
    and "add_hypervisor_modules (uefi_env X B) modules ret b = (q, c)" and "keystroke X c = Some d"
    and "before_load X (uefi_env X B) modules ret h m = Some d" and "G (machine d)"
    and "vmm_inv (uefi_env X B) d" and "g_vmm_status d = VMM_UNLOADED" and "g_num_modules d \<noteq> 0"
    and "core_files d = map (\<lambda>(a, n). (a, ucast n)) modules"
proof -
  let ?E = "uefi_env X B"
  have fg: "firmware_good X N G" and env: "env_ok ?E" using good by (simp_all add: uefi_good_def)
  obtain st a where p: "uefi_processors X ?E h (initial_state ?E m) = (st, a)" by force
  note a = uefi_processors_good [OF fg found p]
  obtain b where b: "keystroke X a = Some b" "still_good G a b"
    using keystroke_good [OF fg a(3)] by blast
  then obtain mb where mb: "b = initial_state ?E mb" "G mb"
    using a(2) initial_machine(2) by (metis still_good_def)
  obtain q c where c: "add_hypervisor_modules ?E modules ret b = (q, c)" by force
  have init: "vmm_inv ?E b" "g_vmm_status b = VMM_UNLOADED" "g_num_modules b = 0" "core_files b = []"
    unfolding mb(1) by (rule initial_inv, simp_all add: initial_state_def core_files_def)
  have c': "vmm_inv ?E c" "g_vmm_status c = VMM_UNLOADED" "G (machine c)"
    "sint (g_num_modules c) = int (length modules)" "core_files c = map (\<lambda>(a, n). (a, ucast n)) modules"
    using hypervisor_modules_added [OF env init(1,2) mods(1,3) _ c] init(3,4) mods(2) mb
    by (simp_all add: uefi_fields)
  obtain d where d: "keystroke X c = Some d" "still_good G c d"
    using keystroke_good [OF fg c'(3)] by blast
  have "g_num_modules c \<noteq> 0" using c'(4) mods(1) by auto
  then have d': "G (machine d)" "core_files d = core_files c" "g_vmm_status d = VMM_UNLOADED"
    "g_num_modules d \<noteq> 0" "vmm_inv ?E d"
    using still_good_fields [OF d(2)] c'(1,2) vmm_calls_inv by simp_all
  have bl: "before_load X ?E modules ret h m = Some d"
    using p b(1) c d(1) by (simp add: before_load_def)
  show thesis
    by (rule that [OF p a(1) b(1) c d(1) bl d'(1,5,3,4)]) (simp add: d'(2) c'(5))
qed

text \<open>
  C9. On UEFI, with a firmware, a loader and a VMM that do not fail and a user who presses
  keys, where the processor services may refuse the processor that runs \<open>UefiMain\<close>, which is already
  in place: \<open>UefiMain\<close> finds the processor services, prepares every processor, gives the core
  all modules of the image, loads them and starts the VMM. When it goes on to the next
  boot image, the VMM runs on all \<open>N\<close> processors; what \<open>UefiMain\<close> returns is then what that step
  returns.
\<close>

theorem uefi_boot_starts_vmm:
  assumes good: "uefi_good X B N G" and found: "services_found X G h m"
    and mods: "modules \<noteq> []" "length modules \<le> MAX_NUM_MODULES B"
      "\<forall>(a, n) \<in> set modules. a \<noteq> 0 \<and> (ucast n :: uint64) \<noteq> 0"
    and fits: "\<And>s. before_load X (uefi_env X B) modules ret h m = Some s \<Longrightarrow>
      load_fits (uefi_env X B) (snd (load_setup (uefi_env X B) s))"
  shows "\<exists>s1 s2 s3. before_load X (uefi_env X B) modules ret h m = Some s1 \<and>
    core_files s1 = map (\<lambda>(a, n). (a, ucast n)) modules \<and>
    common_load_vmm (uefi_env X B) s1 = Some (rc B BF_SUCCESS, s2) \<and>
    g_vmm_status s3 = VMM_RUNNING \<and> g_num_cpus_started s3 = N \<and> G (machine s3) \<and>
    UefiMain X (uefi_env X B) modules ret h (initial_state (uefi_env X B) m) =
      (case firm (uefi_next_image X h) s3 of (status, s) \<Rightarrow> uefi_abort X status s)"
proof -
  let ?E = "uefi_env X B" and ?G = "\<lambda>m. uefi_good X B N G \<and> G m"
  have fg: "firmware_good X N G" and env: "env_ok ?E" using good by (simp_all add: uefi_good_def)
  obtain st a b q c d where p: "uefi_processors X ?E h (initial_state ?E m) = (st, a)" "\<not> EFI_ERROR st"
    and b: "keystroke X a = Some b" and c: "add_hypervisor_modules ?E modules ret b = (q, c)"
    and d: "keystroke X c = Some d" and bl: "before_load X ?E modules ret h m = Some d"
    and d': "G (machine d)" "vmm_inv ?E d" "g_vmm_status d = VMM_UNLOADED" "g_num_modules d \<noteq> 0"
    and files: "core_files d = map (\<lambda>(a, n). (a, ucast n)) modules"
    by (rule before_load_good [OF good found mods])
  obtain r e where l: "common_load_vmm ?E d = Some (r, e)"
    using uefi_coop.load_completes [OF _ d'(2,3,4) fits [OF bl]] good d'(1) by blast
  have e: "r = rc ?E BF_SUCCESS" "G (machine e)" "g_start e \<noteq> 0"
    using uefi_coop.load_succeeds [OF l _ d'(3,4)] good d'(1) by blast+
  have ok: "codes_ok ?E" by (rule env_okD(1) [OF env])
  have st_e: "g_vmm_status e = VMM_LOADED" using common_load_success_status(1) [OF l ok] e(1) by simp
  obtain r' f where f: "firm (PrepareProcessor X) e = (r', f)" by force
  have f': "still_good G e f" by (rule prepare_good [OF fg f e(2)])
  obtain r'' g where g: "common_start_vmm ?E f = (r'', g)" by force
  have g': "r'' = rc ?E BF_SUCCESS" "G (machine g)" "g_vmm_status g = VMM_RUNNING" "g_num_cpus_started g = N"
    using uefi_coop.start_succeeds [OF g, of N G] still_good_fields [OF f'] good e(3) st_e by simp_all
  obtain h' where h': "keystroke X g = Some h'" "still_good G g h'"
    using keystroke_good [OF fg g'(2)] by blast
  have z: "rc B BF_SUCCESS = 0" using codes_ok_success(1) [OF ok] by (simp add: uefi_fields)
  have "UefiMain X ?E modules ret h (initial_state ?E m) =
      (case firm (uefi_next_image X h) h' of (status, s) \<Rightarrow> uefi_abort X status s)"
    using p b c d l e(1) f g g'(1) h'(1) z
    by (simp add: UefiMain_def uefi_start_vmm_def uefi_fields)
  moreover have "G (machine h')" "g_vmm_status h' = VMM_RUNNING" "g_num_cpus_started h' = N"
    using still_good_fields [OF h'(2)] g'(3,4) by simp_all
  moreover have "common_load_vmm ?E d = Some (rc B BF_SUCCESS, e)" using l e(1) by (simp add: uefi_fields)
  ultimately show ?thesis using bl files by blast
qed

section \<open>A boot of the concrete firmware\<close>

definition boot_bfsdk :: "fw uefi_host env" where
  "boot_bfsdk = fw_bfsdk
     \<lparr>bfelf_load := (\<lambda>ms n start info loader m. (0, ms, 0x4010, info, loader, m)),
      vmcall := (\<lambda>regs m. (regs\<lparr>r01 := 0\<rparr>, m))\<rparr>"

definition boot_good :: "fw_machine \<Rightarrow> bool" where
  "boot_good m \<longleftrightarrow> fw_cpu (fw_of m) < 2 \<and> fw_next (fw_of m) \<noteq> 0 \<and> fw_next (fw_of m) \<le> 0x8FFFFF \<and>
     gMpServices (host m) \<noteq> 0"

lemma fw_window: "x mod 0x800000 + 0x100000 \<noteq> (0 :: uint64)" "x mod 0x800000 + 0x100000 \<le> (0x8FFFFF :: uint64)"
proof -
  have "unat (x mod 0x800000) < 0x800000" by (simp add: unat_mod)
  then have "unat (x mod 0x800000 + 0x100000) = unat (x mod 0x800000) + 0x100000"
    by (simp add: unat_word_ariths)
  then show "x mod 0x800000 + 0x100000 \<noteq> (0 :: uint64)" "x mod 0x800000 + 0x100000 \<le> (0x8FFFFF :: uint64)"
    using \<open>unat (x mod 0x800000) < 0x800000\<close> by (auto simp: word_le_nat_alt)
qed

lemma boot_console: "boot_good m \<Longrightarrow> \<exists>m'. GetKeystroke demo_uefi 0 m = Some (0, m') \<and> boot_good m'"
proof (induction "fw_wait (fw_of m)" arbitrary: m)
  case 0
  then show ?case by (simp add: GetKeystroke.simps demo_keys)
next
  case (Suc n)
  let ?m = "on_fw (\<lambda>f. f\<lparr>fw_wait := fw_wait f - 1\<rparr>) m"
  have "n = fw_wait (fw_of ?m)" unfolding on_fw_def fw_of_def using Suc.hyps(2) by (simp add: fw_of_def)
  moreover have "boot_good ?m" using Suc.prems by (simp add: boot_good_def fw_defs)
  ultimately show ?case
    using Suc.hyps(1) [of ?m] Suc.hyps(2) [symmetric] by (simp add: GetKeystroke.simps [of demo_uefi 0 m] demo_keys)
qed

lemma small_cpu: "c < (2 :: uint64) \<Longrightarrow> 0 \<le> sint c"
proof -
  assume "c < 2"
  then have "unat c < 2" by (simp add: word_less_nat_alt)
  then have "unat c = 0 \<or> unat c = 1" by linarith
  then have "c = 0 \<or> c = 1" by (simp add: word_unat_eq_iff)
  then show ?thesis by auto
qed

lemma demo_firmware_good: "firmware_good demo_uefi 2 boot_good"
proof -
  have "\<exists>k m1 st m2. not_ready demo_uefi 0 k m = Some m1 \<and>
      ReadKeyStroke demo_uefi 0 (WaitForKey demo_uefi m1) = (st, m2) \<and> st \<noteq> EFI_NOT_READY demo_uefi \<and>
      boot_good m2" if m: "boot_good m" for m
  proof -
    obtain m' where m': "GetKeystroke demo_uefi 0 m = Some (0, m')" "boot_good m'"
      using boot_console [OF m] by blast
    from keystroke_ready [OF m'(1)] m'(2) show ?thesis by (metis fst_conv)
  qed
  then show ?thesis
    unfolding firmware_good_def
    by (auto simp: demo_uefi_def boot_good_def fw_defs EFI_ERROR_def fw_window small_cpu
        word_less_nat_alt split: if_splits)
qed

lemma demo_uefi_good: "uefi_good demo_uefi boot_bfsdk 2 boot_good"
proof -
  have "env_ok boot_bfsdk" using demo_env_ok
    by (simp add: env_ok_def codes_ok_def loader_ok_def demo_consts)
      (simp add: boot_bfsdk_def fw_bfsdk_def bf_consts.defs demo_bfsdk_def)
  moreover have "vmm_good boot_bfsdk boot_good"
    by (simp add: vmm_good_def boot_bfsdk_def fw_bfsdk_def bf_consts.defs demo_bfsdk_def)
  ultimately show ?thesis
    using demo_firmware_good
    by (simp add: uefi_good_def) (simp add: boot_bfsdk_def fw_bfsdk_def bf_consts.defs demo_bfsdk_def)
qed

text \<open>No segments, and the storage lies within the window of the allocator.\<close>

lemma boot_fields:
  "STACK_SIZE (uefi_env demo_uefi boot_bfsdk) = 0x8000" "THREAD_LOCAL_STORAGE_SIZE (uefi_env demo_uefi boot_bfsdk) = 0x1000"
  "MAX_PAGE_SIZE (uefi_env demo_uefi boot_bfsdk) = 0x1000" "rc (uefi_env demo_uefi boot_bfsdk) = demo_rc"
  "bfelf_file_get_num_load_instrs (uefi_env demo_uefi boot_bfsdk) ef = 0"
  "MAX_NUM_MODULES (uefi_env demo_uefi boot_bfsdk) = 3" "MAX_NUM_MODULES boot_bfsdk = 3"
  "STACK_SIZE boot_bfsdk = 0x8000" "THREAD_LOCAL_STORAGE_SIZE boot_bfsdk = 0x1000" "rc boot_bfsdk = demo_rc"
  by (simp_all add: uefi_env_def boot_bfsdk_def fw_bfsdk_def bf_consts.defs demo_bfsdk_def)

lemma boot_alloc:
  assumes "boot_good m" and "uefi_platform_alloc_rw demo_uefi n m = (a, m')"
  shows "boot_good m' \<and> a \<noteq> 0 \<and> a \<le> 0x8FFFFF"
  using assms
  by (auto simp: uefi_platform_alloc_rw_def uefi_alloc_def demo_uefi_def EFI_ERROR_def boot_good_def fw_defs fw_window)

lemma boot_fits:
  assumes "boot_good (machine s)"
  shows "load_fits (uefi_env demo_uefi boot_bfsdk) (snd (load_setup (uefi_env demo_uefi boot_bfsdk) s))"
proof -
  let ?E = "uefi_env demo_uefi boot_bfsdk"
  note good = demo_firmware_good
  obtain a m1 where a: "platform_alloc_rw ?E 0x10000 (machine s) = (a, m1)" by force
  have a': "boot_good m1" "a \<noteq> 0" using boot_alloc [OF assms] a by (simp_all add: uefi_fields)
  obtain t where t: "setup_stack ?E s = (0, t)" "boot_good (machine t)"
    using a a' firmware_goodD(4) [OF good]
    by (simp add: setup_stack_def call_defs Let_def boot_fields uefi_fields uefi_platform_memset_def)
  have n: "platform_num_cpus ?E (machine t) = (2, machine t)"
    using t(2) by (simp add: uefi_fields uefi_platform_num_cpus_def boot_good_def demo_uefi_def EFI_ERROR_def)
  obtain b m2 where b: "platform_alloc_rw ?E 0x2000 (machine t) = (b, m2)" by force
  have b': "b \<noteq> 0" "b \<le> 0x8FFFFF" using boot_alloc [OF t(2)] b by (simp_all add: uefi_fields)
  obtain u where u: "setup_tls ?E t = (0, u)" "g_tls u = b" "g_tls_size u = 0x2000"
    using b b' n by (simp add: setup_tls_def call_defs Let_def boot_fields)
  obtain q v where v: "call_bfelf_load ?E u = (q, v)" by force
  have v': "g_tls v = b" "g_tls_size v = 0x2000"
    using v u(2,3) by (auto simp: call_bfelf_load_def log_def split: prod.splits)
  obtain r w where w: "call_vmm ?E BF_REQUEST_INIT 0 0 0 v = (r, w)" by force
  have "g_tls w = b" "g_tls_size w = 0x2000" using vmm_onlyD(7,9) [OF call_vmm_only [OF w]] v' by simp_all
  then have tls: "g_tls (snd (load_setup ?E s)) = b" "g_tls_size (snd (load_setup ?E s)) = 0x2000"
    using t(1) u v v' w by (auto simp: load_setup_def boot_fields)
  have "unat b \<le> 0x8FFFFF" using b'(2) by (simp add: word_le_nat_alt)
  then have "no_wrap 0x1000 (b + 0x2000)" by (simp add: no_wrap_def unat_word_ariths)
  then show ?thesis
    using tls by (simp add: load_fits_def module_fits_def boot_fields list_all_iff)
qed

theorem uefi_boot_starts_vmm_witness:
  "\<exists>s3. g_vmm_status s3 = VMM_RUNNING \<and> g_num_cpus_started s3 = 2 \<and>
    UefiMain demo_uefi (uefi_env demo_uefi boot_bfsdk) [(0x2000, 16), (0x3000, 8)] 7 0x4000
      (initial_state (uefi_env demo_uefi boot_bfsdk) (demo_fw 3 True)) =
    (case firm (uefi_next_image demo_uefi 0x4000) s3 of (status, s) \<Rightarrow> uefi_abort demo_uefi status s)"
proof -
  have found: "services_found demo_uefi boot_good 0x4000 (demo_fw 3 True)"
    by (simp add: services_found_def demo_uefi_def EFI_ERROR_def boot_good_def fw_defs)
  have fits: "load_fits (uefi_env demo_uefi boot_bfsdk) (snd (load_setup (uefi_env demo_uefi boot_bfsdk) s))"
    if "before_load demo_uefi (uefi_env demo_uefi boot_bfsdk) [(0x2000, 16), (0x3000, 8)] 7 0x4000 (demo_fw 3 True) = Some s"
    for s
    using that before_load_good [OF demo_uefi_good found, of "[(0x2000, 16), (0x3000, 8)]" 7] boot_fits
    by (simp add: boot_fields) (metis option.inject)
  show ?thesis
    using uefi_boot_starts_vmm [OF demo_uefi_good found, of "[(0x2000, 16), (0x3000, 8)]" 7] fits
    by (auto simp: boot_fields)
qed

end
