(* ===== verification/Test_Platform.thy ===== *)
theory Test_Platform
  imports Platform_Contract
begin

text \<open>
  The platform layer of the unit tests, \<open>src/src/arch/test/platform.c\<close>, over the C library.
  It counts allocations so that a test can ask whether memory leaked, and has switches that
  make an allocation of a given length, a change of affinity or a \<open>vmcall\<close> fail. It does not
  define \<open>platform_get_current_cpu_num\<close> and \<open>platform_restore_preemption\<close>.
\<close>

section \<open>The library and the globals\<close>

text \<open>\<open>posix_memalign align len old\<close> returns what \<open>addr\<close> holds after the call.\<close>

record 'k test_host =
  alloc_count_rw :: int32
  alloc_count_rwe :: int32
  g_malloc_fails :: uint64
  g_set_afinity_fails :: uint64
  g_vmcall :: uint64
  process :: 'k

record 'k libc =
  malloc :: "uint64 \<Rightarrow> 'k test_host machine \<Rightarrow> uint64 \<times> 'k test_host machine"
  libc_free :: "uint64 \<Rightarrow> 'k test_host machine \<Rightarrow> 'k test_host machine"
  posix_memalign :: "uint64 \<Rightarrow> uint64 \<Rightarrow> uint64 \<Rightarrow> 'k test_host machine
    \<Rightarrow> int32 \<times> uint64 \<times> 'k test_host machine"
  mprotect :: "uint64 \<Rightarrow> uint64 \<Rightarrow> 'k test_host machine \<Rightarrow> int32 \<times> 'k test_host machine"

definition add_rw :: "int32 \<Rightarrow> 'k test_host machine \<Rightarrow> 'k test_host machine" where
  "add_rw d m = m\<lparr>host := (host m)\<lparr>alloc_count_rw := alloc_count_rw (host m) + d\<rparr>\<rparr>"

definition add_rwe :: "int32 \<Rightarrow> 'k test_host machine \<Rightarrow> 'k test_host machine" where
  "add_rwe d m = m\<lparr>host := (host m)\<lparr>alloc_count_rwe := alloc_count_rwe (host m) + d\<rparr>\<rparr>"

section \<open>The functions of \<open>platform.c\<close>\<close>

definition verify_no_mem_leaks :: "'k test_host machine \<Rightarrow> bool" where
  "verify_no_mem_leaks m \<longleftrightarrow> alloc_count_rw (host m) = 0 \<and> alloc_count_rwe (host m) = 0"

definition page_round_up :: "uint64 \<Rightarrow> uint64 \<Rightarrow> uint64" where
  "page_round_up page x = (x + page - 1) AND NOT (page - 1)"

definition test_platform_alloc_rw ::
  "'k libc \<Rightarrow> uint64 \<Rightarrow> 'k test_host machine \<Rightarrow> uint64 \<times> 'k test_host machine" where
  "test_platform_alloc_rw L len m =
     (if g_malloc_fails (host m) = len then (0, m) else malloc L len (add_rw 1 m))"

definition test_platform_free_rw ::
  "'k libc \<Rightarrow> uint64 \<Rightarrow> uint64 \<Rightarrow> 'k test_host machine \<Rightarrow> 'k test_host machine" where
  "test_platform_free_rw L addr len m = libc_free L addr (add_rw (-1) m)"

definition test_platform_alloc_rwe ::
  "'k libc \<Rightarrow> uint64 \<Rightarrow> uint64 \<Rightarrow> 'k test_host machine \<Rightarrow> uint64 \<times> 'k test_host machine" where
  "test_platform_alloc_rwe L page len m =
     (if g_malloc_fails (host m) = len then (0, m)
      else
        let len = page_round_up page len;
            (err, addr, m) = posix_memalign L page len 0 m
        in if err \<noteq> 0 then (0, m)
           else
             let (err, m) = mprotect L addr len m
             in if err = -1 then (0, test_platform_free_rw L addr len m)
                else (addr, add_rwe 1 m))"

definition test_platform_free_rwe ::
  "'k libc \<Rightarrow> uint64 \<Rightarrow> uint64 \<Rightarrow> 'k test_host machine \<Rightarrow> 'k test_host machine" where
  "test_platform_free_rwe L addr len m = libc_free L addr (add_rwe (-1) m)"

definition test_platform_virt_to_phys :: "uint64 \<Rightarrow> 'k test_host machine \<Rightarrow> uint64" where
  "test_platform_virt_to_phys virt m = virt"

definition test_platform_memset :: "uint64 \<Rightarrow> byte \<Rightarrow> uint64 \<Rightarrow> 'k test_host machine \<Rightarrow> 'k test_host machine" where
  "test_platform_memset p v n m = (if p = 0 then m else m\<lparr>mem := mem_set p v n (mem m)\<rparr>)"

definition test_platform_memcpy :: "uint64 \<Rightarrow> uint64 \<Rightarrow> uint64 \<Rightarrow> 'k test_host machine \<Rightarrow> 'k test_host machine" where
  "test_platform_memcpy dst src n m =
     (if dst = 0 \<or> src = 0 then m else m\<lparr>mem := mem_copy dst src n (mem m)\<rparr>)"

definition test_platform_start :: "'k test_host machine \<Rightarrow> 'k test_host machine" where
  "test_platform_start m = m"

definition test_platform_stop :: "'k test_host machine \<Rightarrow> 'k test_host machine" where
  "test_platform_stop m = m"

definition test_platform_num_cpus :: "'k test_host machine \<Rightarrow> int64 \<times> 'k test_host machine" where
  "test_platform_num_cpus m = (1, m)"

definition test_platform_set_affinity :: "int64 \<Rightarrow> 'k test_host machine \<Rightarrow> int64 \<times> 'k test_host machine" where
  "test_platform_set_affinity affinity m =
     (if g_set_afinity_fails (host m) \<noteq> 0 then (-1, m) else (0, m))"

definition test_platform_restore_affinity :: "int64 \<Rightarrow> 'k test_host machine \<Rightarrow> 'k test_host machine" where
  "test_platform_restore_affinity affinity m = m"

definition platform_vmcall ::
  "vmcall_registers \<Rightarrow> 'k test_host machine \<Rightarrow> vmcall_registers \<times> 'k test_host machine" where
  "platform_vmcall regs m = (regs\<lparr>r01 := g_vmcall (host m)\<rparr>, m)"

definition platform_vmcall_event ::
  "vmcall_registers \<Rightarrow> 'k test_host machine \<Rightarrow> vmcall_registers \<times> 'k test_host machine" where
  "platform_vmcall_event regs m = (regs\<lparr>r01 := g_vmcall (host m)\<rparr>, m)"

definition test_env :: "'k libc \<Rightarrow> 'k test_host env \<Rightarrow> 'k test_host env" where
  "test_env L B =
     B\<lparr>platform_alloc_rw := test_platform_alloc_rw L,
       platform_alloc_rwe := test_platform_alloc_rwe L (MAX_PAGE_SIZE B),
       platform_free_rw := test_platform_free_rw L,
       platform_free_rwe := test_platform_free_rwe L,
       platform_virt_to_phys := test_platform_virt_to_phys,
       platform_memset := test_platform_memset,
       platform_memcpy := test_platform_memcpy,
       platform_start := test_platform_start,
       platform_stop := test_platform_stop,
       platform_num_cpus := test_platform_num_cpus,
       platform_set_affinity := test_platform_set_affinity,
       platform_restore_affinity := test_platform_restore_affinity\<rparr>"

interpretation test_layer: platform_layer "test_env L B"
  for L :: "'k libc" and B :: "'k test_host env"
  by unfold_locales
    (simp_all add: test_env_def test_platform_num_cpus_def test_platform_memset_def)

section \<open>The counters\<close>

text \<open>Rounding up to a page gives the next multiple, when it exists.\<close>

lemma page_round_up_bounds:
  assumes "is_pow2 page" and "unat x + unat page \<le> 2 ^ 64"
  shows "unat x \<le> unat (page_round_up page x)" and "unat (page_round_up page x) < unat x + unat page"
    and "unat page dvd unat (page_round_up page x)"
proof -
  have pos: "0 < unat page" by (rule is_pow2_pos [OF assms(1)])
  have eq: "page_round_up page x = align_down (x + page - 1) page"
    by (simp add: page_round_up_def align_down_def)
  have n: "unat (x + page - 1) = unat x + unat page - 1"
  proof -
    have "x + page - 1 = of_nat (unat x + unat page - 1)" using pos by (simp add: of_nat_diff)
    moreover have "unat x + unat page - 1 < 2 ^ 64" using assms(2) pos by simp
    ultimately show ?thesis by (simp only: unat_of_nat_u64)
  qed
  show "unat x \<le> unat (page_round_up page x)"
    using align_down_gt [OF assms(1), of "x + page - 1"] n pos by (simp add: eq)
  show "unat (page_round_up page x) < unat x + unat page"
    using align_down_le [OF assms(1), of "x + page - 1"] n pos by (simp add: eq)
  show "unat page dvd unat (page_round_up page x)"
    using align_down_dvd [OF assms(1)] by (simp add: eq)
qed

text \<open>
  The library does not touch the globals: then an allocation and a free of the same kind
  cancel out, an allocation that the C library refuses is counted all the same, and an
  executable block that cannot be protected lowers the counter of the other kind.
\<close>

definition same_globals :: "'k test_host machine \<Rightarrow> 'k test_host machine \<Rightarrow> bool" where
  "same_globals m m' \<longleftrightarrow> host m' = (host m)\<lparr>process := process (host m')\<rparr>"

definition libc_ok :: "'k libc \<Rightarrow> bool" where
  "libc_ok L \<longleftrightarrow>
     (\<forall>n m. same_globals m (snd (malloc L n m))) \<and> (\<forall>a m. same_globals m (libc_free L a m)) \<and>
     (\<forall>p n old m. same_globals m (snd (snd (posix_memalign L p n old m)))) \<and>
     (\<forall>a n m. same_globals m (snd (mprotect L a n m)))"

lemma same_globalsD:
  assumes "same_globals m m'"
  shows "alloc_count_rw (host m') = alloc_count_rw (host m)"
    and "alloc_count_rwe (host m') = alloc_count_rwe (host m)"
    and "g_malloc_fails (host m') = g_malloc_fails (host m)"
  by (subst assms [unfolded same_globals_def], simp)+

lemma libc_okD:
  assumes "libc_ok L"
  shows "malloc L n m = (a, m') \<Longrightarrow> same_globals m m'" and "same_globals m (libc_free L a m)"
    and "posix_memalign L p n old m = (e, a, m') \<Longrightarrow> same_globals m m'"
    and "mprotect L a n m = (e, m') \<Longrightarrow> same_globals m m'"
  using assms unfolding libc_ok_def by (metis snd_conv)+

lemma test_alloc_free_rw:
  assumes "libc_ok L" and "test_platform_alloc_rw L len m = (a, m')" and "g_malloc_fails (host m) \<noteq> len"
  shows "alloc_count_rw (host m') = alloc_count_rw (host m) + 1"
    and "alloc_count_rw (host (test_platform_free_rw L a len m')) = alloc_count_rw (host m)"
  using assms same_globalsD(1) [OF libc_okD(1) [OF assms(1)]] same_globalsD(1) [OF libc_okD(2) [OF assms(1)]]
  by (auto simp: test_platform_alloc_rw_def test_platform_free_rw_def add_rw_def)

lemma test_refused_malloc_counts:
  assumes "libc_ok L" and "test_platform_alloc_rw L len m = (0, m')" and "g_malloc_fails (host m) \<noteq> len"
  shows "alloc_count_rw (host m') = alloc_count_rw (host m) + 1"
  by (rule test_alloc_free_rw(1) [OF assms])

lemma test_failed_protection_counts:
  assumes "libc_ok L" and "g_malloc_fails (host m) \<noteq> len"
    and "posix_memalign L page (page_round_up page len) 0 m = (0, a, m1)"
    and "mprotect L a (page_round_up page len) m1 = (-1, m2)"
  shows "\<exists>m'. test_platform_alloc_rwe L page len m = (0, m') \<and>
    alloc_count_rw (host m') = alloc_count_rw (host m) - 1"
  using assms same_globalsD(1) [OF libc_okD(3) [OF assms(1) assms(3)]]
    same_globalsD(1) [OF libc_okD(4) [OF assms(1) assms(4)]] same_globalsD(1) [OF libc_okD(2) [OF assms(1)]]
  by (simp add: test_platform_alloc_rwe_def test_platform_free_rw_def add_rw_def Let_def)

end
