(* ===== verification/Call_Invariant.thy ===== *)
theory Call_Invariant
  imports Driver_Lifecycle
begin

text \<open>
  Properties that tie the log of the calls to the state of the machine: a locale for a
  relation between the two that every single call keeps. Every operation of \<open>common.c\<close>
  then keeps it, whatever branch it takes, and so does every sequence of operations. The
  ports interpret it: the counters of the unit tests, the blocks of the Linux kernel.
\<close>

definition recorded :: "(event list \<Rightarrow> 'h machine \<Rightarrow> bool) \<Rightarrow> 'h common_state \<Rightarrow> bool" where
  "recorded R s = R (trace s) (machine s)"

lemma recorded_cong: "trace s = trace t \<Longrightarrow> machine s = machine t \<Longrightarrow> recorded R s = recorded R t"
  by (simp add: recorded_def)

lemma recorded_update [simp]:
  "recorded R (s\<lparr>g_num_modules := n\<rparr>) = recorded R s" "recorded R (s\<lparr>g_modules := ms\<rparr>) = recorded R s"
  "recorded R (s\<lparr>g_start := a\<rparr>) = recorded R s" "recorded R (s\<lparr>g_info := bs\<rparr>) = recorded R s"
  "recorded R (s\<lparr>g_loader := bs\<rparr>) = recorded R s"
  "recorded R (s\<lparr>g_num_cpus_started := n\<rparr>) = recorded R s"
  "recorded R (s\<lparr>g_vmm_status := v\<rparr>) = recorded R s" "recorded R (s\<lparr>g_tls := a\<rparr>) = recorded R s"
  "recorded R (s\<lparr>g_stack := a\<rparr>) = recorded R s" "recorded R (s\<lparr>g_tls_size := a\<rparr>) = recorded R s"
  "recorded R (s\<lparr>g_stack_size := a\<rparr>) = recorded R s"
  "recorded R (s\<lparr>g_stack_top := a\<rparr>) = recorded R s"
  by (simp_all add: recorded_def)

locale recorded_world =
  fixes E :: "('h, 'z) env_scheme"
    and R :: "event list \<Rightarrow> 'h machine \<Rightarrow> bool"
  assumes rec_mem: "R tr m \<Longrightarrow> R tr (m\<lparr>mem := x\<rparr>)"
    and rec_memset: "R tr m \<Longrightarrow> R tr (platform_memset E p v n m)"
    and rec_md: "R tr m \<Longrightarrow> R (tr @ [SendMd virt phys type]) m"
    and rec_alloc: "R tr m \<Longrightarrow> platform_alloc_rw E n m = (a, m') \<Longrightarrow> R (tr @ [AllocRw n a]) m'"
    and rec_free: "R tr m \<Longrightarrow> R (tr @ [FreeRw a n]) (platform_free_rw E a n m)"
    and rec_free_rwe: "R tr m \<Longrightarrow> R (tr @ [FreeRwe a n]) (platform_free_rwe E a n m)"
    and rec_cpus: "R tr m \<Longrightarrow> platform_num_cpus E m = (k, m') \<Longrightarrow> R tr m'"
    and rec_affinity: "R tr m \<Longrightarrow> platform_set_affinity E cpu m = (k, m') \<Longrightarrow> R (tr @ [SetAffinity cpu k]) m'"
    and rec_restore: "R tr m \<Longrightarrow> R (tr @ [RestoreAffinity k]) (platform_restore_affinity E k m)"
    and rec_cpu: "R tr m \<Longrightarrow> platform_get_current_cpu_num E m = (k, m') \<Longrightarrow> R (tr @ [GetCpu k]) m'"
    and rec_preempt: "R tr m \<Longrightarrow> R (tr @ [RestorePreemption]) (platform_restore_preemption E m)"
    and rec_start: "R tr m \<Longrightarrow> R (tr @ [PlatformStart]) (platform_start E m)"
    and rec_stop: "R tr m \<Longrightarrow> R (tr @ [PlatformStop]) (platform_stop E m)"
    and rec_vmcall: "R tr m \<Longrightarrow> vmcall E regs m = (regs', m') \<Longrightarrow>
      R (tr @ [Vmcall (r00 regs) (r01 regs')]) m'"
    and rec_vmm: "R tr m \<Longrightarrow> vmm_entry E st rsp info m = (ret, info', m') \<Longrightarrow>
      R (tr @ [VmmCall req a1 a2 a3 ret]) m'"
    and rec_elf: "R tr m \<Longrightarrow> bfelf_load E ms n st info loader m = (ret, ms', st', info', loader', m') \<Longrightarrow>
      R (tr @ [ElfLoad ret bs]) m'"
begin

section \<open>Calls\<close>

lemma calls:
  "call_alloc_rw E n s = (a, s') \<Longrightarrow> recorded R s \<Longrightarrow> recorded R s'"
  "call_num_cpus E s = (k, s') \<Longrightarrow> recorded R s \<Longrightarrow> recorded R s'"
  "call_get_current_cpu_num E s = (k, s') \<Longrightarrow> recorded R s \<Longrightarrow> recorded R s'"
  "call_set_affinity E cpu s = (k, s') \<Longrightarrow> recorded R s \<Longrightarrow> recorded R s'"
  "call_vmcall E regs s = (regs', s') \<Longrightarrow> recorded R s \<Longrightarrow> recorded R s'"
  "call_bfelf_load E s = (k, s') \<Longrightarrow> recorded R s \<Longrightarrow> recorded R s'"
  "enter_vmm E req x y z s = (k, s') \<Longrightarrow> recorded R s \<Longrightarrow> recorded R s'"
  by (auto simp: recorded_def call_defs call_bfelf_load_def enter_vmm_def split: prod.splits
      intro: rec_alloc rec_cpus rec_cpu rec_affinity rec_vmcall rec_elf rec_vmm)

lemma quiet_calls:
  "recorded R s \<Longrightarrow> recorded R (on_memory f s)"
  "recorded R s \<Longrightarrow> recorded R (on_machine (platform_memset E p v n) s)"
  "recorded R s \<Longrightarrow> recorded R (call_free_rw E p n s)"
  "recorded R s \<Longrightarrow> recorded R (call_free_rwe E p n s)"
  "recorded R s \<Longrightarrow> recorded R (call_restore_preemption E s)"
  "recorded R s \<Longrightarrow> recorded R (call_restore_affinity E k s)"
  "recorded R s \<Longrightarrow> recorded R (call_platform_start E s)"
  "recorded R s \<Longrightarrow> recorded R (call_platform_stop E s)"
  by (simp_all add: recorded_def call_defs rec_mem rec_memset rec_free rec_free_rwe rec_preempt
      rec_restore rec_start rec_stop)

lemma store_md_recorded: "recorded R s \<Longrightarrow> recorded R (store_md E v p ty s)"
  using quiet_calls(1) [of s] by (auto simp: store_md_def recorded_def log_def intro: rec_md)

section \<open>The parts of \<open>common.c\<close>\<close>

lemma setup_recorded:
  "setup_stack E s = (r, s') \<Longrightarrow> recorded R s \<Longrightarrow> recorded R s'"
  "setup_tls E s = (r, s') \<Longrightarrow> recorded R s \<Longrightarrow> recorded R s'"
  by (auto simp: setup_stack_def setup_tls_def Let_def split: prod.splits if_splits
      dest!: calls(1,2) intro!: quiet_calls)

lemma call_vmm_recorded:
  assumes "call_vmm E req x y z s = (r, s')" and "recorded R s"
  shows "recorded R s'"
  using assms
  by (auto simp: call_vmm_def write_thread_context_def Let_def split: prod.splits if_splits
      dest!: calls(3,7) intro!: quiet_calls)

lemma add_raw_md_recorded:
  "add_raw_md_to_memory_manager E v ty s = (r, s') \<Longrightarrow> recorded R s \<Longrightarrow> recorded R s'"
  by (auto simp: add_raw_md_to_memory_manager_def Let_def split: prod.splits if_splits
      dest!: call_vmm_recorded intro: store_md_recorded)

lemma md_loop_recorded:
  assumes "md_loop E ok ty cur limit s = Some (r, s')" and "recorded R s"
  shows "recorded R s'"
proof -
  have "recorded R s \<longrightarrow> recorded R s'"
    using assms(1) by (induction rule: md_loop_induct) (auto dest: add_raw_md_recorded)
  then show ?thesis using assms(2) by simp
qed

lemma add_md_segments_recorded:
  "add_md_segments E b n i s = Some (r, s') \<Longrightarrow> recorded R s \<Longrightarrow> recorded R s'"
proof (induction n arbitrary: i s)
  case (Suc n)
  then show ?case
    by (auto simp: Let_def split: prod.splits if_splits option.splits dest: md_loop_recorded)
qed simp

lemma add_md_modules_recorded:
  "add_md_modules E n i s = Some (r, s') \<Longrightarrow> recorded R s \<Longrightarrow> recorded R s'"
proof (induction n arbitrary: i s)
  case (Suc n)
  then show ?case
    by (auto simp: add_md_to_memory_manager_def split: prod.splits if_splits option.splits
        dest: add_md_segments_recorded)
qed simp

lemma reset_recorded: "common_reset E s = (r, s') \<Longrightarrow> recorded R s \<Longrightarrow> recorded R s'"
proof -
  have *: "recorded R t \<Longrightarrow> recorded R (free_modules E bs t)" for bs t
    by (induction bs arbitrary: t) (auto intro: quiet_calls)
  show "common_reset E s = (r, s') \<Longrightarrow> recorded R s \<Longrightarrow> recorded R s'"
    using * by (auto simp: common_reset_def Let_def intro!: quiet_calls)
qed

lemma unload_recorded: "common_unload_vmm E s = (r, s') \<Longrightarrow> recorded R s \<Longrightarrow> recorded R s'"
  by (auto simp: common_unload_vmm_def unload_unloaded_def unload_corrupted_def
      split: prod.splits if_splits vmm_status.splits dest: call_vmm_recorded reset_recorded)

lemma load_setup_recorded: "load_setup E s = (r, s') \<Longrightarrow> recorded R s \<Longrightarrow> recorded R s'"
  by (auto simp: load_setup_def split: prod.splits if_splits
      dest!: setup_recorded calls(6) call_vmm_recorded)

lemma load_recorded: "common_load_vmm E s = Some (r, s') \<Longrightarrow> recorded R s \<Longrightarrow> recorded R s'"
  by (auto simp: common_load_vmm_def load_descriptors_def load_failure_def add_md_tls_def Let_def
      split: prod.splits if_splits option.splits vmm_status.splits
      dest!: load_setup_recorded unload_recorded md_loop_recorded add_md_modules_recorded)

lemma stop_loop_recorded: "stop_loop E n regs s = (r, s') \<Longrightarrow> recorded R s \<Longrightarrow> recorded R s'"
proof (induction n arbitrary: regs s)
  case (Suc n)
  show ?case
    using Suc.prems
    by (auto simp: Let_def stop_corrupted_def split: prod.splits if_splits
        dest!: calls(4,5) call_vmm_recorded Suc.IH intro!: quiet_calls)
qed auto

lemma stop_recorded: "common_stop_vmm E s = (r, s') \<Longrightarrow> recorded R s \<Longrightarrow> recorded R s'"
  by (auto simp: common_stop_vmm_def split: vmm_status.splits dest: stop_loop_recorded)

lemma start_loop_recorded: "start_loop E cpuid regs s = (r, s') \<Longrightarrow> recorded R s \<Longrightarrow> recorded R s'"
proof (induction "nat (2 ^ 63 - sint cpuid)" arbitrary: cpuid regs s rule: less_induct)
  case less
  have IH: "start_loop E (cpuid + 1) regs' t = (r, s') \<Longrightarrow> recorded R t \<Longrightarrow> recorded R s'"
    if "sint cpuid < sint n" for n :: int64 and regs' t
    using less.hyps [of "cpuid + 1"] sint_incr [OF that] sint_less_max [of cpuid] by simp
  show ?case
    using less.prems
    by (auto simp: start_loop.simps [of E cpuid] Let_def start_failure_def split: prod.splits if_splits
        dest!: calls(2,4,5) call_vmm_recorded stop_recorded IH intro!: quiet_calls)
qed

lemma start_recorded: "common_start_vmm E s = (r, s') \<Longrightarrow> recorded R s \<Longrightarrow> recorded R s'"
  by (auto simp: common_start_vmm_def split: vmm_status.splits dest: start_loop_recorded)

section \<open>Operations\<close>

lemma step_recorded:
  assumes "common_step E op s = Some (r, s')" and "recorded R s"
  shows "recorded R s'"
proof (cases op)
  case Common_Fini
  obtain s1 s2 where
    1: "s1 = (if common_vmm_status s = VMM_RUNNING then snd (common_stop_vmm E s) else s)" and
    2: "s2 = (if common_vmm_status s1 = VMM_LOADED then snd (common_unload_vmm E s1) else s1)"
    by simp
  have "recorded R s1" using assms(2) stop_recorded [of s] by (cases "common_stop_vmm E s") (simp add: 1)
  then have s2: "recorded R s2" using unload_recorded [of s1] by (cases "common_unload_vmm E s1") (simp add: 2)
  have "s' = s2 \<or> s' = snd (common_reset E s2)"
    using assms(1) Common_Fini by (auto simp: common_step_def common_fini_def Let_def 1 2 split: if_splits)
  then show ?thesis using s2 reset_recorded [of s2] by (cases "common_reset E s2") auto
qed (use assms in \<open>auto simp: common_step_def common_init_def common_add_module_def common_dump_vmm_def
    Let_def split: if_splits vmm_status.splits prod.splits
    dest: reset_recorded load_recorded unload_recorded start_recorded stop_recorded call_vmm_recorded\<close>)

lemma run_recorded: "op_run (common_step E) ops s = Some s' \<Longrightarrow> recorded R s \<Longrightarrow> recorded R s'"
  unfolding op_run_def
  by (induction ops arbitrary: s) (auto split: option.splits dest: step_recorded)

end

end
