(* ===== verification/Return_Codes.thy ===== *)
theory Return_Codes
  imports Driver_Lifecycle
begin

text \<open>
  The convention of \<open>common.h\<close> for what the functions of \<open>common.c\<close> return: \<open>BF_SUCCESS\<close>, or
  a negative error code. It holds as long as the loader and the VMM, whose codes are passed
  on, keep it too. The UEFI port, which tests \<open>ret < 0\<close>, relies on it.
\<close>

definition conventional :: "('h, 'z) env_scheme \<Rightarrow> int64 \<Rightarrow> bool" where
  "conventional E r \<longleftrightarrow> r = rc E BF_SUCCESS \<or> sint r < 0"

text \<open>The answers that \<open>common.c\<close> passes on are those of the loader and of the VMM.\<close>

definition answers_ok :: "('h, 'z) env_scheme \<Rightarrow> bool" where
  "answers_ok E \<longleftrightarrow>
     (\<forall>ms n st info loader m. conventional E (fst (bfelf_load E ms n st info loader m))) \<and>
     (\<forall>info r a b c. conventional E (fst (bfelf_set_integer_args E info r a b c))) \<and>
     (\<forall>ef i. conventional E (fst (bfelf_file_get_load_instr E ef i))) \<and>
     (\<forall>st rsp info m. conventional E (fst (vmm_entry E st rsp info m)))"

lemma answers_okD:
  assumes "answers_ok E"
  shows "bfelf_load E ms n st info loader m = (r, w) \<Longrightarrow> conventional E r"
    and "bfelf_set_integer_args E info q a b c = (r, x) \<Longrightarrow> conventional E r"
    and "bfelf_file_get_load_instr E ef i = (r, y) \<Longrightarrow> conventional E r"
    and "vmm_entry E st rsp info m = (r, z) \<Longrightarrow> conventional E r"
  using assms unfolding answers_ok_def by (metis fst_conv)+

lemma conventional_codes:
  assumes "codes_ok E"
  shows "conventional E (rc E BF_SUCCESS)" "conventional E (rc E MEMORY_MANAGER_SUCCESS)"
    "conventional E (rc E BFELF_SUCCESS)" "e \<in> set error_codes \<Longrightarrow> conventional E (rc E e)"
    "sint r < 0 \<Longrightarrow> conventional E r"
  using codes_ok_success [OF assms] codes_ok_error(1) [OF assms] by (auto simp: conventional_def)

lemma conventional_errors:
  assumes "codes_ok E"
  shows "conventional E (rc E BF_ERROR_INVALID_ARG)" "conventional E (rc E BF_ERROR_OUT_OF_MEMORY)"
    "conventional E (rc E BF_ERROR_UNKNOWN)" "conventional E (rc E BF_ERROR_NO_MODULES_ADDED)"
    "conventional E (rc E BF_ERROR_MAX_MODULES_REACHED)"
    "conventional E (rc E BF_ERROR_VMM_INVALID_STATE)" "conventional E (rc E BF_ERROR_VMM_CORRUPTED)"
    "conventional E (rc E ENTRY_ERROR_VMM_START_FAILED)"
    "conventional E (rc E ENTRY_ERROR_VMM_STOP_FAILED)"
  by (rule conventional_codes(4) [OF assms], simp add: error_codes_def)+

definition answering :: "('h, 'z) env_scheme \<Rightarrow> bool" where
  "answering E \<longleftrightarrow> codes_ok E \<and> answers_ok E"

lemma answeringD: "answering E \<Longrightarrow> codes_ok E" "answering E \<Longrightarrow> answers_ok E"
  by (simp_all add: answering_def)

lemmas conventions = conventional_codes(1-3,5) [OF answeringD(1)] conventional_errors [OF answeringD(1)]

lemmas answers = answers_okD [OF answeringD(2)]

section \<open>The parts of \<open>common.c\<close>\<close>

lemma setup_codes:
  "answering E \<Longrightarrow> setup_stack E s = (r, s') \<Longrightarrow> conventional E r"
  "answering E \<Longrightarrow> setup_tls E s = (r, s') \<Longrightarrow> conventional E r"
  by (auto simp: setup_stack_def setup_tls_def Let_def conventions split: prod.splits if_splits)

lemma call_vmm_codes: "answering E \<Longrightarrow> call_vmm E req x y z s = (r, s') \<Longrightarrow> conventional E r"
  by (auto simp: call_vmm_def enter_vmm_def Let_def conventions split: prod.splits if_splits
      dest: answers)

lemma add_raw_md_codes:
  "answering E \<Longrightarrow> add_raw_md_to_memory_manager E v ty s = (r, s') \<Longrightarrow> conventional E r"
  by (auto simp: add_raw_md_to_memory_manager_def Let_def conventions split: prod.splits if_splits
      dest: call_vmm_codes)

lemma md_loop_codes:
  assumes "answering E" and "md_loop E ok ty cur limit s = Some (Some r, s')"
  shows "conventional E r"
proof -
  have "md_loop E ok ty cur limit s = Some (q, s') \<Longrightarrow> (case q of None \<Rightarrow> True | Some r \<Rightarrow> conventional E r)" for q
    by (induction rule: md_loop_induct) (auto dest: add_raw_md_codes [OF assms(1)])
  then show ?thesis using assms(2) by force
qed

lemma add_md_segments_codes:
  "answering E \<Longrightarrow> add_md_segments E b n i s = Some (r, s') \<Longrightarrow> conventional E r"
proof (induction n arbitrary: i s)
  case (Suc n)
  then show ?case
    by (auto simp: Let_def split: prod.splits if_splits option.splits dest: md_loop_codes answers)
qed (auto simp: conventions)

lemma add_md_modules_codes:
  "answering E \<Longrightarrow> add_md_modules E n i s = Some (r, s') \<Longrightarrow> conventional E r"
proof (induction n arbitrary: i s)
  case (Suc n)
  then show ?case
    by (auto simp: add_md_to_memory_manager_def split: prod.splits if_splits option.splits
        dest: add_md_segments_codes)
qed (auto simp: conventions)

lemma load_setup_codes: "answering E \<Longrightarrow> load_setup E s = (r, s') \<Longrightarrow> conventional E r"
  by (auto simp: load_setup_def call_bfelf_load_def split: prod.splits if_splits
      dest: setup_codes answers call_vmm_codes)

section \<open>The operations\<close>

lemma reset_codes: "answering E \<Longrightarrow> common_reset E s = (r, s') \<Longrightarrow> conventional E r"
  by (auto simp: common_reset_def Let_def conventions)

lemma unload_codes: "answering E \<Longrightarrow> common_unload_vmm E s = (r, s') \<Longrightarrow> conventional E r"
  by (auto simp: common_unload_vmm_def unload_unloaded_def unload_corrupted_def conventions
      split: prod.splits if_splits vmm_status.splits)

lemma load_codes: "answering E \<Longrightarrow> common_load_vmm E s = Some (r, s') \<Longrightarrow> conventional E r"
  by (auto simp: common_load_vmm_def load_descriptors_def load_failure_def add_md_tls_def Let_def
      conventions split: prod.splits if_splits option.splits vmm_status.splits
      dest: load_setup_codes md_loop_codes add_md_modules_codes)

lemma stop_loop_codes: "answering E \<Longrightarrow> stop_loop E n regs s = (r, s') \<Longrightarrow> conventional E r"
proof (induction n arbitrary: regs s)
  case (Suc n)
  show ?case
    using Suc.prems
    by (auto simp: Let_def stop_corrupted_def conventions split: prod.splits if_splits
        dest: call_vmm_codes Suc.IH)
qed (auto simp: conventions)

lemma stop_codes: "answering E \<Longrightarrow> common_stop_vmm E s = (r, s') \<Longrightarrow> conventional E r"
  by (auto simp: common_stop_vmm_def conventions split: vmm_status.splits dest: stop_loop_codes)

lemma start_loop_codes: "answering E \<Longrightarrow> start_loop E cpuid regs s = (r, s') \<Longrightarrow> conventional E r"
proof (induction "nat (2 ^ 63 - sint cpuid)" arbitrary: cpuid regs s rule: less_induct)
  case less
  have IH: "start_loop E (cpuid + 1) regs' t = (r, s') \<Longrightarrow> conventional E r"
    if "sint cpuid < sint n" for n :: int64 and regs' t
    using less.hyps [of "cpuid + 1"] sint_incr [OF that] sint_less_max [of cpuid] less.prems(1) by simp
  show ?case
    using less.prems
    by (auto simp: start_loop.simps [of E cpuid] Let_def start_failure_def conventions
        split: prod.splits if_splits dest: call_vmm_codes IH)
qed

lemma start_codes: "answering E \<Longrightarrow> common_start_vmm E s = (r, s') \<Longrightarrow> conventional E r"
  by (auto simp: common_start_vmm_def conventions split: vmm_status.splits dest: start_loop_codes)

lemma step_codes: "answering E \<Longrightarrow> common_step E op s = Some (r, s') \<Longrightarrow> conventional E r"
  by (cases op) (auto simp: common_step_def common_init_def common_fini_def common_add_module_def
      common_dump_vmm_def Let_def conventions split: if_splits vmm_status.splits prod.splits
      dest: reset_codes load_codes unload_codes start_codes stop_codes call_vmm_codes)

end
