(* ===== verification/Test_Properties.thy ===== *)
theory Test_Properties
  imports Test_Platform Call_Invariant Driver_Leaks Return_Codes Demo
begin

text \<open>
  The counter of allocations with which the unit tests look for leaks: it is the number of
  blocks that are allocated, so the tests see every leak of \<open>common.c\<close>, and only leaks.
\<close>

section \<open>The counter and the log\<close>

definition counts_blocks :: "event list \<Rightarrow> 'k test_host machine \<Rightarrow> bool" where
  "counts_blocks tr m \<longleftrightarrow>
     (\<forall>live. run heap_step tr {#} = Some live \<longrightarrow> alloc_count_rw (host m) = of_nat (size live))"

text \<open>
  What the unit tests run on: a C library that does not refuse memory, and a loader and a VMM
  that allocate only executable blocks.
\<close>

definition test_world :: "'k libc \<Rightarrow> 'k test_host env \<Rightarrow> bool" where
  "test_world L B \<longleftrightarrow>
     libc_ok L \<and> (\<forall>n m. fst (malloc L n m) \<noteq> 0) \<and>
     (\<forall>ms n st info loader m. alloc_count_rw (host (snd (snd (snd (snd (snd
        (bfelf_load B ms n st info loader m))))))) = alloc_count_rw (host m)) \<and>
     (\<forall>st rsp info m. alloc_count_rw (host (snd (snd (vmm_entry B st rsp info m)))) = alloc_count_rw (host m)) \<and>
     (\<forall>regs m. alloc_count_rw (host (snd (vmcall B regs m))) = alloc_count_rw (host m)) \<and>
     (\<forall>m. alloc_count_rw (host (snd (platform_get_current_cpu_num B m))) = alloc_count_rw (host m)) \<and>
     (\<forall>m. alloc_count_rw (host (platform_restore_preemption B m)) = alloc_count_rw (host m))"

lemma test_worldD:
  assumes "test_world L B"
  shows "libc_ok L" and "malloc L n m = (a, m') \<Longrightarrow> a \<noteq> 0"
    and "bfelf_load B ms i st info loader m = (ret, ms', st', info', loader', m') \<Longrightarrow>
      alloc_count_rw (host m') = alloc_count_rw (host m)"
    and "vmm_entry B st rsp info m = (ret, info', m') \<Longrightarrow> alloc_count_rw (host m') = alloc_count_rw (host m)"
    and "vmcall B regs m = (regs', m') \<Longrightarrow> alloc_count_rw (host m') = alloc_count_rw (host m)"
    and "platform_get_current_cpu_num B m = (k, m') \<Longrightarrow> alloc_count_rw (host m') = alloc_count_rw (host m)"
    and "alloc_count_rw (host (platform_restore_preemption B m)) = alloc_count_rw (host m)"
  using assms unfolding test_world_def by (metis fst_conv snd_conv)+

lemma test_env_fields:
  "bfelf_load (test_env L B) = bfelf_load B" "vmm_entry (test_env L B) = vmm_entry B"
  "vmcall (test_env L B) = vmcall B"
  "platform_get_current_cpu_num (test_env L B) = platform_get_current_cpu_num B"
  "platform_restore_preemption (test_env L B) = platform_restore_preemption B"
  "platform_alloc_rw (test_env L B) = test_platform_alloc_rw L"
  "platform_free_rw (test_env L B) = test_platform_free_rw L"
  "platform_free_rwe (test_env L B) = test_platform_free_rwe L"
  "platform_memset (test_env L B) = test_platform_memset"
  "platform_num_cpus (test_env L B) = test_platform_num_cpus"
  "platform_set_affinity (test_env L B) = test_platform_set_affinity"
  "platform_restore_affinity (test_env L B) = test_platform_restore_affinity"
  "platform_start (test_env L B) = test_platform_start"
  "platform_stop (test_env L B) = test_platform_stop"
  by (simp_all add: test_env_def)

lemma test_env_ok [simp]: "env_ok (test_env L B) = env_ok B"
  by (simp add: test_env_def env_ok_def codes_ok_def loader_ok_def)

text \<open>An event that is neither an allocation nor a free changes no block.\<close>

lemma counts_blocks_other:
  assumes "counts_blocks tr m" and "alloc_count_rw (host m') = alloc_count_rw (host m)"
    and "\<And>live. heap_step e live = Some live"
  shows "counts_blocks (tr @ [e]) m'"
  using assms by (simp add: counts_blocks_def run_append split: option.splits)

lemma counts_blocks_alloc:
  assumes "counts_blocks tr m" and "test_world L B" and "test_platform_alloc_rw L n m = (a, m')"
  shows "counts_blocks (tr @ [AllocRw n a]) m'"
  using assms test_worldD(2) [OF assms(2)] same_globalsD(1) [OF libc_okD(1) [OF test_worldD(1) [OF assms(2)]]]
  by (fastforce simp: counts_blocks_def run_append test_platform_alloc_rw_def add_rw_def
      split: option.splits if_splits)

lemma counts_blocks_free:
  assumes "counts_blocks tr m" and "test_world L B"
  shows "counts_blocks (tr @ [FreeRw a n]) (test_platform_free_rw L a n m)"
proof -
  have "of_nat (size (live - {#(a, n)#})) = of_nat (size live) - (1 :: int32)"
    if "(a, n) \<in># live" for live
    using that by (simp add: size_Diff_singleton) (metis One_nat_def Suc_pred add_diff_cancel_left' of_nat_Suc size_eq_0_iff_empty empty_not_add_mset insert_DiffM not_gr_zero)
  then show ?thesis
    using assms(1) same_globalsD(1) [OF libc_okD(2) [OF test_worldD(1) [OF assms(2)]]]
    by (auto simp: counts_blocks_def run_append test_platform_free_rw_def add_rw_def
        split: option.splits if_splits)
qed

interpretation test_counter: recorded_world "test_env L B" "\<lambda>tr m. test_world L B \<and> counts_blocks tr m"
  for L :: "'k libc" and B :: "'k test_host env"
proof (unfold_locales, goal_cases)
  case (2 tr m p v n)
  then show ?case by (auto simp: counts_blocks_def test_env_fields test_platform_memset_def)
next
  case (6 tr m a n)
  then have "libc_ok L" by (simp add: test_world_def)
  from 6 same_globalsD(1) [OF libc_okD(2) [OF this]] show ?case
    by (auto intro!: counts_blocks_other [of tr m] simp: test_env_fields test_platform_free_rwe_def add_rwe_def)
next
  case (4 tr m n a m')
  then show ?case using counts_blocks_alloc by (auto simp: test_env_fields)
next
  case (5 tr m a n)
  then show ?case using counts_blocks_free by (auto simp: test_env_fields)
next
  case (1 tr m x)
  then show ?case by (simp add: counts_blocks_def)
qed (auto simp: test_env_fields test_platform_num_cpus_def test_platform_set_affinity_def
    test_platform_restore_affinity_def test_platform_start_def test_platform_stop_def
    intro!: counts_blocks_other dest: test_worldD split: if_splits)

section \<open>Leaks\<close>

text \<open>
  C17. Whatever sequence of operations a unit test performs on a library that does not refuse
  memory: the counter \<open>alloc_count_rw\<close>, which the test compares with 0 at its end, is the
  number of the blocks that \<open>common.c\<close> holds and of those that a load has lost, as a 32-bit
  number.
\<close>

theorem test_counter_is_exact:
  assumes "op_run (common_step (test_env L B)) ops (initial_state (test_env L B) m) = Some s'"
    and "env_ok B" and "test_world L B" and "alloc_count_rw (host m) = 0"
  shows "\<exists>lost. live_blocks s' = Some (held s' + lost) \<and>
    alloc_count_rw (host (machine s')) = of_nat (size (held s' + lost)) \<and>
    (all_along (common_step (test_env L B)) clean ops (initial_state (test_env L B) m) \<longrightarrow> lost = {#})"
proof -
  have "recorded (\<lambda>tr m. test_world L B \<and> counts_blocks tr m) (initial_state (test_env L B) m)"
    using assms(3,4) by (simp add: recorded_def counts_blocks_def initial_state_def)
  from test_counter.run_recorded [OF assms(1) this]
  have "counts_blocks (trace s') (machine s')" by (simp add: recorded_def)
  then show ?thesis
    using run_ownership [OF assms(1)] assms(2) by (auto simp: counts_blocks_def live_blocks_def)
qed

section \<open>A concrete library\<close>

text \<open>A \<open>malloc\<close> that hands out pages from an address upwards, and a VMM that always agrees.\<close>

definition unit_malloc :: "uint64 \<Rightarrow> uint64 test_host machine \<Rightarrow> uint64 \<times> uint64 test_host machine" where
  "unit_malloc n m =
     (process (host m) OR 0x100000,
      m\<lparr>host := (host m)\<lparr>process := process (host m) + align_down (n + 0xfff) 0x1000\<rparr>\<rparr>)"

definition unit_libc :: "uint64 libc" where
  "unit_libc =
     \<lparr>malloc = unit_malloc, libc_free = \<lambda>a m. m,
      posix_memalign = \<lambda>p n old m. (0, 0x300000, m), mprotect = \<lambda>a n m. (0, m)\<rparr>"

definition unit_bfsdk :: "uint64 test_host env" where
  "unit_bfsdk =
     \<lparr>rc = demo_rc, rq = demo_rq, MAX_NUM_MODULES = 3, STACK_SIZE = 0x8000,
      THREAD_LOCAL_STORAGE_SIZE = 0x1000, MAX_PAGE_SIZE = 0x1000, MEMORY_TYPE_R = 1,
      MEMORY_TYPE_W = 2, MEMORY_TYPE_E = 4, bfpf_x = 1, VMCALL_START = 16, VMCALL_STOP = 17,
      VMCALL_MAGIC_NUMBER = 0xBF, sizeof_thread_context = 16, tc_cpuid_offset = 0,
      tc_tlsptr_offset = 8, md_virt_offset = 0, md_phys_offset = 8, md_type_offset = 16,
      sizeof_crt_info = 2, sizeof_bfelf_loader = 2, sizeof_bfelf_file = 2,
      addr_of_md = 0x9000, uninit_regs = demo_regs,
      platform_alloc_rw = (\<lambda>n m. (0, m)), platform_alloc_rwe = (\<lambda>n m. (0, m)),
      platform_free_rw = (\<lambda>a n m. m), platform_free_rwe = (\<lambda>a n m. m),
      platform_virt_to_phys = (\<lambda>a m. a), platform_memset = (\<lambda>p v n m. m),
      platform_memcpy = (\<lambda>d s n m. m), platform_start = (\<lambda>m. m), platform_stop = (\<lambda>m. m),
      platform_num_cpus = (\<lambda>m. (0, m)), platform_set_affinity = (\<lambda>c m. (c, m)),
      platform_restore_affinity = (\<lambda>c m. m), platform_get_current_cpu_num = (\<lambda>m. (0, m)),
      platform_restore_preemption = (\<lambda>m. m),
      bfelf_load = (\<lambda>ms n start info loader m. (0, ms, 0x4010, info, loader, m)),
      bfelf_set_integer_args = (\<lambda>info a b c d. (0, info)),
      bfelf_file_get_num_load_instrs = (\<lambda>ef. 0),
      bfelf_file_get_load_instr = (\<lambda>ef i. (0, \<lparr>instr_mem_offset = 0, instr_memsz = 0, instr_perm = 0\<rparr>)),
      vmm_entry = (\<lambda>start rsp info m. (0, info, m)), vmcall = (\<lambda>regs m. (regs\<lparr>r01 := 0\<rparr>, m))\<rparr>"

definition unit_machine :: "uint64 test_host machine" where
  "unit_machine =
     \<lparr>mem = (\<lambda>x. 0xCC),
      host = \<lparr>alloc_count_rw = 0, alloc_count_rwe = 0, g_malloc_fails = 0, g_set_afinity_fails = 0,
              g_vmcall = 0, process = 0x100000\<rparr>\<rparr>"

lemma unit_env_ok: "env_ok unit_bfsdk"
  by (simp add: env_ok_def codes_ok_def loader_ok_def unit_bfsdk_def error_codes_def)

lemma unit_world: "test_world unit_libc unit_bfsdk"
  by (simp add: test_world_def libc_ok_def unit_libc_def unit_bfsdk_def unit_malloc_def or_bit_nonzero same_globals_def)

lemma unit_consts:
  "rc (test_env L unit_bfsdk) = demo_rc" "rq (test_env L unit_bfsdk) = demo_rq"
  "MAX_NUM_MODULES (test_env L unit_bfsdk) = 3" "STACK_SIZE (test_env L unit_bfsdk) = 0x8000"
  "THREAD_LOCAL_STORAGE_SIZE (test_env L unit_bfsdk) = 0x1000"
  "MAX_PAGE_SIZE (test_env L unit_bfsdk) = 0x1000"
  "MEMORY_TYPE_R (test_env L unit_bfsdk) = 1" "MEMORY_TYPE_W (test_env L unit_bfsdk) = 2"
  "sizeof_thread_context (test_env L unit_bfsdk) = 16" "tc_cpuid_offset (test_env L unit_bfsdk) = 0"
  "tc_tlsptr_offset (test_env L unit_bfsdk) = 8" "md_virt_offset (test_env L unit_bfsdk) = 0"
  "md_phys_offset (test_env L unit_bfsdk) = 8" "md_type_offset (test_env L unit_bfsdk) = 16"
  "sizeof_crt_info (test_env L unit_bfsdk) = 2" "sizeof_bfelf_loader (test_env L unit_bfsdk) = 2"
  "sizeof_bfelf_file (test_env L unit_bfsdk) = 2" "addr_of_md (test_env L unit_bfsdk) = 0x9000"
  "platform_virt_to_phys (test_env L unit_bfsdk) = test_platform_virt_to_phys"
  "bfelf_set_integer_args (test_env L unit_bfsdk) info a b c d = (0, info)"
  "bfelf_file_get_num_load_instrs (test_env L unit_bfsdk) ef = 0"
  by (simp_all add: test_env_def unit_bfsdk_def)

lemma unit_library:
  "bfelf_load unit_bfsdk ms n start info loader m = (0, ms, 0x4010, info, loader, m)"
  "vmm_entry unit_bfsdk st rsp info m = (0, info, m)"
  "platform_get_current_cpu_num unit_bfsdk m = (0, m)" "platform_restore_preemption unit_bfsdk m = m"
  "malloc unit_libc = unit_malloc" "libc_free unit_libc a m = m"
  by (simp_all add: unit_bfsdk_def unit_libc_def)

lemmas unit_defs =
  unit_consts unit_library test_env_fields test_platform_alloc_rw_def test_platform_free_rw_def
  test_platform_memset_def test_platform_num_cpus_def test_platform_virt_to_phys_def
  unit_malloc_def add_rw_def unit_machine_def initial_state_def zero_modules_def zero_binary_def
  driver_defs align_down_def

theorem test_counter_is_exact_witness:
  "\<exists>s'. op_run (common_step (test_env unit_libc unit_bfsdk)) [Common_Add_Module 0x2000 16, Common_Load]
      (initial_state (test_env unit_libc unit_bfsdk) unit_machine) = Some s' \<and>
     alloc_count_rw (host (machine s')) = of_nat (size (held s')) \<and> size (held s') = 2"
proof -
  let ?E = "test_env unit_libc unit_bfsdk" and ?ops = "[Common_Add_Module 0x2000 16, Common_Load]"
  have run: "\<exists>s'. op_run (common_step ?E) ?ops (initial_state ?E unit_machine) = Some s' \<and>
      g_stack s' \<noteq> 0 \<and> g_tls s' \<noteq> 0"
    by (simp add: op_run_def common_step_def unit_defs md_loop.simps numeral_3_eq_3
        cong: prod.case_cong_weak option.case_cong_weak)
  then obtain s' where s': "op_run (common_step ?E) ?ops (initial_state ?E unit_machine) = Some s'"
    "g_stack s' \<noteq> 0" "g_tls s' \<noteq> 0" by blast
  have "all_along (common_step ?E) clean ?ops (initial_state ?E unit_machine)"
    by (simp add: common_step_def clean_def unit_defs numeral_3_eq_3 split: option.splits prod.splits)
  moreover have "alloc_count_rw (host unit_machine) = 0" by (simp add: unit_machine_def)
  moreover have "size (held s') = 2" using s'(2,3) by (simp add: held_def block_def)
  ultimately show ?thesis
    using test_counter_is_exact [OF s'(1) unit_env_ok unit_world] s'(1) by fastforce
qed

section \<open>Return codes\<close>

text \<open>
  C16. While the loader and the VMM answer with success or a negative code, so does every
  operation of \<open>common.c\<close>, from every state and with every platform: the test for a negative
  code with which the UEFI application looks for errors misses none.
\<close>

theorem return_codes_are_conventional:
  assumes "common_step E op s = Some (r, s')" and "codes_ok E" and "answers_ok E"
  shows "r = rc E BF_SUCCESS \<or> sint r < 0"
  using step_codes [OF _ assms(1)] assms(2,3) by (simp add: answering_def conventional_def)

lemma unit_answers: "answers_ok (test_env unit_libc unit_bfsdk)"
  by (simp add: answers_ok_def conventional_def test_env_def unit_bfsdk_def)

theorem return_codes_are_conventional_witness:
  "\<exists>r s'. common_step (test_env unit_libc unit_bfsdk) Common_Load
      (initial_state (test_env unit_libc unit_bfsdk) unit_machine) = Some (r, s') \<and>
     r \<noteq> 0 \<and> sint r < 0"
proof -
  let ?E = "test_env unit_libc unit_bfsdk"
  have run: "\<exists>r s'. common_step ?E Common_Load (initial_state ?E unit_machine) = Some (r, s') \<and> r \<noteq> 0"
    by (simp add: common_step_def unit_defs)
  have "codes_ok ?E" using unit_env_ok env_okD(1) [of ?E] by simp
  then show ?thesis
    using run return_codes_are_conventional [OF _ _ unit_answers] by (fastforce simp: unit_consts)
qed

end
