(* ===== verification/Test_Outline.thy ===== *)
theory Test_Outline
  imports Test_Properties
begin

text \<open>
  The world of the unit tests of \<open>src/test\<close>: the platform layer of the tests, one CPU, and
  a VMM linked from dummy modules that answer each request with a fixed number. In this
  world \<open>common.c\<close> implements a small machine, the \<open>outline\<close>: its status, the number of
  modules, whether the CPU has been started.
\<close>

section \<open>Dummy modules\<close>

text \<open>What the VMM answers to a request, and the loader to the modules.\<close>

record dummies =
  answer :: "bf_request \<Rightarrow> int64"
  loader_answer :: int64

text \<open>The loader of the dummies places nothing, and the VMM finds the request in its arguments.\<close>

fun request_of :: "byte \<Rightarrow> bf_request" where
  "request_of b =
     (if b = 1 then BF_REQUEST_INIT else if b = 2 then BF_REQUEST_ADD_MDL
      else if b = 3 then BF_REQUEST_VMM_INIT else if b = 4 then BF_REQUEST_VMM_FINI
      else if b = 5 then BF_REQUEST_GET_DRR else BF_REQUEST_FINI)"

definition dummy_libc :: "uint64 libc" where
  "dummy_libc = unit_libc\<lparr>malloc := (\<lambda>n m. (if n = 0x10000 then 0x100000 else 0x200000, m))\<rparr>"

definition dummy_env :: "dummies \<Rightarrow> uint64 test_host env" where
  "dummy_env d = test_env dummy_libc (unit_bfsdk
     \<lparr>MAX_NUM_MODULES := 5,
      bfelf_set_integer_args := (\<lambda>info a b c e. (0, [ucast a, 0])),
      vmm_entry := (\<lambda>start rsp info m. (answer d (request_of (hd info)), info, m)),
      bfelf_load := (\<lambda>ms n start info loader m. (loader_answer d, ms, 0x4010, info, loader, m)),
      bfelf_file_get_num_load_instrs := (\<lambda>ef. 1),
      bfelf_file_get_load_instr :=
        (\<lambda>ef i. (0, \<lparr>instr_mem_offset = 0x400000, instr_memsz = 0x10, instr_perm = 0\<rparr>)),
      vmcall := platform_vmcall\<rparr>)"

lemma dummy_consts [simp]:
  "rc (dummy_env d) = demo_rc" "rq (dummy_env d) = demo_rq"
  "MAX_NUM_MODULES (dummy_env d) = 5" "STACK_SIZE (dummy_env d) = 0x8000"
  "THREAD_LOCAL_STORAGE_SIZE (dummy_env d) = 0x1000" "MAX_PAGE_SIZE (dummy_env d) = 0x1000"
  "addr_of_md (dummy_env d) = 0x9000"
  "platform_virt_to_phys (dummy_env d) = test_platform_virt_to_phys"
  "bfelf_set_integer_args (dummy_env d) info a b c e = (0, [ucast a, 0])"
  "bfelf_file_get_num_load_instrs (dummy_env d) ef = 1"
  "bfelf_file_get_load_instr (dummy_env d) ef i =
    (0, \<lparr>instr_mem_offset = 0x400000, instr_memsz = 0x10, instr_perm = 0\<rparr>)"
  "vmm_entry (dummy_env d) st rsp info m = (answer d (request_of (hd info)), info, m)"
  "bfelf_load (dummy_env d) ms n st info loader m = (loader_answer d, ms, 0x4010, info, loader, m)"
  "vmcall (dummy_env d) = platform_vmcall"
  "platform_get_current_cpu_num (dummy_env d) m = (0, m)"
  "platform_restore_preemption (dummy_env d) m = m"
  by (simp_all add: dummy_env_def test_env_def unit_bfsdk_def)

lemma dummy_platform [simp]:
  "platform_alloc_rw (dummy_env d) = test_platform_alloc_rw dummy_libc"
  "platform_free_rw (dummy_env d) = test_platform_free_rw dummy_libc"
  "platform_memset (dummy_env d) = test_platform_memset"
  "platform_num_cpus (dummy_env d) = test_platform_num_cpus"
  "platform_set_affinity (dummy_env d) = test_platform_set_affinity"
  "platform_restore_affinity (dummy_env d) = test_platform_restore_affinity"
  "platform_start (dummy_env d) = test_platform_start"
  "platform_stop (dummy_env d) = test_platform_stop"
  "malloc dummy_libc n m = (if n = 0x10000 then 0x100000 else 0x200000, m)"
  "libc_free dummy_libc a m = m"
  by (simp_all add: dummy_env_def test_env_def dummy_libc_def unit_libc_def)

lemmas test_platform_defs =
  test_platform_alloc_rw_def test_platform_free_rw_def test_platform_memset_def
  test_platform_num_cpus_def test_platform_virt_to_phys_def test_platform_set_affinity_def
  test_platform_restore_affinity_def test_platform_start_def test_platform_stop_def
  platform_vmcall_def add_rw_def

section \<open>Calls into the VMM\<close>

text \<open>What the calls leave alone: the globals, and what the platform layer counts.\<close>

definition calm :: "'k test_host common_state \<Rightarrow> 'k test_host common_state \<Rightarrow> bool" where
  "calm s s' \<longleftrightarrow> vmm_only s s' \<and> host (machine s') = host (machine s)"

lemma calm_trans: "calm s t \<Longrightarrow> calm t u \<Longrightarrow> calm s u"
  using vmm_only_trans by (auto simp: calm_def)

lemma calm_start: "calm s t \<Longrightarrow> g_start t = g_start s"
  using vmm_onlyD(3) by (auto simp: calm_def)

lemma request_of_rq: "request_of (ucast (demo_rq req :: uint64)) = req"
  by (cases req) simp_all

lemma call_dummy:
  assumes "g_start s \<noteq> 0"
  obtains s' where "call_vmm (dummy_env d) req a b c s = (answer d req, s')" and "calm s s'"
proof -
  obtain r s' where run: "call_vmm (dummy_env d) req a b c s = (r, s')" by force
  have "r = answer d req \<and> host (machine s') = host (machine s)"
    using run assms request_of_rq [of req]
    by (auto simp: call_vmm_def call_defs write_thread_context_def enter_vmm_def Let_def simp del: request_of.simps)
  then show thesis using that run call_vmm_only [OF run] by (simp add: calm_def)
qed

lemma raw_md_dummy:
  assumes "g_start s \<noteq> 0"
  obtains s' where "add_raw_md_to_memory_manager (dummy_env d) v ty s = (answer d BF_REQUEST_ADD_MDL, s')"
    and "calm s s'"
proof -
  let ?t = "store_md (dummy_env d) v (test_platform_virt_to_phys v (machine s)) ty s"
  have t: "calm s ?t" "g_start ?t \<noteq> 0"
    using assms by (simp_all add: calm_def vmm_only_def store_md_def call_defs)
  obtain s' where s': "call_vmm (dummy_env d) BF_REQUEST_ADD_MDL 0x9000 0 0 ?t = (answer d BF_REQUEST_ADD_MDL, s')"
    "calm ?t s'"
    by (rule call_dummy [OF t(2)])
  have "add_raw_md_to_memory_manager (dummy_env d) v ty s = (answer d BF_REQUEST_ADD_MDL, s')"
    using s'(1) by (cases "answer d BF_REQUEST_ADD_MDL = 0") (simp_all add: add_raw_md_to_memory_manager_def Let_def)
  then show thesis by (rule that [OF _ calm_trans [OF t(1) s'(2)]])
qed

section \<open>The outline\<close>

record outline =
  out_status :: vmm_status
  out_modules :: nat
  out_started :: bool
  sw_malloc :: uint64
  sw_affinity :: bool
  sw_vmcall :: uint64

definition outline_reset :: "outline \<Rightarrow> outline" where
  "outline_reset z = z\<lparr>out_status := VMM_UNLOADED, out_modules := 0, out_started := False\<rparr>"

definition outline_add :: "uint64 \<Rightarrow> uint64 \<Rightarrow> outline \<Rightarrow> int64 \<times> outline" where
  "outline_add a n z =
     (if a = 0 \<or> n = 0 then (demo_rc BF_ERROR_INVALID_ARG, z)
      else if out_status z = VMM_CORRUPT then (demo_rc BF_ERROR_VMM_CORRUPTED, z)
      else if out_status z \<noteq> VMM_UNLOADED then (demo_rc BF_ERROR_VMM_INVALID_STATE, z)
      else if 5 \<le> out_modules z then (demo_rc BF_ERROR_MAX_MODULES_REACHED, z)
      else (0, z\<lparr>out_modules := Suc (out_modules z)\<rparr>))"

definition outline_load :: "dummies \<Rightarrow> outline \<Rightarrow> int64 \<times> outline" where
  "outline_load d z =
     (case out_status z of
        VMM_CORRUPT \<Rightarrow> (demo_rc BF_ERROR_VMM_CORRUPTED, z)
      | VMM_LOADED \<Rightarrow> (0, z)
      | VMM_RUNNING \<Rightarrow> (demo_rc BF_ERROR_VMM_INVALID_STATE, z)
      | VMM_UNLOADED \<Rightarrow>
          if out_modules z = 0 then (demo_rc BF_ERROR_NO_MODULES_ADDED, z)
          else if sw_malloc z \<in> {0x10000, 0x1000} then (demo_rc BF_ERROR_OUT_OF_MEMORY, outline_reset z)
          else if loader_answer d \<noteq> 0 then (loader_answer d, outline_reset z)
          else if answer d BF_REQUEST_INIT \<noteq> 0 then (answer d BF_REQUEST_INIT, outline_reset z)
          else if answer d BF_REQUEST_ADD_MDL \<noteq> 0 then (answer d BF_REQUEST_ADD_MDL, outline_reset z)
          else (0, z\<lparr>out_status := VMM_LOADED\<rparr>))"

definition outline_unload :: "dummies \<Rightarrow> outline \<Rightarrow> int64 \<times> outline" where
  "outline_unload d z =
     (if out_status z = VMM_RUNNING then (demo_rc BF_ERROR_VMM_INVALID_STATE, z)
      else if out_status z = VMM_CORRUPT \<or> out_status z = VMM_LOADED \<and> answer d BF_REQUEST_FINI \<noteq> 0
      then (demo_rc BF_ERROR_VMM_CORRUPTED, z\<lparr>out_status := VMM_CORRUPT\<rparr>)
      else (0, outline_reset z))"

definition outline_start :: "dummies \<Rightarrow> outline \<Rightarrow> int64 \<times> outline" where
  "outline_start d z =
     (case out_status z of
        VMM_CORRUPT \<Rightarrow> (demo_rc BF_ERROR_VMM_CORRUPTED, z)
      | VMM_RUNNING \<Rightarrow> (0, z)
      | VMM_UNLOADED \<Rightarrow> (demo_rc BF_ERROR_VMM_INVALID_STATE, z)
      | VMM_LOADED \<Rightarrow>
          if sw_affinity z then (-1, z\<lparr>out_started := False\<rparr>)
          else if answer d BF_REQUEST_VMM_INIT \<noteq> 0
          then (answer d BF_REQUEST_VMM_INIT, z\<lparr>out_started := False\<rparr>)
          else if sw_vmcall z \<noteq> 0
          then (demo_rc ENTRY_ERROR_VMM_START_FAILED, z\<lparr>out_started := True\<rparr>)
          else (0, z\<lparr>out_started := True, out_status := VMM_RUNNING\<rparr>))"

definition outline_stop :: "dummies \<Rightarrow> outline \<Rightarrow> int64 \<times> outline" where
  "outline_stop d z =
     (case out_status z of
        VMM_CORRUPT \<Rightarrow> (demo_rc BF_ERROR_VMM_CORRUPTED, z)
      | VMM_LOADED \<Rightarrow> (0, z)
      | VMM_UNLOADED \<Rightarrow> (demo_rc BF_ERROR_VMM_INVALID_STATE, z)
      | VMM_RUNNING \<Rightarrow>
          if sw_affinity z then (-1, z\<lparr>out_status := VMM_CORRUPT\<rparr>)
          else if sw_vmcall z \<noteq> 0 then (demo_rc ENTRY_ERROR_VMM_STOP_FAILED, z)
          else if answer d BF_REQUEST_VMM_FINI \<noteq> 0
          then (answer d BF_REQUEST_VMM_FINI, z\<lparr>out_status := VMM_CORRUPT\<rparr>)
          else (0, z\<lparr>out_started := False, out_status := VMM_LOADED\<rparr>))"

definition outline_dump :: "dummies \<Rightarrow> uint64 \<Rightarrow> outline \<Rightarrow> int64 \<times> outline" where
  "outline_dump d drr z =
     (if drr = 0 then (demo_rc BF_ERROR_INVALID_ARG, z)
      else if out_status z = VMM_UNLOADED then (demo_rc BF_ERROR_VMM_INVALID_STATE, z)
      else (answer d BF_REQUEST_GET_DRR, z))"

definition outline_fini :: "dummies \<Rightarrow> outline \<Rightarrow> int64 \<times> outline" where
  "outline_fini d z =
     (let z = (if out_status z = VMM_RUNNING then snd (outline_stop d z) else z);
          z = (if out_status z = VMM_LOADED then snd (outline_unload d z) else z)
      in if out_status z = VMM_CORRUPT then (demo_rc BF_ERROR_VMM_CORRUPTED, z)
         else (0, if out_status z = VMM_UNLOADED then outline_reset z else z))"

fun outline_step :: "dummies \<Rightarrow> common_op \<Rightarrow> outline \<Rightarrow> int64 \<times> outline" where
  "outline_step d Common_Init z = (0, outline_reset z)"
| "outline_step d Common_Fini z = outline_fini d z"
| "outline_step d (Common_Add_Module a n) z = outline_add a n z"
| "outline_step d Common_Load z = outline_load d z"
| "outline_step d Common_Unload z = outline_unload d z"
| "outline_step d Common_Start z = outline_start d z"
| "outline_step d Common_Stop z = outline_stop d z"
| "outline_step d (Common_Dump drr v) z = outline_dump d drr z"

section \<open>The abstraction\<close>

text \<open>The outline of a state, and what holds of the states of a test.\<close>

definition outline_of :: "uint64 test_host common_state \<Rightarrow> outline" where
  "outline_of s =
     \<lparr>out_status = g_vmm_status s, out_modules = nat (sint (g_num_modules s)),
      out_started = (g_num_cpus_started s = 1), sw_malloc = g_malloc_fails (host (machine s)),
      sw_affinity = (g_set_afinity_fails (host (machine s)) \<noteq> 0), sw_vmcall = g_vmcall (host (machine s))\<rparr>"

definition modules_well :: "uint64 test_host common_state \<Rightarrow> bool" where
  "modules_well s \<longleftrightarrow> 0 \<le> sint (g_num_modules s) \<and> sint (g_num_modules s) \<le> 5 \<and>
     length (g_modules s) = 5 \<and> (\<forall>b \<in> set (g_modules s). bin_exec b = 0) \<and>
     alloc_count_rwe (host (machine s)) = 0"

text \<open>With nothing loaded, and with a VMM in memory.\<close>

definition resting :: "uint64 test_host common_state \<Rightarrow> bool" where
  "resting s \<longleftrightarrow> g_stack s = 0 \<and> g_tls s = 0 \<and> g_num_cpus_started s = 0 \<and> alloc_count_rw (host (machine s)) = 0"

definition working :: "uint64 test_host common_state \<Rightarrow> bool" where
  "working s \<longleftrightarrow> g_start s \<noteq> 0 \<and> g_stack s \<noteq> 0 \<and> g_tls s \<noteq> 0 \<and> g_num_cpus_started s \<in> {0, 1} \<and>
     alloc_count_rw (host (machine s)) = 2"

definition well :: "uint64 test_host common_state \<Rightarrow> bool" where
  "well s \<longleftrightarrow> modules_well s \<and> (if g_vmm_status s = VMM_UNLOADED then resting s else working s) \<and>
     (g_vmm_status s = VMM_RUNNING \<longrightarrow> g_num_cpus_started s = 1)"

lemma outline_fields [simp]:
  "out_status (outline_of s) = g_vmm_status s" "out_started (outline_of s) = (g_num_cpus_started s = 1)"
  "out_modules (outline_of s) = nat (sint (g_num_modules s))"
  "sw_malloc (outline_of s) = g_malloc_fails (host (machine s))"
  "sw_affinity (outline_of s) = (g_set_afinity_fails (host (machine s)) \<noteq> 0)"
  "sw_vmcall (outline_of s) = g_vmcall (host (machine s))"
  by (simp_all add: outline_of_def)

text \<open>The log does not matter, and each of the other globals only where it is named.\<close>

lemma log_fields [simp]:
  "outline_of (log e s) = outline_of s" "modules_well (log e s) = modules_well s"
  "resting (log e s) = resting s" "working (log e s) = working s" "machine (log e s) = machine s"
  "g_vmm_status (log e s) = g_vmm_status s" "g_num_cpus_started (log e s) = g_num_cpus_started s"
  "g_start (log e s) = g_start s"
  by (simp_all add: log_def outline_of_def modules_well_def resting_def working_def)

lemma status_fields [simp]:
  "outline_of (s\<lparr>g_vmm_status := v\<rparr>) = (outline_of s)\<lparr>out_status := v\<rparr>"
  "outline_of (s\<lparr>g_num_cpus_started := n\<rparr>) = (outline_of s)\<lparr>out_started := (n = 1)\<rparr>"
  "modules_well (s\<lparr>g_vmm_status := v\<rparr>) = modules_well s"
  "modules_well (s\<lparr>g_num_cpus_started := n\<rparr>) = modules_well s"
  "resting (s\<lparr>g_vmm_status := v\<rparr>) = resting s" "working (s\<lparr>g_vmm_status := v\<rparr>) = working s"
  by (simp_all add: outline_of_def modules_well_def resting_def working_def)

lemma working_started: "working s \<Longrightarrow> n \<in> {0, 1} \<Longrightarrow> working (s\<lparr>g_num_cpus_started := n\<rparr>)"
  by (simp add: working_def)

lemma outline_same [simp]: "(outline_of s)\<lparr>out_status := g_vmm_status s\<rparr> = outline_of s"
  by (simp add: outline_of_def)

lemma calm_fields:
  assumes "calm s s'"
  shows "outline_of s' = outline_of s" and "modules_well s' = modules_well s" and "working s' = working s"
    and "resting s' = resting s" and "g_vmm_status s' = g_vmm_status s"
    and "g_num_cpus_started s' = g_num_cpus_started s"
  using assms vmm_onlyD [of s s']
  by (simp_all add: calm_def outline_of_def modules_well_def resting_def working_def)

lemma calm_well: "calm s s' \<Longrightarrow> well s' = well s"
  using calm_fields [of s s'] by (simp add: well_def)

text \<open>The calls on the platform layer of the tests.\<close>

lemma platform_calls [simp]:
  "call_set_affinity (dummy_env d) c s =
    (if g_set_afinity_fails (host (machine s)) \<noteq> 0 then (-1, log (SetAffinity c (-1)) s)
     else (0, log (SetAffinity c 0) s))"
  "call_vmcall (dummy_env d) regs s =
    (regs\<lparr>r01 := g_vmcall (host (machine s))\<rparr>, log (Vmcall (r00 regs) (g_vmcall (host (machine s)))) s)"
  "call_platform_start (dummy_env d) s = log PlatformStart s"
  "call_platform_stop (dummy_env d) s = log PlatformStop s"
  "call_restore_affinity (dummy_env d) c s = log (RestoreAffinity c) s"
  "call_num_cpus (dummy_env d) s = (1, s)"
  by (simp_all add: call_set_affinity_def call_vmcall_def call_platform_start_def call_platform_stop_def
      call_restore_affinity_def call_num_cpus_def on_machine_def test_platform_set_affinity_def
      platform_vmcall_def test_platform_start_def test_platform_stop_def test_platform_restore_affinity_def
      test_platform_num_cpus_def log_def)

section \<open>The operations implement the outline\<close>

text \<open>One operation: it answers what the outline answers, and its state has the outline after the step.\<close>

definition implements :: "int64 \<times> uint64 test_host common_state \<Rightarrow> int64 \<times> outline \<Rightarrow> bool" where
  "implements x y \<longleftrightarrow> fst x = fst y \<and> well (snd x) \<and> outline_of (snd x) = snd y"

lemma implements_pair [simp]: "implements (r, s) (q, z) \<longleftrightarrow> r = q \<and> well s \<and> outline_of s = z"
  by (simp add: implements_def)

lemma free_no_modules: "\<forall>b \<in> set bs. bin_exec b = 0 \<Longrightarrow> free_modules E bs s = s"
  by (induction bs) simp_all

lemma zero_modules_dummy: "length (zero_modules (dummy_env d)) = 5"
  "\<forall>b \<in> set (zero_modules (dummy_env d)). bin_exec b = 0"
  by (simp_all add: zero_modules_def zero_binary_def)

text \<open>A reset, also from the middle of a load.\<close>

lemma reset_implements:
  assumes well: "modules_well s" and count: "alloc_count_rw (host (machine s)) =
      (if g_stack s = 0 then 0 else 1) + (if g_tls s = 0 then 0 else 1)"
  shows "implements (common_reset (dummy_env d) s) (0, outline_reset (outline_of s))"
proof -
  have "free_modules (dummy_env d) (take k (g_modules s)) s = s" for k
    by (rule free_no_modules) (use well in \<open>auto simp: modules_well_def dest: in_set_takeD\<close>)
  then show ?thesis
    using assms zero_modules_dummy [of d]
    by (auto simp: common_reset_def well_def modules_well_def resting_def outline_of_def outline_reset_def
        call_free_rw_def on_machine_def log_def test_platform_free_rw_def add_rw_def Let_def)
qed

lemma well_reset:
  assumes "well s"
  shows "implements (common_reset (dummy_env d) s) (0, outline_reset (outline_of s))"
  by (rule reset_implements) (use assms in \<open>auto simp: well_def resting_def working_def split: if_splits\<close>)

lemma unload_implements:
  assumes "well s"
  shows "implements (common_unload_vmm (dummy_env d) s) (outline_unload d (outline_of s))"
proof -
  have unloaded: "implements (unload_unloaded (dummy_env d) t) (0, outline_reset (outline_of s))"
    if w: "well t" and same: "outline_of t = outline_of s" for t
  proof -
    obtain u where u: "common_reset (dummy_env d) t = (0, u)" "well u" "outline_of u = outline_reset (outline_of s)"
      using well_reset [OF w, of d] same by (cases "common_reset (dummy_env d) t") simp
    have "u\<lparr>g_vmm_status := VMM_UNLOADED\<rparr> = u" using reset_fields(1) [OF u(1)] by (cases u) simp
    then show ?thesis using u by (simp add: unload_unloaded_def)
  qed
  show ?thesis
  proof (cases "g_vmm_status s")
    case VMM_LOADED
    then have "g_start s \<noteq> 0" using assms by (simp add: well_def working_def)
    then obtain t where t: "call_vmm (dummy_env d) BF_REQUEST_FINI 0 0 0 s = (answer d BF_REQUEST_FINI, t)" "calm s t"
      by (rule call_dummy)
    have "well t" "outline_of t = outline_of s" "working t" "modules_well t"
      using assms VMM_LOADED by (simp_all add: well_def calm_fields [OF t(2)])
    then show ?thesis
      using t(1) VMM_LOADED unloaded [of t]
      by (simp add: common_unload_vmm_def common_vmm_status_def outline_unload_def unload_corrupted_def well_def)
  next
    case VMM_UNLOADED
    then show ?thesis
      using unloaded [OF assms refl] by (simp add: common_unload_vmm_def common_vmm_status_def outline_unload_def)
  next
    case VMM_RUNNING
    then show ?thesis using assms by (simp add: common_unload_vmm_def common_vmm_status_def outline_unload_def)
  next
    case VMM_CORRUPT
    then show ?thesis
      using assms
      by (simp add: common_unload_vmm_def common_vmm_status_def outline_unload_def unload_corrupted_def well_def)
  qed
qed

lemma add_implements:
  assumes "well s"
  shows "implements (common_add_module (dummy_env d) a n s) (outline_add a n (outline_of s))"
proof (cases "a = 0 \<or> n = 0 \<or> g_vmm_status s \<noteq> VMM_UNLOADED \<or> 5 \<le> sint (g_num_modules s)")
  case True
  then show ?thesis
    using assms by (cases "g_vmm_status s")
      (auto simp: common_add_module_def common_vmm_status_def outline_add_def nat_le_iff le_nat_iff)
next
  case False
  let ?i = "nat (sint (g_num_modules s))"
  let ?b = "(g_modules s ! ?i)\<lparr>bin_file := a, bin_file_size := n\<rparr>"
  have m: "modules_well s" "resting s" using assms False by (simp_all add: well_def)
  then have i: "?i < 5" "0 \<le> sint (g_num_modules s)" using False by (simp_all add: modules_well_def nat_less_iff)
  have num: "sint (g_num_modules s + 1) = sint (g_num_modules s) + 1"
    by (rule sint_incr [of _ 5]) (use False in simp_all)
  have "g_modules s ! ?i \<in> set (g_modules s)" using i m by (simp add: modules_well_def)
  then have "bin_exec ?b = 0" using m by (simp add: modules_well_def)
  then have "\<forall>b \<in> set ((g_modules s)[?i := ?b]). bin_exec b = 0"
    using m set_update_subset_insert [of "g_modules s" ?i ?b] by (auto simp: modules_well_def)
  then show ?thesis
    using False m i num
    by (simp add: common_add_module_def common_vmm_status_def outline_add_def well_def modules_well_def resting_def
        outline_of_def Let_def Suc_nat_eq_nat_zadd1)
qed

lemma stop_implements:
  assumes "well s"
  shows "implements (common_stop_vmm (dummy_env d) s) (outline_stop d (outline_of s))"
proof (cases "g_vmm_status s = VMM_RUNNING")
  case False
  then show ?thesis
    using assms by (cases "g_vmm_status s") (simp_all add: common_stop_vmm_def common_vmm_status_def outline_stop_def)
next
  case True
  let ?v = "g_vmcall (host (machine s))"
  let ?t = "log (Vmcall (VMCALL_STOP (dummy_env d)) ?v) (log (SetAffinity 0 0) s)"
  have s: "working s" "modules_well s" "g_num_cpus_started s = 1" "g_start ?t \<noteq> 0"
    using assms True by (simp_all add: well_def working_def)
  obtain u where u: "call_vmm (dummy_env d) BF_REQUEST_VMM_FINI 0 0 0 ?t = (answer d BF_REQUEST_VMM_FINI, u)" "calm ?t u"
    by (rule call_dummy [OF s(4)])
  have w: "outline_of u = outline_of s" "working u" "modules_well u" "g_num_cpus_started u = 1"
    using s by (simp_all add: calm_fields [OF u(2)])
  consider "g_set_afinity_fails (host (machine s)) \<noteq> 0"
    | "g_set_afinity_fails (host (machine s)) = 0" "?v \<noteq> 0"
    | "g_set_afinity_fails (host (machine s)) = 0" "?v = 0" "answer d BF_REQUEST_VMM_FINI \<noteq> 0"
    | "g_set_afinity_fails (host (machine s)) = 0" "?v = 0" "answer d BF_REQUEST_VMM_FINI = 0"
    by blast
  then show ?thesis
    using True s w u(1) working_started [of u 0] assms
    by cases (simp_all add: common_stop_vmm_def common_vmm_status_def outline_stop_def stop_corrupted_def
        well_def Let_def)
qed

lemma start_implements:
  assumes "well s"
  shows "implements (common_start_vmm (dummy_env d) s) (outline_start d (outline_of s))"
proof (cases "g_vmm_status s = VMM_LOADED")
  case False
  then show ?thesis
    using assms by (cases "g_vmm_status s") (simp_all add: common_start_vmm_def common_vmm_status_def outline_start_def)
next
  case True
  let ?t = "log (SetAffinity 0 0) (s\<lparr>g_num_cpus_started := 0\<rparr>)"
  have s: "working s" "modules_well s" using assms True by (simp_all add: well_def)
  have t: "working ?t" "modules_well ?t" "g_start ?t \<noteq> 0" "g_num_cpus_started ?t = 0" "g_vmm_status ?t = VMM_LOADED"
    "outline_of ?t = (outline_of s)\<lparr>out_started := False\<rparr>"
    using s True working_started [OF s(1), of 0] by (simp_all, simp add: working_def)
  obtain u where u: "call_vmm (dummy_env d) BF_REQUEST_VMM_INIT 0 0 0 ?t = (answer d BF_REQUEST_VMM_INIT, u)" "calm ?t u"
    by (rule call_dummy [OF t(3)])
  have w: "outline_of u = (outline_of s)\<lparr>out_started := False\<rparr>" "working u" "modules_well u"
    "g_num_cpus_started u = 0" "g_vmm_status u = VMM_LOADED" "host (machine u) = host (machine s)"
    using t u(2) by (simp_all add: calm_fields [OF u(2)]) (simp add: calm_def)
  consider "g_set_afinity_fails (host (machine s)) \<noteq> 0"
    | "g_set_afinity_fails (host (machine s)) = 0" "answer d BF_REQUEST_VMM_INIT \<noteq> 0"
    | "g_set_afinity_fails (host (machine s)) = 0" "g_vmcall (host (machine s)) \<noteq> 0" "answer d BF_REQUEST_VMM_INIT = 0"
    | "g_set_afinity_fails (host (machine s)) = 0" "g_vmcall (host (machine s)) = 0" "answer d BF_REQUEST_VMM_INIT = 0"
    by blast
  then show ?thesis
    using True s t w u(1) working_started [of u 1]
    by cases (simp_all add: common_start_vmm_def common_vmm_status_def outline_start_def start_failure_def
        common_stop_vmm_def start_loop.simps well_def Let_def)
qed

lemma dump_implements:
  assumes "well s"
  shows "implements (common_dump_vmm (dummy_env d) drr v s) (outline_dump d drr (outline_of s))"
proof (cases "drr = 0 \<or> g_vmm_status s = VMM_UNLOADED")
  case True
  then show ?thesis
    using assms by (auto simp: common_dump_vmm_def common_vmm_status_def outline_dump_def)
next
  case False
  then have "g_start s \<noteq> 0" using assms by (simp add: well_def working_def)
  then obtain t where t: "call_vmm (dummy_env d) BF_REQUEST_GET_DRR v drr 0 s = (answer d BF_REQUEST_GET_DRR, t)" "calm s t"
    by (rule call_dummy)
  then show ?thesis
    using False assms calm_well [OF t(2)] calm_fields(1) [OF t(2)]
    by (cases "answer d BF_REQUEST_GET_DRR = 0") (simp_all add: common_dump_vmm_def common_vmm_status_def outline_dump_def)
qed

lemma fini_implements:
  assumes "well s"
  shows "implements (common_fini (dummy_env d) s) (outline_fini d (outline_of s))"
proof -
  have snd: "well (snd x) \<and> outline_of (snd x) = snd y" if "implements x y" for x y
    using that by (simp add: implements_def)
  define t where "t = (if g_vmm_status s = VMM_RUNNING then snd (common_stop_vmm (dummy_env d) s) else s)"
  have t: "well t" "outline_of t = (if g_vmm_status s = VMM_RUNNING then snd (outline_stop d (outline_of s)) else outline_of s)"
    using snd [OF stop_implements [OF assms, of d]] assms by (simp_all add: t_def)
  define u where "u = (if g_vmm_status t = VMM_LOADED then snd (common_unload_vmm (dummy_env d) t) else t)"
  have u: "well u" "outline_of u = (if g_vmm_status t = VMM_LOADED then snd (outline_unload d (outline_of t)) else outline_of t)"
    using snd [OF unload_implements [OF t(1), of d]] t(1) by (simp_all add: u_def)
  define v where "v = (if g_vmm_status u = VMM_UNLOADED \<and> 0 < sint (g_num_modules u)
    then snd (common_reset (dummy_env d) u) else u)"
  have "well v \<and> outline_of v = (if g_vmm_status u = VMM_UNLOADED then outline_reset (outline_of u) else outline_of u)"
  proof (cases "g_vmm_status u = VMM_UNLOADED \<and> sint (g_num_modules u) \<le> 0")
    case True
    then have "outline_of u = outline_reset (outline_of u)"
      using u(1) by (simp add: outline_of_def outline_reset_def well_def resting_def)
    then show ?thesis using True u(1) by (simp add: v_def)
  next
    case False
    then show ?thesis using snd [OF well_reset [OF u(1), of d]] u(1) by (auto simp: v_def)
  qed
  moreover have "common_fini (dummy_env d) s =
      (if g_vmm_status u = VMM_CORRUPT then (demo_rc BF_ERROR_VMM_CORRUPTED, u) else (0, v))"
    by (simp add: common_fini_def common_vmm_status_def Let_def v_def flip: t_def u_def)
  moreover have "outline_fini d (outline_of s) = (if g_vmm_status u = VMM_CORRUPT
      then (demo_rc BF_ERROR_VMM_CORRUPTED, outline_of u)
      else (0, if g_vmm_status u = VMM_UNLOADED then outline_reset (outline_of u) else outline_of u))"
    unfolding outline_fini_def Let_def outline_fields(1) t(2) [symmetric] u(2) [symmetric] by (rule refl)
  ultimately show ?thesis using u(1) by simp
qed

section \<open>Loading\<close>

text \<open>A load that has failed resets, whatever it has allocated.\<close>

lemma load_failure_implements:
  assumes "g_vmm_status t = VMM_UNLOADED" and "modules_well t"
    and "alloc_count_rw (host (machine t)) = (if g_stack t = 0 then 0 else 1) + (if g_tls t = 0 then 0 else 1)"
  shows "implements (load_failure (dummy_env d) r t) (r, outline_reset (outline_of t))"
proof -
  obtain u where u: "common_reset (dummy_env d) t = (0, u)" "well u" "outline_of u = outline_reset (outline_of t)"
    using reset_implements [OF assms(2,3), of d] by (cases "common_reset (dummy_env d) t") simp
  have "u\<lparr>g_vmm_status := VMM_UNLOADED\<rparr> = u" using reset_fields(1) [OF u(1)] by (cases u) simp
  then have "common_unload_vmm (dummy_env d) t = (0, u)"
    using assms(1) u(1) by (simp add: common_unload_vmm_def common_vmm_status_def unload_unloaded_def)
  then show ?thesis using u(2,3) by (simp add: load_failure_def)
qed

lemma module_dummy:
  assumes "g_start s \<noteq> 0" and "bin_exec b = 0"
  obtains s' where "add_md_to_memory_manager (dummy_env d) (Some b) s = Some (answer d BF_REQUEST_ADD_MDL, s')"
    and "calm s s'"
proof -
  obtain s' where s': "add_raw_md_to_memory_manager (dummy_env d) 0x400000 (segment_type (dummy_env d)
      \<lparr>instr_mem_offset = 0x400000, instr_memsz = 0x10, instr_perm = 0\<rparr>) s = (answer d BF_REQUEST_ADD_MDL, s')" "calm s s'"
    by (rule raw_md_dummy [OF assms(1)])
  have "add_md_to_memory_manager (dummy_env d) (Some b) s = Some (answer d BF_REQUEST_ADD_MDL, s')"
    using s'(1) assms(2)
    by (cases "answer d BF_REQUEST_ADD_MDL = 0")
      (simp_all add: add_md_to_memory_manager_def segment_first_def segment_last_def align_down_def md_loop.simps)
  then show thesis using that s'(2) by blast
qed

lemma modules_dummy:
  assumes "g_start s \<noteq> 0" and "\<forall>b \<in> set (g_modules s). bin_exec b = 0" and "i + n \<le> length (g_modules s)"
  shows "\<exists>s'. add_md_modules (dummy_env d) n i s = Some (if n = 0 then 0 else answer d BF_REQUEST_ADD_MDL, s') \<and> calm s s'"
  using assms
proof (induction n arbitrary: i s)
  case 0
  then show ?case by (simp add: calm_def)
next
  case (Suc n)
  have "bin_exec (g_modules s ! i) = 0" using Suc.prems(2,3) by simp
  then obtain t where t: "add_md_to_memory_manager (dummy_env d) (Some (g_modules s ! i)) s =
      Some (answer d BF_REQUEST_ADD_MDL, t)" "calm s t"
    using module_dummy [OF Suc.prems(1)] by blast
  have "g_start t \<noteq> 0" "g_modules t = g_modules s"
    using Suc.prems(1) calm_start [OF t(2)] t(2) vmm_onlyD(2) by (auto simp: calm_def)
  then obtain u where "add_md_modules (dummy_env d) n (Suc i) t = Some (if n = 0 then 0 else answer d BF_REQUEST_ADD_MDL, u)"
    "calm t u"
    using Suc.IH [of t "Suc i"] Suc.prems(2,3) by auto
  then show ?case
    using t calm_trans [OF t(2)] by (cases "answer d BF_REQUEST_ADD_MDL = 0") auto
qed

lemma storage_dummy:
  assumes "g_start s \<noteq> 0" and "answer d BF_REQUEST_ADD_MDL = 0" and "g_tls s = 0x200000" and "g_tls_size s = 0x1000"
  shows "\<exists>s'. add_md_tls (dummy_env d) s = Some (None, s') \<and> calm s s'"
proof -
  let ?ty = "MEMORY_TYPE_R (dummy_env d) OR MEMORY_TYPE_W (dummy_env d)"
  obtain t where t: "add_raw_md_to_memory_manager (dummy_env d) 0x200000 ?ty s = (answer d BF_REQUEST_ADD_MDL, t)" "calm s t"
    by (rule raw_md_dummy [OF assms(1)])
  have "g_start t \<noteq> 0" using assms(1) calm_start [OF t(2)] by simp
  then obtain u where u: "add_raw_md_to_memory_manager (dummy_env d) 0x201000 ?ty t = (answer d BF_REQUEST_ADD_MDL, u)" "calm t u"
    by (rule raw_md_dummy)
  have "add_md_tls (dummy_env d) s = Some (None, u)"
    using t(1) u(1) assms(2-) by (simp add: add_md_tls_def md_loop.simps Let_def)
  then show ?thesis using calm_trans [OF t(2) u(2)] by blast
qed

text \<open>The state in which the VMM is initialised: stack and storage allocated, the modules placed.\<close>

lemma setup_dummy:
  assumes well: "well s" and st: "g_vmm_status s = VMM_UNLOADED"
  shows "\<exists>t. load_setup (dummy_env d) s =
      (if sw_malloc (outline_of s) \<in> {0x10000, 0x1000} then demo_rc BF_ERROR_OUT_OF_MEMORY
       else if loader_answer d \<noteq> 0 then loader_answer d else answer d BF_REQUEST_INIT, t) \<and>
    g_vmm_status t = VMM_UNLOADED \<and> modules_well t \<and> outline_of t = outline_of s \<and> g_num_modules t = g_num_modules s \<and>
    alloc_count_rw (host (machine t)) = (if g_stack t = 0 then 0 else 1) + (if g_tls t = 0 then 0 else 1) \<and>
    (sw_malloc (outline_of s) \<notin> {0x10000, 0x1000} \<and> loader_answer d = 0 \<longrightarrow>
      working t \<and> g_tls t = 0x200000 \<and> g_tls_size t = 0x1000)"
proof -
  let ?f = "g_malloc_fails (host (machine s))"
  note defs = load_setup_def setup_stack_def setup_tls_def call_bfelf_load_def call_alloc_rw_def on_machine_def
    log_def test_platform_alloc_rw_def test_platform_memset_def add_rw_def modules_well_def outline_of_def Let_def
  have r: "resting s" "modules_well s" using well st by (simp_all add: well_def)
  consider "?f = 0x10000" | "?f = 0x1000" | "?f \<notin> {0x10000, 0x1000}" "loader_answer d \<noteq> 0"
    | "?f \<notin> {0x10000, 0x1000}" "loader_answer d = 0" by blast
  then show ?thesis
  proof cases
    case 4
    define u where "u = snd (call_bfelf_load (dummy_env d) (snd (setup_tls (dummy_env d) (snd (setup_stack (dummy_env d) s)))))"
    have u: "g_vmm_status u = VMM_UNLOADED" "modules_well u" "outline_of u = outline_of s" "g_num_modules u = g_num_modules s"
      "alloc_count_rw (host (machine u)) = 2" "g_stack u \<noteq> 0" "g_tls u = 0x200000" "g_tls_size u = 0x1000" "g_start u \<noteq> 0"
      "g_num_cpus_started u = 0"
      using 4 r st unfolding u_def by (simp_all add: defs resting_def)
    have "fst (setup_stack (dummy_env d) s) = 0" "fst (setup_tls (dummy_env d) (snd (setup_stack (dummy_env d) s))) = 0"
      "fst (call_bfelf_load (dummy_env d) (snd (setup_tls (dummy_env d) (snd (setup_stack (dummy_env d) s))))) = 0"
      using 4 by (simp_all add: defs)
    then have "load_setup (dummy_env d) s = call_vmm (dummy_env d) BF_REQUEST_INIT 0 0 0 u"
      unfolding u_def by (simp add: load_setup_def case_prod_beta)
    moreover obtain t where t: "call_vmm (dummy_env d) BF_REQUEST_INIT 0 0 0 u = (answer d BF_REQUEST_INIT, t)" "calm u t"
      by (rule call_dummy [OF u(9)])
    moreover have "g_num_modules t = g_num_modules u" "g_tls t = g_tls u" "g_tls_size t = g_tls_size u" "g_stack t = g_stack u"
      "host (machine t) = host (machine u)"
      using t(2) vmm_onlyD [of u t] by (simp_all add: calm_def)
    moreover have "working u" using u by (simp add: working_def)
    ultimately show ?thesis
      using 4 u by (intro exI [of _ t]) (simp add: calm_fields [OF t(2)])
  qed (use r st in \<open>simp_all add: defs resting_def\<close>)
qed

lemma load_implements:
  assumes well: "well s"
  shows "\<exists>x. common_load_vmm (dummy_env d) s = Some x \<and> implements x (outline_load d (outline_of s))"
proof (cases "g_vmm_status s = VMM_UNLOADED \<and> g_num_modules s \<noteq> 0")
  case False
  then show ?thesis
    using well by (cases "g_vmm_status s") (auto simp: common_load_vmm_def common_vmm_status_def outline_load_def)
next
  case True
  then have st: "g_vmm_status s = VMM_UNLOADED" and num: "sint (g_num_modules s) > 0" "sint (g_num_modules s) \<le> 5"
    using well by (auto simp: well_def modules_well_def order_less_le signed_eq_0_iff)
  obtain r t where prep: "load_setup (dummy_env d) s = (r, t)"
    and r: "r = (if sw_malloc (outline_of s) \<in> {0x10000, 0x1000} then demo_rc BF_ERROR_OUT_OF_MEMORY
       else if loader_answer d \<noteq> 0 then loader_answer d else answer d BF_REQUEST_INIT)"
    and t: "g_vmm_status t = VMM_UNLOADED" "modules_well t" "outline_of t = outline_of s" "g_num_modules t = g_num_modules s"
      "alloc_count_rw (host (machine t)) = (if g_stack t = 0 then 0 else 1) + (if g_tls t = 0 then 0 else 1)"
    and ready: "sw_malloc (outline_of s) \<notin> {0x10000, 0x1000} \<and> loader_answer d = 0 \<longrightarrow>
      working t \<and> g_tls t = 0x200000 \<and> g_tls_size t = 0x1000"
    using setup_dummy [OF well st, of d] by blast
  show ?thesis
  proof (cases "r = 0")
    case False
    then have "common_load_vmm (dummy_env d) s = Some (load_failure (dummy_env d) r t)"
      using True prep by (simp add: common_load_vmm_def common_vmm_status_def)
    moreover have "outline_load d (outline_of s) = (r, outline_reset (outline_of t))"
      using False r True num t(3) by (auto simp: outline_load_def split: if_splits)
    ultimately show ?thesis using load_failure_implements [OF t(1,2,5)] by simp
  next
    case ok: True
    then have w: "working t" "g_tls t = 0x200000" "g_tls_size t = 0x1000" "g_start t \<noteq> 0"
      and a: "sw_malloc (outline_of s) \<notin> {0x10000, 0x1000}" "loader_answer d = 0" "answer d BF_REQUEST_INIT = 0"
      using r ready by (auto simp: working_def split: if_splits)
    have load: "common_load_vmm (dummy_env d) s = load_descriptors (dummy_env d) t"
      using True prep ok by (simp add: common_load_vmm_def common_vmm_status_def)
    have "nat (sint (g_num_modules t)) \<noteq> 0" "0 + nat (sint (g_num_modules t)) \<le> length (g_modules t)"
      "\<forall>b \<in> set (g_modules t). bin_exec b = 0"
      using num t(2,4) by (simp_all add: modules_well_def)
    then obtain u where u: "add_md_modules (dummy_env d) (nat (sint (g_num_modules t))) 0 t =
        Some (answer d BF_REQUEST_ADD_MDL, u)" "calm t u"
      using modules_dummy [OF w(4), of 0 "nat (sint (g_num_modules t))" d] by auto
    note f = calm_fields [OF u(2)]
    have h: "host (machine u) = host (machine t)" "g_stack u = g_stack t" "g_tls u = g_tls t" "g_tls_size u = g_tls_size t"
      "g_start u = g_start t"
      using u(2) vmm_onlyD [of t u] by (simp_all add: calm_def)
    show ?thesis
    proof (cases "answer d BF_REQUEST_ADD_MDL = 0")
      case False
      have "implements (load_failure (dummy_env d) (answer d BF_REQUEST_ADD_MDL) u)
          (answer d BF_REQUEST_ADD_MDL, outline_reset (outline_of u))"
        by (rule load_failure_implements) (use t f h in simp_all)
      then show ?thesis
        using False load u(1) a f(1) t(3) st num by (simp add: load_descriptors_def outline_load_def)
    next
      case mdl: True
      obtain v where v: "add_md_tls (dummy_env d) u = Some (None, v)" "calm u v"
        using storage_dummy [of u d] mdl w h by auto
      have "working v" "modules_well v" "outline_of v = outline_of s"
        using w f t by (simp_all add: calm_fields [OF v(2)])
      then show ?thesis
        using mdl load u(1) v(1) a st num
        by (simp add: load_descriptors_def outline_load_def well_def)
    qed
  qed
qed

section \<open>Refinement\<close>

lemma step_implements:
  assumes "well s"
  shows "\<exists>r s'. common_step (dummy_env d) op s = Some (r, s') \<and>
    (r, outline_of s') = outline_step d op (outline_of s) \<and> well s'"
proof -
  have "\<exists>x. common_step (dummy_env d) op s = Some x \<and> implements x (outline_step d op (outline_of s))"
    using assms well_reset fini_implements add_implements load_implements unload_implements start_implements
      stop_implements dump_implements
    by (cases op) (simp_all add: common_step_def common_init_def)
  then show ?thesis by (auto simp: implements_def prod_eq_iff)
qed

text \<open>The state in which every test starts.\<close>

definition test_machine :: "uint64 test_host machine" where
  "test_machine =
     \<lparr>mem = (\<lambda>x. 0xCC),
      host = \<lparr>alloc_count_rw = 0, alloc_count_rwe = 0, g_malloc_fails = 0, g_set_afinity_fails = 0,
              g_vmcall = 0, process = 0\<rparr>\<rparr>"

lemma test_start_well: "well (initial_state (dummy_env d) test_machine)"
  using zero_modules_dummy [of d] by (simp add: well_def modules_well_def resting_def initial_state_def test_machine_def)

text \<open>A loader that always succeeds and a VMM that agrees to everything.\<close>

definition agreeing :: dummies where
  "agreeing = \<lparr>answer = (\<lambda>req. 0), loader_answer = 0\<rparr>"

end
