(* ===== verification/Unit_Tests.thy ===== *)
theory Unit_Tests
  imports Test_Outline
begin

text \<open>
  Unit tests of \<open>src/test\<close> as data: each is a list of calls of \<open>common.c\<close> with the numbers that
  it expects, to be run on the model over the platform layer of the tests. This is a check of
  the model against the repository, not a property of the driver: the ELF files are replaced
  by a loader that places nothing and a VMM whose answers are given, so a code that a test
  expects from the VMM is the code the dummy VMM is told to answer, and no executable block
  is ever placed.

  The list \<open>unit_tests\<close> holds 49 tests and passes (\<open>unit_tests_pass\<close>), by way of the outline.
  The list \<open>stale_tests\<close> holds three tests of operations that \<open>common.c\<close> has whose
  expectation the code does not meet (\<open>stale_tests_fail\<close>). Left out are the tests that call
  or replace functions the repository does not have (\<open>get_module\<close>, \<open>load_elf_file\<close>,
  \<open>resolve_symbol\<close>, \<open>common_vmcall\<close>, \<open>execute_symbol\<close> in the load), the one that calls
  \<open>add_md_to_memory_manager\<close> with a null pointer, and those that replace a function of \<open>common.c\<close> itself by a mock.
\<close>

section \<open>Tests as data\<close>

text \<open>
  \<open>Expect op r\<close> is \<open>expect_true(op == r)\<close>, \<open>Status v\<close> is \<open>expect_true(common_vmm_status() == v)\<close>.
  The other steps turn a switch of the platform layer, as a test does itself or through
  a mock of \<open>platform_set_affinity\<close> or \<open>platform_vmcall\<close> that returns what the switch makes it
  return. The call of \<open>common_reset\<close> that ends some tests is \<open>Common_Init\<close>.
\<close>

datatype test_step =
    Expect common_op int64
  | Status vmm_status
  | Malloc_Fails uint64
  | Affinity_Fails uint64
  | Vmcall_Returns uint64

definition switch :: "(uint64 test_host \<Rightarrow> uint64 test_host) \<Rightarrow> uint64 test_host common_state \<Rightarrow> uint64 test_host common_state" where
  "switch f s = s\<lparr>machine := (machine s)\<lparr>host := f (host (machine s))\<rparr>\<rparr>"

text \<open>A test passes when all its expectations hold and the platform layer counts no leak at its end.\<close>

fun passes :: "uint64 test_host env \<Rightarrow> test_step list \<Rightarrow> uint64 test_host common_state \<Rightarrow> bool" where
  "passes E [] s = verify_no_mem_leaks (machine s)"
| "passes E (Expect op r # ts) s =
     (case common_step E op s of None \<Rightarrow> False | Some (r', s) \<Rightarrow> r' = r \<and> passes E ts s)"
| "passes E (Status v # ts) s = (common_vmm_status s = v \<and> passes E ts s)"
| "passes E (Malloc_Fails n # ts) s = passes E ts (switch (\<lambda>h. h\<lparr>g_malloc_fails := n\<rparr>) s)"
| "passes E (Affinity_Fails n # ts) s = passes E ts (switch (\<lambda>h. h\<lparr>g_set_afinity_fails := n\<rparr>) s)"
| "passes E (Vmcall_Returns n # ts) s = passes E ts (switch (\<lambda>h. h\<lparr>g_vmcall := n\<rparr>) s)"

fun outline_passes :: "dummies \<Rightarrow> test_step list \<Rightarrow> outline \<Rightarrow> bool" where
  "outline_passes d [] z = (out_status z = VMM_UNLOADED)"
| "outline_passes d (Expect op r # ts) z =
     (case outline_step d op z of (r', z) \<Rightarrow> r' = r \<and> outline_passes d ts z)"
| "outline_passes d (Status v # ts) z = (out_status z = v \<and> outline_passes d ts z)"
| "outline_passes d (Malloc_Fails n # ts) z = outline_passes d ts (z\<lparr>sw_malloc := n\<rparr>)"
| "outline_passes d (Affinity_Fails n # ts) z = outline_passes d ts (z\<lparr>sw_affinity := (n \<noteq> 0)\<rparr>)"
| "outline_passes d (Vmcall_Returns n # ts) z = outline_passes d ts (z\<lparr>sw_vmcall := n\<rparr>)"

lemma switch_fields [simp]:
  "outline_of (switch (\<lambda>h. h\<lparr>g_malloc_fails := n\<rparr>) s) = (outline_of s)\<lparr>sw_malloc := n\<rparr>"
  "outline_of (switch (\<lambda>h. h\<lparr>g_set_afinity_fails := n\<rparr>) s) = (outline_of s)\<lparr>sw_affinity := (n \<noteq> 0)\<rparr>"
  "outline_of (switch (\<lambda>h. h\<lparr>g_vmcall := n\<rparr>) s) = (outline_of s)\<lparr>sw_vmcall := n\<rparr>"
  by (simp_all add: switch_def outline_of_def)

lemma switch_well [simp]:
  "well (switch (\<lambda>h. h\<lparr>g_malloc_fails := n\<rparr>) s) = well s"
  "well (switch (\<lambda>h. h\<lparr>g_set_afinity_fails := n\<rparr>) s) = well s"
  "well (switch (\<lambda>h. h\<lparr>g_vmcall := n\<rparr>) s) = well s"
  by (simp_all add: switch_def well_def modules_well_def resting_def working_def)

lemma well_no_leaks: "well s \<Longrightarrow> verify_no_mem_leaks (machine s) = (g_vmm_status s = VMM_UNLOADED)"
  by (auto simp: well_def modules_well_def resting_def working_def verify_no_mem_leaks_def split: if_splits)

lemma passes_outline: "well s \<Longrightarrow> passes (dummy_env d) ts s = outline_passes d ts (outline_of s)"
proof (induction ts arbitrary: s)
  case (Cons t ts)
  show ?case
  proof (cases t)
    case (Expect op r)
    obtain r' s' where step: "common_step (dummy_env d) op s = Some (r', s')"
      "(r', outline_of s') = outline_step d op (outline_of s)" "well s'"
      using step_implements [OF Cons.prems] by blast
    then show ?thesis using Expect Cons.IH [OF step(3)] by (simp flip: step(2))
  qed (use Cons in \<open>simp_all add: common_vmm_status_def\<close>)
qed (simp add: well_no_leaks)

section \<open>The dummy modules of the tests\<close>

text \<open>
  A test links modules that define each entry point with success or with failure, or leaves
  one out: then the VMM or the loader answers with a code of a header outside the
  repository, a parameter here (\<open>nss\<close> for \<open>BFELF_ERROR_NO_SUCH_SYMBOL\<close>, \<open>mmf\<close> for
  \<open>MEMORY_MANAGER_FAILURE\<close>, \<open>gdf\<close> for \<open>GET_DRR_FAILURE\<close>).
\<close>

definition failing :: "bf_request \<Rightarrow> int64 \<Rightarrow> dummies" where
  "failing req r = agreeing\<lparr>answer := (\<lambda>q. if q = req then r else 0)\<rparr>"

abbreviation stop_failure :: dummies where
  "stop_failure \<equiv> failing BF_REQUEST_VMM_FINI (demo_rc ENTRY_ERROR_VMM_STOP_FAILED)"

type_synonym unit_test = "dummies \<times> test_step list"

abbreviation add :: test_step where
  "add \<equiv> Expect (Common_Add_Module 0x2000 16) 0"

text \<open>Four modules added and loaded, and started.\<close>

abbreviation loaded :: "test_step list" where
  "loaded \<equiv> [add, add, add, add, Expect Common_Load 0]"

abbreviation started :: "test_step list" where
  "started \<equiv> loaded @ [Expect Common_Start 0]"

section \<open>The tests\<close>

subsection \<open>\<open>test_common_init.cpp\<close>\<close>

definition test_common_init :: "unit_test" where
  "test_common_init =
    (agreeing,
     [Expect Common_Init 0])"

subsection \<open>\<open>test_common_fini.cpp\<close>\<close>

definition test_common_fini_unloaded :: "unit_test" where
  "test_common_fini_unloaded =
    (agreeing,
     [Expect Common_Fini 0, Expect Common_Fini 0, Expect Common_Fini 0])"

definition test_common_fini_successful_start :: "unit_test" where
  "test_common_fini_successful_start =
    (agreeing,
     started @ [Expect Common_Fini 0, Status VMM_UNLOADED])"

definition test_common_fini_successful_load :: "unit_test" where
  "test_common_fini_successful_load =
    (agreeing,
     loaded @ [Expect Common_Fini 0, Status VMM_UNLOADED])"

definition test_common_fini_successful_add_module :: "unit_test" where
  "test_common_fini_successful_add_module =
    (agreeing,
     [add, add, add, add, Expect Common_Fini 0, Status VMM_UNLOADED])"

definition test_common_fini_corrupted :: "unit_test" where
  "test_common_fini_corrupted =
    (stop_failure,
     started @ [Expect Common_Fini (demo_rc BF_ERROR_VMM_CORRUPTED), Status VMM_CORRUPT,
     Expect Common_Init 0])"

definition test_common_fini_failed_load :: "int64 \<Rightarrow> unit_test" where
  "test_common_fini_failed_load nss =
    (agreeing\<lparr>loader_answer := nss\<rparr>,
     [add, add, Expect Common_Load nss, Expect Common_Fini 0, Status VMM_UNLOADED])"

definition test_common_fini_failed_start :: "unit_test" where
  "test_common_fini_failed_start =
    (failing BF_REQUEST_VMM_INIT (demo_rc ENTRY_ERROR_VMM_START_FAILED),
     loaded @ [Expect Common_Start (demo_rc ENTRY_ERROR_VMM_START_FAILED), Expect Common_Fini 0,
     Status VMM_UNLOADED])"

subsection \<open>\<open>test_common_add_module.cpp\<close>\<close>

definition test_common_add_module_invalid_file :: "unit_test" where
  "test_common_add_module_invalid_file =
    (agreeing,
     [Expect (Common_Add_Module 0 16) (demo_rc BF_ERROR_INVALID_ARG)])"

definition test_common_add_module_invalid_file_size :: "unit_test" where
  "test_common_add_module_invalid_file_size =
    (agreeing,
     [Expect (Common_Add_Module 0x2000 0) (demo_rc BF_ERROR_INVALID_ARG)])"

definition test_common_add_module_add_when_already_loaded :: "unit_test" where
  "test_common_add_module_add_when_already_loaded =
    (agreeing,
     [add, add, Expect Common_Load 0, Status VMM_LOADED,
     Expect (Common_Add_Module 0x2000 16) (demo_rc BF_ERROR_VMM_INVALID_STATE),
     Expect Common_Fini 0])"

definition test_common_add_module_add_when_already_running :: "unit_test" where
  "test_common_add_module_add_when_already_running =
    (agreeing,
     started @ [Status VMM_RUNNING,
     Expect (Common_Add_Module 0x2000 16) (demo_rc BF_ERROR_VMM_INVALID_STATE),
     Expect Common_Fini 0])"

definition test_common_add_module_add_when_corrupt :: "unit_test" where
  "test_common_add_module_add_when_corrupt =
    (stop_failure,
     started @ [Expect Common_Fini (demo_rc BF_ERROR_VMM_CORRUPTED), Status VMM_CORRUPT,
     Expect (Common_Add_Module 0x2000 16) (demo_rc BF_ERROR_VMM_CORRUPTED),
     Expect Common_Init 0])"

definition test_common_add_module_add_too_many :: "unit_test" where
  "test_common_add_module_add_too_many =
    (agreeing,
     [add, add, add, add, add,
     Expect (Common_Add_Module 0x2000 16) (demo_rc BF_ERROR_MAX_MODULES_REACHED),
     Expect Common_Fini 0])"

subsection \<open>\<open>test_common_load.cpp\<close>\<close>

definition test_common_load_successful_load :: "unit_test" where
  "test_common_load_successful_load =
    (agreeing,
     loaded @ [Status VMM_LOADED, Expect Common_Fini 0, Status VMM_UNLOADED])"

definition test_common_load_load_when_already_loaded :: "unit_test" where
  "test_common_load_load_when_already_loaded =
    (agreeing,
     loaded @ [Expect Common_Load 0, Status VMM_LOADED, Expect Common_Fini 0, Status VMM_UNLOADED])"

definition test_common_load_load_when_already_running :: "unit_test" where
  "test_common_load_load_when_already_running =
    (agreeing,
     started @ [Expect Common_Load (demo_rc BF_ERROR_VMM_INVALID_STATE), Status VMM_RUNNING,
     Expect Common_Fini 0, Status VMM_UNLOADED])"

definition test_common_load_load_when_corrupt :: "unit_test" where
  "test_common_load_load_when_corrupt =
    (stop_failure,
     started @ [Expect Common_Fini (demo_rc BF_ERROR_VMM_CORRUPTED), Status VMM_CORRUPT,
     Expect Common_Load (demo_rc BF_ERROR_VMM_CORRUPTED), Expect Common_Init 0])"

definition test_common_load_fail_due_to_relocation_error :: "int64 \<Rightarrow> unit_test" where
  "test_common_load_fail_due_to_relocation_error nss =
    (agreeing\<lparr>loader_answer := nss\<rparr>,
     [add, add, Expect Common_Load nss, Status VMM_UNLOADED, Expect Common_Fini 0,
     Status VMM_UNLOADED])"

definition test_common_load_fail_due_to_no_modules_added :: "unit_test" where
  "test_common_load_fail_due_to_no_modules_added =
    (agreeing,
     [Expect Common_Load (demo_rc BF_ERROR_NO_MODULES_ADDED), Status VMM_UNLOADED,
     Expect Common_Fini 0, Status VMM_UNLOADED])"

definition test_common_load_add_md_failed :: "int64 \<Rightarrow> unit_test" where
  "test_common_load_add_md_failed mmf =
    (failing BF_REQUEST_ADD_MDL mmf,
     [add, add, add, add, Expect Common_Load mmf, Expect Common_Fini 0])"

definition test_common_load_tls_platform_alloc_failed :: "unit_test" where
  "test_common_load_tls_platform_alloc_failed =
    (agreeing,
     [Malloc_Fails 0x1000, add, add, add, add,
     Expect Common_Load (demo_rc BF_ERROR_OUT_OF_MEMORY), Expect Common_Fini 0,
     Malloc_Fails 0])"

definition test_common_load_stack_platform_alloc_failed :: "unit_test" where
  "test_common_load_stack_platform_alloc_failed =
    (agreeing,
     [Malloc_Fails 0x10000, add, add, add, add,
     Expect Common_Load (demo_rc BF_ERROR_OUT_OF_MEMORY), Expect Common_Fini 0,
     Malloc_Fails 0])"

subsection \<open>\<open>test_common_unload.cpp\<close>\<close>

definition test_common_unload_unload_when_already_unloaded :: "unit_test" where
  "test_common_unload_unload_when_already_unloaded =
    (agreeing,
     [Expect Common_Unload 0])"

definition test_common_unload_unload_when_running :: "unit_test" where
  "test_common_unload_unload_when_running =
    (agreeing,
     started @ [Expect Common_Unload (demo_rc BF_ERROR_VMM_INVALID_STATE), Expect Common_Fini 0])"

definition test_common_unload_unload_when_corrupt :: "unit_test" where
  "test_common_unload_unload_when_corrupt =
    (stop_failure,
     started @ [Expect Common_Fini (demo_rc BF_ERROR_VMM_CORRUPTED), Status VMM_CORRUPT,
     Expect Common_Unload (demo_rc BF_ERROR_VMM_CORRUPTED), Expect Common_Init 0])"

subsection \<open>\<open>test_common_start.cpp\<close>\<close>

definition test_common_start_start_when_unloaded :: "unit_test" where
  "test_common_start_start_when_unloaded =
    (agreeing,
     [add, add, add, add, Expect Common_Start (demo_rc BF_ERROR_VMM_INVALID_STATE),
     Expect Common_Fini 0])"

definition test_common_start_start_when_already_running :: "unit_test" where
  "test_common_start_start_when_already_running =
    (agreeing,
     started @ [Expect Common_Start 0, Expect Common_Fini 0])"

definition test_common_start_start_when_corrupt :: "unit_test" where
  "test_common_start_start_when_corrupt =
    (stop_failure,
     started @ [Expect Common_Stop (demo_rc ENTRY_ERROR_VMM_STOP_FAILED),
     Expect Common_Start (demo_rc BF_ERROR_VMM_CORRUPTED), Status VMM_CORRUPT,
     Expect Common_Init 0])"

definition test_common_start_start_when_start_vmm_missing :: "int64 \<Rightarrow> unit_test" where
  "test_common_start_start_when_start_vmm_missing nss =
    (failing BF_REQUEST_VMM_INIT nss,
     [add, add, add, Expect Common_Load 0, Expect Common_Start nss, Expect Common_Fini 0])"

definition test_common_start_start_vmm_failure :: "unit_test" where
  "test_common_start_start_vmm_failure =
    (failing BF_REQUEST_VMM_INIT (demo_rc ENTRY_ERROR_VMM_START_FAILED),
     loaded @ [Expect Common_Start (demo_rc ENTRY_ERROR_VMM_START_FAILED), Expect Common_Fini 0])"

definition test_common_start_set_affinity_failed :: "unit_test" where
  "test_common_start_set_affinity_failed =
    (agreeing,
     loaded @ [Affinity_Fails 1, Expect Common_Start (-1), Affinity_Fails 0, Expect Common_Fini 0])"

definition test_common_start_vmcall_failed :: "unit_test" where
  "test_common_start_vmcall_failed =
    (agreeing,
     loaded @ [Vmcall_Returns 1, Expect Common_Start (demo_rc ENTRY_ERROR_VMM_START_FAILED),
     Vmcall_Returns 0, Expect Common_Fini 0])"

subsection \<open>\<open>test_common_stop.cpp\<close>\<close>

definition test_common_stop_stop_when_unloaded :: "unit_test" where
  "test_common_stop_stop_when_unloaded =
    (agreeing,
     [add, add, add, add, Expect Common_Stop (demo_rc BF_ERROR_VMM_INVALID_STATE),
     Expect Common_Fini 0])"

definition test_common_stop_stop_when_not_running :: "unit_test" where
  "test_common_stop_stop_when_not_running =
    (agreeing,
     loaded @ [Expect Common_Stop 0, Expect Common_Fini 0])"

definition test_common_stop_stop_when_alread_stopped :: "unit_test" where
  "test_common_stop_stop_when_alread_stopped =
    (agreeing,
     started @ [Expect Common_Stop 0, Expect Common_Stop 0, Expect Common_Fini 0])"

definition test_common_stop_stop_when_corrupt :: "unit_test" where
  "test_common_stop_stop_when_corrupt =
    (stop_failure,
     started @ [Expect Common_Stop (demo_rc ENTRY_ERROR_VMM_STOP_FAILED),
     Expect Common_Stop (demo_rc BF_ERROR_VMM_CORRUPTED),
     Expect Common_Fini (demo_rc BF_ERROR_VMM_CORRUPTED), Expect Common_Init 0])"

definition test_common_stop_stop_vmm_missing :: "int64 \<Rightarrow> unit_test" where
  "test_common_stop_stop_vmm_missing nss =
    (failing BF_REQUEST_VMM_FINI nss,
     [add, add, add, Expect Common_Load 0, Expect Common_Start 0, Expect Common_Stop nss,
     Expect Common_Fini (demo_rc BF_ERROR_VMM_CORRUPTED), Expect Common_Init 0])"

definition test_common_stop_stop_vmm_failure :: "unit_test" where
  "test_common_stop_stop_vmm_failure =
    (stop_failure,
     started @ [Expect Common_Stop (demo_rc ENTRY_ERROR_VMM_STOP_FAILED),
     Expect Common_Fini (demo_rc BF_ERROR_VMM_CORRUPTED), Expect Common_Init 0])"

definition test_common_stop_set_affinity_failed :: "unit_test" where
  "test_common_stop_set_affinity_failed =
    (agreeing,
     started @ [Affinity_Fails 1, Expect Common_Stop (-1), Affinity_Fails 0, Expect Common_Init 0])"

definition test_common_stop_vmcall_failed :: "unit_test" where
  "test_common_stop_vmcall_failed =
    (agreeing,
     started @ [Vmcall_Returns 1, Expect Common_Stop (demo_rc ENTRY_ERROR_VMM_STOP_FAILED),
     Vmcall_Returns 0, Expect Common_Init 0])"

subsection \<open>\<open>test_common_dump.cpp\<close>\<close>

definition test_common_dump_invalid_drr :: "unit_test" where
  "test_common_dump_invalid_drr =
    (agreeing,
     [Expect (Common_Dump 0 0) (demo_rc BF_ERROR_INVALID_ARG)])"

definition test_common_dump_invalid_vcpuid :: "unit_test" where
  "test_common_dump_invalid_vcpuid =
    (stop_failure,
     [add, add, add, add, add, Expect Common_Load 0, Expect (Common_Dump 0x9110 100000) 0,
     Expect Common_Fini 0])"

definition test_common_dump_dump_when_unloaded :: "unit_test" where
  "test_common_dump_dump_when_unloaded =
    (agreeing,
     [add, add, add, add, add,
     Expect (Common_Dump 0x9110 0) (demo_rc BF_ERROR_VMM_INVALID_STATE),
     Expect Common_Fini 0])"

definition test_common_dump_dump_when_corrupt :: "unit_test" where
  "test_common_dump_dump_when_corrupt =
    (stop_failure,
     [add, add, add, add, add, Expect Common_Load 0, Expect Common_Start 0,
     Expect Common_Stop (demo_rc ENTRY_ERROR_VMM_STOP_FAILED),
     Expect (Common_Dump 0x9110 0) 0, Expect Common_Fini (demo_rc BF_ERROR_VMM_CORRUPTED),
     Expect Common_Init 0])"

definition test_common_dump_dump_when_loaded :: "unit_test" where
  "test_common_dump_dump_when_loaded =
    (agreeing,
     [add, add, add, add, add, Expect Common_Load 0, Expect (Common_Dump 0x9110 0) 0,
     Expect Common_Fini 0])"

definition test_common_dump_get_drr_missing :: "int64 \<Rightarrow> unit_test" where
  "test_common_dump_get_drr_missing nss =
    (failing BF_REQUEST_GET_DRR nss,
     [add, add, add, add, Expect Common_Load 0, Expect (Common_Dump 0x9110 0) nss,
     Expect Common_Fini 0])"

definition test_common_dump_get_drr_failure :: "int64 \<Rightarrow> unit_test" where
  "test_common_dump_get_drr_failure gdf =
    (failing BF_REQUEST_GET_DRR gdf,
     [add, add, add, add, add, Expect Common_Load 0, Expect (Common_Dump 0x9110 0) gdf,
     Expect Common_Fini 0])"

subsection \<open>\<open>test_helpers.cpp\<close>\<close>

definition test_helper_common_vmm_status :: "unit_test" where
  "test_helper_common_vmm_status =
    (agreeing,
     [Status VMM_UNLOADED, add, add, add, add, Expect Common_Load 0, Status VMM_LOADED,
     Expect Common_Start 0, Status VMM_RUNNING, Expect Common_Stop 0, Status VMM_LOADED,
     Expect Common_Unload 0, Status VMM_UNLOADED])"

text \<open>All of them; the parameters are the numbers of the codes that the headers give.\<close>

definition unit_tests :: "int64 \<Rightarrow> int64 \<Rightarrow> int64 \<Rightarrow> unit_test list" where
  "unit_tests nss mmf gdf =
    [test_common_init, test_common_fini_unloaded, test_common_fini_successful_start,
     test_common_fini_successful_load, test_common_fini_successful_add_module,
     test_common_fini_corrupted, test_common_fini_failed_load nss,
     test_common_fini_failed_start, test_common_add_module_invalid_file,
     test_common_add_module_invalid_file_size,
     test_common_add_module_add_when_already_loaded,
     test_common_add_module_add_when_already_running,
     test_common_add_module_add_when_corrupt, test_common_add_module_add_too_many,
     test_common_load_successful_load, test_common_load_load_when_already_loaded,
     test_common_load_load_when_already_running, test_common_load_load_when_corrupt,
     test_common_load_fail_due_to_relocation_error nss,
     test_common_load_fail_due_to_no_modules_added, test_common_load_add_md_failed mmf,
     test_common_load_tls_platform_alloc_failed,
     test_common_load_stack_platform_alloc_failed,
     test_common_unload_unload_when_already_unloaded,
     test_common_unload_unload_when_running, test_common_unload_unload_when_corrupt,
     test_common_start_start_when_unloaded, test_common_start_start_when_already_running,
     test_common_start_start_when_corrupt,
     test_common_start_start_when_start_vmm_missing nss,
     test_common_start_start_vmm_failure, test_common_start_set_affinity_failed,
     test_common_start_vmcall_failed, test_common_stop_stop_when_unloaded,
     test_common_stop_stop_when_not_running, test_common_stop_stop_when_alread_stopped,
     test_common_stop_stop_when_corrupt, test_common_stop_stop_vmm_missing nss,
     test_common_stop_stop_vmm_failure, test_common_stop_set_affinity_failed,
     test_common_stop_vmcall_failed, test_common_dump_invalid_drr,
     test_common_dump_invalid_vcpuid, test_common_dump_dump_when_unloaded,
     test_common_dump_dump_when_corrupt, test_common_dump_dump_when_loaded,
     test_common_dump_get_drr_missing nss, test_common_dump_get_drr_failure gdf,
     test_helper_common_vmm_status]"

lemmas unit_test_defs =
  unit_tests_def test_common_init_def
  test_common_fini_unloaded_def
  test_common_fini_successful_start_def
  test_common_fini_successful_load_def
  test_common_fini_successful_add_module_def
  test_common_fini_corrupted_def
  test_common_fini_failed_load_def
  test_common_fini_failed_start_def
  test_common_add_module_invalid_file_def
  test_common_add_module_invalid_file_size_def
  test_common_add_module_add_when_already_loaded_def
  test_common_add_module_add_when_already_running_def
  test_common_add_module_add_when_corrupt_def
  test_common_add_module_add_too_many_def
  test_common_load_successful_load_def
  test_common_load_load_when_already_loaded_def
  test_common_load_load_when_already_running_def
  test_common_load_load_when_corrupt_def
  test_common_load_fail_due_to_relocation_error_def
  test_common_load_fail_due_to_no_modules_added_def
  test_common_load_add_md_failed_def
  test_common_load_tls_platform_alloc_failed_def
  test_common_load_stack_platform_alloc_failed_def
  test_common_unload_unload_when_already_unloaded_def
  test_common_unload_unload_when_running_def
  test_common_unload_unload_when_corrupt_def
  test_common_start_start_when_unloaded_def
  test_common_start_start_when_already_running_def
  test_common_start_start_when_corrupt_def
  test_common_start_start_when_start_vmm_missing_def
  test_common_start_start_vmm_failure_def
  test_common_start_set_affinity_failed_def
  test_common_start_vmcall_failed_def
  test_common_stop_stop_when_unloaded_def
  test_common_stop_stop_when_not_running_def
  test_common_stop_stop_when_alread_stopped_def
  test_common_stop_stop_when_corrupt_def
  test_common_stop_stop_vmm_missing_def
  test_common_stop_stop_vmm_failure_def
  test_common_stop_set_affinity_failed_def
  test_common_stop_vmcall_failed_def
  test_common_dump_invalid_drr_def
  test_common_dump_invalid_vcpuid_def
  test_common_dump_dump_when_unloaded_def
  test_common_dump_dump_when_corrupt_def
  test_common_dump_dump_when_loaded_def
  test_common_dump_get_drr_missing_def
  test_common_dump_get_drr_failure_def
  test_helper_common_vmm_status_def

lemmas outline_defs =
  failing_def agreeing_def outline_reset_def outline_add_def outline_load_def outline_unload_def outline_start_def
  outline_stop_def outline_dump_def outline_fini_def Let_def

text \<open>
  The tests of the list pass on the model of \<open>common.c\<close>: every call returns the number that the
  test expects, every status is the one it expects, and at its end the platform layer
  counts no leak of a block that is not executable.
\<close>

theorem unit_tests_pass:
  assumes "nss \<noteq> 0" and "mmf \<noteq> 0" and "gdf \<noteq> 0"
  shows "list_all (\<lambda>(d, ts). passes (dummy_env d) ts (initial_state (dummy_env d) test_machine)) (unit_tests nss mmf gdf)"
proof -
  have start: "outline_of (initial_state (dummy_env d) test_machine) =
      \<lparr>out_status = VMM_UNLOADED, out_modules = 0, out_started = False, sw_malloc = 0, sw_affinity = False, sw_vmcall = 0\<rparr>" for d
    by (simp add: outline_of_def initial_state_def test_machine_def)
  show ?thesis
    unfolding passes_outline [OF test_start_well] start unit_test_defs
    using assms by (simp add: outline_defs)
qed

subsection \<open>Tests that the code does not pass\<close>

text \<open>
  Three tests expect what an earlier \<open>common.c\<close> did. \<open>garbage_module\<close> expects
  \<open>BFELF_ERROR_INVALID_ARG\<close> (\<open>bia\<close>, not 0) from adding a file that is no ELF file, but
  \<open>common_add_module\<close> never reads the file and succeeds. \<open>platform_alloc_fails\<close> expects
  \<open>BF_ERROR_OUT_OF_MEMORY\<close> when \<open>platform_alloc_rwe\<close> fails, but adding a module allocates
  nothing: its mock is left out. \<open>unload_execute_symbol_failed\<close> expects the number of the VMM,
  -1, from an unload that the VMM refuses, but \<open>common_unload_vmm\<close> answers
  \<open>BF_ERROR_VMM_CORRUPTED\<close>; the mock of \<open>execute_symbol\<close>, which does not exist any more, is the
  refusal of \<open>BF_REQUEST_FINI\<close>.
\<close>

definition test_common_add_module_garbage_module :: "int64 \<Rightarrow> unit_test" where
  "test_common_add_module_garbage_module bia =
    (agreeing,
     [Expect (Common_Add_Module 0x2000 34) bia])"

definition test_common_add_module_platform_alloc_fails :: "unit_test" where
  "test_common_add_module_platform_alloc_fails =
    (agreeing,
     [Expect (Common_Add_Module 0x2000 16) (demo_rc BF_ERROR_OUT_OF_MEMORY)])"

definition test_common_unload_execute_symbol_failed :: "unit_test" where
  "test_common_unload_execute_symbol_failed =
    (failing BF_REQUEST_FINI (-1),
     loaded @ [Expect Common_Unload (-1), Expect Common_Init 0])"

definition stale_tests :: "int64 \<Rightarrow> unit_test list" where
  "stale_tests bia =
    [test_common_add_module_garbage_module bia, test_common_add_module_platform_alloc_fails,
     test_common_unload_execute_symbol_failed]"

lemmas stale_test_defs =
  stale_tests_def test_common_add_module_garbage_module_def
  test_common_add_module_platform_alloc_fails_def test_common_unload_execute_symbol_failed_def

theorem stale_tests_fail:
  assumes "bia \<noteq> 0"
  shows "list_all (\<lambda>(d, ts). \<not> passes (dummy_env d) ts (initial_state (dummy_env d) test_machine)) (stale_tests bia)"
proof -
  have start: "outline_of (initial_state (dummy_env d) test_machine) =
      \<lparr>out_status = VMM_UNLOADED, out_modules = 0, out_started = False, sw_malloc = 0, sw_affinity = False, sw_vmcall = 0\<rparr>" for d
    by (simp add: outline_of_def initial_state_def test_machine_def)
  show ?thesis
    unfolding passes_outline [OF test_start_well] start stale_test_defs
    using assms by (simp add: outline_defs)
qed

end
