(* ===== verification/Findings.thy ===== *)
theory Findings
  imports Linux_Life
begin

text \<open>
  Behaviour of the code that differs from its comments or its evident intention, beyond
  what the properties state: each lemma shows one case.
\<close>

text \<open>
  The descriptors of the thread local storage end with a page that is not part of it,
  whenever the storage starts and ends at page boundaries (\<open>common.c\<close>, line 358).
\<close>

lemma storage_page_past_end:
  assumes size: "unat (MAX_PAGE_SIZE E) dvd unat (g_tls_size s)" and fit: "fits (g_tls s) (g_tls_size s)"
  shows "(g_tls s + g_tls_size s, MEMORY_TYPE_R E OR MEMORY_TYPE_W E) \<in> set (tls_mds E s)"
proof -
  let ?p = "MAX_PAGE_SIZE E" and ?n = "g_tls_size s"
  define k where "k = unat ?n div unat ?p"
  have n: "of_nat k * ?p = ?n"
  proof -
    have "of_nat k * ?p = of_nat (k * unat ?p)" by simp
    also have "k * unat ?p = unat ?n" using size by (simp add: k_def)
    finally show ?thesis by simp
  qed
  have limit: "unat (g_tls s + ?n) = unat (g_tls s) + unat ?n"
    using fit by (simp add: fits_def unat_word_ariths)
  then have "g_tls s \<le> g_tls s + ?n" by (simp add: word_le_nat_alt)
  moreover have "k < Suc ((unat (g_tls s + ?n) - unat (g_tls s)) div unat ?p)"
    by (simp add: limit k_def)
  ultimately have "g_tls s + of_nat k * ?p \<in> set (page_range ?p (g_tls s) (g_tls s + ?n))"
    unfolding page_range_def by (simp only: if_True set_map set_upt) (intro imageI, simp)
  then show ?thesis by (simp add: n tls_mds_def)
qed

text \<open>
  When the VMM refuses the first \<open>vmcall\<close>, the start fails with one CPU counted as started
  in a VMM that is only loaded, and the affinity of the thread is not restored (\<open>common.c\<close>,
  line 451).
\<close>

lemma refused_start_keeps_count:
  "\<exists>s'. common_start_vmm demo_env (demo_loaded [] [1]) = (-8, s') \<and> g_vmm_status s' = VMM_LOADED \<and>
     g_num_cpus_started s' = 1 \<and> (\<forall>a. RestoreAffinity a \<notin> set (trace s'))"
  by (simp add: demo_eval start_loop.simps cong: prod.case_cong_weak)

text \<open>A start that is told of no CPU reports success, and the VMM is not running.\<close>

lemma start_without_cpus:
  assumes "g_vmm_status s = VMM_LOADED" and "sint (fst (platform_num_cpus E (machine s))) \<le> 0"
  shows "\<exists>s'. common_start_vmm E s = (rc E BF_SUCCESS, s') \<and> g_vmm_status s' = VMM_LOADED"
  using assms
  by (cases "platform_num_cpus E (machine s)")
    (simp add: common_start_vmm_def common_vmm_status_def start_loop.simps call_num_cpus_def)

text \<open>A kernel module that could not register its device leaves its reboot notifier behind.\<close>

lemma init_failure_keeps_notifier:
  assumes "dev_init U E s = (r, s')" and "fst (misc_register U (machine (core s))) \<noteq> 0"
  shows "r = - EPERM U \<and> notifier_registered s'"
  using assms by (auto simp: dev_init_def with_machine_def with_core_def Let_def split: prod.splits)

end
