(* ===== verification/Spec2Isabelle.thy ===== *)
theory Spec2Isabelle
  imports Common_Properties Common_Layout Common_Answers Linux_Session Linux_Races Windows_Parallel Windows_Session Uefi_Boot
    Unit_Tests Findings
begin

text \<open>
  The Bareflank driver: the kernel side of the Bareflank hypervisor. A user space program
  hands the driver the ELF files of a hypervisor (the VMM); the driver loads them into
  kernel memory, starts the VMM on every CPU, stops it, and unloads it.

  \<^bold>\<open>The program and its parts.\<close> The file \<open>src/src/common.c\<close> is the portable core: a set
  of globals (the modules, the stack and the thread local storage of the VMM, the ELF
  loader, the number of started CPUs, the status) and one function per request
  (\<open>common_init\<close>, \<open>common_add_module\<close>, \<open>common_load_vmm\<close>, \<open>common_start_vmm\<close>,
  \<open>common_stop_vmm\<close>, \<open>common_unload_vmm\<close>, \<open>common_dump_vmm\<close>, \<open>common_fini\<close>). It calls a
  platform layer, declared in a header outside this repository, which every port implements
  (\<open>src/src/arch/*/platform.c\<close>, \<open>Platform.c\<close>), and is called by the device of the port: the
  ioctls of \<open>linux/entry.c\<close>, the requests of \<open>windows/queue.c\<close>, the UEFI application
  \<open>uefi/Driver.c\<close>.

  \<^bold>\<open>Code outside the repository.\<close> The ELF loader, the VMM itself, the machine's
  instructions, the constants and the structures of the headers \<open>bf*.h\<close> and the services of
  the kernels are parameters: the record \<open>env\<close> of \<open>Bfsdk\<close> for what \<open>common.c\<close> uses, the
  records \<open>linux_kernel\<close>, \<open>linux_services\<close>, \<open>windows_kernel\<close>, \<open>windows_services\<close>,
  \<open>uefi_boot\<close> with its extensions and \<open>libc\<close> for what the ports use. What the proofs need of
  them are the predicates \<open>codes_ok\<close> (success is zero, error codes are negative),
  \<open>env_ok\<close> (moreover the ELF loader keeps the length of the table of modules, which has fewer
  than 2^63 entries), \<open>services_ok\<close>, \<open>win_services_ok\<close>, \<open>boot_ok\<close>, \<open>mp_ok\<close>, \<open>efi_codes_ok\<close>,
  \<open>libc_ok\<close>, \<open>answers_ok\<close> (the loader and the VMM answer success or a negative code),
  \<open>loader_in_place\<close> (the ELF loader fills in no entry beyond the number of modules it is given) and
  \<open>test_world\<close> (a C library that refuses nothing); each states documented behaviour. The
  sessions in which nothing fails assume \<open>linux_good\<close>, \<open>windows_good\<close> or \<open>uefi_good\<close>: the
  services succeed on a set of good states and do not leave it; those of the processors under
  UEFI may refuse the processor the thread is on. Return codes are the
  datatype \<open>retcode\<close>, and \<open>rc\<close> gives their values; machine integers are words of their width, read by \<open>sint\<close> where the
  C type is signed. Calls that leave \<open>common.c\<close> are recorded in a log, \<open>trace\<close>. Monitors run
  over it: \<open>live_blocks\<close> is the multiset of blocks allocated and not freed, and fails at the free
  of a block of \<open>platform_alloc_rw\<close> that is not live; \<open>exec_blocks\<close> does the same for the
  executable blocks, which the ELF loader allocates (the log of a load says which ones it left in
  the table of the modules) and a reset frees; \<open>pinned\<close> fails when the VMM is entered by a thread that may
  change its CPU.

  \<^bold>\<open>The theories, and what they model.\<close>

  \<^item> \<open>Prelude\<close>: integer types, byte addressed memory with C's stores and loads, disjoint
    blocks, the shared lemmas. \<open>Bfsdk\<close>: the headers, and \<open>env\<close>.
  \<^item> \<open>Common_State\<close>, \<open>Common_Helpers\<close>, \<open>Common_Driver\<close>: \<open>common.c\<close> in the order of its
    text: the globals as the record \<open>common_state\<close> with a log of the calls that leave the
    driver; \<open>setup_stack\<close>, \<open>setup_tls\<close>, \<open>call_vmm\<close>, the loops over the memory descriptors;
    then the operations. A block behind a \<open>goto\<close> label is a definition of its own
    (\<open>load_failure\<close>, \<open>stop_corrupted\<close>, \<open>start_failure\<close>).
  \<^item> \<open>Linux_Platform\<close>, \<open>Linux_Entry\<close>: the port to Linux, its record \<open>linux_state\<close> around
    \<open>common_state\<close>, one function per ioctl, entry and exit of the kernel module.
  \<^item> \<open>Windows_Platform\<close>, \<open>Windows_Device\<close>: the port to Windows.
  \<^item> \<open>Linux_Parallel\<close>, \<open>Linux_Races\<close>, \<open>Windows_Parallel\<close>: the handlers that add modules, and the
    Linux one that unloads, once more, as state machines whose steps end at their calls
    (\<open>add_step\<close>, \<open>unload_step\<close>, \<open>win_add_step\<close>). \<open>Interleaving\<close> has the relation
    \<open>unlocked_step\<close> of any number of threads that take such steps in any order.
  \<^item> \<open>Uefi_Platform\<close>, \<open>Uefi_Processor\<close>, \<open>Uefi_Files\<close>, \<open>Uefi_Main\<close>: the UEFI application:
    page allocation and processors, the task state segment with the bit fields of
    \<open>x86_64.h\<close>, device paths and files, \<open>UefiMain\<close>.
  \<^item> \<open>Test_Platform\<close>: the platform layer of the unit tests with its counters. \<open>Unit_Tests\<close>:
    tests of \<open>src/test\<close>, as lists of calls and of the numbers they expect; a check of the model.
  \<^item> \<open>Demo\<close>, and machines in \<open>Windows_Properties\<close> and \<open>Uefi_Firmware\<close>: concrete
    environments on which the witnesses evaluate the definitions.

  \<^bold>\<open>What the lemmas show.\<close>

  \<^item> \<open>Md_Pages\<close>, \<open>Memory_Layout\<close>, \<open>Vmm_Calls\<close>, \<open>Start_Stop\<close>: the parts of \<open>common.c\<close>: the
    descriptors sent are exactly the pages of a range (\<open>page_range\<close> is the
    specification), the stack and the thread local storage lie inside their blocks, a round
    of the start and stop loops.
  \<^item> \<open>Driver_Invariant\<close>, \<open>Driver_Operations\<close>, \<open>Driver_Load\<close>, \<open>Driver_Start\<close>: the invariant
    of the globals and the ownership of blocks, kept by every operation; the inductive
    predicates \<open>stop_end\<close> and \<open>start_end\<close> say in which ways stopping and starting end.
  \<^item> \<open>Driver_Lifecycle\<close>: the operations as one step function, the automaton \<open>lifecycle\<close> of the
    status that they refine, and the locales \<open>guarded_machine\<close> and \<open>owning_machine\<close>, in which
    the consequences for sequences of requests are proved once. They are interpreted on
    \<open>common.c\<close> (\<open>core\<close>), on the Linux dispatch (\<open>linux\<close>, in \<open>Linux_Operations\<close>) and on the
    Windows dispatch (\<open>windows\<close>, in \<open>Windows_Operations\<close>).
  \<^item> \<open>Platform_Contract\<close>: the locale \<open>platform_layer\<close>, what \<open>common.c\<close> relies on of a port,
    interpreted on Linux, Windows and the unit tests; the UEFI port meets it while the
    firmware reports its processors, and \<open>uefi_layer\<close> states it so.
  \<^item> \<open>Call_Invariant\<close>: the locale \<open>recorded_world\<close>: a relation between the log and the machine
    that every single call keeps is kept by every run. \<open>Test_Properties\<close> interprets it on
    the unit tests (\<open>test_counter\<close>): their counter is the number of live blocks.
  \<^item> \<open>Driver_Leaks\<close>: runs in which a load has forgotten blocks; what the globals hold is live
    all the same. \<open>Load_Refused\<close>: the one way in which a load forgets blocks, a descriptor of the
    thread local storage that the VMM refuses (\<open>refused_at_storage\<close>): runs without it
    (\<open>storage_accepted\<close>) lose nothing. \<open>Driver_Exec\<close>: the same ownership for executable blocks.
  \<^item> \<open>Common_Answers\<close>: the specification \<open>answers\<close> of what \<open>common.c\<close> answers to each request,
    over the status and the number of modules alone, and its refinement over sequences of
    requests. \<open>Return_Codes\<close>: which
    of the codes are success or negative.
  \<^item> \<open>Cooperation\<close>: the locale \<open>cooperative_world\<close>: a machine with \<open>N\<close> CPUs and good states in
    which nothing fails; then every operation called in the right status succeeds, and a
    start reaches every CPU. \<open>Device_Session\<close> extends it to the handlers of the devices.
    It is interpreted on the three ports: \<open>linux_coop\<close> in \<open>Linux_Life\<close>, \<open>windows_coop\<close> in
    \<open>Windows_Session\<close>, \<open>uefi_coop\<close> in \<open>Uefi_Boot\<close>. From there come the sessions of ioctls
    (\<open>Linux_Session\<close>) and of requests (\<open>Windows_Session\<close>) and the boot (\<open>Uefi_Boot\<close>).
  \<^item> \<open>Interleaving\<close>: the locale \<open>shared_invariant\<close>: what every step of a thread and of the rest of
    the system keeps, every run keeps. \<open>Shared_Tables\<close>: what the handlers that add modules keep of
    both tables, one lemma for each of their calls. The locale is interpreted on the Linux threads
    that add modules (\<open>adds\<close>), on the Windows ones (\<open>win_adds\<close>) and on a Linux thread that unloads
    (\<open>lone_unload\<close>). \<open>Linux_Parallel\<close> and \<open>Linux_Races\<close> also have runs in which the missing lock
    shows: a length that changes, a copy freed twice, a registered copy freed, a copy lost.
  \<^item> \<open>Test_Outline\<close>: on the platform layer of the tests, with a VMM of dummy modules, \<open>common.c\<close>
    implements a machine of a status, a count of modules and a flag (\<open>outline_step\<close>). It is the
    means to evaluate the lists of \<open>Unit_Tests\<close>: 49 tests pass, and three of operations that
    \<open>common.c\<close> has do not (\<open>stale_tests_fail\<close>), because they expect what an earlier version did.
  \<^item> \<open>Common_Properties\<close>, \<open>Common_Safety\<close>, \<open>Common_Layout\<close>, \<open>Common_Answers\<close>, \<open>Linux_Properties\<close>,
    \<open>Linux_Life\<close>, \<open>Linux_Session\<close>, \<open>Linux_Parallel\<close>, \<open>Linux_Races\<close>,
    \<open>Windows_Properties\<close>, \<open>Windows_Session\<close>, \<open>Windows_Parallel\<close>, \<open>Uefi_Properties\<close>,
    \<open>Uefi_Boot\<close>, \<open>Test_Properties\<close>: the properties, each after a text with its number, and
    further theorems without one. \<open>Findings\<close>: behaviour
    that differs from what the code means to do.

  \<^bold>\<open>Loops.\<close> The loop over the pages of a range, \<open>md_loop\<close>, the walk \<open>device_path_loop\<close> and
  the wait \<open>GetKeystroke\<close> may run for ever in the code, and are partial functions with values
  in \<open>option\<close>, where \<open>None\<close> is a loop that does not end; so are the operations that contain
  them. That a load returns is a property (\<open>load_returns\<close>), and so is a case in which it does
  not (\<open>last_page_loops_for_ever\<close>); that the walk over a device path returns is the theorem
  \<open>print_device_path_returns\<close>, and that the wait for a key does when one is pressed is part of the boot. The loop that starts the CPUs
  ends because its counter stays below a signed 64-bit number (\<open>start_loop\<close>, by a measure);
  every other loop is structural. No fuel is used.

  \<^bold>\<open>Not modelled.\<close> Debug output, printing on the UEFI console and the tracing of the
  Windows driver, which change no state of the driver. The single instructions of
  \<open>vmcall.asm\<close> and \<open>x86_64.nasm\<close> are parameters. Of the unit tests those are left out that call
  or replace functions \<open>common.c\<close> does not have (\<open>get_module\<close>, \<open>resolve_symbol\<close>,
  \<open>execute_symbol\<close> in the load, \<open>load_elf_file\<close>, \<open>common_vmcall\<close>), that call a helper with a null pointer,
  or that replace a function of \<open>common.c\<close> by a mock; the ELF files of the others are
  replaced by a dummy loader and a dummy VMM, so they are no evidence about real ELF files. The build files are not part of the program. Requests are delivered one at a time,
  although the code has no lock, outside \<open>Linux_Parallel\<close>, \<open>Linux_Races\<close> and
  \<open>Windows_Parallel\<close>. There a handler that is not a state machine is one step, and threads are
  switched only where a handler calls out, as on one CPU without preemption: the runs are some of
  the runs of the code. So what is found there can happen in the code, and what is proved of all
  interleavings is proved of these; the last assignments of \<open>ioctl_add_module\<close>, taken one by one
  as on two CPUs (\<open>store_step\<close>), already lose a copy.
  Where the ports do not define a function that \<open>common.c\<close> calls (Windows), it stays a parameter.
\<close>

end
